(* ===== verification/Prelude.thy ===== *)
theory Prelude
  imports Main "HOL-Library.Word" "HOL-Library.Multiset"
begin

section \<open>Shared vocabulary of the development\<close>

text \<open>
  The types, the fallible state-passing programs and the generic lemmas every component uses:
  \<^item> machine types (\<open>u64\<close>, \<open>bytes\<close>) and instants (\<open>time\<close>, microseconds since the epoch, the
    resolution a TIMESTAMPTZ column keeps);
  \<^item> \<open>prog\<close>: a Go function that returns \<open>(value, error)\<close> and changes the world is a function from
    a world to \<open>error + value\<close> and the next world; \<open>handle\<close> is the pattern
    \<open>x, err := f(); if err != nil { .. }\<close>, \<open>andthen\<close> the special case that returns the error;
  \<^item> a small weakest-precondition calculus (\<open>wp\<close>) and the invariant predicate \<open>keeps\<close>;
  \<^item> the Go library functions the sources call: \<open>strings.TrimSpace\<close>, \<open>strconv.ParseUint\<close>,
    \<open>strconv.FormatUint\<close>, \<open>strings.SplitN\<close>;
  \<^item> SQL over tables kept as lists of rows: \<open>upd_where\<close> (UPDATE .. WHERE), \<open>count_where\<close>
    (RowsAffected), \<open>sort_by\<close> (ORDER BY).
\<close>

named_theorems wp_simps \<open>weakest preconditions of the program combinators\<close>
named_theorems keeps_intros \<open>programs that keep an invariant\<close>
named_theorems prog_defs \<open>definitions of the program combinators\<close>

type_synonym byte = "8 word"
type_synonym bytes = "byte list"
type_synonym u64 = "64 word"
type_synonym u32 = "32 word"
type_synonym time = int
type_synonym ('w, 'e, 'a) prog = "'w \<Rightarrow> ('e + 'a) \<times> 'w"

subsection \<open>Programs\<close>

definition ret :: "'a \<Rightarrow> ('w, 'e, 'a) prog" where [prog_defs]:
  "ret x = (\<lambda>w. (Inr x, w))"

definition throw :: "'e \<Rightarrow> ('w, 'e, 'a) prog" where [prog_defs]:
  "throw e = (\<lambda>w. (Inl e, w))"

definition handle ::
  "('w, 'e, 'a) prog \<Rightarrow> ('e \<Rightarrow> ('w, 'f, 'b) prog) \<Rightarrow> ('a \<Rightarrow> ('w, 'f, 'b) prog) \<Rightarrow> ('w, 'f, 'b) prog"
  where [prog_defs]:
  "handle m h k = (\<lambda>w. case m w of (Inl e, w') \<Rightarrow> h e w' | (Inr x, w') \<Rightarrow> k x w')"

definition andthen :: "('w, 'e, 'a) prog \<Rightarrow> ('a \<Rightarrow> ('w, 'e, 'b) prog) \<Rightarrow> ('w, 'e, 'b) prog"
  where [prog_defs]:
  "andthen m k = handle m throw k"

text \<open>\<open>_ = f()\<close>: the error of the call is dropped.\<close>

definition ignore :: "('w, 'e, 'a) prog \<Rightarrow> ('w, 'f, unit) prog" where [prog_defs]:
  "ignore m = handle m (\<lambda>_. ret ()) (\<lambda>_. ret ())"

definition guard :: "bool \<Rightarrow> 'e \<Rightarrow> ('w, 'e, 'a) prog \<Rightarrow> ('w, 'e, 'a) prog" where [prog_defs]:
  "guard bad e k = (if bad then throw e else k)"

subsection \<open>Weakest preconditions and invariants\<close>

definition wp ::
  "('w, 'e, 'a) prog \<Rightarrow> ('a \<Rightarrow> 'w \<Rightarrow> bool) \<Rightarrow> ('e \<Rightarrow> 'w \<Rightarrow> bool) \<Rightarrow> 'w \<Rightarrow> bool" where
  "wp m Q R w = (case m w of (Inl e, w') \<Rightarrow> R e w' | (Inr x, w') \<Rightarrow> Q x w')"

definition keeps :: "('w \<Rightarrow> bool) \<Rightarrow> ('w, 'e, 'a) prog \<Rightarrow> bool" where
  "keeps I m \<longleftrightarrow> (\<forall>w. I w \<longrightarrow> I (snd (m w)))"

lemma wp_ret [wp_simps]: "wp (ret x) Q R w = Q x w"
  by (simp add: wp_def ret_def)

lemma wp_throw [wp_simps]: "wp (throw e) Q R w = R e w"
  by (simp add: wp_def throw_def)

lemma wp_handle [wp_simps]:
  "wp (handle m h k) Q R w = wp m (\<lambda>x. wp (k x) Q R) (\<lambda>e. wp (h e) Q R) w"
  by (auto simp: wp_def handle_def split: prod.splits sum.splits)

lemma wp_andthen [wp_simps]: "wp (andthen m k) Q R w = wp m (\<lambda>x. wp (k x) Q R) R w"
  by (auto simp: wp_def andthen_def handle_def throw_def split: prod.splits sum.splits)

lemma wp_ignore [wp_simps]: "wp (ignore m) Q R w = wp m (\<lambda>_. Q ()) (\<lambda>_. Q ()) w"
  by (auto simp: wp_def ignore_def handle_def ret_def split: prod.splits sum.splits)

lemma wp_guard [wp_simps]: "wp (guard b e k) Q R w = (if b then R e w else wp k Q R w)"
  by (simp add: guard_def wp_throw)

lemma wp_if [wp_simps]: "wp (if b then m else n) Q R w = (if b then wp m Q R w else wp n Q R w)"
  by simp

lemma wp_mono:
  assumes "wp m Q R w" and "\<And>x w'. Q x w' \<Longrightarrow> Q' x w'" and "\<And>e w'. R e w' \<Longrightarrow> R' e w'"
  shows "wp m Q' R' w"
  using assms by (auto simp: wp_def split: prod.splits sum.splits)

lemma wp_conj: "wp m Q R w \<Longrightarrow> wp m Q' R' w \<Longrightarrow>
    wp m (\<lambda>x w. Q x w \<and> Q' x w) (\<lambda>e w. R e w \<and> R' e w) w"
  by (auto simp: wp_def split: prod.splits sum.splits)

lemma andthen_ok: "m w = (Inr x, w1) \<Longrightarrow> andthen m k w = k x w1"
  by (simp add: andthen_def handle_def)

lemma andthen_err: "m w = (Inl e, w1) \<Longrightarrow> andthen m k w = (Inl e, w1)"
  by (simp add: andthen_def handle_def throw_def)

lemma andthen_okE:
  assumes "andthen m k w = (Inr y, w')"
  obtains x w1 where "m w = (Inr x, w1)" and "k x w1 = (Inr y, w')"
  using assms by (auto simp: andthen_def handle_def throw_def split: prod.splits sum.splits)

lemma guard_okE:
  assumes "guard b e k w = (Inr y, w')"
  obtains "\<not> b" and "k w = (Inr y, w')"
  using assms by (auto simp: guard_def throw_def split: if_splits)

lemma handle_okE:
  assumes "handle m h k w = (Inr y, w')" and "\<And>e w1. isl (fst (h e w1))"
  obtains x w1 where "m w = (Inr x, w1)" and "k x w1 = (Inr y, w')"
proof -
  obtain r w1 where m: "m w = (r, w1)" by fastforce
  then have "\<not> isl r" using assms(1) assms(2) [of "projl r" w1] by (auto simp: handle_def isl_def)
  with m assms(1) that show ?thesis by (cases r) (auto simp: handle_def)
qed

lemma isl_throw [simp]: "isl (fst (throw e w))"
  by (simp add: throw_def)

lemma isl_andthen_throw [simp]: "isl (fst (andthen m (\<lambda>x. throw (f x)) w))"
  by (auto simp: andthen_def handle_def throw_def split: prod.splits sum.splits)

text \<open>Chaining a proved specification of the first call of a sequence.\<close>

lemma wp_andthenI:
  assumes "wp m Q' R' w" and "\<And>x w'. Q' x w' \<Longrightarrow> wp (k x) Q R w'" and "\<And>e w'. R' e w' \<Longrightarrow> R e w'"
  shows "wp (andthen m k) Q R w"
  unfolding wp_andthen using assms by (rule wp_mono)

lemma wp_handleI:
  assumes "wp m Q' R' w" and "\<And>x w'. Q' x w' \<Longrightarrow> wp (k x) Q R w'" and "\<And>e w'. R' e w' \<Longrightarrow> wp (h e) Q R w'"
  shows "wp (handle m h k) Q R w"
  unfolding wp_handle using assms by (rule wp_mono)

lemma wp_case_option:
  assumes "opt = None \<Longrightarrow> wp m Q R w" and "\<And>x. opt = Some x \<Longrightarrow> wp (n x) Q R w"
  shows "wp (case opt of None \<Rightarrow> m | Some x \<Rightarrow> n x) Q R w"
  using assms by (cases opt) simp_all

lemma wp_guardI:
  assumes "b \<Longrightarrow> R e w" and "\<not> b \<Longrightarrow> wp k Q R w"
  shows "wp (guard b e k) Q R w"
  using assms by (simp add: wp_guard)

lemma wpI:
  assumes "\<And>x w'. m w = (Inr x, w') \<Longrightarrow> Q x w'" and "\<And>e w'. m w = (Inl e, w') \<Longrightarrow> R e w'"
  shows "wp m Q R w"
  using assms by (auto simp: wp_def split: prod.splits sum.splits)

lemma wp_okD: "wp m Q R w \<Longrightarrow> m w = (Inr x, w') \<Longrightarrow> Q x w'"
  by (simp add: wp_def)

lemma wp_errD: "wp m Q R w \<Longrightarrow> m w = (Inl e, w') \<Longrightarrow> R e w'"
  by (simp add: wp_def)

lemma wp_sndD: "wp m (\<lambda>_. I) (\<lambda>_. I) w \<Longrightarrow> I (snd (m w))"
  by (auto simp: wp_def split: prod.splits sum.splits)

lemma keeps_iff_wp: "keeps I m \<longleftrightarrow> (\<forall>w. I w \<longrightarrow> wp m (\<lambda>_. I) (\<lambda>_. I) w)"
  by (auto simp: keeps_def wp_def split: prod.splits sum.splits)
     (metis prod.exhaust_sel sum.exhaust)

lemma keepsD: "keeps I m \<Longrightarrow> I w \<Longrightarrow> m w = (r, w') \<Longrightarrow> I w'"
  by (metis keeps_def snd_conv)

lemma keeps_ret [keeps_intros]: "keeps I (ret x)"
  by (simp add: keeps_def ret_def)

lemma keeps_throw [keeps_intros]: "keeps I (throw e)"
  by (simp add: keeps_def throw_def)

lemma keeps_handle [keeps_intros]:
  assumes "keeps I m" and "\<And>e. keeps I (h e)" and "\<And>x. keeps I (k x)"
  shows "keeps I (handle m h k)"
  using assms unfolding keeps_iff_wp wp_handle by (blast intro: wp_mono)

lemma keeps_andthen [keeps_intros]:
  assumes "keeps I m" and "\<And>x. keeps I (k x)"
  shows "keeps I (andthen m k)"
  unfolding andthen_def using assms by (intro keeps_handle keeps_throw)

lemma keeps_ignore [keeps_intros]: "keeps I m \<Longrightarrow> keeps I (ignore m)"
  unfolding ignore_def by (intro keeps_handle keeps_ret)

lemma keeps_guard [keeps_intros]: "keeps I k \<Longrightarrow> keeps I (guard b e k)"
  by (simp add: guard_def keeps_throw)

lemma keeps_if [keeps_intros]: "keeps I m \<Longrightarrow> keeps I n \<Longrightarrow> keeps I (if b then m else n)"
  by simp

lemma keeps_case_option [keeps_intros]:
  "keeps I m \<Longrightarrow> (\<And>x. keeps I (n x)) \<Longrightarrow> keeps I (case opt of None \<Rightarrow> m | Some x \<Rightarrow> n x)"
  by (cases opt) simp_all

lemma keeps_case_prod [keeps_intros]:
  "(\<And>x y. keeps I (f x y)) \<Longrightarrow> keeps I (case p of (x, y) \<Rightarrow> f x y)"
  by (cases p) simp

lemma keeps_case_sum [keeps_intros]:
  "(\<And>x. keeps I (f x)) \<Longrightarrow> (\<And>y. keeps I (g y)) \<Longrightarrow> keeps I (case s of Inl x \<Rightarrow> f x | Inr y \<Rightarrow> g y)"
  by (cases s) simp_all

lemma keeps_Let [keeps_intros]: "keeps I (f x) \<Longrightarrow> keeps I (let y = x in f y)"
  by simp

lemma keeps_conj: "keeps I m \<Longrightarrow> keeps J m \<Longrightarrow> keeps (\<lambda>w. I w \<and> J w) m"
  by (simp add: keeps_def)

subsection \<open>strings.TrimSpace\<close>

text \<open>
  The UTF-8 encodings of the code points \<open>unicode.IsSpace\<close> accepts. A Go string is a byte
  sequence, here a \<open>char list\<close> of bytes. \<open>TrimSpace\<close> removes such runes from the left, then
  from the right.
\<close>

definition go_spaces :: "string list" where
  "go_spaces =
     [[CHR 0x09], [CHR 0x0A], [CHR 0x0B], [CHR 0x0C], [CHR 0x0D], [CHR 0x20],
      [CHR 0xC2, CHR 0x85], [CHR 0xC2, CHR 0xA0], [CHR 0xE1, CHR 0x9A, CHR 0x80],
      [CHR 0xE2, CHR 0x80, CHR 0x80], [CHR 0xE2, CHR 0x80, CHR 0x81], [CHR 0xE2, CHR 0x80, CHR 0x82],
      [CHR 0xE2, CHR 0x80, CHR 0x83], [CHR 0xE2, CHR 0x80, CHR 0x84], [CHR 0xE2, CHR 0x80, CHR 0x85],
      [CHR 0xE2, CHR 0x80, CHR 0x86], [CHR 0xE2, CHR 0x80, CHR 0x87], [CHR 0xE2, CHR 0x80, CHR 0x88],
      [CHR 0xE2, CHR 0x80, CHR 0x89], [CHR 0xE2, CHR 0x80, CHR 0x8A], [CHR 0xE2, CHR 0x80, CHR 0xA8],
      [CHR 0xE2, CHR 0x80, CHR 0xA9], [CHR 0xE2, CHR 0x80, CHR 0xAF], [CHR 0xE2, CHR 0x81, CHR 0x9F],
      [CHR 0xE3, CHR 0x80, CHR 0x80]]"

definition lead_space :: "string \<Rightarrow> nat" where
  "lead_space s = (case find (\<lambda>p. take (length p) s = p) go_spaces of None \<Rightarrow> 0 | Some p \<Rightarrow> length p)"

definition trail_space :: "string \<Rightarrow> nat" where
  "trail_space s =
     (case find (\<lambda>p. length p \<le> length s \<and> drop (length s - length p) s = p) go_spaces of
        None \<Rightarrow> 0 | Some p \<Rightarrow> length p)"

lemma go_spaces_nonempty: "p \<in> set go_spaces \<Longrightarrow> p \<noteq> []"
  by (auto simp: go_spaces_def)

lemma lead_space_le: "lead_space s \<le> length s"
  by (auto simp: lead_space_def find_Some_iff split: option.splits) (metis length_take min.cobounded1)

lemma trail_space_le: "trail_space s \<le> length s"
  by (auto simp: trail_space_def find_Some_iff split: option.splits)

lemma lead_space_less: "lead_space s \<noteq> 0 \<Longrightarrow> length s - lead_space s < length s"
  using lead_space_le [of s] by linarith

lemma trail_space_less: "trail_space s \<noteq> 0 \<Longrightarrow> length s - trail_space s < length s"
  using trail_space_le [of s] by linarith

function trim_left :: "string \<Rightarrow> string" where
  "trim_left s = (if lead_space s = 0 then s else trim_left (drop (lead_space s) s))"
  by pat_completeness auto
termination
  by (relation "measure length") (simp_all add: lead_space_less del: diff_less)

function trim_right :: "string \<Rightarrow> string" where
  "trim_right s = (if trail_space s = 0 then s else trim_right (take (length s - trail_space s) s))"
  by pat_completeness auto
termination
  by (relation "measure length")
     (simp_all add: trail_space_less min_less_iff_disj)

declare trim_left.simps [simp del] trim_right.simps [simp del]

definition TrimSpace :: "string \<Rightarrow> string" where
  "TrimSpace s = trim_right (trim_left s)"

lemma lead_space_0_iff: "lead_space s = 0 \<longleftrightarrow> (\<forall>p \<in> set go_spaces. take (length p) s \<noteq> p)"
proof (cases "find (\<lambda>p. take (length p) s = p) go_spaces")
  case None
  then have "\<forall>p \<in> set go_spaces. take (length p) s \<noteq> p" by (auto simp: find_None_iff)
  with None show ?thesis by (simp add: lead_space_def)
next
  case (Some p)
  then have "p \<in> set go_spaces" and "take (length p) s = p"
    by (auto simp: find_Some_iff)
  with Some show ?thesis
    by (auto simp: lead_space_def dest: go_spaces_nonempty)
qed

lemma lead_space_take: "lead_space s = 0 \<Longrightarrow> lead_space (take n s) = 0"
  unfolding lead_space_0_iff by (metis length_take min.absorb_iff2 min.cobounded1 take_take)

lemma lead_space_trim_left: "lead_space (trim_left s) = 0"
  by (induction s rule: trim_left.induct) (metis trim_left.simps)

lemma trail_space_trim_right: "trail_space (trim_right s) = 0"
  by (induction s rule: trim_right.induct) (metis trim_right.simps)

lemma trim_right_take: "\<exists>n. trim_right s = take n s"
proof (induction s rule: trim_right.induct)
  case (1 s)
  show ?case
  proof (cases "trail_space s = 0")
    case True
    then have "trim_right s = take (length s) s" by (simp add: trim_right.simps)
    then show ?thesis ..
  next
    case False
    with 1 obtain n where "trim_right (take (length s - trail_space s) s) =
        take n (take (length s - trail_space s) s)" by blast
    with False have "trim_right s = take (min n (length s - trail_space s)) s"
      by (simp add: trim_right.simps [of s])
    then show ?thesis ..
  qed
qed

lemma TrimSpace_idem [simp]: "TrimSpace (TrimSpace s) = TrimSpace s"
proof -
  obtain n where n: "trim_right (trim_left s) = take n (trim_left s)"
    using trim_right_take by blast
  have "lead_space (trim_right (trim_left s)) = 0"
    unfolding n by (rule lead_space_take [OF lead_space_trim_left])
  then have "trim_left (trim_right (trim_left s)) = trim_right (trim_left s)"
    by (simp add: trim_left.simps)
  then show ?thesis
    by (simp add: TrimSpace_def trim_right.simps [of "trim_right _"] trail_space_trim_right)
qed

lemma TrimSpace_Nil [simp]: "TrimSpace [] = []"
proof -
  have "lead_space [] = 0" by (auto simp: lead_space_0_iff dest: go_spaces_nonempty)
  then show ?thesis
    using trail_space_le [of "[]"] by (simp add: TrimSpace_def trim_left.simps trim_right.simps)
qed

lemma TrimSpace_nonblank: "TrimSpace s \<noteq> [] \<Longrightarrow> s \<noteq> []"
  by auto

subsection \<open>strconv: decimal numbers\<close>

definition is_digit :: "char \<Rightarrow> bool" where
  "is_digit c \<longleftrightarrow> 48 \<le> (of_char c :: nat) \<and> (of_char c :: nat) \<le> 57"

fun parse_digits :: "nat \<Rightarrow> string \<Rightarrow> nat option" where
  "parse_digits acc [] = Some acc"
| "parse_digits acc (c # cs) =
     (if is_digit c then parse_digits (10 * acc + (of_char c - 48)) cs else None)"

definition ParseUint :: "string \<Rightarrow> u64 option" where
  "ParseUint s = (if s = [] then None
     else case parse_digits 0 s of
       None \<Rightarrow> None
     | Some n \<Rightarrow> if n < 2 ^ 64 then Some (word_of_nat n) else None)"

definition ParseInt :: "string \<Rightarrow> int option" where
  "ParseInt s =
     (let neg = (s \<noteq> [] \<and> hd s = CHR ''-'');
          body = (if s \<noteq> [] \<and> (hd s = CHR ''-'' \<or> hd s = CHR ''+'') then tl s else s)
      in if body = [] then None
         else case parse_digits 0 body of
           None \<Rightarrow> None
         | Some n \<Rightarrow> if neg then (if n \<le> 2 ^ 63 then Some (- int n) else None)
                     else (if n < 2 ^ 63 then Some (int n) else None))"

fun show_nat :: "nat \<Rightarrow> string" where
  "show_nat n = (if n < 10 then [char_of (48 + n)]
     else show_nat (n div 10) @ [char_of (48 + n mod 10)])"

declare show_nat.simps [simp del]

definition FormatUint :: "u64 \<Rightarrow> string" where
  "FormatUint u = show_nat (unat u)"

definition show_int :: "int \<Rightarrow> string" where
  "show_int i = (if i < 0 then CHR ''-'' # show_nat (nat (- i)) else show_nat (nat i))"

lemma digit_char:
  "n < 10 \<Longrightarrow> is_digit (char_of (48 + n)) \<and> of_char (char_of (48 + n)) = 48 + (n :: nat)"
  by (simp add: is_digit_def of_char_of)

lemma parse_digits_append:
  "parse_digits a (xs @ ys) = (case parse_digits a xs of None \<Rightarrow> None | Some b \<Rightarrow> parse_digits b ys)"
  by (induction xs arbitrary: a) auto

lemma parse_digits_show_nat [simp]: "parse_digits 0 (show_nat n) = Some n"
proof (induction n rule: show_nat.induct)
  case (1 n)
  show ?case
  proof (cases "n < 10")
    case True
    with digit_char [OF True] show ?thesis by (simp add: show_nat.simps [of n])
  next
    case False
    with 1 digit_char [of "n mod 10"] show ?thesis
      by (simp add: show_nat.simps [of n] parse_digits_append)
  qed
qed

lemma show_nat_nonempty [simp]: "show_nat n \<noteq> []"
  by (subst show_nat.simps) simp

lemma show_nat_digits: "c \<in> set (show_nat n) \<Longrightarrow> is_digit c"
proof (induction n rule: show_nat.induct)
  case (1 n)
  then show ?case
    using digit_char [of n] digit_char [of "n mod 10"]
    by (auto simp: show_nat.simps [of n] split: if_splits)
qed

lemma unat_u64_less: "unat (u :: u64) < 2 ^ 64"
proof -
  have "unat u < 2 ^ LENGTH(64)" by (rule unsigned_less)
  then show ?thesis by simp
qed

lemma ParseUint_FormatUint [simp]: "ParseUint (FormatUint u) = Some u"
  using unat_u64_less [of u] by (simp add: ParseUint_def FormatUint_def)

lemma TrimSpace_no_space:
  assumes "lead_space s = 0" and "trail_space s = 0"
  shows "TrimSpace s = s"
  using assms by (simp add: TrimSpace_def trim_left.simps trim_right.simps)

text \<open>Printable ASCII other than the space is never trimmed.\<close>

definition is_graphic :: "char \<Rightarrow> bool" where
  "is_graphic c \<longleftrightarrow> 0x20 < (of_char c :: nat) \<and> (of_char c :: nat) < 0x7F"

lemma TrimSpace_graphic:
  assumes "list_all is_graphic s"
  shows "TrimSpace s = s"
proof (rule TrimSpace_no_space)
  have plain: "\<not> is_graphic c" if "p \<in> set go_spaces" "c \<in> set p" for p c
    using that by (auto simp: go_spaces_def is_graphic_def)
  have all: "\<forall>c \<in> set s. is_graphic c" using assms by (simp add: list_all_iff)
  show "lead_space s = 0"
    unfolding lead_space_0_iff
  proof (intro ballI notI)
    fix p assume p: "p \<in> set go_spaces" and eq: "take (length p) s = p"
    then have "hd p \<in> set s" using go_spaces_nonempty by (metis hd_in_set in_set_takeD)
    with all p plain go_spaces_nonempty show False by fastforce
  qed
  show "trail_space s = 0"
  proof (rule ccontr)
    assume "trail_space s \<noteq> 0"
    then obtain p where "find (\<lambda>p. length p \<le> length s \<and> drop (length s - length p) s = p) go_spaces = Some p"
      by (auto simp: trail_space_def split: option.splits)
    then have p: "p \<in> set go_spaces" and eq: "drop (length s - length p) s = p"
      by (auto simp: find_Some_iff)
    then have "hd p \<in> set s" using go_spaces_nonempty by (metis hd_in_set in_set_dropD)
    with all p plain go_spaces_nonempty show False by fastforce
  qed
qed

lemma digits_no_space:
  assumes "\<forall>c \<in> set s. is_digit c"
  shows "TrimSpace s = s"
  using assms by (intro TrimSpace_graphic) (auto simp: list_all_iff is_digit_def is_graphic_def)

lemma TrimSpace_FormatUint [simp]: "TrimSpace (FormatUint u) = FormatUint u"
  by (rule digits_no_space) (simp add: FormatUint_def show_nat_digits)

lemma FormatUint_nonempty [simp]: "FormatUint u \<noteq> []"
  by (simp add: FormatUint_def)

text \<open>\<open>strings.SplitN(s, sep, 2)\<close> on a one-byte separator: the parts before and after its first
  occurrence, or \<open>None\<close> when it does not occur (one part).\<close>

fun split_first :: "char \<Rightarrow> string \<Rightarrow> (string \<times> string) option" where
  "split_first c [] = None"
| "split_first c (x # xs) = (if x = c then Some ([], xs)
     else map_option (\<lambda>(a, b). (x # a, b)) (split_first c xs))"

lemma split_first_append: "c \<notin> set xs \<Longrightarrow> split_first c (xs @ c # ys) = Some (xs, ys)"
  by (induction xs) auto

lemma show_int_no_colon: "CHR '':'' \<notin> set (show_int i)"
  by (auto simp: show_int_def is_digit_def dest!: show_nat_digits)

lemma ParseInt_show_int:
  assumes "- (2 ^ 63) \<le> i" and "i < 2 ^ 63"
  shows "ParseInt (show_int i) = Some i"
proof (cases "i < 0")
  case True
  with assms show ?thesis by (simp add: ParseInt_def show_int_def nat_le_iff)
next
  case False
  have "is_digit (hd (show_nat (nat i)))" by (rule show_nat_digits [of _ "nat i"]) simp
  then have "hd (show_nat (nat i)) \<noteq> CHR ''-''" "hd (show_nat (nat i)) \<noteq> CHR ''+''"
    by (auto simp: is_digit_def)
  with False assms show ?thesis by (simp add: ParseInt_def show_int_def nat_less_iff)
qed

subsection \<open>SQL over lists of rows\<close>

definition upd_where :: "('r \<Rightarrow> bool) \<Rightarrow> ('r \<Rightarrow> 'r) \<Rightarrow> 'r list \<Rightarrow> 'r list" where
  "upd_where P f rs = map (\<lambda>r. if P r then f r else r) rs"

definition count_where :: "('r \<Rightarrow> bool) \<Rightarrow> 'r list \<Rightarrow> nat" where
  "count_where P rs = length (filter P rs)"

definition delete_where :: "('r \<Rightarrow> bool) \<Rightarrow> 'r list \<Rightarrow> 'r list" where
  "delete_where P rs = filter (\<lambda>r. \<not> P r) rs"

lemma count_where_0 [simp]: "count_where P rs = 0 \<longleftrightarrow> (\<forall>r \<in> set rs. \<not> P r)"
  by (auto simp: count_where_def filter_empty_conv)

lemma count_where_pos [simp]: "0 < count_where P rs \<longleftrightarrow> (\<exists>r \<in> set rs. P r)"
  using count_where_0 [of P rs] by (simp del: count_where_0 add: neq0_conv [symmetric])

lemma upd_where_none: "(\<And>r. r \<in> set rs \<Longrightarrow> \<not> P r) \<Longrightarrow> upd_where P f rs = rs"
  by (simp add: upd_where_def map_idI)

lemma set_upd_where: "set (upd_where P f rs) = (\<lambda>r. if P r then f r else r) ` set rs"
  by (simp add: upd_where_def)

lemma map_upd_where: "(\<And>r. P r \<Longrightarrow> g (f r) = g r) \<Longrightarrow> map g (upd_where P f rs) = map g rs"
  by (simp add: upd_where_def)

lemma filter_upd_where:
  assumes "\<And>r. P r \<Longrightarrow> S (f r) = S r"
  shows "filter S (upd_where P f rs) = upd_where P f (filter S rs)"
  using assms by (induction rs) (auto simp: upd_where_def)

lemma filter_upd_where_disjoint:
  assumes "\<And>r. P r \<Longrightarrow> \<not> S r \<and> \<not> S (f r)"
  shows "filter S (upd_where P f rs) = filter S rs"
  using assms by (induction rs) (auto simp: upd_where_def)

lemma find_upd_where:
  assumes "\<And>r. P r \<Longrightarrow> S (f r) = S r"
  shows "find S (upd_where P f rs) = map_option (\<lambda>r. if P r then f r else r) (find S rs)"
  using assms by (induction rs) (auto simp: upd_where_def)

lemma find_append: "find P (xs @ ys) = (case find P xs of None \<Rightarrow> find P ys | Some x \<Rightarrow> Some x)"
  by (induction xs) auto

lemma find_SomeD: "find P xs = Some x \<Longrightarrow> x \<in> set xs \<and> P x"
  by (auto simp: find_Some_iff)

lemma find_distinct_key:
  assumes "distinct (map key rs)" and "r \<in> set rs" and "P r"
    and "\<And>r'. P r' \<Longrightarrow> key r' = key r"
  shows "find P rs = Some r"
proof -
  have "find P rs \<noteq> None" using assms(2,3) by (auto simp: find_None_iff)
  then obtain r' where r': "find P rs = Some r'" by blast
  then have "r' \<in> set rs" and "P r'" by (auto dest: find_SomeD)
  with assms have "r' = r" by (metis inj_on_eq_iff distinct_map)
  with r' show ?thesis by simp
qed

fun insort_by :: "('a \<Rightarrow> 'a \<Rightarrow> bool) \<Rightarrow> 'a \<Rightarrow> 'a list \<Rightarrow> 'a list" where
  "insort_by le x [] = [x]"
| "insort_by le x (y # ys) = (if le x y then x # y # ys else y # insort_by le x ys)"

definition sort_by :: "('a \<Rightarrow> 'a \<Rightarrow> bool) \<Rightarrow> 'a list \<Rightarrow> 'a list" where
  "sort_by le xs = foldr (insort_by le) xs []"

lemma mset_insort_by [simp]: "mset (insort_by le x xs) = add_mset x (mset xs)"
  by (induction xs) auto

lemma mset_sort_by [simp]: "mset (sort_by le xs) = mset xs"
  by (induction xs) (simp_all add: sort_by_def)

lemma set_sort_by [simp]: "set (sort_by le xs) = set xs"
  by (metis mset_sort_by set_mset_mset)

lemma length_sort_by [simp]: "length (sort_by le xs) = length xs"
  by (metis mset_sort_by size_mset)

lemma distinct_sort_by [simp]: "distinct (map f (sort_by le xs)) = distinct (map f xs)"
  by (metis mset_sort_by mset_map distinct_count_atmost_1 mset_eq_imp_distinct_iff)

lemma sorted_insort_by:
  assumes "\<And>a b. le a b \<or> le b a" and "\<And>a b c. le a b \<Longrightarrow> le b c \<Longrightarrow> le a c"
  shows "sorted_wrt le xs \<Longrightarrow> sorted_wrt le (insort_by le x xs)"
proof (induction xs)
  case Nil
  then show ?case by simp
next
  case (Cons y ys)
  have set: "set (insort_by le x ys) = insert x (set ys)"
    by (metis mset_insort_by set_mset_mset set_mset_add_mset_insert)
  from Cons assms set show ?case by auto
qed

lemma sorted_sort_by:
  assumes "\<And>a b. le a b \<or> le b a" and "\<And>a b c. le a b \<Longrightarrow> le b c \<Longrightarrow> le a c"
  shows "sorted_wrt le (sort_by le xs)"
  by (induction xs) (simp_all add: sort_by_def sorted_insort_by [of le, OF assms])

end
