(* ===== verification/Domain.thy ===== *)
theory Domain
  imports Prelude
begin

section \<open>Domain types of the server\<close>

text \<open>
  The Go structs and error values of \<open>internal/server/vault\<close>, \<open>internal/server/blob\<close> and
  \<open>internal/server/auth\<close>, field by field. A Go \<open>[]byte\<close> that may be nil is a \<open>bytes option\<close>
  (\<open>None\<close> is nil, which a SQL parameter turns into NULL); a pointer field is an \<open>option\<close>; a
  \<open>uint64\<close> is a \<open>u64\<close>; \<open>time.Time\<close> is a \<open>time\<close>.

  Errors are one datatype, as every Go error has the one type \<open>error\<close>: the sentinel values of the
  packages, the driver errors of the database (\<open>ErrSQL\<close>), the errors of the object store client
  (\<open>ErrMinio\<close>) and gRPC statuses. A status carries its code, its format string and the format
  arguments before formatting.
\<close>

subsection \<open>Errors\<close>

datatype sql_error = ConnectionFailure | UniqueViolation | ForeignKeyViolation | NotNullViolation
  | NumericOutOfRange

datatype minio_error = NoSuchKey | OtherMinio string

datatype code = Internal | InvalidArgument | NotFound | Aborted | Unauthenticated
  | FailedPrecondition | AlreadyExists

datatype go_error =
    VaultErrInvalidArgument
  | VaultErrNotFound
  | VaultErrConflict
  | BlobErrNotFound
  | BlobErrObjectNotFound
  | ErrUploadSessionNotFound
  | ErrUploadSessionNotOpen
  | ErrUploadSessionExpired
  | ErrUploadSessionNotAwaitingCommit
  | AuthErrInvalidArgument
  | AuthErrAlreadyExists
  | AuthErrUnauthorized
  | AuthErrDeviceNotFound
  | ErrNoRows
  | ErrSQL sql_error
  | ErrMinio minio_error
  | ErrOther string
  | Status code string "string list"

definition status :: "code \<Rightarrow> string \<Rightarrow> go_error" where
  "status c m = Status c m []"

definition statusf :: "code \<Rightarrow> string \<Rightarrow> string list \<Rightarrow> go_error" where
  "statusf c m args = Status c m args"

subsection \<open>Vault\<close>

record Item =
  it_ItemID :: string
  it_UserID :: string
  it_ItemType :: int
  it_TitleCiphertext :: "bytes option"
  it_TitleNonce :: "bytes option"
  it_MetadataCiphertext :: "bytes option"
  it_MetadataNonce :: "bytes option"
  it_PayloadCiphertext :: "bytes option"
  it_PayloadNonce :: "bytes option"
  it_BlobID :: "string option"
  it_Version :: u64
  it_Checksum :: "bytes option"
  it_CreatedAt :: time
  it_UpdatedAt :: time
  it_DeletedAt :: "time option"

datatype ChangeType = ChangeTypeUnspecified | ChangeTypeCreated | ChangeTypeUpdated
  | ChangeTypeDeleted

record RevisionLogEntry =
  rl_RevisionID :: u64
  rl_UserID :: string
  rl_OperationID :: "string option"
  rl_ItemID :: string
  rl_ChangeType :: ChangeType
  rl_ItemVersion :: u64
  rl_ChangedAt :: time

record ProcessedOperation =
  po_UserID :: string
  po_OperationID :: string
  po_ItemID :: string
  po_RevisionID :: u64

record CreateInput =
  ci_ItemType :: int
  ci_TitleCiphertext :: "bytes option"
  ci_TitleNonce :: "bytes option"
  ci_MetadataCiphertext :: "bytes option"
  ci_MetadataNonce :: "bytes option"
  ci_PayloadCiphertext :: "bytes option"
  ci_PayloadNonce :: "bytes option"
  ci_BlobID :: "string option"
  ci_Checksum :: "bytes option"

record CreateOutput =
  co_ItemID :: string
  co_Version :: u64
  co_ServerRevision :: u64

record UpdateInput =
  ui_TitleCiphertext :: "bytes option"
  ui_TitleNonce :: "bytes option"
  ui_MetadataCiphertext :: "bytes option"
  ui_MetadataNonce :: "bytes option"
  ui_PayloadCiphertext :: "bytes option"
  ui_PayloadNonce :: "bytes option"
  ui_BlobID :: "string option"
  ui_Checksum :: "bytes option"

record UpdateOutput =
  uo_NewVersion :: u64
  uo_ServerRevision :: u64

record DeleteOutput =
  do_NewVersion :: u64
  do_ServerRevision :: u64

subsection \<open>Blobs and upload sessions\<close>

datatype BlobStatus = StatusUnspecified | StatusPending | StatusUploading | StatusCommitted
  | StatusFailed | StatusDeleted

record Blob =
  bl_BlobID :: string
  bl_UserID :: string
  bl_ObjectKey :: string
  bl_SizeBytes :: u64
  bl_Checksum :: "bytes option"
  bl_ContentKind :: string
  bl_FileName :: "string option"
  bl_MimeType :: "string option"
  bl_Status :: BlobStatus
  bl_CreatedAt :: time
  bl_CommittedAt :: "time option"
  bl_DeletedAt :: "time option"
  bl_FailedAt :: "time option"

datatype UploadSessionStatus = UploadSessionOpen | UploadSessionAwaitingCommit

record UploadSession =
  us_UploadSessionID :: string
  us_BlobID :: string
  us_UserID :: string
  us_ExpectedSize :: u64
  us_ExpectedChecksum :: "bytes option"
  us_ReceivedSize :: u64
  us_Status :: UploadSessionStatus
  us_ExpiresAt :: time
  us_CreatedAt :: time
  us_UpdatedAt :: time

subsection \<open>Accounts, devices and refresh sessions\<close>

record User =
  ur_UserID :: string
  ur_Login :: string
  ur_PasswordHash :: "bytes option"
  ur_PasswordSalt :: "bytes option"
  ur_KDFAlgorithm :: string
  ur_KDFMemoryKiB :: int
  ur_KDFIterations :: int
  ur_KDFParallelism :: int
  ur_KDFKeyLength :: int
  ur_EncryptedVaultKey :: "bytes option"
  ur_EncryptedVaultKeyNonce :: "bytes option"

record Device =
  dv_DeviceID :: string
  dv_UserID :: string
  dv_DeviceName :: string
  dv_Platform :: int
  dv_ClientVersion :: string

record Session =
  ss_TokenID :: string
  ss_UserID :: string
  ss_DeviceID :: string
  ss_TokenHash :: "bytes option"
  ss_ExpiresAt :: time

record DeviceRecord =
  dr_DeviceID :: string
  dr_UserID :: string
  dr_DeviceName :: string
  dr_Platform :: int
  dr_ClientVersion :: string
  dr_CreatedAt :: time
  dr_LastSeenAt :: time
  dr_RevokedAt :: "time option"

text \<open>A row of \<open>refresh_tokens\<close> (table of \<open>migrations/server\<close>): a session and its revocation.\<close>

record RefreshToken =
  rt_TokenID :: string
  rt_UserID :: string
  rt_DeviceID :: string
  rt_TokenHash :: "bytes option"
  rt_ExpiresAt :: time
  rt_RevokedAt :: "time option"

end
