(* ===== verification/Database.thy ===== *)
theory Database
  imports Domain
begin

section \<open>The PostgreSQL state, statements and transactions\<close>

text \<open>
  The tables of \<open>migrations/server/000001_init_schema.up.sql\<close> that the code reads and writes, as
  lists of rows, and how the code runs SQL: one statement (\<open>stmt\<close>), one transaction
  (\<open>in_tx\<close>, the pattern BeginTx / deferred Rollback / Commit that \<open>WithVaultEngineTx\<close> and the
  repositories share).

  What lies outside the repository is the parameter \<open>env\<close>: the n-th identifier the uuid package
  returns, the n-th reading of the Go clock and of the database clock, and for the n-th database
  call whether it fails. A failing call reports an error either before the database has done
  anything (\<open>FailBefore\<close>) or after it has done the work (\<open>FailAfter\<close>: the connection broke while
  the answer was on its way); further the collation order of TEXT columns (\<open>env_text_le\<close>) and the
  SQL expression \<open>to_timestamp(n / 1e9)\<close> (\<open>env_to_timestamp\<close>). \<open>tick\<close> counts the external calls made so far. A text parameter that
  PostgreSQL cannot store is a failing call. Nothing is assumed of an \<open>env\<close> unless a theorem says so.

  A rolled back transaction restores every table but not the sequence behind \<open>revision_id\<close>:
  PostgreSQL sequences are not transactional.
\<close>

datatype fault = NoFault | FailBefore | FailAfter

record database =
  users :: "User list"
  devices :: "DeviceRecord list"
  refresh_tokens :: "RefreshToken list"
  blobs :: "Blob list"
  upload_sessions :: "UploadSession list"
  vault_items :: "Item list"
  revision_log :: "RevisionLogEntry list"
  revision_seq :: nat
  processed_operations :: "ProcessedOperation list"

record env =
  env_uuid :: "nat \<Rightarrow> string"
  env_clock :: "nat \<Rightarrow> time"
  env_db_clock :: "nat \<Rightarrow> time"
  env_db_fault :: "nat \<Rightarrow> fault"
  env_text_le :: "string \<Rightarrow> string \<Rightarrow> bool"
  env_to_timestamp :: "int \<Rightarrow> time"

record 'o world =
  db :: database
  objs :: 'o
  tick :: nat

type_synonym ('o, 'a) server = "('o world, go_error, 'a) prog"

text \<open>A SQL statement: a function of the database clock and the tables. An error leaves the
  tables as they were (a sequence may have advanced).\<close>

type_synonym 'a sql = "time \<Rightarrow> database \<Rightarrow> (go_error + 'a) \<times> database"

definition uuid_NewString :: "env \<Rightarrow> ('o, string) server" where
  "uuid_NewString E w = (Inr (env_uuid E (tick w)), w\<lparr>tick := Suc (tick w)\<rparr>)"

definition time_Now :: "env \<Rightarrow> ('o, time) server" where
  "time_Now E w = (Inr (env_clock E (tick w)), w\<lparr>tick := Suc (tick w)\<rparr>)"

definition stmt :: "env \<Rightarrow> 'a sql \<Rightarrow> ('o, 'a) server" where
  "stmt E f w =
     (let n = tick w; w1 = w\<lparr>tick := Suc n\<rparr>; (r, d) = f (env_db_clock E n) (db w) in
      case env_db_fault E n of
        FailBefore \<Rightarrow> (Inl (ErrSQL ConnectionFailure), w1)
      | FailAfter \<Rightarrow> (Inl (ErrSQL ConnectionFailure), w1\<lparr>db := d\<rparr>)
      | NoFault \<Rightarrow> (r, w1\<lparr>db := d\<rparr>))"

definition rollback :: "database \<Rightarrow> 'o world \<Rightarrow> 'o world" where
  "rollback d0 w = w\<lparr>db := d0\<lparr>revision_seq := revision_seq (db w)\<rparr>\<rparr>"

definition commit :: "env \<Rightarrow> database \<Rightarrow> 'a \<Rightarrow> ('o, 'a) server" where
  "commit E d0 x w =
     (let n = tick w; w1 = w\<lparr>tick := Suc n\<rparr> in
      case env_db_fault E n of
        FailBefore \<Rightarrow> (Inl (ErrSQL ConnectionFailure), rollback d0 w1)
      | FailAfter \<Rightarrow> (Inl (ErrSQL ConnectionFailure), w1)
      | NoFault \<Rightarrow> (Inr x, w1))"

definition in_tx :: "env \<Rightarrow> ('o, 'a) server \<Rightarrow> ('o, 'a) server" where
  "in_tx E body w =
     (case stmt E (\<lambda>_ d. (Inr (), d)) w of
        (Inl e, w1) \<Rightarrow> (Inl e, w1)
      | (Inr _, w1) \<Rightarrow>
          (case body w1 of
             (Inl e, w2) \<Rightarrow> (Inl e, rollback (db w1) w2)
           | (Inr x, w2) \<Rightarrow> commit E (db w1) x w2))"

text \<open>A \<open>uint64\<close> fits a BIGINT parameter when its top bit is clear; the driver refuses others.\<close>

definition bigint_ok :: "u64 \<Rightarrow> bool" where
  "bigint_ok v \<longleftrightarrow> unat v < 2 ^ 63"

subsection \<open>Reasoning about statements and transactions\<close>

text \<open>The tables without the sequence: what a failing statement and a rollback leave unchanged.\<close>

definition tables :: "database \<Rightarrow> database" where
  "tables d = d\<lparr>revision_seq := 0\<rparr>"

definition sql_safe :: "'a sql \<Rightarrow> bool" where
  "sql_safe f \<longleftrightarrow> (\<forall>t d e d'. f t d = (Inl e, d') \<longrightarrow> tables d' = tables d)"

lemma sql_safeI: "(\<And>t d e d'. f t d = (Inl e, d') \<Longrightarrow> tables d' = tables d) \<Longrightarrow> sql_safe f"
  by (auto simp: sql_safe_def)

lemma sql_safeD: "sql_safe f \<Longrightarrow> f t d = (Inl e, d') \<Longrightarrow> tables d' = tables d"
  by (auto simp: sql_safe_def)

lemma tables_eqD:
  assumes "tables d = tables d'"
  shows "users d = users d'" "devices d = devices d'" "refresh_tokens d = refresh_tokens d'"
    "blobs d = blobs d'" "upload_sessions d = upload_sessions d'" "vault_items d = vault_items d'"
    "revision_log d = revision_log d'" "processed_operations d = processed_operations d'"
  using assms by (cases d; cases d'; simp add: tables_def)+

lemma wp_uuid [wp_simps]:
  "wp (uuid_NewString E) Q R w = Q (env_uuid E (tick w)) (w\<lparr>tick := Suc (tick w)\<rparr>)"
  by (simp add: wp_def uuid_NewString_def)

lemma wp_time_Now [wp_simps]:
  "wp (time_Now E) Q R w = Q (env_clock E (tick w)) (w\<lparr>tick := Suc (tick w)\<rparr>)"
  by (simp add: wp_def time_Now_def)

lemma wp_stmt:
  "wp (stmt E f) Q R w =
    (let n = tick w; w1 = w\<lparr>tick := Suc n\<rparr> in
     case f (env_db_clock E n) (db w) of (r, d) \<Rightarrow>
     (case env_db_fault E n of
        FailBefore \<Rightarrow> R (ErrSQL ConnectionFailure) w1
      | FailAfter \<Rightarrow> R (ErrSQL ConnectionFailure) (w1\<lparr>db := d\<rparr>)
      | NoFault \<Rightarrow> (case r of Inl e \<Rightarrow> R e (w1\<lparr>db := d\<rparr>) | Inr x \<Rightarrow> Q x (w1\<lparr>db := d\<rparr>))))"
  by (auto simp: wp_def stmt_def Let_def split: prod.splits fault.splits sum.splits)

lemma wp_stmtI:
  assumes "sql_safe f"
    and "\<And>x d. f (env_db_clock E (tick w)) (db w) = (Inr x, d) \<Longrightarrow> env_db_fault E (tick w) = NoFault \<Longrightarrow>
          Q x (w\<lparr>tick := Suc (tick w), db := d\<rparr>)"
    and "\<And>e d. tables d = tables (db w) \<Longrightarrow> R e (w\<lparr>tick := Suc (tick w), db := d\<rparr>)"
    and "\<And>x d. f (env_db_clock E (tick w)) (db w) = (Inr x, d) \<Longrightarrow>
          R (ErrSQL ConnectionFailure) (w\<lparr>tick := Suc (tick w), db := d\<rparr>)"
  shows "wp (stmt E f) Q R w"
proof -
  obtain r d where f: "f (env_db_clock E (tick w)) (db w) = (r, d)" by fastforce
  have before: "R (ErrSQL ConnectionFailure) (w\<lparr>tick := Suc (tick w)\<rparr>)"
    using assms(3) [of "db w" "ErrSQL ConnectionFailure"] by simp
  show ?thesis
  proof (cases r)
    case (Inl e)
    with f assms(1) have "tables d = tables (db w)" by (auto dest: sql_safeD)
    with f Inl assms(3) before show ?thesis by (simp add: wp_stmt Let_def split: fault.splits)
  next
    case (Inr x)
    with f assms before show ?thesis by (simp add: wp_stmt Let_def split: fault.splits)
  qed
qed

lemma keeps_uuid [keeps_intros]: "keeps (\<lambda>w. I (db w)) (uuid_NewString E)"
  by (simp add: keeps_def uuid_NewString_def)

lemma keeps_time_Now [keeps_intros]: "keeps (\<lambda>w. I (db w)) (time_Now E)"
  by (simp add: keeps_def time_Now_def)

lemma keeps_stmt:
  assumes "\<And>t d r d'. I d \<Longrightarrow> f t d = (r, d') \<Longrightarrow> I d'"
  shows "keeps (\<lambda>w. I (db w)) (stmt E f)"
  using assms by (auto simp: keeps_def stmt_def Let_def split: prod.splits fault.splits)

lemma tables_rollback [simp]: "tables (db (rollback d0 w)) = tables d0"
  by (simp add: tables_def rollback_def)

text \<open>
  All or nothing: after a transaction, whatever faults occur, the tables are those before it, or
  those its body produced on success.
\<close>

lemma in_tx_cases:
  assumes "in_tx E body w = (r, w')"
  obtains (rolled_back) e where "r = Inl e" and "tables (db w') = tables (db w)"
  | (committed) x w1 w2 where "body w1 = (Inr x, w2)" and "db w1 = db w" and "objs w1 = objs w"
      and "db w' = db w2" and "objs w' = objs w2" and "r = Inr x \<or> (\<exists>e. r = Inl e)"
  using assms
  by (auto simp: in_tx_def stmt_def commit_def Let_def split: prod.splits sum.splits fault.splits
      if_splits)

lemma in_tx_db:
  assumes run: "in_tx E body w = (r, w')"
  obtains (not_started) "db w' = db w" "objs w' = objs w"
  | (ran) w1 x w2 where "body w1 = (x, w2)" and "db w1 = db w" and "objs w1 = objs w"
      and "db w' = db w2 \<or> db w' = (db w)\<lparr>revision_seq := revision_seq (db w2)\<rparr>" and "objs w' = objs w2"
proof (cases "env_db_fault E (tick w) = NoFault")
  case False
  with run have "db w' = db w" "objs w' = objs w"
    by (cases "env_db_fault E (tick w)"; auto simp: in_tx_def stmt_def Let_def)+
  with that(1) show ?thesis .
next
  case True
  let ?w1 = "w\<lparr>tick := Suc (tick w)\<rparr>"
  obtain x w2 where b: "body ?w1 = (x, w2)" by fastforce
  from run True b have "db w' = db w2 \<or> db w' = (db w)\<lparr>revision_seq := revision_seq (db w2)\<rparr>" "objs w' = objs w2"
    by (cases x; auto simp: in_tx_def stmt_def commit_def rollback_def Let_def split: fault.splits)+
  with that(2) [OF b] show ?thesis by simp
qed

text \<open>When no answer is lost, an error means that the tables are as before.\<close>

lemma in_tx_answered:
  assumes "in_tx E body w = (r, w')" and "\<forall>n. env_db_fault E n \<noteq> FailAfter" and "isl r"
  shows "tables (db w') = tables (db w)"
  using assms
  by (auto simp: in_tx_def stmt_def commit_def Let_def split: prod.splits sum.splits fault.splits)

lemma in_tx_ok:
  assumes "in_tx E body w = (Inr x, w')"
  obtains w1 w2 where "body w1 = (Inr x, w2)" and "db w1 = db w" and "objs w1 = objs w"
    and "tick w1 = Suc (tick w)" and "db w' = db w2" and "objs w' = objs w2"
  using assms
  by (auto simp: in_tx_def stmt_def commit_def Let_def split: prod.splits sum.splits fault.splits)

lemma stmt_okD: "stmt E f w = (Inr x, w') \<Longrightarrow> f (env_db_clock E (tick w)) (db w) = (Inr x, db w') \<and> objs w' = objs w"
  by (auto simp: stmt_def Let_def split: prod.splits fault.splits)

lemma stmt_ok_db:
  assumes "stmt E f w = (Inr x, w')"
  shows "fst (f (env_db_clock E (tick w)) (db w)) = Inr x" "db w' = snd (f (env_db_clock E (tick w)) (db w))"
    "objs w' = objs w"
  using stmt_okD [OF assms] by simp_all

lemma time_Now_okD: "time_Now E w = (r, w') \<Longrightarrow> db w' = db w \<and> objs w' = objs w \<and> r = Inr (env_clock E (tick w))"
  by (auto simp: time_Now_def)

text \<open>An environment in which no database call fails.\<close>

definition reliable :: "env \<Rightarrow> bool" where
  "reliable E \<longleftrightarrow> (\<forall>n. env_db_fault E n = NoFault)"

lemma reliable_fault [simp]: "reliable E \<Longrightarrow> env_db_fault E n = NoFault"
  by (simp add: reliable_def)

lemma stmt_reliable:
  assumes "reliable E" and "f (env_db_clock E (tick w)) (db w) = (r, d)"
  shows "stmt E f w = (r, w\<lparr>tick := Suc (tick w), db := d\<rparr>)"
  using assms by (simp add: stmt_def)

lemma in_tx_reliable:
  assumes "reliable E" and "body (w\<lparr>tick := Suc (tick w)\<rparr>) = (Inr x, w2)"
  shows "in_tx E body w = (Inr x, w2\<lparr>tick := Suc (tick w2)\<rparr>)"
  using assms by (simp add: in_tx_def stmt_def commit_def)

end
