(* ===== verification/VaultRepo.thy ===== *)
theory VaultRepo
  imports Database
begin

section \<open>Vault storage (\<open>internal/server/storage/postgres\<close>)\<close>

text \<open>
  The repositories behind the vault engine: \<open>vault_repositories.go\<close> (items, revision log, processed
  operations) and the revision queries of \<open>revision_list.go\<close>. Each method is its SQL statement, a
  function on the tables with the constraints of the schema (primary keys, foreign keys, NOT NULL,
  BIGINT range), and the Go code around it.

  The lemmas state what each statement does to the tables, on success and on failure; they are what
  the engine proofs use.
\<close>

subsection \<open>VaultRepository\<close>

definition has_user :: "database \<Rightarrow> string \<Rightarrow> bool" where
  "has_user d u \<longleftrightarrow> list_ex (\<lambda>r. ur_UserID r = u) (users d)"

definition has_blob :: "database \<Rightarrow> string option \<Rightarrow> bool" where
  "has_blob d bo \<longleftrightarrow>
     (case bo of None \<Rightarrow> True | Some b \<Rightarrow> list_ex (\<lambda>r. bl_BlobID r = b) (blobs d))"

definition has_item :: "database \<Rightarrow> string \<Rightarrow> bool" where
  "has_item d i \<longleftrightarrow> list_ex (\<lambda>r. it_ItemID r = i) (vault_items d)"

definition item_not_null :: "Item \<Rightarrow> bool" where
  "item_not_null it \<longleftrightarrow> it_TitleCiphertext it \<noteq> None \<and> it_TitleNonce it \<noteq> None \<and>
     it_MetadataCiphertext it \<noteq> None \<and> it_MetadataNonce it \<noteq> None"

definition sql_insert_item :: "Item \<Rightarrow> unit sql" where
  "sql_insert_item it t d =
     (if \<not> bigint_ok (it_Version it) then (Inl (ErrSQL NumericOutOfRange), d)
      else if \<not> item_not_null it then (Inl (ErrSQL NotNullViolation), d)
      else if has_item d (it_ItemID it) then (Inl (ErrSQL UniqueViolation), d)
      else if \<not> has_user d (it_UserID it) \<or> \<not> has_blob d (it_BlobID it)
        then (Inl (ErrSQL ForeignKeyViolation), d)
      else (Inr (), d\<lparr>vault_items := vault_items d @ [it]\<rparr>))"

definition VaultRepository_CreateItem :: "env \<Rightarrow> Item \<Rightarrow> ('o, unit) server" where
  "VaultRepository_CreateItem E it = stmt E (sql_insert_item it)"

definition item_key :: "string \<Rightarrow> string \<Rightarrow> Item \<Rightarrow> bool" where
  "item_key u i r \<longleftrightarrow> it_UserID r = u \<and> it_ItemID r = i"

definition sql_select_item :: "string \<Rightarrow> string \<Rightarrow> Item sql" where
  "sql_select_item u i t d =
     (case find (item_key u i) (vault_items d) of
        None \<Rightarrow> (Inl ErrNoRows, d) | Some r \<Rightarrow> (Inr r, d))"

definition VaultRepository_GetItem :: "env \<Rightarrow> string \<Rightarrow> string \<Rightarrow> ('o, Item) server" where
  "VaultRepository_GetItem E userID itemID =
     handle (stmt E (sql_select_item userID itemID))
       (\<lambda>e. if e = ErrNoRows then throw VaultErrNotFound else throw e)
       ret"

definition page_limit :: "int \<Rightarrow> nat" where
  "page_limit limit =
     (let l = (if limit \<le> 0 then 50 else limit); l = (if l > 500 then 500 else l) in nat l)"

definition before_cursor :: "env \<Rightarrow> (int \<times> string) option \<Rightarrow> Item \<Rightarrow> bool" where
  "before_cursor E cur r \<longleftrightarrow>
     (case cur of
        None \<Rightarrow> True
      | Some (nano, lastID) \<Rightarrow>
          it_UpdatedAt r < env_to_timestamp E nano \<or>
          (it_UpdatedAt r = env_to_timestamp E nano \<and> env_text_le E (it_ItemID r) lastID \<and> it_ItemID r \<noteq> lastID))"

text \<open>\<open>ORDER BY updated_at DESC, item_id DESC\<close>: \<open>list_order E a b\<close> when a comes before b.\<close>

definition list_order :: "env \<Rightarrow> Item \<Rightarrow> Item \<Rightarrow> bool" where
  "list_order E a b \<longleftrightarrow> it_UpdatedAt b < it_UpdatedAt a \<or>
     (it_UpdatedAt a = it_UpdatedAt b \<and> env_text_le E (it_ItemID b) (it_ItemID a))"

definition sql_list_items ::
  "env \<Rightarrow> string \<Rightarrow> bool \<Rightarrow> (int \<times> string) option \<Rightarrow> nat \<Rightarrow> Item list sql" where
  "sql_list_items E u includeDeleted cur n t d =
     (Inr (take n (sort_by (list_order E)
        (filter (\<lambda>r. it_UserID r = u \<and> (includeDeleted \<or> it_DeletedAt r = None) \<and> before_cursor E cur r)
           (vault_items d)))), d)"

definition parse_page_token :: "string \<Rightarrow> (int \<times> string) option option" where
  "parse_page_token pageToken =
     (if pageToken = [] then Some None
      else case split_first CHR '':'' pageToken of
        None \<Rightarrow> None
      | Some (a, lastID) \<Rightarrow> (case ParseInt a of None \<Rightarrow> None | Some n \<Rightarrow> Some (Some (n, lastID))))"

text \<open>\<open>UnixNano\<close> of an instant kept in microseconds.\<close>

definition UnixNano :: "time \<Rightarrow> int" where
  "UnixNano t = 1000 * t"

definition page_token :: "Item \<Rightarrow> string" where
  "page_token r = show_int (UnixNano (it_UpdatedAt r)) @ '':'' @ it_ItemID r"

definition VaultRepository_ListItems ::
  "env \<Rightarrow> string \<Rightarrow> bool \<Rightarrow> int \<Rightarrow> string \<Rightarrow> ('o, Item list \<times> string) server" where
  "VaultRepository_ListItems E userID includeDeleted limit pageToken =
     (let lim = page_limit limit in
      case parse_page_token pageToken of
        None \<Rightarrow> throw VaultErrInvalidArgument
      | Some cur \<Rightarrow>
          andthen (stmt E (sql_list_items E userID includeDeleted cur (lim + 1))) (\<lambda>items.
            if length items > lim
            then ret (take lim items, page_token (items ! lim))
            else ret (items, [])))"

definition item_cas :: "string \<Rightarrow> string \<Rightarrow> u64 \<Rightarrow> Item \<Rightarrow> bool" where
  "item_cas u i v r \<longleftrightarrow> item_key u i r \<and> it_Version r = v \<and> it_DeletedAt r = None"

definition set_item_cols :: "Item \<Rightarrow> Item \<Rightarrow> Item" where
  "set_item_cols it r =
     r\<lparr>it_TitleCiphertext := it_TitleCiphertext it, it_TitleNonce := it_TitleNonce it,
       it_MetadataCiphertext := it_MetadataCiphertext it, it_MetadataNonce := it_MetadataNonce it,
       it_PayloadCiphertext := it_PayloadCiphertext it, it_PayloadNonce := it_PayloadNonce it,
       it_BlobID := it_BlobID it, it_Version := it_Version it, it_Checksum := it_Checksum it,
       it_UpdatedAt := it_UpdatedAt it\<rparr>"

definition sql_update_item :: "Item \<Rightarrow> u64 \<Rightarrow> nat sql" where
  "sql_update_item it ev t d =
     (let P = item_cas (it_UserID it) (it_ItemID it) ev; n = count_where P (vault_items d) in
      if \<not> bigint_ok (it_Version it) \<or> \<not> bigint_ok ev then (Inl (ErrSQL NumericOutOfRange), d)
      else if n = 0 then (Inr 0, d)
      else if \<not> item_not_null it then (Inl (ErrSQL NotNullViolation), d)
      else if \<not> has_blob d (it_BlobID it) then (Inl (ErrSQL ForeignKeyViolation), d)
      else (Inr n, d\<lparr>vault_items := upd_where P (set_item_cols it) (vault_items d)\<rparr>))"

definition VaultRepository_UpdateItem :: "env \<Rightarrow> Item \<Rightarrow> u64 \<Rightarrow> ('o, unit) server" where
  "VaultRepository_UpdateItem E it expectedVersion =
     andthen (stmt E (sql_update_item it expectedVersion)) (\<lambda>affected.
       if affected = 0 then throw VaultErrConflict else ret ())"

definition tombstone :: "time \<Rightarrow> Item \<Rightarrow> Item" where
  "tombstone at r = r\<lparr>it_DeletedAt := Some at, it_Version := it_Version r + 1, it_UpdatedAt := at\<rparr>"

definition sql_tombstone_item :: "string \<Rightarrow> string \<Rightarrow> u64 \<Rightarrow> time \<Rightarrow> u64 sql" where
  "sql_tombstone_item u i ev at t d =
     (let P = item_cas u i ev in
      if \<not> bigint_ok ev then (Inl (ErrSQL NumericOutOfRange), d)
      else case find P (vault_items d) of
        None \<Rightarrow> (Inl ErrNoRows, d)
      | Some r \<Rightarrow>
          if \<not> bigint_ok (it_Version r + 1) then (Inl (ErrSQL NumericOutOfRange), d)
          else (Inr (it_Version r + 1), d\<lparr>vault_items := upd_where P (tombstone at) (vault_items d)\<rparr>))"

definition VaultRepository_DeleteItem ::
  "env \<Rightarrow> string \<Rightarrow> string \<Rightarrow> u64 \<Rightarrow> time \<Rightarrow> ('o, u64) server" where
  "VaultRepository_DeleteItem E userID itemID expectedVersion deletedAt =
     handle (stmt E (sql_tombstone_item userID itemID expectedVersion deletedAt))
       (\<lambda>e. if e = ErrNoRows then throw VaultErrConflict else throw e)
       ret"

subsection \<open>RevisionLogRepository and ProcessedOperationsRepository\<close>

definition sql_append_revision :: "RevisionLogEntry \<Rightarrow> RevisionLogEntry sql" where
  "sql_append_revision en t d =
     (if \<not> bigint_ok (rl_ItemVersion en) \<or> Suc (revision_seq d) \<ge> 2 ^ 63
      then (Inl (ErrSQL NumericOutOfRange), d)
      else let d1 = d\<lparr>revision_seq := Suc (revision_seq d)\<rparr> in
        if rl_OperationID en \<noteq> None \<and>
           list_ex (\<lambda>r. rl_UserID r = rl_UserID en \<and> rl_OperationID r = rl_OperationID en) (revision_log d)
        then (Inl (ErrSQL UniqueViolation), d1)
        else if \<not> has_user d (rl_UserID en) \<or> \<not> has_item d (rl_ItemID en)
        then (Inl (ErrSQL ForeignKeyViolation), d1)
        else let row = en\<lparr>rl_RevisionID := word_of_nat (Suc (revision_seq d)), rl_ChangedAt := t\<rparr>
          in (Inr row, d1\<lparr>revision_log := revision_log d @ [row]\<rparr>))"

text \<open>The Go method writes \<open>RevisionID\<close> and \<open>ChangedAt\<close> into the entry it is given; the model
  returns the filled entry.\<close>

definition RevisionLogRepository_AppendRevision ::
  "env \<Rightarrow> RevisionLogEntry \<Rightarrow> ('o, RevisionLogEntry) server" where
  "RevisionLogRepository_AppendRevision E entry = stmt E (sql_append_revision entry)"

definition op_key :: "string \<Rightarrow> string \<Rightarrow> ProcessedOperation \<Rightarrow> bool" where
  "op_key u oid r \<longleftrightarrow> po_UserID r = u \<and> po_OperationID r = oid"

definition sql_mark_processed :: "string \<Rightarrow> string \<Rightarrow> string \<Rightarrow> u64 \<Rightarrow> unit sql" where
  "sql_mark_processed u oid i rid t d =
     (if \<not> bigint_ok rid then (Inl (ErrSQL NumericOutOfRange), d)
      else if list_ex (op_key u oid) (processed_operations d) then (Inr (), d)
      else if \<not> has_user d u then (Inl (ErrSQL ForeignKeyViolation), d)
      else (Inr (), d\<lparr>processed_operations := processed_operations d @
        [\<lparr>po_UserID = u, po_OperationID = oid, po_ItemID = i, po_RevisionID = rid\<rparr>]\<rparr>))"

definition ProcessedOperationsRepository_MarkProcessed ::
  "env \<Rightarrow> string \<Rightarrow> string \<Rightarrow> string \<Rightarrow> u64 \<Rightarrow> ('o, unit) server" where
  "ProcessedOperationsRepository_MarkProcessed E userID operationID itemID revisionID =
     stmt E (sql_mark_processed userID operationID itemID revisionID)"

definition sql_lookup_op :: "string \<Rightarrow> string \<Rightarrow> ProcessedOperation sql" where
  "sql_lookup_op u oid t d =
     (case find (op_key u oid) (processed_operations d) of
        None \<Rightarrow> (Inl ErrNoRows, d) | Some r \<Rightarrow> (Inr r, d))"

definition ProcessedOperationsRepository_Lookup ::
  "env \<Rightarrow> string \<Rightarrow> string \<Rightarrow> ('o, ProcessedOperation option) server" where
  "ProcessedOperationsRepository_Lookup E userID operationID =
     handle (stmt E (sql_lookup_op userID operationID))
       (\<lambda>e. if e = ErrNoRows then ret None else throw e)
       (\<lambda>r. ret (Some r))"

subsection \<open>Revision queries\<close>

record RevisionEventRow =
  re_RevisionID :: u64
  re_ItemID :: string
  re_ChangeType :: ChangeType
  re_ItemVersion :: u64
  re_ChangedAt :: time
  re_Item :: "Item option"

definition sql_max_revision :: "string \<Rightarrow> u64 sql" where
  "sql_max_revision u t d =
     (Inr (foldr max (map rl_RevisionID (filter (\<lambda>r. rl_UserID r = u) (revision_log d))) 0), d)"

definition UserMaxRevision :: "env \<Rightarrow> string \<Rightarrow> ('o, u64) server" where
  "UserMaxRevision E userID = stmt E (sql_max_revision userID)"

text \<open>\<open>LEFT JOIN vault_items v ON v.item_id = r.item_id AND v.user_id = r.user_id\<close>: \<open>item_id\<close> is the
  primary key, so a log row joins one item row at most. The columns tested for NULL
  (\<open>item_id\<close>, \<open>item_type\<close>, \<open>version\<close>) are NOT NULL in \<open>vault_items\<close>: the item is nil exactly
  when no row joins.\<close>

definition event_row :: "database \<Rightarrow> RevisionLogEntry \<Rightarrow> RevisionEventRow" where
  "event_row d r =
     \<lparr>re_RevisionID = rl_RevisionID r, re_ItemID = rl_ItemID r, re_ChangeType = rl_ChangeType r,
      re_ItemVersion = rl_ItemVersion r, re_ChangedAt = rl_ChangedAt r,
      re_Item = find (item_key (rl_UserID r) (rl_ItemID r)) (vault_items d)\<rparr>"

definition sql_events_after :: "string \<Rightarrow> u64 \<Rightarrow> nat \<Rightarrow> RevisionEventRow list sql" where
  "sql_events_after u after n t d =
     (if \<not> bigint_ok after then (Inl (ErrSQL NumericOutOfRange), d)
      else (Inr (take n (map (event_row d)
        (sort_by (\<lambda>a b. rl_RevisionID a \<le> rl_RevisionID b)
           (filter (\<lambda>r. rl_UserID r = u \<and> after < rl_RevisionID r) (revision_log d))))), d))"

definition ListRevisionEventsAfter ::
  "env \<Rightarrow> string \<Rightarrow> u64 \<Rightarrow> int \<Rightarrow> ('o, RevisionEventRow list) server" where
  "ListRevisionEventsAfter E userID afterRevision limit =
     (if limit \<le> 0 then ret []
      else stmt E (sql_events_after userID afterRevision (nat limit)))"

definition WithRevisionSnapshotRead :: "env option \<Rightarrow> (env \<Rightarrow> ('o, 'a) server) \<Rightarrow> ('o, 'a) server" where
  "WithRevisionSnapshotRead pool fn =
     (case pool of
        None \<Rightarrow> throw (ErrOther ''postgres: pool is nil'')
      | Some E \<Rightarrow> in_tx E (fn E))"


subsection \<open>The schema invariant\<close>

text \<open>
  What the constraints of the schema guarantee of the vault tables: primary keys, unique keys,
  foreign keys, versions and revision ids within BIGINT, revision ids drawn from the sequence in
  the order of the rows.
\<close>

definition schema_ok :: "database \<Rightarrow> bool" where
  "schema_ok d \<longleftrightarrow>
     distinct (map it_ItemID (vault_items d)) \<and>
     distinct (map (\<lambda>p. (po_UserID p, po_OperationID p)) (processed_operations d)) \<and>
     sorted_wrt (\<lambda>a b. rl_RevisionID a < rl_RevisionID b) (revision_log d) \<and>
     (\<forall>r \<in> set (revision_log d). unat (rl_RevisionID r) \<le> revision_seq d) \<and>
     revision_seq d < 2 ^ 63 \<and>
     (\<forall>r \<in> set (vault_items d). bigint_ok (it_Version r) \<and> item_not_null r \<and>
        has_user d (it_UserID r) \<and> has_blob d (it_BlobID r)) \<and>
     (\<forall>r \<in> set (revision_log d). has_user d (rl_UserID r) \<and> has_item d (rl_ItemID r)) \<and>
     (\<forall>r \<in> set (processed_operations d). has_user d (po_UserID r))"

lemma has_simps [simp]:
  "has_user (vault_items_update f d) u = has_user d u"
  "has_user (revision_log_update g d) u = has_user d u"
  "has_user (revision_seq_update h d) u = has_user d u"
  "has_user (processed_operations_update k d) u = has_user d u"
  "has_blob (vault_items_update f d) b = has_blob d b"
  "has_blob (revision_log_update g d) b = has_blob d b"
  "has_blob (revision_seq_update h d) b = has_blob d b"
  "has_blob (processed_operations_update k d) b = has_blob d b"
  "has_item (revision_log_update g d) i = has_item d i"
  "has_item (revision_seq_update h d) i = has_item d i"
  "has_item (processed_operations_update k d) i = has_item d i"
  "has_item (d\<lparr>vault_items := rs\<rparr>) i \<longleftrightarrow> i \<in> set (map it_ItemID rs)"
  by (auto simp: has_user_def has_blob_def has_item_def list_ex_iff split: option.splits)

lemma has_item_iff: "has_item d i \<longleftrightarrow> i \<in> set (map it_ItemID (vault_items d))"
  by (auto simp: has_item_def list_ex_iff)

lemma schema_ok_seq:
  "schema_ok d \<Longrightarrow> revision_seq d \<le> n \<Longrightarrow> n < 2 ^ 63 \<Longrightarrow> schema_ok (d\<lparr>revision_seq := n\<rparr>)"
  by (fastforce simp: schema_ok_def)

lemma schema_ok_insert_item:
  assumes "schema_ok d" and "sql_insert_item it t d = (r, d')"
  shows "schema_ok d'"
  using assms
  by (auto simp: schema_ok_def sql_insert_item_def has_item_iff split: if_splits)

lemma schema_ok_upd_items:
  assumes "schema_ok d" and "\<And>r. P r \<Longrightarrow> it_ItemID (f r) = it_ItemID r"
    and "\<And>r. r \<in> set (vault_items d) \<Longrightarrow> P r \<Longrightarrow> bigint_ok (it_Version (f r)) \<and> item_not_null (f r) \<and>
          it_UserID (f r) = it_UserID r \<and> has_blob d (it_BlobID (f r))"
  shows "schema_ok (d\<lparr>vault_items := upd_where P f (vault_items d)\<rparr>)"
proof -
  have ids: "map it_ItemID (upd_where P f (vault_items d)) = map it_ItemID (vault_items d)"
    by (rule map_upd_where) (rule assms(2))
  have "\<forall>r \<in> set (upd_where P f (vault_items d)). bigint_ok (it_Version r) \<and> item_not_null r \<and>
        has_user d (it_UserID r) \<and> has_blob d (it_BlobID r)"
    using assms(1,3) by (auto simp: set_upd_where schema_ok_def)
  with ids assms(1) show ?thesis
    unfolding schema_ok_def
    by (auto simp: has_item_iff simp del: set_map)
qed

lemma schema_ok_update_item:
  assumes "schema_ok d" and "sql_update_item it ev t d = (r, d')"
  shows "schema_ok d'"
  using assms by (auto simp: sql_update_item_def Let_def set_item_cols_def item_not_null_def
      split: if_splits intro!: schema_ok_upd_items)

lemma item_cas_unique:
  assumes "schema_ok d" and "find (item_cas u i ev) (vault_items d) = Some r"
    and "r' \<in> set (vault_items d)" and "item_cas u i ev r'"
  shows "r' = r"
  using assms find_SomeD [OF assms(2)]
  by (auto simp: schema_ok_def item_cas_def item_key_def distinct_map dest: inj_onD)

lemma schema_ok_tombstone_item:
  assumes "schema_ok d" and "sql_tombstone_item u i ev at t d = (r, d')"
  shows "schema_ok d'"
proof (cases "find (item_cas u i ev) (vault_items d)")
  case None
  with assms show ?thesis by (auto simp: sql_tombstone_item_def Let_def split: if_splits)
next
  case (Some x)
  have upd: "schema_ok (d\<lparr>vault_items := upd_where (item_cas u i ev) (tombstone at) (vault_items d)\<rparr>)"
    if "bigint_ok (it_Version x + 1)"
  proof (rule schema_ok_upd_items [OF assms(1)])
    fix r
    assume r: "r \<in> set (vault_items d)" "item_cas u i ev r"
    with item_cas_unique [OF assms(1) Some] have "r = x" by blast
    with r assms(1) that
    show "bigint_ok (it_Version (tombstone at r)) \<and> item_not_null (tombstone at r) \<and>
      it_UserID (tombstone at r) = it_UserID r \<and> has_blob d (it_BlobID (tombstone at r))"
      by (auto simp: tombstone_def schema_ok_def item_not_null_def)
  qed (simp add: tombstone_def)
  with Some assms show ?thesis by (auto simp: sql_tombstone_item_def Let_def split: if_splits)
qed

lemma unat_word_of_nat_u64: "n < 2 ^ 64 \<Longrightarrow> unat (word_of_nat n :: u64) = n"
  by (simp add: unat_of_nat)

lemma revision_fresh:
  assumes "schema_ok d" and "Suc (revision_seq d) < 2 ^ 63" and "r \<in> set (revision_log d)"
  shows "rl_RevisionID r < word_of_nat (Suc (revision_seq d))"
proof -
  have "unat (rl_RevisionID r) \<le> revision_seq d" using assms by (auto simp: schema_ok_def)
  with assms(2) unat_word_of_nat_u64 [of "Suc (revision_seq d)"] show ?thesis
    by (simp add: word_less_nat_alt del: of_nat_Suc)
qed

lemma schema_ok_append_revision:
  assumes "schema_ok d" and "sql_append_revision en t d = (r, d')"
  shows "schema_ok d'"
proof (cases "Suc (revision_seq d) < 2 ^ 63")
  case True
  then have seq: "schema_ok (d\<lparr>revision_seq := Suc (revision_seq d)\<rparr>)"
    using assms(1) by (intro schema_ok_seq) auto
  have u: "unat (word_of_nat (Suc (revision_seq d)) :: u64) = Suc (revision_seq d)"
    using True by (intro unat_word_of_nat_u64) simp
  show ?thesis
    using assms seq True u revision_fresh [OF assms(1) True]
    by (auto simp: sql_append_revision_def Let_def schema_ok_def sorted_wrt_append simp del: of_nat_Suc
        split: if_splits)
next
  case False
  with assms show ?thesis by (auto simp: sql_append_revision_def)
qed

lemma schema_ok_mark_processed:
  assumes "schema_ok d" and "sql_mark_processed u oid i rid t d = (r, d')"
  shows "schema_ok d'"
  using assms by (auto simp: sql_mark_processed_def schema_ok_def op_key_def list_ex_iff split: if_splits)

lemmas schema_ok_sql = schema_ok_insert_item schema_ok_update_item schema_ok_tombstone_item
  schema_ok_append_revision schema_ok_mark_processed

lemma vault_sql_safe:
  "sql_safe (sql_insert_item it)" "sql_safe (sql_select_item u i)" "sql_safe (sql_list_items E u b c n)"
  "sql_safe (sql_update_item it ev)" "sql_safe (sql_tombstone_item u i ev at)"
  "sql_safe (sql_append_revision en)" "sql_safe (sql_mark_processed u oid i rid)"
  "sql_safe (sql_lookup_op u oid)" "sql_safe (sql_max_revision u)" "sql_safe (sql_events_after u a n)"
  by (auto simp: sql_safe_def tables_def sql_insert_item_def sql_select_item_def sql_list_items_def
      sql_update_item_def sql_tombstone_item_def sql_append_revision_def sql_mark_processed_def
      sql_lookup_op_def sql_max_revision_def sql_events_after_def Let_def
      split: if_splits option.splits)

end
