(* ===== verification/BlobRepo.thy ===== *)
theory BlobRepo
  imports VaultRepo
begin

section \<open>Blob metadata and upload sessions (\<open>internal/server/storage/postgres\<close>)\<close>

text \<open>
  \<open>blob_repositories.go\<close>, \<open>blob_insert.go\<close>, \<open>upload_store.go\<close> and \<open>upload_session_cleanup.go\<close>: the
  rows of \<open>blobs\<close> and \<open>upload_sessions\<close>, each method with its statement or its transaction, and the
  interfaces \<open>blob.Repository\<close> and \<open>blob.UploadSessionStore\<close> they implement.
\<close>

subsection \<open>Interfaces\<close>

record 'w BlobRepo =
  br_Create :: "Blob \<Rightarrow> 'w \<Rightarrow> (go_error + unit) \<times> 'w"
  br_GetByID :: "string \<Rightarrow> string \<Rightarrow> 'w \<Rightarrow> (go_error + Blob) \<times> 'w"
  br_MarkCommitted :: "string \<Rightarrow> string \<Rightarrow> time \<Rightarrow> 'w \<Rightarrow> (go_error + unit) \<times> 'w"
  br_MarkDeleted :: "string \<Rightarrow> string \<Rightarrow> time \<Rightarrow> 'w \<Rightarrow> (go_error + unit) \<times> 'w"
  br_MarkFailed :: "string \<Rightarrow> string \<Rightarrow> time \<Rightarrow> 'w \<Rightarrow> (go_error + unit) \<times> 'w"

record 'w UploadSessionStore =
  up_StartSession :: "Blob \<Rightarrow> UploadSession \<Rightarrow> 'w \<Rightarrow> (go_error + unit) \<times> 'w"
  up_GetSession :: "string \<Rightarrow> string \<Rightarrow> 'w \<Rightarrow> (go_error + UploadSession) \<times> 'w"
  up_DeleteSession :: "string \<Rightarrow> string \<Rightarrow> 'w \<Rightarrow> (go_error + unit) \<times> 'w"
  up_CompleteClientUpload :: "string \<Rightarrow> string \<Rightarrow> u64 \<Rightarrow> 'w \<Rightarrow> (go_error + unit) \<times> 'w"
  up_CommitUploadedBlob :: "string \<Rightarrow> string \<Rightarrow> time \<Rightarrow> 'w \<Rightarrow> (go_error + unit) \<times> 'w"

record ExpiredUploadBlobRef =
  er_BlobID :: string
  er_ObjectKey :: string

subsection \<open>BlobRepository\<close>

definition blob_key :: "string \<Rightarrow> string \<Rightarrow> Blob \<Rightarrow> bool" where
  "blob_key u b r \<longleftrightarrow> bl_UserID r = u \<and> bl_BlobID r = b"

definition sql_insert_blob :: "Blob \<Rightarrow> unit sql" where
  "sql_insert_blob b t d =
     (if \<not> bigint_ok (bl_SizeBytes b) then (Inl (ErrSQL NumericOutOfRange), d)
      else if bl_Checksum b = None then (Inl (ErrSQL NotNullViolation), d)
      else if list_ex (\<lambda>r. bl_BlobID r = bl_BlobID b \<or> bl_ObjectKey r = bl_ObjectKey b) (blobs d)
        then (Inl (ErrSQL UniqueViolation), d)
      else if \<not> has_user d (bl_UserID b) then (Inl (ErrSQL ForeignKeyViolation), d)
      else (Inr (), d\<lparr>blobs := blobs d @ [b\<lparr>bl_FailedAt := None\<rparr>]\<rparr>))"

definition execInsertBlob :: "env \<Rightarrow> Blob \<Rightarrow> ('o, unit) server" where
  "execInsertBlob E b = stmt E (sql_insert_blob b)"

definition BlobRepository_Create :: "env \<Rightarrow> Blob \<Rightarrow> ('o, unit) server" where
  "BlobRepository_Create E b = execInsertBlob E b"

definition sql_select_blob :: "string \<Rightarrow> string \<Rightarrow> Blob sql" where
  "sql_select_blob u b t d =
     (case find (blob_key u b) (blobs d) of None \<Rightarrow> (Inl ErrNoRows, d) | Some r \<Rightarrow> (Inr r, d))"

definition BlobRepository_GetByID :: "env \<Rightarrow> string \<Rightarrow> string \<Rightarrow> ('o, Blob) server" where
  "BlobRepository_GetByID E userID blobID =
     handle (stmt E (sql_select_blob userID blobID))
       (\<lambda>e. if e = ErrNoRows then throw BlobErrNotFound else throw e)
       ret"

text \<open>\<open>UPDATE blobs SET .. WHERE ..\<close>: the rows affected.\<close>

definition sql_update_blobs :: "(Blob \<Rightarrow> bool) \<Rightarrow> (Blob \<Rightarrow> Blob) \<Rightarrow> nat sql" where
  "sql_update_blobs P f t d =
     (Inr (count_where P (blobs d)), d\<lparr>blobs := upd_where P f (blobs d)\<rparr>)"

definition set_committed :: "time \<Rightarrow> Blob \<Rightarrow> Blob" where
  "set_committed at r = r\<lparr>bl_Status := StatusCommitted, bl_CommittedAt := Some at, bl_DeletedAt := None\<rparr>"

definition set_deleted :: "time \<Rightarrow> Blob \<Rightarrow> Blob" where
  "set_deleted at r = r\<lparr>bl_Status := StatusDeleted, bl_DeletedAt := Some at\<rparr>"

definition set_failed :: "time \<Rightarrow> Blob \<Rightarrow> Blob" where
  "set_failed at r = r\<lparr>bl_Status := StatusFailed, bl_FailedAt := Some at\<rparr>"

definition in_flight :: "Blob \<Rightarrow> bool" where
  "in_flight r \<longleftrightarrow> bl_Status r = StatusPending \<or> bl_Status r = StatusUploading"

definition exec_mark :: "env \<Rightarrow> (Blob \<Rightarrow> bool) \<Rightarrow> (Blob \<Rightarrow> Blob) \<Rightarrow> ('o, unit) server" where
  "exec_mark E P f =
     andthen (stmt E (sql_update_blobs P f)) (\<lambda>n. if n = 0 then throw BlobErrNotFound else ret ())"

definition BlobRepository_MarkCommitted :: "env \<Rightarrow> string \<Rightarrow> string \<Rightarrow> time \<Rightarrow> ('o, unit) server" where
  "BlobRepository_MarkCommitted E userID blobID at = exec_mark E (blob_key userID blobID) (set_committed at)"

definition BlobRepository_MarkDeleted :: "env \<Rightarrow> string \<Rightarrow> string \<Rightarrow> time \<Rightarrow> ('o, unit) server" where
  "BlobRepository_MarkDeleted E userID blobID at = exec_mark E (blob_key userID blobID) (set_deleted at)"

definition BlobRepository_MarkFailed :: "env \<Rightarrow> string \<Rightarrow> string \<Rightarrow> time \<Rightarrow> ('o, unit) server" where
  "BlobRepository_MarkFailed E userID blobID at =
     exec_mark E (\<lambda>r. blob_key userID blobID r \<and> in_flight r) (set_failed at)"

definition NewBlobRepository :: "env \<Rightarrow> 'o world BlobRepo" where
  "NewBlobRepository E =
     \<lparr>br_Create = BlobRepository_Create E, br_GetByID = BlobRepository_GetByID E,
      br_MarkCommitted = BlobRepository_MarkCommitted E, br_MarkDeleted = BlobRepository_MarkDeleted E,
      br_MarkFailed = BlobRepository_MarkFailed E\<rparr>"

subsection \<open>UploadStore\<close>

definition session_key :: "string \<Rightarrow> string \<Rightarrow> UploadSession \<Rightarrow> bool" where
  "session_key u sid r \<longleftrightarrow> us_UploadSessionID r = sid \<and> us_UserID r = u"

definition sql_insert_session :: "UploadSession \<Rightarrow> unit sql" where
  "sql_insert_session s t d =
     (if \<not> bigint_ok (us_ExpectedSize s) \<or> \<not> bigint_ok (us_ReceivedSize s) then (Inl (ErrSQL NumericOutOfRange), d)
      else if us_ExpectedChecksum s = None then (Inl (ErrSQL NotNullViolation), d)
      else if list_ex (\<lambda>r. us_UploadSessionID r = us_UploadSessionID s \<or> us_BlobID r = us_BlobID s) (upload_sessions d)
        then (Inl (ErrSQL UniqueViolation), d)
      else if \<not> has_blob d (Some (us_BlobID s)) \<or> \<not> has_user d (us_UserID s) then (Inl (ErrSQL ForeignKeyViolation), d)
      else (Inr (), d\<lparr>upload_sessions := upload_sessions d @ [s]\<rparr>))"

definition UploadStore_StartSession :: "env \<Rightarrow> Blob \<Rightarrow> UploadSession \<Rightarrow> ('o, unit) server" where
  "UploadStore_StartSession E b us =
     in_tx E (andthen (execInsertBlob E b) (\<lambda>_. stmt E (sql_insert_session us)))"

definition sql_select_session :: "string \<Rightarrow> string \<Rightarrow> UploadSession sql" where
  "sql_select_session u sid t d =
     (case find (session_key u sid) (upload_sessions d) of None \<Rightarrow> (Inl ErrNoRows, d) | Some r \<Rightarrow> (Inr r, d))"

definition UploadStore_GetSession :: "env \<Rightarrow> string \<Rightarrow> string \<Rightarrow> ('o, UploadSession) server" where
  "UploadStore_GetSession E userID sessionID =
     handle (stmt E (sql_select_session userID sessionID))
       (\<lambda>e. if e = ErrNoRows then throw ErrUploadSessionNotFound else throw e)
       ret"

definition sql_delete_session :: "string \<Rightarrow> string \<Rightarrow> nat sql" where
  "sql_delete_session u sid t d =
     (Inr (count_where (session_key u sid) (upload_sessions d)),
      d\<lparr>upload_sessions := delete_where (session_key u sid) (upload_sessions d)\<rparr>)"

definition UploadStore_DeleteSession :: "env \<Rightarrow> string \<Rightarrow> string \<Rightarrow> ('o, unit) server" where
  "UploadStore_DeleteSession E userID sessionID =
     andthen (stmt E (sql_delete_session userID sessionID)) (\<lambda>n.
       if n = 0 then throw ErrUploadSessionNotFound else ret ())"

definition uploadSessionRowExists :: "env \<Rightarrow> string \<Rightarrow> string \<Rightarrow> ('o, bool) server" where
  "uploadSessionRowExists E sessionID userID =
     handle (stmt E (sql_select_session userID sessionID))
       (\<lambda>e. if e = ErrNoRows then ret False else throw e)
       (\<lambda>_. ret True)"

definition completable :: "string \<Rightarrow> string \<Rightarrow> u64 \<Rightarrow> UploadSession \<Rightarrow> bool" where
  "completable u sid n r \<longleftrightarrow> session_key u sid r \<and> us_Status r = UploadSessionOpen \<and> us_ExpectedSize r = n"

definition set_awaiting :: "u64 \<Rightarrow> time \<Rightarrow> UploadSession \<Rightarrow> UploadSession" where
  "set_awaiting n now r = r\<lparr>us_ReceivedSize := n, us_Status := UploadSessionAwaitingCommit, us_UpdatedAt := now\<rparr>"

definition sql_complete_session :: "string \<Rightarrow> string \<Rightarrow> u64 \<Rightarrow> time \<Rightarrow> string sql" where
  "sql_complete_session u sid n now t d =
     (if \<not> bigint_ok n then (Inl (ErrSQL NumericOutOfRange), d)
      else case find (completable u sid n) (upload_sessions d) of
        None \<Rightarrow> (Inl ErrNoRows, d)
      | Some r \<Rightarrow> (Inr (us_BlobID r),
          d\<lparr>upload_sessions := upd_where (completable u sid n) (set_awaiting n now) (upload_sessions d)\<rparr>))"

definition blob_in :: "string \<Rightarrow> string \<Rightarrow> BlobStatus \<Rightarrow> Blob \<Rightarrow> bool" where
  "blob_in u b st r \<longleftrightarrow> blob_key u b r \<and> bl_Status r = st"

text \<open>The bodies of the two transactions.\<close>

definition complete_body :: "env \<Rightarrow> string \<Rightarrow> string \<Rightarrow> u64 \<Rightarrow> ('o, unit) server" where
  "complete_body E userID sessionID receivedSize =
     andthen (time_Now E) (\<lambda>now.
       handle (stmt E (sql_complete_session userID sessionID receivedSize now))
         (\<lambda>e. if e = ErrNoRows then
                andthen (uploadSessionRowExists E sessionID userID) (\<lambda>exists.
                  if \<not> exists then throw ErrUploadSessionNotFound else throw ErrUploadSessionNotOpen)
              else throw e)
         (\<lambda>blobID. andthen (stmt E (sql_update_blobs (blob_in userID blobID StatusPending)
                              (\<lambda>r. r\<lparr>bl_Status := StatusUploading\<rparr>))) (\<lambda>bn.
            if bn = 0 then throw BlobErrNotFound else ret ())))"

definition UploadStore_CompleteClientUpload :: "env \<Rightarrow> string \<Rightarrow> string \<Rightarrow> u64 \<Rightarrow> ('o, unit) server" where
  "UploadStore_CompleteClientUpload E userID sessionID receivedSize =
     in_tx E (complete_body E userID sessionID receivedSize)"

definition commit_body :: "env \<Rightarrow> string \<Rightarrow> string \<Rightarrow> time \<Rightarrow> ('o, unit) server" where
  "commit_body E userID sessionID committedAt =
     handle (stmt E (sql_select_session userID sessionID))
       (\<lambda>e. if e = ErrNoRows then throw ErrUploadSessionNotFound else throw e)
       (\<lambda>s. andthen (time_Now E) (\<lambda>now.
         guard (us_ExpiresAt s < now) ErrUploadSessionExpired
         (guard (us_Status s \<noteq> UploadSessionAwaitingCommit) ErrUploadSessionNotAwaitingCommit
         (andthen (stmt E (sql_delete_session userID sessionID)) (\<lambda>_.
          andthen (stmt E (sql_update_blobs (blob_in userID (us_BlobID s) StatusUploading) (set_committed committedAt))) (\<lambda>n.
          if n = 0 then throw BlobErrNotFound else ret ()))))))"

definition UploadStore_CommitUploadedBlob :: "env \<Rightarrow> string \<Rightarrow> string \<Rightarrow> time \<Rightarrow> ('o, unit) server" where
  "UploadStore_CommitUploadedBlob E userID sessionID committedAt =
     in_tx E (commit_body E userID sessionID committedAt)"

definition NewUploadStore :: "env \<Rightarrow> 'o world UploadSessionStore" where
  "NewUploadStore E =
     \<lparr>up_StartSession = UploadStore_StartSession E, up_GetSession = UploadStore_GetSession E,
      up_DeleteSession = UploadStore_DeleteSession E, up_CompleteClientUpload = UploadStore_CompleteClientUpload E,
      up_CommitUploadedBlob = UploadStore_CommitUploadedBlob E\<rparr>"

subsection \<open>Cleanup queries\<close>

definition sql_list_expired :: "env \<Rightarrow> time \<Rightarrow> nat \<Rightarrow> ExpiredUploadBlobRef list sql" where
  "sql_list_expired E before n t d =
     (Inr (take n (sort_by (\<lambda>a b. env_text_le E (er_BlobID a) (er_BlobID b))
        (concat (map (\<lambda>b. map (\<lambda>u. \<lparr>er_BlobID = bl_BlobID b, er_ObjectKey = bl_ObjectKey b\<rparr>)
             (filter (\<lambda>u. us_BlobID u = bl_BlobID b \<and> us_ExpiresAt u < before) (upload_sessions d)))
           (filter in_flight (blobs d)))))), d)"

definition UploadStore_ListExpiredUploadBlobRefs ::
  "env \<Rightarrow> time \<Rightarrow> int \<Rightarrow> ('o, ExpiredUploadBlobRef list) server" where
  "UploadStore_ListExpiredUploadBlobRefs E expiresBefore limit =
     (if limit \<le> 0 then ret [] else stmt E (sql_list_expired E expiresBefore (nat limit)))"

text \<open>\<open>DELETE FROM blobs\<close>: upload sessions of the blob go with it (ON DELETE CASCADE), items that
  refer to it lose the reference (ON DELETE SET NULL).\<close>

definition clear_blob :: "string \<Rightarrow> Item \<Rightarrow> Item" where
  "clear_blob b r = (if it_BlobID r = Some b then r\<lparr>it_BlobID := None\<rparr> else r)"

definition sql_delete_blob :: "string \<Rightarrow> nat sql" where
  "sql_delete_blob b t d =
     (let n = count_where (\<lambda>r. bl_BlobID r = b) (blobs d) in
      if n = 0 then (Inr 0, d)
      else (Inr n, d\<lparr>blobs := delete_where (\<lambda>r. bl_BlobID r = b) (blobs d),
             upload_sessions := delete_where (\<lambda>u. us_BlobID u = b) (upload_sessions d),
             vault_items := map (clear_blob b) (vault_items d)\<rparr>))"

definition UploadStore_DeleteBlobByID :: "env \<Rightarrow> string \<Rightarrow> ('o, unit) server" where
  "UploadStore_DeleteBlobByID E blobID =
     andthen (stmt E (sql_delete_blob blobID)) (\<lambda>n. if n = 0 then throw ErrNoRows else ret ())"

end
