(* ===== verification/ObjectStorage.thy ===== *)
theory ObjectStorage
  imports Database
begin

section \<open>Object storage (\<open>internal/server/storage/s3minio\<close>, \<open>blob/storage.go\<close>)\<close>

text \<open>
  The adapter \<open>ObjectStorage\<close> over the MinIO client. The client is a third-party package: it is the
  parameter \<open>minio_client\<close>, operations on an opaque state \<open>'o\<close> of the object store, with their
  own failures inside. What the code relies on is \<open>minio_ok\<close>, the documented behaviour of the client
  with respect to the objects the store holds (\<open>view\<close>): a successful PutObject stores the bytes of
  the reader under the key, StatObject and Object.Stat report the size, a reader delivers the stored
  bytes in pieces no longer than the buffer, RemoveObject removes the key; no call touches another
  key. \<open>minio_healthy\<close> says in addition that no call fails.

  An object returned by GetObject is its Stat result and what successive Reads with a buffer of n
  bytes return: the pieces, then EOF (\<open>None\<close>) or an error.
\<close>

record minio_object =
  ob_Stat :: "minio_error + int"
  ob_Read :: "nat \<Rightarrow> bytes list \<times> minio_error option"

record 'o minio_client =
  mc_PutObject :: "string \<Rightarrow> string \<Rightarrow> bytes \<Rightarrow> int \<Rightarrow> string \<Rightarrow> 'o \<Rightarrow> (minio_error + unit) \<times> 'o"
  mc_GetObject :: "string \<Rightarrow> string \<Rightarrow> 'o \<Rightarrow> (minio_error + minio_object) \<times> 'o"
  mc_StatObject :: "string \<Rightarrow> string \<Rightarrow> 'o \<Rightarrow> (minio_error + int) \<times> 'o"
  mc_RemoveObject :: "string \<Rightarrow> string \<Rightarrow> 'o \<Rightarrow> (minio_error + unit) \<times> 'o"

text \<open>The interface \<open>blob.ObjectStorage\<close>.\<close>

record 'w ObjectStorage =
  os_Put :: "string \<Rightarrow> bytes \<Rightarrow> int \<Rightarrow> string \<Rightarrow> 'w \<Rightarrow> (go_error + unit) \<times> 'w"
  os_Get :: "string \<Rightarrow> 'w \<Rightarrow> (go_error + minio_object \<times> int) \<times> 'w"
  os_Stat :: "string \<Rightarrow> 'w \<Rightarrow> (go_error + int) \<times> 'w"
  os_Delete :: "string \<Rightarrow> 'w \<Rightarrow> (go_error + unit) \<times> 'w"

definition minio_call :: "('o \<Rightarrow> (minio_error + 'a) \<times> 'o) \<Rightarrow> ('o, 'a) server" where
  "minio_call f w = (case f (objs w) of
      (Inl e, s) \<Rightarrow> (Inl (ErrMinio e), w\<lparr>objs := s\<rparr>) | (Inr x, s) \<Rightarrow> (Inr x, w\<lparr>objs := s\<rparr>))"

definition ObjectStorage_Put ::
  "'o minio_client \<Rightarrow> string \<Rightarrow> string \<Rightarrow> bytes \<Rightarrow> int \<Rightarrow> string \<Rightarrow> ('o, unit) server" where
  "ObjectStorage_Put c bucket objectKey r sizeBytes contentType =
     minio_call (mc_PutObject c bucket objectKey r sizeBytes contentType)"

definition ObjectStorage_Get :: "'o minio_client \<Rightarrow> string \<Rightarrow> string \<Rightarrow> ('o, minio_object \<times> int) server" where
  "ObjectStorage_Get c bucket objectKey =
     andthen (minio_call (mc_GetObject c bucket objectKey)) (\<lambda>obj.
       case ob_Stat obj of Inl e \<Rightarrow> throw (ErrMinio e) | Inr sz \<Rightarrow> ret (obj, sz))"

definition ObjectStorage_Stat :: "'o minio_client \<Rightarrow> string \<Rightarrow> string \<Rightarrow> ('o, int) server" where
  "ObjectStorage_Stat c bucket objectKey =
     handle (minio_call (mc_StatObject c bucket objectKey))
       (\<lambda>e. if e = ErrMinio NoSuchKey then throw BlobErrObjectNotFound else throw e)
       ret"

definition ObjectStorage_Delete :: "'o minio_client \<Rightarrow> string \<Rightarrow> string \<Rightarrow> ('o, unit) server" where
  "ObjectStorage_Delete c bucket objectKey = minio_call (mc_RemoveObject c bucket objectKey)"

definition NewObjectStorage :: "'o minio_client \<Rightarrow> string \<Rightarrow> 'o world ObjectStorage" where
  "NewObjectStorage c bucket =
     \<lparr>os_Put = ObjectStorage_Put c bucket, os_Get = ObjectStorage_Get c bucket,
      os_Stat = ObjectStorage_Stat c bucket, os_Delete = ObjectStorage_Delete c bucket\<rparr>"

lemma NewObjectStorage_sel [simp]:
  "os_Put (NewObjectStorage c b) = ObjectStorage_Put c b" "os_Get (NewObjectStorage c b) = ObjectStorage_Get c b"
  "os_Stat (NewObjectStorage c b) = ObjectStorage_Stat c b" "os_Delete (NewObjectStorage c b) = ObjectStorage_Delete c b"
  by (simp_all add: NewObjectStorage_def)

subsection \<open>What the client is relied on for\<close>

definition same_but :: "string \<Rightarrow> string \<Rightarrow> (string \<Rightarrow> string \<Rightarrow> bytes option) \<Rightarrow> (string \<Rightarrow> string \<Rightarrow> bytes option) \<Rightarrow> bool" where
  "same_but b k v v' \<longleftrightarrow> (\<forall>b' k'. (b', k') \<noteq> (b, k) \<longrightarrow> v' b' k' = v b' k')"

definition put_ok :: "'o minio_client \<Rightarrow> ('o \<Rightarrow> string \<Rightarrow> string \<Rightarrow> bytes option) \<Rightarrow> bool" where
  "put_ok c view \<longleftrightarrow> (\<forall>b k d ct s r s'. mc_PutObject c b k d (int (length d)) ct s = (r, s') \<longrightarrow>
     same_but b k (view s) (view s') \<and> (\<not> isl r \<longrightarrow> view s' b k = Some d))"

definition stat_ok :: "'o minio_client \<Rightarrow> ('o \<Rightarrow> string \<Rightarrow> string \<Rightarrow> bytes option) \<Rightarrow> bool" where
  "stat_ok c view \<longleftrightarrow> (\<forall>b k s r s'. mc_StatObject c b k s = (r, s') \<longrightarrow> view s' = view s \<and>
     (case r of Inr n \<Rightarrow> \<exists>d. view s b k = Some d \<and> n = int (length d)
              | Inl e \<Rightarrow> e = NoSuchKey \<longrightarrow> view s b k = None))"

definition get_ok :: "'o minio_client \<Rightarrow> ('o \<Rightarrow> string \<Rightarrow> string \<Rightarrow> bytes option) \<Rightarrow> bool" where
  "get_ok c view \<longleftrightarrow> (\<forall>b k s r s'. mc_GetObject c b k s = (r, s') \<longrightarrow> view s' = view s \<and>
     (\<forall>obj. r = Inr obj \<longrightarrow>
        (\<forall>n ds e. 0 < n \<longrightarrow> ob_Read obj n = (ds, e) \<longrightarrow> (\<forall>x \<in> set ds. length x \<le> n) \<and>
           (e = None \<longrightarrow> view s b k = Some (concat ds))) \<and>
        (\<forall>m. ob_Stat obj = Inr m \<longrightarrow> (\<exists>d. view s b k = Some d \<and> m = int (length d)))))"

definition remove_ok :: "'o minio_client \<Rightarrow> ('o \<Rightarrow> string \<Rightarrow> string \<Rightarrow> bytes option) \<Rightarrow> bool" where
  "remove_ok c view \<longleftrightarrow> (\<forall>b k s r s'. mc_RemoveObject c b k s = (r, s') \<longrightarrow>
     same_but b k (view s) (view s') \<and> (\<not> isl r \<longrightarrow> view s' b k = None))"

definition minio_ok :: "'o minio_client \<Rightarrow> ('o \<Rightarrow> string \<Rightarrow> string \<Rightarrow> bytes option) \<Rightarrow> bool" where
  "minio_ok c view \<longleftrightarrow> put_ok c view \<and> stat_ok c view \<and> get_ok c view \<and> remove_ok c view"

lemmas minio_ok_defs = minio_ok_def put_ok_def stat_ok_def get_ok_def remove_ok_def

definition minio_healthy :: "'o minio_client \<Rightarrow> ('o \<Rightarrow> string \<Rightarrow> string \<Rightarrow> bytes option) \<Rightarrow> bool" where
  "minio_healthy c view \<longleftrightarrow> minio_ok c view \<and>
     (\<forall>b k d n ct s. \<not> isl (fst (mc_PutObject c b k d n ct s))) \<and>
     (\<forall>b k s. \<not> isl (fst (mc_RemoveObject c b k s))) \<and>
     (\<forall>b k s. view s b k \<noteq> None \<longrightarrow> \<not> isl (fst (mc_StatObject c b k s))) \<and>
     (\<forall>b k s. view s b k \<noteq> None \<longrightarrow> (\<exists>obj. fst (mc_GetObject c b k s) = Inr obj \<and>
        \<not> isl (ob_Stat obj) \<and> (\<forall>n > 0. snd (ob_Read obj n) = None)))"

lemma minio_call_db [simp]: "db (snd (minio_call f w)) = db w" "tick (snd (minio_call f w)) = tick w"
  by (auto simp: minio_call_def split: prod.splits sum.splits)

lemma keeps_minio [keeps_intros]: "keeps (\<lambda>w. I (db w)) (minio_call f)"
  by (simp add: keeps_def)

lemma keeps_storage [keeps_intros]:
  "keeps (\<lambda>w. I (db w)) (ObjectStorage_Put c b k d n ct)" "keeps (\<lambda>w. I (db w)) (ObjectStorage_Stat c b k)"
  "keeps (\<lambda>w. I (db w)) (ObjectStorage_Delete c b k)" "keeps (\<lambda>w. I (db w)) (ObjectStorage_Get c b k)"
  unfolding ObjectStorage_Put_def ObjectStorage_Stat_def ObjectStorage_Delete_def ObjectStorage_Get_def
  by (intro keeps_intros)+

lemma minio_okD:
  assumes "minio_ok c view"
  shows "mc_PutObject c b k d (int (length d)) ct s = (r1, s') \<Longrightarrow>
      same_but b k (view s) (view s') \<and> (\<not> isl r1 \<longrightarrow> view s' b k = Some d)"
    and "mc_StatObject c b k s = (r2, s') \<Longrightarrow> view s' = view s \<and>
      (case r2 of Inr n \<Rightarrow> \<exists>d. view s b k = Some d \<and> n = int (length d)
                | Inl e \<Rightarrow> e = NoSuchKey \<longrightarrow> view s b k = None)"
    and "mc_GetObject c b k s = (r3, s') \<Longrightarrow> view s' = view s \<and> (\<forall>obj. r3 = Inr obj \<longrightarrow>
        (\<forall>n ds e. 0 < n \<longrightarrow> ob_Read obj n = (ds, e) \<longrightarrow> (\<forall>x \<in> set ds. length x \<le> n) \<and>
           (e = None \<longrightarrow> view s b k = Some (concat ds))) \<and>
        (\<forall>m. ob_Stat obj = Inr m \<longrightarrow> (\<exists>d. view s b k = Some d \<and> m = int (length d))))"
    and "mc_RemoveObject c b k s = (r4, s') \<Longrightarrow>
      same_but b k (view s) (view s') \<and> (\<not> isl r4 \<longrightarrow> view s' b k = None)"
  subgoal by (rule assms [unfolded minio_ok_def, THEN conjunct1, unfolded put_ok_def,
        THEN spec, THEN spec, THEN spec, THEN spec, THEN spec, THEN spec, THEN spec, THEN mp])
  subgoal by (rule assms [unfolded minio_ok_def, THEN conjunct2, THEN conjunct1, unfolded stat_ok_def,
        THEN spec, THEN spec, THEN spec, THEN spec, THEN spec, THEN mp])
  subgoal by (rule assms [unfolded minio_ok_def, THEN conjunct2, THEN conjunct2, THEN conjunct1, unfolded get_ok_def,
        THEN spec, THEN spec, THEN spec, THEN spec, THEN spec, THEN mp])
  subgoal by (rule assms [unfolded minio_ok_def, THEN conjunct2, THEN conjunct2, THEN conjunct2, unfolded remove_ok_def,
        THEN spec, THEN spec, THEN spec, THEN spec, THEN spec, THEN mp])
  done

lemma wp_Put:
  assumes "minio_ok c view" and "\<And>s. same_but b k (view (objs w)) (view s) \<Longrightarrow> view s b k = Some d \<Longrightarrow> Q () (w\<lparr>objs := s\<rparr>)"
    and "\<And>e s. same_but b k (view (objs w)) (view s) \<Longrightarrow> R (ErrMinio e) (w\<lparr>objs := s\<rparr>)" and "n = int (length d)"
  shows "wp (ObjectStorage_Put c b k d n ct) Q R w"
proof -
  obtain r s where p: "mc_PutObject c b k d (int (length d)) ct (objs w) = (r, s)" by fastforce
  from assms(1) p have "same_but b k (view (objs w)) (view s) \<and> (\<not> isl r \<longrightarrow> view s b k = Some d)"
    by (rule minio_okD(1))
  with p assms(2-4) show ?thesis
    by (cases r) (auto simp: ObjectStorage_Put_def minio_call_def wp_def)
qed

lemma wp_Stat:
  assumes "minio_ok c view"
    and "\<And>d s. view s = view (objs w) \<Longrightarrow> view s b k = Some d \<Longrightarrow> Q (int (length d)) (w\<lparr>objs := s\<rparr>)"
    and "\<And>e s. view s = view (objs w) \<Longrightarrow> e = BlobErrObjectNotFound \<and> view s b k = None \<or> (\<exists>m. e = ErrMinio m) \<Longrightarrow>
           R e (w\<lparr>objs := s\<rparr>)"
  shows "wp (ObjectStorage_Stat c b k) Q R w"
proof -
  obtain r s where p: "mc_StatObject c b k (objs w) = (r, s)" by fastforce
  from assms(1) p have "view s = view (objs w) \<and>
      (case r of Inr n \<Rightarrow> \<exists>d. view (objs w) b k = Some d \<and> n = int (length d)
               | Inl e \<Rightarrow> e = NoSuchKey \<longrightarrow> view (objs w) b k = None)"
    by (rule minio_okD(2))
  with p assms(2,3) show ?thesis
    by (cases r) (auto simp: ObjectStorage_Stat_def minio_call_def wp_def handle_def ret_def throw_def)
qed

lemma wp_Delete:
  assumes "minio_ok c view" and "\<And>s. same_but b k (view (objs w)) (view s) \<Longrightarrow> view s b k = None \<Longrightarrow> Q () (w\<lparr>objs := s\<rparr>)"
    and "\<And>e s. same_but b k (view (objs w)) (view s) \<Longrightarrow> R (ErrMinio e) (w\<lparr>objs := s\<rparr>)"
  shows "wp (ObjectStorage_Delete c b k) Q R w"
proof -
  obtain r s where p: "mc_RemoveObject c b k (objs w) = (r, s)" by fastforce
  from assms(1) p have "same_but b k (view (objs w)) (view s) \<and> (\<not> isl r \<longrightarrow> view s b k = None)"
    by (rule minio_okD(4))
  with p assms(2,3) show ?thesis
    by (cases r) (auto simp: ObjectStorage_Delete_def minio_call_def wp_def)
qed

lemma wp_Get:
  assumes "minio_ok c view"
    and "\<And>obj d s. view s = view (objs w) \<Longrightarrow> view s b k = Some d \<Longrightarrow>
      (\<And>n ds e. 0 < n \<Longrightarrow> ob_Read obj n = (ds, e) \<Longrightarrow> (\<forall>x \<in> set ds. length x \<le> n) \<and> (e = None \<longrightarrow> concat ds = d)) \<Longrightarrow>
      Q (obj, int (length d)) (w\<lparr>objs := s\<rparr>)"
    and "\<And>e s. view s = view (objs w) \<Longrightarrow> R (ErrMinio e) (w\<lparr>objs := s\<rparr>)"
  shows "wp (ObjectStorage_Get c b k) Q R w"
proof -
  obtain r s where p: "mc_GetObject c b k (objs w) = (r, s)" by fastforce
  from assms(1) p have *: "view s = view (objs w) \<and> (\<forall>obj. r = Inr obj \<longrightarrow>
        (\<forall>n ds e. 0 < n \<longrightarrow> ob_Read obj n = (ds, e) \<longrightarrow> (\<forall>x \<in> set ds. length x \<le> n) \<and>
           (e = None \<longrightarrow> view (objs w) b k = Some (concat ds))) \<and>
        (\<forall>m. ob_Stat obj = Inr m \<longrightarrow> (\<exists>d. view (objs w) b k = Some d \<and> m = int (length d))))"
    by (rule minio_okD(3))
  show ?thesis
  proof (cases r)
    case (Inl e)
    with p assms(3) * show ?thesis
      by (simp add: ObjectStorage_Get_def minio_call_def wp_def andthen_def handle_def throw_def)
  next
    case (Inr obj)
    show ?thesis
    proof (cases "ob_Stat obj")
      case Inl': (Inl e)
      with Inr p assms(3) * show ?thesis
        by (simp add: ObjectStorage_Get_def minio_call_def wp_def andthen_def handle_def throw_def)
    next
      case Inr': (Inr m)
      with * Inr obtain d where d: "view (objs w) b k = Some d" "m = int (length d)" by blast
      have "Q (obj, int (length d)) (w\<lparr>objs := s\<rparr>)"
        using * Inr d by (intro assms(2)) auto
      with Inr Inr' p d show ?thesis
        by (simp add: ObjectStorage_Get_def minio_call_def wp_def andthen_def handle_def ret_def)
    qed
  qed
qed

subsection \<open>A client in memory\<close>

text \<open>A client that satisfies the contract: the store is an association of keys with contents.\<close>

fun chop :: "nat \<Rightarrow> bytes \<Rightarrow> bytes list" where
  "chop n d = (if n = 0 \<or> d = [] then [] else take n d # chop n (drop n d))"

declare chop.simps [simp del]

type_synonym mem_store = "((string \<times> string) \<times> bytes) list"

definition mem_view :: "mem_store \<Rightarrow> string \<Rightarrow> string \<Rightarrow> bytes option" where
  "mem_view s b k = map_of s (b, k)"

definition mem_client :: "mem_store minio_client" where
  "mem_client =
     \<lparr>mc_PutObject = (\<lambda>b k d _ _ s. (Inr (), ((b, k), d) # s)),
      mc_GetObject = (\<lambda>b k s. (case map_of s (b, k) of
          None \<Rightarrow> Inr \<lparr>ob_Stat = Inl NoSuchKey, ob_Read = (\<lambda>_. ([], Some NoSuchKey))\<rparr>
        | Some d \<Rightarrow> Inr \<lparr>ob_Stat = Inr (int (length d)), ob_Read = (\<lambda>n. (chop n d, None))\<rparr>, s)),
      mc_StatObject = (\<lambda>b k s. (case map_of s (b, k) of None \<Rightarrow> Inl NoSuchKey | Some d \<Rightarrow> Inr (int (length d)), s)),
      mc_RemoveObject = (\<lambda>b k s. (Inr (), filter (\<lambda>e. fst e \<noteq> (b, k)) s))\<rparr>"

lemma chop_props: "0 < n \<Longrightarrow> concat (chop n d) = d \<and> (\<forall>x \<in> set (chop n d). length x \<le> n)"
proof (induction n d rule: chop.induct)
  case (1 n d)
  then show ?case by (subst (1 2) chop.simps) auto
qed

lemma mem_client_healthy: "minio_healthy mem_client mem_view"
proof -
  have filter: "map_of (filter (\<lambda>e. fst e \<noteq> k) s) k' = (if k' = k then None else map_of s k')" for k k' and s :: mem_store
    by (induction s) auto
  show ?thesis
    by (auto simp: minio_healthy_def minio_ok_defs mem_client_def mem_view_def same_but_def filter chop_props
        split: option.splits if_splits)
qed

lemma mem_client_ok: "minio_ok mem_client mem_view"
  using mem_client_healthy by (simp add: minio_healthy_def)

end
