(* ===== verification/Config.thy ===== *)
theory Config
  imports Domain
begin

section \<open>Server configuration (\<open>internal/server/config\<close>)\<close>

text \<open>
  \<open>Load\<close> of \<open>config.go\<close> as a function of the process environment (\<open>os.Getenv\<close>, the empty string for
  an unset variable): the defaults, every check in its order, the errors. The theorem states what a
  configuration that loads guarantees to the other components.
\<close>

record Config =
  cf_GRPCAddr :: string
  cf_GRPCTLSCertPath :: string
  cf_GRPCTLSKeyPath :: string
  cf_LogLevel :: string
  cf_DatabaseURL :: string
  cf_MinioEndpoint :: string
  cf_MinioAccessKey :: string
  cf_MinioSecretKey :: string
  cf_MinioBucket :: string
  cf_MinioUseSSL :: bool
  cf_JWTSecret :: string
  cf_AccessTTLSec :: int
  cf_RefreshTTLSec :: int
  cf_InlineThresholdBytes :: u64
  cf_MaxBlobSizeBytes :: u64
  cf_MaxChunkSizeBytes :: u64
  cf_GRPCMaxMessageBytes :: u64
  cf_UploadSessionTTLHours :: int
  cf_UploadSessionCleanupIntervalMinutes :: int

subsection \<open>Constants\<close>

definition DefaultAccessTTLSec :: int where "DefaultAccessTTLSec = 900"
definition DefaultRefreshTTLSec :: int where "DefaultRefreshTTLSec = 2592000"
definition DefaultInlineThresholdBytes :: u64 where "DefaultInlineThresholdBytes = 256 * 1024"
definition DefaultMaxBlobSizeBytes :: u64 where "DefaultMaxBlobSizeBytes = 104857600"
definition DefaultMaxChunkSizeBytes :: u64 where "DefaultMaxChunkSizeBytes = 8388608"
definition DefaultGRPCMaxMessageBytes :: u64 where "DefaultGRPCMaxMessageBytes = 104857600"
definition DefaultUploadSessionTTLHours :: int where "DefaultUploadSessionTTLHours = 24"
definition DefaultUploadSessionCleanupIntervalMinutes :: int where
  "DefaultUploadSessionCleanupIntervalMinutes = 15"
definition DefaultSyncPullPageSize :: int where "DefaultSyncPullPageSize = 100"
definition MaxSyncPullPageSize :: int where "MaxSyncPullPageSize = 500"
definition MaxSyncBundleRevisionEvents :: int where "MaxSyncBundleRevisionEvents = 500"
definition UploadSessionCleanupListBatchSize :: int where "UploadSessionCleanupListBatchSize = 100"
definition MinJWTSecretLen :: nat where "MinJWTSecretLen = 32"
definition VaultGRPCProtoReserveBytes :: u64 where "VaultGRPCProtoReserveBytes = 512 * 1024"

lemmas config_constants = DefaultAccessTTLSec_def DefaultRefreshTTLSec_def DefaultInlineThresholdBytes_def
  DefaultMaxBlobSizeBytes_def DefaultMaxChunkSizeBytes_def DefaultGRPCMaxMessageBytes_def
  DefaultUploadSessionTTLHours_def DefaultUploadSessionCleanupIntervalMinutes_def
  DefaultSyncPullPageSize_def MaxSyncPullPageSize_def MaxSyncBundleRevisionEvents_def
  UploadSessionCleanupListBatchSize_def MinJWTSecretLen_def VaultGRPCProtoReserveBytes_def

subsection \<open>strings.ToLower\<close>

text \<open>
  Lower-casing of a UTF-8 string. Upper-case ASCII letters and the two other code points whose lower
  case is an ASCII letter (U+0130 and U+212A) are mapped; other bytes are kept. Go maps further
  letters, but never to an ASCII letter, and the code only compares the result with ASCII words.
\<close>

fun ToLower :: "string \<Rightarrow> string" where
  "ToLower [] = []"
| "ToLower (c # s) =
     (if c = CHR 0xC4 \<and> take 1 s = [CHR 0xB0] then CHR ''i'' # ToLower (drop 1 s)
      else if c = CHR 0xE2 \<and> take 2 s = [CHR 0x84, CHR 0xAA] then CHR ''k'' # ToLower (drop 2 s)
      else if 65 \<le> (of_char c :: nat) \<and> (of_char c :: nat) \<le> 90
        then char_of ((of_char c :: nat) + 32) # ToLower s
      else c # ToLower s)"

definition getEnv :: "(string \<Rightarrow> string) \<Rightarrow> string \<Rightarrow> string \<Rightarrow> string" where
  "getEnv Getenv key def = (if Getenv key \<noteq> [] then Getenv key else def)"

definition parseBool :: "string \<Rightarrow> go_error + bool" where
  "parseBool s =
     (let v = ToLower (TrimSpace s) in
      if v \<in> set [''1'', ''true'', ''yes'', ''on''] then Inr True
      else if v \<in> set [''0'', ''false'', ''no'', ''off'', ''''] then Inr False
      else Inl (ErrOther ''invalid bool''))"

subsection \<open>Load\<close>

text \<open>An optional integer variable: absent keeps the default, present must parse and satisfy \<open>ok\<close>.\<close>

definition env_int :: "(string \<Rightarrow> string) \<Rightarrow> string \<Rightarrow> (int \<Rightarrow> bool) \<Rightarrow> string \<Rightarrow> int \<Rightarrow> go_error + int" where
  "env_int Getenv key ok msg def =
     (let v = TrimSpace (Getenv key) in
      if v = [] then Inr def
      else case ParseInt v of
        None \<Rightarrow> Inl (ErrOther (key @ msg))
      | Some n \<Rightarrow> if ok n then Inr n else Inl (ErrOther (key @ msg)))"

definition env_uint :: "(string \<Rightarrow> string) \<Rightarrow> string \<Rightarrow> u64 \<Rightarrow> go_error + u64" where
  "env_uint Getenv key def =
     (let v = TrimSpace (Getenv key) in
      if v = [] then Inr def
      else case ParseUint v of
        None \<Rightarrow> Inl (ErrOther (key @ '' must be a positive integer''))
      | Some n \<Rightarrow> if n = 0 then Inl (ErrOther (key @ '' must be a positive integer'')) else Inr n)"

definition require :: "bool \<Rightarrow> string \<Rightarrow> go_error + 'a \<Rightarrow> go_error + 'a" where
  "require ok msg r = (if ok then r else Inl (ErrOther msg))"

definition bind :: "'e + 'a \<Rightarrow> ('a \<Rightarrow> 'e + 'b) \<Rightarrow> 'e + 'b" where
  "bind r k = (case r of Inl e \<Rightarrow> Inl e | Inr x \<Rightarrow> k x)"

definition Load :: "(string \<Rightarrow> string) \<Rightarrow> go_error + Config" where
  "Load Getenv =
     (let grpcAddr = getEnv Getenv ''GOPHKEEPER_GRPC_ADDR'' ''127.0.0.1:50051'';
          cert = TrimSpace (getEnv Getenv ''GOPHKEEPER_GRPC_TLS_CERT_PATH'' ''certs/server.crt'');
          key = TrimSpace (getEnv Getenv ''GOPHKEEPER_GRPC_TLS_KEY_PATH'' ''certs/server.key'');
          logLevel = ToLower (getEnv Getenv ''GOPHKEEPER_LOG_LEVEL'' ''info'');
          databaseURL = TrimSpace (Getenv ''GOPHKEEPER_DATABASE_URL'');
          endpoint = TrimSpace (getEnv Getenv ''GOPHKEEPER_MINIO_ENDPOINT'' ''127.0.0.1:9000'');
          accessKey = TrimSpace (Getenv ''GOPHKEEPER_MINIO_ACCESS_KEY'');
          secretKey = TrimSpace (Getenv ''GOPHKEEPER_MINIO_SECRET_KEY'');
          bucket = getEnv Getenv ''GOPHKEEPER_MINIO_BUCKET'' ''gophkeeper'';
          jwt = TrimSpace (Getenv ''GOPHKEEPER_JWT_SECRET'');
          positive = (\<lambda>n :: int. 0 < n) in
      bind (parseBool (getEnv Getenv ''GOPHKEEPER_MINIO_USE_SSL'' ''false'')) (\<lambda>useSSL.
      require (logLevel \<in> set [''debug'', ''info'', ''warn'', ''error'']) ''GOPHKEEPER_LOG_LEVEL must be one of''
      (require (cert \<noteq> []) ''GOPHKEEPER_GRPC_TLS_CERT_PATH must not be empty''
      (require (key \<noteq> []) ''GOPHKEEPER_GRPC_TLS_KEY_PATH must not be empty''
      (require (databaseURL \<noteq> []) ''GOPHKEEPER_DATABASE_URL is required''
      (require (endpoint \<noteq> []) ''GOPHKEEPER_MINIO_ENDPOINT is required''
      (require (accessKey \<noteq> [] \<and> secretKey \<noteq> [])
         ''GOPHKEEPER_MINIO_ACCESS_KEY and GOPHKEEPER_MINIO_SECRET_KEY are required''
      (require (jwt \<noteq> []) ''GOPHKEEPER_JWT_SECRET is required''
      (require (MinJWTSecretLen \<le> length jwt) ''GOPHKEEPER_JWT_SECRET must be at least 32 bytes''
      (bind (env_int Getenv ''GOPHKEEPER_ACCESS_TOKEN_TTL_SECONDS'' positive '' must be a positive integer''
          DefaultAccessTTLSec) (\<lambda>accessTTL.
      bind (env_int Getenv ''GOPHKEEPER_REFRESH_TOKEN_TTL_SECONDS'' positive '' must be a positive integer''
          DefaultRefreshTTLSec) (\<lambda>refreshTTL.
      bind (env_uint Getenv ''GOPHKEEPER_INLINE_THRESHOLD_BYTES'' DefaultInlineThresholdBytes) (\<lambda>inline.
      bind (env_uint Getenv ''GOPHKEEPER_MAX_BLOB_SIZE_BYTES'' DefaultMaxBlobSizeBytes) (\<lambda>maxBlob.
      bind (env_uint Getenv ''GOPHKEEPER_MAX_CHUNK_SIZE_BYTES'' DefaultMaxChunkSizeBytes) (\<lambda>maxChunk.
      bind (env_uint Getenv ''GOPHKEEPER_GRPC_MAX_MESSAGE_BYTES'' DefaultGRPCMaxMessageBytes) (\<lambda>maxMsg.
      bind (env_int Getenv ''GOPHKEEPER_UPLOAD_SESSION_TTL_HOURS'' positive '' must be a positive integer''
          DefaultUploadSessionTTLHours) (\<lambda>ttlHours.
      bind (env_int Getenv ''GOPHKEEPER_UPLOAD_SESSION_CLEANUP_INTERVAL_MINUTES'' (\<lambda>n. 0 \<le> n)
          '' must be a non-negative integer'' DefaultUploadSessionCleanupIntervalMinutes) (\<lambda>cleanup.
      require (unat maxMsg < 2 ^ 63) ''GOPHKEEPER_GRPC_MAX_MESSAGE_BYTES exceeds maximum supported on this platform''
      (require (inline \<le> maxBlob)
         ''GOPHKEEPER_INLINE_THRESHOLD_BYTES must not exceed GOPHKEEPER_MAX_BLOB_SIZE_BYTES''
      (Inr \<lparr>cf_GRPCAddr = grpcAddr, cf_GRPCTLSCertPath = cert, cf_GRPCTLSKeyPath = key, cf_LogLevel = logLevel,
        cf_DatabaseURL = databaseURL, cf_MinioEndpoint = endpoint, cf_MinioAccessKey = accessKey,
        cf_MinioSecretKey = secretKey, cf_MinioBucket = bucket, cf_MinioUseSSL = useSSL, cf_JWTSecret = jwt,
        cf_AccessTTLSec = accessTTL, cf_RefreshTTLSec = refreshTTL, cf_InlineThresholdBytes = inline,
        cf_MaxBlobSizeBytes = maxBlob, cf_MaxChunkSizeBytes = maxChunk, cf_GRPCMaxMessageBytes = maxMsg,
        cf_UploadSessionTTLHours = ttlHours, cf_UploadSessionCleanupIntervalMinutes = cleanup\<rparr>))))))))))))))))))))"

subsection \<open>What a loaded configuration guarantees\<close>

lemma bind_InrE: "bind r k = Inr y \<Longrightarrow> (\<And>x. r = Inr x \<Longrightarrow> k x = Inr y \<Longrightarrow> P) \<Longrightarrow> P"
  by (cases r) (simp_all add: bind_def)

lemma require_InrE: "require ok msg r = Inr y \<Longrightarrow> (ok \<Longrightarrow> r = Inr y \<Longrightarrow> P) \<Longrightarrow> P"
  by (simp add: require_def split: if_splits)

lemma env_int_InrE:
  "bind (env_int g key ok msg def) k = Inr y \<Longrightarrow> ok def \<Longrightarrow> (\<And>n. ok n \<Longrightarrow> k n = Inr y \<Longrightarrow> P) \<Longrightarrow> P"
  by (auto simp: env_int_def bind_def Let_def split: if_splits option.splits)

lemma env_uint_InrE:
  "bind (env_uint g key def) k = Inr y \<Longrightarrow> def \<noteq> 0 \<Longrightarrow> (\<And>n. n \<noteq> 0 \<Longrightarrow> k n = Inr y \<Longrightarrow> P) \<Longrightarrow> P"
  by (auto simp: env_uint_def bind_def Let_def split: if_splits option.splits)

text \<open>
  A configuration that loads is usable: the log level is one of the four known ones, the TLS
  paths, the database URL and the object store credentials are present, the JWT secret has at least
  32 bytes, the token and session lifetimes and the size limits are positive, the gRPC message limit
  fits a signed 64-bit integer and the inline threshold does not exceed the blob limit.
\<close>

theorem Load_postcondition:
  assumes "Load g = Inr cfg"
  shows "cf_LogLevel cfg \<in> {''debug'', ''info'', ''warn'', ''error''} \<and>
    cf_GRPCTLSCertPath cfg \<noteq> [] \<and> cf_GRPCTLSKeyPath cfg \<noteq> [] \<and> cf_DatabaseURL cfg \<noteq> [] \<and>
    cf_MinioEndpoint cfg \<noteq> [] \<and> cf_MinioAccessKey cfg \<noteq> [] \<and> cf_MinioSecretKey cfg \<noteq> [] \<and>
    32 \<le> length (cf_JWTSecret cfg) \<and> 0 < cf_AccessTTLSec cfg \<and> 0 < cf_RefreshTTLSec cfg \<and>
    0 < cf_InlineThresholdBytes cfg \<and> 0 < cf_MaxChunkSizeBytes cfg \<and>
    0 < cf_UploadSessionTTLHours cfg \<and> 0 \<le> cf_UploadSessionCleanupIntervalMinutes cfg \<and>
    unat (cf_GRPCMaxMessageBytes cfg) < 2 ^ 63 \<and> cf_InlineThresholdBytes cfg \<le> cf_MaxBlobSizeBytes cfg"
  using assms unfolding Load_def Let_def
  apply (elim env_int_InrE env_uint_InrE bind_InrE require_InrE)
          apply (simp_all only: config_constants)
          apply (simp_all add: word_gt_0)
  apply (elim conjE, hypsubst, simp)
  done

definition demo_getenv :: "string \<Rightarrow> string" where
  "demo_getenv k = (if k = ''GOPHKEEPER_DATABASE_URL'' then ''postgres://db''
     else if k = ''GOPHKEEPER_MINIO_ACCESS_KEY'' then ''minio''
     else if k = ''GOPHKEEPER_MINIO_SECRET_KEY'' then ''minio-secret''
     else if k = ''GOPHKEEPER_JWT_SECRET'' then ''0123456789abcdef0123456789abcdef'' else [])"

theorem Load_postcondition_witness:
  "\<exists>cfg. Load demo_getenv = Inr cfg \<and> 32 \<le> length (cf_JWTSecret cfg) \<and> 0 < cf_AccessTTLSec cfg"
proof -
  obtain cfg where cfg: "Load demo_getenv = Inr cfg"
    by (simp add: Load_def bind_def require_def env_int_def env_uint_def getEnv_def parseBool_def demo_getenv_def
        TrimSpace_graphic is_graphic_def config_constants Let_def)
  from Load_postcondition [OF this] cfg show ?thesis by blast
qed

end
