(* ===== verification/Proto.thy ===== *)
theory Proto
  imports Domain
begin

section \<open>Messages and request context of the gRPC layer\<close>

text \<open>
  The protobuf messages the handlers exchange (\<open>api/proto/gophkeeper/v1\<close>) as records, with proto3
  defaults; a message pointer is an \<open>option\<close>, and a generated getter on a nil message returns the
  default. Further the authenticated subject of a request (\<open>auth_context.go\<close>) and the item type check
  of \<open>item_type.go\<close>.
\<close>

record EncryptedField =
  ef_Ciphertext :: "bytes option"
  ef_Nonce :: "bytes option"

definition GetCiphertext :: "EncryptedField option \<Rightarrow> bytes option" where
  "GetCiphertext f = (case f of None \<Rightarrow> None | Some x \<Rightarrow> ef_Ciphertext x)"

definition GetNonce :: "EncryptedField option \<Rightarrow> bytes option" where
  "GetNonce f = (case f of None \<Rightarrow> None | Some x \<Rightarrow> ef_Nonce x)"

text \<open>\<open>len\<close> and the content of a byte slice that may be nil.\<close>

definition blen :: "bytes option \<Rightarrow> nat" where
  "blen b = (case b of None \<Rightarrow> 0 | Some x \<Rightarrow> length x)"

definition bytes_of :: "bytes option \<Rightarrow> bytes" where
  "bytes_of b = (case b of None \<Rightarrow> [] | Some x \<Rightarrow> x)"

lemma blen_0 [simp]: "blen b = 0 \<longleftrightarrow> bytes_of b = []"
  by (simp add: blen_def bytes_of_def split: option.splits)

text \<open>\<open>append([]byte(nil), b...)\<close>: a copy, nil when b is empty.\<close>

definition append_copy :: "bytes option \<Rightarrow> bytes option" where
  "append_copy b = (if blen b = 0 then None else b)"

subsection \<open>Request context\<close>

record auth_context =
  ac_UserID :: "string option"
  ac_DeviceID :: "string option"

definition WithAuthContext :: "auth_context \<Rightarrow> string \<Rightarrow> string \<Rightarrow> auth_context" where
  "WithAuthContext ctx userID deviceID = ctx\<lparr>ac_UserID := Some userID, ac_DeviceID := Some deviceID\<rparr>"

definition UserIDFromContext :: "auth_context \<Rightarrow> string option" where
  "UserIDFromContext ctx = (case ac_UserID ctx of None \<Rightarrow> None | Some v \<Rightarrow> if v = [] then None else Some v)"

definition DeviceIDFromContext :: "auth_context \<Rightarrow> string option" where
  "DeviceIDFromContext ctx = (case ac_DeviceID ctx of None \<Rightarrow> None | Some v \<Rightarrow> if v = [] then None else Some v)"

text \<open>The first lines of every authenticated handler: \<open>userID, ok := UserIDFromContext(ctx)\<close>.\<close>

definition with_user :: "auth_context \<Rightarrow> (string \<Rightarrow> ('w, go_error, 'a) prog) \<Rightarrow> ('w, go_error, 'a) prog" where
  "with_user ctx k =
     (case UserIDFromContext ctx of
        None \<Rightarrow> throw (status Unauthenticated ''missing auth context'')
      | Some userID \<Rightarrow> k userID)"

lemma UserID_roundtrip: "UserIDFromContext (WithAuthContext ctx u d) = (if u = [] then None else Some u)"
  by (simp add: UserIDFromContext_def WithAuthContext_def)

subsection \<open>Item types\<close>

text \<open>CREDENTIAL = 1, TEXT = 2, CARD = 3, OTP = 4, BINARY = 5; any other number is not concrete.\<close>

definition concreteProtoItemType :: "int \<Rightarrow> int option" where
  "concreteProtoItemType t = (if t \<in> set [1, 2, 3, 4, 5] then Some t else None)"

end
