(* ===== verification/BlobHandler.thy ===== *)
theory BlobHandler
  imports BlobRepo ObjectStorage Config Proto
begin

section \<open>The blob service (\<open>internal/server/grpcserver/blob_handler.go\<close>)\<close>

text \<open>
  Upload in three calls (StartBlobUpload, the client stream UploadBlob, CommitBlobUpload) and the
  server stream DownloadBlob. A dependency that may be nil is an \<open>option\<close> field of the handler.

  A client stream is the list of its messages and how it ends: \<open>None\<close> is EOF, \<open>Some e\<close> an error of
  Recv; \<open>st_close\<close> is the result of SendAndClose. A server stream is the list of messages sent;
  \<open>sendErr n\<close> is the result of the n-th Send. The digest sha256 is a parameter: a function from bytes
  to bytes. Writes to the digest and to the buffer do not fail (documented behaviour of the standard
  library), so these branches of the source are not reached. The per-session mutex of
  \<open>upload_session_lock.go\<close> makes UploadBlob calls on one session sequential, as they are here.
\<close>

subsection \<open>Messages and the handler\<close>

record StartBlobUploadRequest =
  sbu_ExpectedSize :: u64
  sbu_ExpectedChecksum :: "bytes option"
  sbu_ContentKind :: string
  sbu_FileName :: string
  sbu_MimeType :: string

record StartBlobUploadResponse =
  sbr_UploadSessionId :: string
  sbr_BlobId :: string
  sbr_MaxChunkSize :: u64
  sbr_ExpiresAt :: time

datatype UploadBlobRequest = UploadBlobHeader string | UploadBlobChunk u64 "bytes option" | UploadBlobEmpty

record UploadStream =
  st_msgs :: "UploadBlobRequest list"
  st_end :: "go_error option"
  st_close :: "go_error option"

record UploadBlobResponse =
  ubr_UploadSessionId :: string
  ubr_BlobId :: string
  ubr_ReceivedSize :: u64
  ubr_Status :: BlobStatus

record BlobInfo =
  bi_BlobId :: string
  bi_UserId :: string
  bi_ObjectKey :: string
  bi_SizeBytes :: u64
  bi_Checksum :: "bytes option"
  bi_ContentKind :: string
  bi_FileName :: string
  bi_MimeType :: string
  bi_Status :: BlobStatus
  bi_CreatedAt :: time
  bi_CommittedAt :: "time option"
  bi_DeletedAt :: "time option"

datatype DownloadBlobResponse = DownloadBlobHeader BlobInfo | DownloadBlobChunk u64 bytes

record 'o blobHandler =
  bh_env :: env
  bh_sha256 :: "bytes \<Rightarrow> bytes"
  bh_cfg :: "Config option"
  bh_uploadLocks :: "unit option"
  bh_uploads :: "'o world UploadSessionStore option"
  bh_blobRepo :: "'o world BlobRepo option"
  bh_blobStorage :: "'o world ObjectStorage option"

definition uploadLockKey :: "string \<Rightarrow> string \<Rightarrow> string" where
  "uploadLockKey userID sessionID = userID @ [CHR 0x00] @ sessionID"

definition toProtoBlobInfo :: "Blob \<Rightarrow> BlobInfo" where
  "toProtoBlobInfo b =
     \<lparr>bi_BlobId = bl_BlobID b, bi_UserId = bl_UserID b, bi_ObjectKey = bl_ObjectKey b,
      bi_SizeBytes = bl_SizeBytes b, bi_Checksum = append_copy (bl_Checksum b), bi_ContentKind = bl_ContentKind b,
      bi_FileName = (case bl_FileName b of None \<Rightarrow> [] | Some s \<Rightarrow> s),
      bi_MimeType = (case bl_MimeType b of None \<Rightarrow> [] | Some s \<Rightarrow> s),
      bi_Status = bl_Status b, bi_CreatedAt = bl_CreatedAt b, bi_CommittedAt = bl_CommittedAt b,
      bi_DeletedAt = bl_DeletedAt b\<rparr>"

subsection \<open>StartBlobUpload\<close>

text \<open>\<open>time.Duration(hours) * time.Hour\<close> in microseconds: 64-bit nanoseconds, with wrap-around.\<close>

definition hours_duration :: "int \<Rightarrow> int" where
  "hours_duration h = sint (word_of_int h * 3600000000000 :: u64) div 1000"

definition object_key :: "string \<Rightarrow> string \<Rightarrow> string" where
  "object_key userID blobID = ''users/'' @ userID @ ''/blobs/'' @ blobID"

definition trimmed_opt :: "string \<Rightarrow> string option" where
  "trimmed_opt s = (if TrimSpace s = [] then None else Some (TrimSpace s))"

definition StartBlobUpload ::
  "'o blobHandler \<Rightarrow> auth_context \<Rightarrow> StartBlobUploadRequest option \<Rightarrow> ('o, StartBlobUploadResponse) server" where
  "StartBlobUpload h ctx req = with_user ctx (\<lambda>userID.
     case req of None \<Rightarrow> throw (status InvalidArgument ''request is required'') | Some req \<Rightarrow>
     (case (bh_cfg h, bh_uploads h, bh_blobRepo h, bh_blobStorage h) of
        (Some cfg, Some uploads, Some _, Some _) \<Rightarrow>
          guard (cf_UploadSessionTTLHours cfg \<le> 0) (status Internal ''blob: upload session ttl is not configured'')
          (guard (cf_MaxBlobSizeBytes cfg < sbu_ExpectedSize req)
             (statusf InvalidArgument ''expected_size exceeds max_blob_size_bytes (%d)'' [FormatUint (cf_MaxBlobSizeBytes cfg)])
          (guard (blen (sbu_ExpectedChecksum req) = 0) (status InvalidArgument ''expected_checksum is required'')
          (let contentKind = TrimSpace (sbu_ContentKind req) in
           guard (contentKind = []) (status InvalidArgument ''content_kind is required'')
          (guard (cf_MaxChunkSizeBytes cfg = 0) (status Internal ''max_chunk_size_bytes is not configured'')
          (andthen (uuid_NewString (bh_env h)) (\<lambda>blobUUID.
           andthen (uuid_NewString (bh_env h)) (\<lambda>sessionID.
           andthen (time_Now (bh_env h)) (\<lambda>now.
           let expires = now + hours_duration (cf_UploadSessionTTLHours cfg);
               brow = \<lparr>bl_BlobID = blobUUID, bl_UserID = userID, bl_ObjectKey = object_key userID blobUUID,
                 bl_SizeBytes = sbu_ExpectedSize req, bl_Checksum = append_copy (sbu_ExpectedChecksum req),
                 bl_ContentKind = contentKind, bl_FileName = trimmed_opt (sbu_FileName req),
                 bl_MimeType = trimmed_opt (sbu_MimeType req), bl_Status = StatusPending, bl_CreatedAt = now,
                 bl_CommittedAt = None, bl_DeletedAt = None, bl_FailedAt = None\<rparr>;
               us = \<lparr>us_UploadSessionID = sessionID, us_BlobID = blobUUID, us_UserID = userID,
                 us_ExpectedSize = sbu_ExpectedSize req, us_ExpectedChecksum = append_copy (sbu_ExpectedChecksum req),
                 us_ReceivedSize = 0, us_Status = UploadSessionOpen, us_ExpiresAt = expires, us_CreatedAt = now,
                 us_UpdatedAt = now\<rparr> in
           handle (up_StartSession uploads brow us)
             (\<lambda>_. throw (status Internal ''blob: start upload failed''))
             (\<lambda>_. ret \<lparr>sbr_UploadSessionId = sessionID, sbr_BlobId = blobUUID,
                sbr_MaxChunkSize = cf_MaxChunkSizeBytes cfg, sbr_ExpiresAt = expires\<rparr>)))))))))
      | _ \<Rightarrow> throw (status Internal ''blob: not configured'')))"

subsection \<open>UploadBlob\<close>

definition abortUpload ::
  "'o blobHandler \<Rightarrow> 'o world UploadSessionStore \<Rightarrow> 'o world BlobRepo \<Rightarrow> 'o world ObjectStorage \<Rightarrow>
   string \<Rightarrow> string \<Rightarrow> string \<Rightarrow> string \<Rightarrow> ('o, unit) server" where
  "abortUpload h uploads repo storage userID sessionID blobID objectKey =
     andthen (ignore (up_DeleteSession uploads userID sessionID)) (\<lambda>_.
     andthen (if blobID \<noteq> [] then andthen (time_Now (bh_env h)) (\<lambda>now. ignore (br_MarkFailed repo userID blobID now))
              else ret ()) (\<lambda>_.
     if objectKey \<noteq> [] then ignore (os_Delete storage objectKey) else ret ()))"

text \<open>The receive loop: the buffered bytes, the running total and the expected chunk index.\<close>

fun recv_chunks ::
  "('o, unit) server \<Rightarrow> u64 \<Rightarrow> u64 \<Rightarrow> go_error option \<Rightarrow> UploadBlobRequest list \<Rightarrow> bytes \<Rightarrow> u64 \<Rightarrow> u64 \<Rightarrow>
   ('o, bytes \<times> u64) server" where
  "recv_chunks abort maxChunk expected fin [] buf tot nextChunk =
     (case fin of None \<Rightarrow> ret (buf, tot) | Some e \<Rightarrow> throw e)"
| "recv_chunks abort maxChunk expected fin (m # ms) buf tot nextChunk =
     (case m of
        UploadBlobChunk idx data \<Rightarrow>
          (let n = word_of_nat (blen data) :: u64 in
           if idx \<noteq> nextChunk then
             andthen abort (\<lambda>_. throw (statusf InvalidArgument ''unexpected chunk_index: want %d'' [FormatUint nextChunk]))
           else if maxChunk < n then
             andthen abort (\<lambda>_. throw (statusf InvalidArgument ''chunk exceeds max_chunk_size (%d)'' [FormatUint maxChunk]))
           else if expected < tot + n then
             andthen abort (\<lambda>_. throw (status InvalidArgument ''total upload size exceeds expected_size''))
           else recv_chunks abort maxChunk expected fin ms (buf @ bytes_of data) (tot + n) (nextChunk + 1))
      | _ \<Rightarrow> throw (status InvalidArgument ''expected chunk after header''))"

definition content_type :: "Blob \<Rightarrow> string" where
  "content_type b =
     (case bl_MimeType b of
        Some mt \<Rightarrow> if TrimSpace mt \<noteq> [] then TrimSpace mt
                   else if TrimSpace (bl_ContentKind b) \<noteq> [] then bl_ContentKind b else ''application/octet-stream''
      | None \<Rightarrow> if TrimSpace (bl_ContentKind b) \<noteq> [] then bl_ContentKind b else ''application/octet-stream'')"

definition load_session ::
  "'o world UploadSessionStore \<Rightarrow> string \<Rightarrow> string \<Rightarrow> ('o, UploadSession) server" where
  "load_session uploads userID sessionID =
     handle (up_GetSession uploads userID sessionID)
       (\<lambda>e. if e = ErrUploadSessionNotFound then throw (status NotFound ''upload session not found'')
             else throw (status Internal ''blob: load session failed''))
       ret"

definition load_blob :: "'o world BlobRepo \<Rightarrow> string \<Rightarrow> string \<Rightarrow> ('o, Blob) server" where
  "load_blob repo userID blobID =
     handle (br_GetByID repo userID blobID)
       (\<lambda>e. if e = BlobErrNotFound then throw (status NotFound ''blob not found'')
             else throw (status Internal ''blob: load blob failed''))
       ret"

text \<open>What follows the receive loop: size, checksum and expiry checks, the object, the session.\<close>

definition finish_upload ::
  "'o blobHandler \<Rightarrow> 'o world UploadSessionStore \<Rightarrow> 'o world BlobRepo \<Rightarrow> 'o world ObjectStorage \<Rightarrow>
   string \<Rightarrow> string \<Rightarrow> UploadSession \<Rightarrow> Blob \<Rightarrow> go_error option \<Rightarrow> bytes \<times> u64 \<Rightarrow> ('o, UploadBlobResponse) server" where
  "finish_upload h uploads repo storage userID sessionID sess bmeta close rcvd =
     (let (buf, tot) = rcvd;
          abort = abortUpload h uploads repo storage userID sessionID (us_BlobID sess) (bl_ObjectKey bmeta) in
      if tot \<noteq> us_ExpectedSize sess then
        andthen abort (\<lambda>_. throw (status InvalidArgument ''received size does not match expected_size''))
      else if bh_sha256 h buf \<noteq> bytes_of (us_ExpectedChecksum sess) then
        andthen abort (\<lambda>_. throw (status InvalidArgument ''checksum mismatch''))
      else andthen (time_Now (bh_env h)) (\<lambda>now.
        if us_ExpiresAt sess < now then
          andthen abort (\<lambda>_. throw (status FailedPrecondition ''upload session expired''))
        else handle (os_Put storage (bl_ObjectKey bmeta) buf (sint tot) (content_type bmeta))
          (\<lambda>_. andthen abort (\<lambda>_. throw (status Internal ''blob: storage upload failed'')))
          (\<lambda>_. handle (up_CompleteClientUpload uploads userID sessionID tot)
            (\<lambda>e. andthen (if e \<noteq> ErrUploadSessionNotOpen then
                     andthen (ignore (os_Delete storage (bl_ObjectKey bmeta))) (\<lambda>_.
                       abortUpload h uploads repo storage userID sessionID (us_BlobID sess) [])
                   else ret ())
                 (\<lambda>_. throw (status Internal ''blob: finalize upload failed'')))
            (\<lambda>_. case close of
                Some e \<Rightarrow> throw e
              | None \<Rightarrow> ret \<lparr>ubr_UploadSessionId = sessionID, ubr_BlobId = us_BlobID sess,
                  ubr_ReceivedSize = tot, ubr_Status = StatusUploading\<rparr>))))"

definition UploadBlob :: "'o blobHandler \<Rightarrow> auth_context \<Rightarrow> UploadStream \<Rightarrow> ('o, UploadBlobResponse) server" where
  "UploadBlob h ctx stream = with_user ctx (\<lambda>userID.
     case (bh_cfg h, bh_uploads h, bh_blobRepo h, bh_blobStorage h, bh_uploadLocks h) of
       (Some cfg, Some uploads, Some repo, Some storage, Some _) \<Rightarrow>
         (case st_msgs stream of
            [] \<Rightarrow> throw (case st_end stream of None \<Rightarrow> ErrOther ''EOF'' | Some e \<Rightarrow> e)
          | msg # rest \<Rightarrow>
             (case msg of
                UploadBlobHeader sid \<Rightarrow>
                  guard (TrimSpace sid = [])
                    (status InvalidArgument ''first message must be UploadBlobHeader with upload_session_id'')
                  (let sessionID = TrimSpace sid in
                   andthen (load_session uploads userID sessionID) (\<lambda>sess.
                   andthen (time_Now (bh_env h)) (\<lambda>now.
                   if us_ExpiresAt sess < now then
                     andthen (abortUpload h uploads repo storage userID sessionID (us_BlobID sess) []) (\<lambda>_.
                       throw (status FailedPrecondition ''upload session expired''))
                   else guard (us_Status sess \<noteq> UploadSessionOpen) (status FailedPrecondition ''upload session is not open'')
                   (andthen (load_blob repo userID (us_BlobID sess)) (\<lambda>bmeta.
                    guard (bl_Status bmeta \<noteq> StatusPending) (status FailedPrecondition ''blob is not pending upload'')
                    (andthen (recv_chunks
                        (abortUpload h uploads repo storage userID sessionID (us_BlobID sess) (bl_ObjectKey bmeta))
                        (cf_MaxChunkSizeBytes cfg) (us_ExpectedSize sess) (st_end stream) rest [] 0 0)
                      (finish_upload h uploads repo storage userID sessionID sess bmeta (st_close stream))))))))
              | _ \<Rightarrow> throw (status InvalidArgument ''first message must be UploadBlobHeader with upload_session_id'')))
     | _ \<Rightarrow> throw (status Internal ''blob: not configured''))"

subsection \<open>CommitBlobUpload\<close>

definition commit_error :: "go_error \<Rightarrow> go_error" where
  "commit_error e =
     (if e = ErrUploadSessionNotFound then status NotFound ''upload session not found''
      else if e = ErrUploadSessionExpired then status FailedPrecondition ''upload session expired''
      else if e = ErrUploadSessionNotAwaitingCommit then status FailedPrecondition ''upload is not ready to commit''
      else if e = BlobErrNotFound then status FailedPrecondition ''blob commit rejected''
      else status Internal ''blob: commit failed'')"

definition CommitBlobUpload ::
  "'o blobHandler \<Rightarrow> auth_context \<Rightarrow> string option \<Rightarrow> ('o, BlobInfo) server" where
  "CommitBlobUpload h ctx req = with_user ctx (\<lambda>userID.
     guard (case req of None \<Rightarrow> True | Some sid \<Rightarrow> TrimSpace sid = [])
       (status InvalidArgument ''upload_session_id is required'')
     (case (bh_uploads h, bh_blobRepo h, bh_blobStorage h) of
        (Some uploads, Some repo, Some storage) \<Rightarrow>
          (let sessionID = TrimSpace (the req) in
           andthen (load_session uploads userID sessionID) (\<lambda>sess.
           andthen (time_Now (bh_env h)) (\<lambda>now.
           guard (us_ExpiresAt sess < now) (status FailedPrecondition ''upload session expired'')
           (guard (us_Status sess \<noteq> UploadSessionAwaitingCommit) (status FailedPrecondition ''upload is not ready to commit'')
           (andthen (load_blob repo userID (us_BlobID sess)) (\<lambda>bmeta.
            guard (bl_Status bmeta \<noteq> StatusUploading) (status FailedPrecondition ''blob is not ready to commit'')
            (andthen (handle (os_Stat storage (bl_ObjectKey bmeta))
               (\<lambda>e. if e = BlobErrObjectNotFound then throw (status FailedPrecondition ''blob object missing from storage'')
                     else throw (status Internal ''blob: stat object failed''))
               ret) (\<lambda>stSize.
            guard (stSize < 0 \<or> word_of_int stSize \<noteq> bl_SizeBytes bmeta)
              (status FailedPrecondition ''stored object size does not match metadata'')
            (andthen (time_Now (bh_env h)) (\<lambda>now.
             handle (up_CommitUploadedBlob uploads userID sessionID now)
               (\<lambda>e. throw (commit_error e))
               (\<lambda>_. handle (br_GetByID repo userID (us_BlobID sess))
                 (\<lambda>_. throw (status Internal ''blob: reload after commit failed''))
                 (\<lambda>b. ret (toProtoBlobInfo b)))))))))))))
      | _ \<Rightarrow> throw (status Internal ''blob: not configured'')))"

subsection \<open>DownloadBlob\<close>

text \<open>The messages sent so far come back with an error as well.\<close>

type_synonym 'o download = "('o world, go_error \<times> DownloadBlobResponse list, DownloadBlobResponse list) prog"

definition nothing_sent :: "('o, 'a) server \<Rightarrow> ('o world, go_error \<times> DownloadBlobResponse list, 'a) prog" where
  "nothing_sent m = handle m (\<lambda>e. throw (e, [])) ret"

text \<open>The copy loop over the pieces the reader returns; an empty piece is not sent.\<close>

fun send_chunks ::
  "(nat \<Rightarrow> go_error option) \<Rightarrow> bytes list \<Rightarrow> minio_error option \<Rightarrow> u64 \<Rightarrow> u64 \<Rightarrow> DownloadBlobResponse list \<Rightarrow>
   (go_error \<times> DownloadBlobResponse list) + (u64 \<times> DownloadBlobResponse list)" where
  "send_chunks sendErr [] fin sent idx out =
     (case fin of None \<Rightarrow> Inr (sent, out) | Some _ \<Rightarrow> Inl (status Internal ''blob: read object failed'', out))"
| "send_chunks sendErr (d # ds) fin sent idx out =
     (if d = [] then send_chunks sendErr ds fin sent idx out
      else case sendErr (length out) of
        Some e \<Rightarrow> Inl (e, out)
      | None \<Rightarrow> send_chunks sendErr ds fin (sent + word_of_nat (length d)) (idx + 1) (out @ [DownloadBlobChunk idx d]))"

definition DownloadBlob ::
  "'o blobHandler \<Rightarrow> auth_context \<Rightarrow> string option \<Rightarrow> (nat \<Rightarrow> go_error option) \<Rightarrow> 'o download" where
  "DownloadBlob h ctx req sendErr =
     (case UserIDFromContext ctx of None \<Rightarrow> throw (status Unauthenticated ''missing auth context'', []) | Some userID \<Rightarrow>
      guard (case req of None \<Rightarrow> True | Some b \<Rightarrow> TrimSpace b = []) (status InvalidArgument ''blob_id is required'', [])
      (case (bh_cfg h, bh_blobRepo h, bh_blobStorage h) of
         (Some cfg, Some repo, Some storage) \<Rightarrow>
           andthen (nothing_sent (load_blob repo userID (TrimSpace (the req)))) (\<lambda>bmeta.
           guard (bl_Status bmeta \<noteq> StatusCommitted) (status FailedPrecondition ''blob is not committed'', [])
           (guard (bl_DeletedAt bmeta \<noteq> None) (status NotFound ''blob not found'', [])
           (handle (os_Get storage (bl_ObjectKey bmeta))
             (\<lambda>_. throw (status Internal ''blob: open object failed'', []))
             (\<lambda>(rc, sz).
              guard (0 \<le> sz \<and> word_of_int sz \<noteq> bl_SizeBytes bmeta) (status Internal ''blob: object size mismatch'', [])
              (case sendErr 0 of Some e \<Rightarrow> throw (e, []) | None \<Rightarrow>
               (let out = [DownloadBlobHeader (toProtoBlobInfo bmeta)] in
                guard (cf_MaxChunkSizeBytes cfg = 0) (status Internal ''max_chunk_size_bytes is not configured'', out)
                (case send_chunks sendErr (fst (ob_Read rc (unat (cf_MaxChunkSizeBytes cfg))))
                        (snd (ob_Read rc (unat (cf_MaxChunkSizeBytes cfg)))) 0 0 out of
                   Inl e \<Rightarrow> throw e
                 | Inr (sent, out) \<Rightarrow>
                     guard (sent \<noteq> bl_SizeBytes bmeta) (status Internal ''blob: short read from storage'', out)
                     (ret out))))))))
       | _ \<Rightarrow> throw (status Internal ''blob: not configured'', [])))"

end
