(* ===== verification/Demo.thy ===== *)
theory Demo
  imports Database
begin

section \<open>Concrete environments\<close>

text \<open>
  A concrete environment and small concrete databases, on which the theorems of the development are
  instantiated: identifiers \<open>id-0\<close>, \<open>id-1\<close>, .., a clock that advances one microsecond per call, no
  failures (or one failing call), byte order of strings, exact timestamps.
\<close>

fun str_le :: "string \<Rightarrow> string \<Rightarrow> bool" where
  "str_le [] _ = True"
| "str_le (_ # _) [] = False"
| "str_le (a # as) (b # bs) =
     ((of_char a :: nat) < of_char b \<or> (of_char a :: nat) = of_char b \<and> str_le as bs)"

definition demo_env :: env where
  "demo_env = \<lparr>env_uuid = (\<lambda>n. ''id-'' @ show_nat n), env_clock = int, env_db_clock = int,
     env_db_fault = (\<lambda>_. NoFault), env_text_le = str_le, env_to_timestamp = (\<lambda>n. n div 1000)\<rparr>"

text \<open>The same, but the n-th external call is a database call that fails before it does anything.\<close>

definition demo_env_failing :: "nat \<Rightarrow> env" where
  "demo_env_failing n = demo_env\<lparr>env_db_fault := (\<lambda>m. if m = n then FailBefore else NoFault)\<rparr>"

definition demo_user :: "string \<Rightarrow> User" where
  "demo_user u = \<lparr>ur_UserID = u, ur_Login = u, ur_PasswordHash = Some [], ur_PasswordSalt = Some [],
     ur_KDFAlgorithm = ''argon2id'', ur_KDFMemoryKiB = 65536, ur_KDFIterations = 3, ur_KDFParallelism = 2,
     ur_KDFKeyLength = 32, ur_EncryptedVaultKey = Some [], ur_EncryptedVaultKeyNonce = Some []\<rparr>"

definition demo_db :: database where
  "demo_db = \<lparr>users = [demo_user ''u1'', demo_user ''u2''], devices = [], refresh_tokens = [], blobs = [],
     upload_sessions = [], vault_items = [], revision_log = [], revision_seq = 0, processed_operations = []\<rparr>"

definition demo_world :: "unit world" where
  "demo_world = \<lparr>db = demo_db, objs = (), tick = 0\<rparr>"

lemma digit_chars [simp]:
  "char_of (48 :: nat) = CHR ''0''" "char_of (49 :: nat) = CHR ''1''" "char_of (50 :: nat) = CHR ''2''" "char_of (51 :: nat) = CHR ''3''" "char_of (52 :: nat) = CHR ''4''"
  "char_of (53 :: nat) = CHR ''5''" "char_of (54 :: nat) = CHR ''6''" "char_of (55 :: nat) = CHR ''7''" "char_of (56 :: nat) = CHR ''8''" "char_of (57 :: nat) = CHR ''9''"
  by (simp_all add: char_of_def bit_iff_odd)

lemma demo_env_sel [simp]:
  "env_uuid demo_env n = ''id-'' @ show_nat n" "env_clock demo_env n = int n"
  "env_db_clock demo_env n = int n" "env_db_fault demo_env n = NoFault"
  "env_text_le demo_env = str_le" "env_to_timestamp demo_env t = t div 1000"
  by (simp_all add: demo_env_def)

lemma demo_env_failing_sel [simp]:
  "env_uuid (demo_env_failing k) n = ''id-'' @ show_nat n" "env_clock (demo_env_failing k) n = int n"
  "env_db_clock (demo_env_failing k) n = int n"
  "env_db_fault (demo_env_failing k) n = (if n = k then FailBefore else NoFault)"
  "env_text_le (demo_env_failing k) = str_le" "env_to_timestamp (demo_env_failing k) t = t div 1000"
  by (simp_all add: demo_env_failing_def)

lemma demo_env_reliable [simp]: "reliable demo_env"
  by (simp add: reliable_def demo_env_def)

end
