(* ===== verification/BlobService.thy ===== *)
theory BlobService
  imports BlobHandler Demo
begin

section \<open>The invariant of blobs and upload sessions\<close>

text \<open>
  What the upload protocol maintains in the tables: a session belongs to a blob of the same user with
  the announced size and digest; an open session has a pending (or, when a previous abort was cut
  short, failed) blob, a session awaiting commit has received every byte and its blob is uploading (or
  failed). A committed blob therefore has no session, and no call of the service changes its row.

  The locale \<open>blob_service\<close> is the contract of the stores as the handlers use them: every store
  operation keeps an invariant. Inside it the handlers keep the invariant; it is interpreted on the
  PostgreSQL stores and the object storage adapter, under every pattern of failures.
\<close>

definition status_ok :: "UploadSession \<Rightarrow> BlobStatus \<Rightarrow> bool" where
  "status_ok s st \<longleftrightarrow> (case us_Status s of
      UploadSessionOpen \<Rightarrow> st = StatusPending \<or> st = StatusFailed
    | UploadSessionAwaitingCommit \<Rightarrow> us_ReceivedSize s = us_ExpectedSize s \<and> (st = StatusUploading \<or> st = StatusFailed))"

definition belongs :: "UploadSession \<Rightarrow> Blob \<Rightarrow> bool" where
  "belongs s b \<longleftrightarrow> bl_BlobID b = us_BlobID s \<and> bl_UserID b = us_UserID s \<and>
     bl_SizeBytes b = us_ExpectedSize s \<and> bl_Checksum b = us_ExpectedChecksum s"

definition session_ok :: "Blob list \<Rightarrow> UploadSession \<Rightarrow> bool" where
  "session_ok bs s \<longleftrightarrow> (\<exists>b \<in> set bs. belongs s b \<and> status_ok s (bl_Status b))"

definition blob_ok :: "database \<Rightarrow> bool" where
  "blob_ok d \<longleftrightarrow> distinct (map bl_BlobID (blobs d)) \<and> distinct (map bl_ObjectKey (blobs d)) \<and>
     distinct (map us_UploadSessionID (upload_sessions d)) \<and> distinct (map us_BlobID (upload_sessions d)) \<and>
     (\<forall>s \<in> set (upload_sessions d). session_ok (blobs d) s)"

definition matches :: "Blob \<Rightarrow> UploadSession \<Rightarrow> bool" where
  "matches b s \<longleftrightarrow> belongs s b \<and> bl_Status b = StatusPending \<and> us_Status s = UploadSessionOpen"

subsection \<open>The contract of the stores\<close>

locale blob_service =
  fixes h :: "'o blobHandler" and uploads :: "'o world UploadSessionStore" and repo :: "'o world BlobRepo"
    and storage :: "'o world ObjectStorage" and I :: "'o world \<Rightarrow> bool"
  assumes clock: "keeps I (time_Now (bh_env h))" and ids: "keeps I (uuid_NewString (bh_env h))"
    and start_session: "matches b s \<Longrightarrow> keeps I (up_StartSession uploads b s)"
    and get_session: "keeps I (up_GetSession uploads u sid)"
    and delete_session: "keeps I (up_DeleteSession uploads u sid)"
    and complete_upload: "keeps I (up_CompleteClientUpload uploads u sid n)"
    and commit_blob: "keeps I (up_CommitUploadedBlob uploads u sid at)"
    and get_blob: "keeps I (br_GetByID repo u bid)"
    and mark_failed: "keeps I (br_MarkFailed repo u bid at)"
    and put: "keeps I (os_Put storage key data sz ct)" and get: "keeps I (os_Get storage key)"
    and stat: "keeps I (os_Stat storage key)" and delete: "keeps I (os_Delete storage key)"
begin

lemmas store_ops = clock ids get_session delete_session complete_upload commit_blob get_blob mark_failed
  put get stat delete

lemma keeps_abort: "keeps I (abortUpload h uploads repo storage u sid bid key)"
  unfolding abortUpload_def by (intro keeps_intros store_ops)

lemma keeps_load: "keeps I (load_session uploads u sid)" "keeps I (load_blob repo u bid)"
  unfolding load_session_def load_blob_def by (intro keeps_intros store_ops)+

lemma keeps_recv:
  "keeps I abort \<Longrightarrow> keeps I (recv_chunks abort maxChunk expected fin ms buf tot k)"
  by (induction ms arbitrary: buf tot k)
     (auto simp: Let_def intro!: keeps_intros split: UploadBlobRequest.splits)

lemma keeps_finish:
  "keeps I (finish_upload h uploads repo storage u sid s b close rcvd)"
  unfolding finish_upload_def Let_def by (intro keeps_intros store_ops keeps_abort)

lemma keeps_UploadBlob:
  assumes "bh_uploads h = Some uploads" "bh_blobRepo h = Some repo" "bh_blobStorage h = Some storage"
  shows "keeps I (UploadBlob h ctx stream)"
  unfolding UploadBlob_def with_user_def Let_def assms
  by (auto intro!: keeps_intros store_ops keeps_load keeps_abort keeps_recv keeps_finish
      split: option.splits list.splits UploadBlobRequest.splits)

lemma keeps_StartBlobUpload:
  assumes "bh_uploads h = Some uploads" "bh_blobRepo h = Some repo" "bh_blobStorage h = Some storage"
  shows "keeps I (StartBlobUpload h ctx req)"
  unfolding StartBlobUpload_def with_user_def Let_def assms
  by (auto intro!: keeps_intros store_ops start_session simp: matches_def belongs_def split: option.splits)

lemma keeps_CommitBlobUpload:
  assumes "bh_uploads h = Some uploads" "bh_blobRepo h = Some repo" "bh_blobStorage h = Some storage"
  shows "keeps I (CommitBlobUpload h ctx req)"
  unfolding CommitBlobUpload_def with_user_def Let_def assms
  by (auto intro!: keeps_intros store_ops keeps_load split: option.splits)

lemma keeps_DownloadBlob:
  assumes "bh_blobRepo h = Some repo" "bh_blobStorage h = Some storage"
  shows "keeps I (DownloadBlob h ctx req sendErr)"
  unfolding DownloadBlob_def Let_def nothing_sent_def assms
  by (auto intro!: keeps_intros store_ops keeps_load split: option.splits sum.splits)

end

subsection \<open>The stores of the service meet it\<close>

text \<open>The invariant, and one committed row \<open>b\<close> that stays in the table as it is.\<close>

definition frozen :: "Blob \<Rightarrow> database \<Rightarrow> bool" where
  "frozen b d \<longleftrightarrow> blob_ok d \<and> (bl_Status b = StatusCommitted \<longrightarrow> b \<in> set (blobs d))"

lemma blob_ok_unique:
  assumes "blob_ok d" "a \<in> set (blobs d)" "b \<in> set (blobs d)" "bl_BlobID a = bl_BlobID b"
  shows "a = b"
  using assms by (auto simp: blob_ok_def distinct_map dest: inj_onD)

lemma session_unique:
  assumes "blob_ok d" "a \<in> set (upload_sessions d)" "b \<in> set (upload_sessions d)"
    "us_UploadSessionID a = us_UploadSessionID b \<or> us_BlobID a = us_BlobID b"
  shows "a = b"
  using assms by (auto simp: blob_ok_def distinct_map dest: inj_onD)

text \<open>An update of rows that are not committed, changing columns other than the keys.\<close>

lemma frozen_upd_blobs:
  assumes "frozen b0 d"
    and keys: "\<And>b. bl_BlobID (f b) = bl_BlobID b \<and> bl_ObjectKey (f b) = bl_ObjectKey b"
    and "\<And>b. b \<in> set (blobs d) \<Longrightarrow> P b \<Longrightarrow> bl_Status b \<noteq> StatusCommitted"
    and "\<And>s b. s \<in> set ss \<Longrightarrow> b \<in> set (blobs d) \<Longrightarrow> P b \<Longrightarrow> belongs s b \<Longrightarrow> status_ok' s (bl_Status b) \<Longrightarrow>
           belongs s (f b) \<and> status_ok s (bl_Status (f b))"
    and "\<And>s. s \<in> set ss \<Longrightarrow> \<exists>b \<in> set (blobs d). belongs s b \<and> (if P b then status_ok' s (bl_Status b) else status_ok s (bl_Status b))"
    and "distinct (map us_UploadSessionID ss)" "distinct (map us_BlobID ss)"
  shows "frozen b0 (d\<lparr>blobs := upd_where P f (blobs d), upload_sessions := ss\<rparr>)"
proof -
  have "map bl_BlobID (upd_where P f (blobs d)) = map bl_BlobID (blobs d)"
    "map bl_ObjectKey (upd_where P f (blobs d)) = map bl_ObjectKey (blobs d)"
    by (rule map_upd_where, simp add: keys)+
  moreover have "b0 \<in> set (upd_where P f (blobs d))" if "bl_Status b0 = StatusCommitted"
  proof -
    have "b0 \<in> set (blobs d)" "\<not> P b0" using assms(1,3) that by (auto simp: frozen_def)
    then show ?thesis by (force simp: set_upd_where)
  qed
  moreover have "session_ok (upd_where P f (blobs d)) s" if "s \<in> set ss" for s
    using assms(4,5) [OF that] by (fastforce simp: session_ok_def set_upd_where split: if_splits)
  ultimately show ?thesis using assms(1,6,7) by (auto simp: frozen_def blob_ok_def)
qed

lemma frozen_insert_blob: "frozen b0 d \<Longrightarrow> sql_insert_blob b t d = (r, d') \<Longrightarrow> frozen b0 d'"
  by (auto simp: frozen_def blob_ok_def sql_insert_blob_def session_ok_def list_ex_iff split: if_splits) metis+

lemma frozen_delete_session: "frozen b0 d \<Longrightarrow> sql_delete_session u sid t d = (r, d') \<Longrightarrow> frozen b0 d'"
  by (auto simp: frozen_def blob_ok_def sql_delete_session_def delete_where_def distinct_map_filter)

lemma frozen_mark_failed:
  assumes "frozen b0 d" and "sql_update_blobs (\<lambda>r. blob_key u b r \<and> in_flight r) (set_failed at) t d = (r, d')"
  shows "frozen b0 d'"
proof -
  have d': "d' = d\<lparr>blobs := upd_where (\<lambda>r. blob_key u b r \<and> in_flight r) (set_failed at) (blobs d),
      upload_sessions := upload_sessions d\<rparr>"
    using assms(2) by (auto simp: sql_update_blobs_def)
  show ?thesis
    unfolding d'
    by (rule frozen_upd_blobs [OF assms(1), where status_ok' = status_ok])
       (use assms(1) in \<open>auto simp: set_failed_def in_flight_def belongs_def status_ok_def frozen_def blob_ok_def
          session_ok_def split: UploadSessionStatus.splits\<close>)
qed

lemma frozen_tables:
  assumes "tables d = tables d'"
  shows "frozen b0 d = frozen b0 d'"
  by (simp add: frozen_def blob_ok_def tables_eqD [OF assms])

text \<open>A transaction keeps the invariant when its body does on success: otherwise it is rolled back.\<close>

lemma keeps_frozen_tx:
  assumes "\<And>w x w'. frozen b0 (db w) \<Longrightarrow> body w = (Inr x, w') \<Longrightarrow> frozen b0 (db w')"
  shows "keeps (\<lambda>w. frozen b0 (db w)) (in_tx E body)"
  unfolding keeps_def
proof (intro allI impI)
  fix w :: "'a world"
  assume w: "frozen b0 (db w)"
  obtain r w' where run: "in_tx E body w = (r, w')" by fastforce
  then show "frozen b0 (db (snd (in_tx E body w)))"
  proof (cases rule: in_tx_cases)
    case (rolled_back e)
    with w frozen_tables show ?thesis by (metis run snd_conv)
  next
    case (committed x w1 w2)
    with w assms [of w1 x w2] run show ?thesis by simp
  qed
qed

lemma if_abort_okE:
  assumes "(if b then andthen m (\<lambda>_. throw e) else k) w = (Inr y, w')"
  obtains "\<not> b" and "k w = (Inr y, w')"
  using assms by (cases b) (auto simp: andthen_def handle_def throw_def split: prod.splits sum.splits)

lemma frozen_start:
  assumes "matches b s"
  shows "keeps (\<lambda>w. frozen b0 (db w)) (UploadStore_StartSession E b s)"
  unfolding UploadStore_StartSession_def execInsertBlob_def
proof (rule keeps_frozen_tx)
  fix w w' :: "'a world" and x
  assume w: "frozen b0 (db w)"
    and run: "andthen (stmt E (sql_insert_blob b)) (\<lambda>_. stmt E (sql_insert_session s)) w = (Inr x, w')"
  from run obtain y w1 where 1: "stmt E (sql_insert_blob b) w = (Inr y, w1)"
    and 2: "stmt E (sql_insert_session s) w1 = (Inr x, w')" by (rule andthen_okE)
  note b = stmt_okD [OF 1, THEN conjunct1]
  have w1: "frozen b0 (db w1)" by (rule frozen_insert_blob [OF w b])
  have "b\<lparr>bl_FailedAt := None\<rparr> \<in> set (blobs (db w1))"
    using stmt_ok_db [OF 1] by (auto simp: sql_insert_blob_def split: if_splits)
  then have "session_ok (blobs (db w1)) s"
    unfolding session_ok_def using assms
    by (intro bexI [of _ "b\<lparr>bl_FailedAt := None\<rparr>"]) (auto simp: matches_def belongs_def status_ok_def)
  moreover have "db w' = (db w1)\<lparr>upload_sessions := upload_sessions (db w1) @ [s]\<rparr>"
    "\<forall>r \<in> set (upload_sessions (db w1)). us_UploadSessionID r \<noteq> us_UploadSessionID s \<and> us_BlobID r \<noteq> us_BlobID s"
    using stmt_ok_db [OF 2] by (auto simp: sql_insert_session_def list_ex_iff split: if_splits)
  ultimately show "frozen b0 (db w')" using w1 by (auto simp: frozen_def blob_ok_def)
qed

text \<open>CompleteClientUpload moves a session and its blob forward together.\<close>

lemma frozen_complete:
  assumes d: "frozen b0 d" and s: "find (completable u sid n) (upload_sessions d) = Some s"
  shows "frozen b0 (d\<lparr>blobs := upd_where (blob_in u (us_BlobID s) StatusPending) (\<lambda>r. r\<lparr>bl_Status := StatusUploading\<rparr>) (blobs d),
    upload_sessions := upd_where (completable u sid n) (set_awaiting n now) (upload_sessions d)\<rparr>)"
proof -
  let ?ss = "upd_where (completable u sid n) (set_awaiting n now) (upload_sessions d)"
  note s' = find_SomeD [OF s]
  have ok: "blob_ok d" using d by (simp add: frozen_def)
  have one: "completable u sid n r \<Longrightarrow> r \<in> set (upload_sessions d) \<Longrightarrow> r = s" for r
    using session_unique [OF ok, of r s] s' by (auto simp: completable_def session_key_def)
  have mem: "r = set_awaiting n now s \<or> r \<in> set (upload_sessions d) \<and> us_BlobID r \<noteq> us_BlobID s"
    if "r \<in> set ?ss" for r
    using that one session_unique [OF ok, of _ s] s' by (auto simp: set_upd_where)
  have new: "set_awaiting n now s \<in> set ?ss" using s' by (auto simp: set_upd_where)
  have sok: "session_ok (blobs d) r" if "r \<in> set (upload_sessions d)" for r
    using ok that by (simp add: blob_ok_def)
  have ids: "map us_UploadSessionID ?ss = map us_UploadSessionID (upload_sessions d)"
    "map us_BlobID ?ss = map us_BlobID (upload_sessions d)"
    by (rule map_upd_where, simp add: set_awaiting_def)+
  show ?thesis
  proof (rule frozen_upd_blobs [OF d, where status_ok' = "\<lambda>r st. r = set_awaiting n now s \<and> st = StatusPending"])
    fix r
    assume "r \<in> set ?ss"
    from mem [OF this]
    show "\<exists>b\<in>set (blobs d). belongs r b \<and> (if blob_in u (us_BlobID s) StatusPending b
        then r = set_awaiting n now s \<and> bl_Status b = StatusPending else status_ok r (bl_Status b))"
    proof
      assume r: "r = set_awaiting n now s"
      obtain b where "b \<in> set (blobs d)" "belongs s b" "status_ok s (bl_Status b)"
        using sok s' by (auto simp: session_ok_def)
      with r s' show ?thesis
        by (intro bexI [of _ b]) (auto simp: belongs_def set_awaiting_def status_ok_def completable_def
            session_key_def blob_in_def blob_key_def)
    next
      assume "r \<in> set (upload_sessions d) \<and> us_BlobID r \<noteq> us_BlobID s"
      with sok show ?thesis by (force simp: session_ok_def belongs_def blob_in_def blob_key_def)
    qed
  next
    fix r b
    assume "belongs r b" "r = set_awaiting n now s \<and> bl_Status b = StatusPending"
    with s' show "belongs r (b\<lparr>bl_Status := StatusUploading\<rparr>) \<and> status_ok r (bl_Status (b\<lparr>bl_Status := StatusUploading\<rparr>))"
      by (auto simp: belongs_def status_ok_def set_awaiting_def completable_def)
  qed (use ok ids in \<open>auto simp: blob_in_def blob_ok_def\<close>)
qed

lemma complete_body_ok:
  assumes "complete_body E u sid n w = (Inr x, w')"
  obtains s now where "find (completable u sid n) (upload_sessions (db w)) = Some s" and "bigint_ok n"
    and "upload_sessions (db w') = upd_where (completable u sid n) (set_awaiting n now) (upload_sessions (db w))"
    and "blobs (db w') = upd_where (blob_in u (us_BlobID s) StatusPending) (\<lambda>r. r\<lparr>bl_Status := StatusUploading\<rparr>) (blobs (db w))"
    and "\<exists>b \<in> set (blobs (db w)). blob_in u (us_BlobID s) StatusPending b" and "objs w' = objs w"
proof -
  from assms [unfolded complete_body_def] obtain now w1 where now: "time_Now E w = (Inr now, w1)"
    and h: "handle (stmt E (sql_complete_session u sid n now))
         (\<lambda>e. if e = ErrNoRows then
                andthen (uploadSessionRowExists E sid u) (\<lambda>exists.
                  if \<not> exists then throw ErrUploadSessionNotFound else throw ErrUploadSessionNotOpen)
              else throw e)
         (\<lambda>blobID. andthen (stmt E (sql_update_blobs (blob_in u blobID StatusPending)
                              (\<lambda>r. r\<lparr>bl_Status := StatusUploading\<rparr>))) (\<lambda>bn.
            if bn = 0 then throw BlobErrNotFound else ret ())) w1 = (Inr x, w')"
    by (rule andthen_okE)
  from h obtain bid w2 where s: "stmt E (sql_complete_session u sid n now) w1 = (Inr bid, w2)"
    and b: "andthen (stmt E (sql_update_blobs (blob_in u bid StatusPending)
                              (\<lambda>r. r\<lparr>bl_Status := StatusUploading\<rparr>))) (\<lambda>bn.
            if bn = 0 then throw BlobErrNotFound else ret ()) w2 = (Inr x, w')"
    by (rule handle_okE) (auto simp: andthen_def handle_def throw_def split: prod.splits sum.splits)
  from b obtain bn where b': "stmt E (sql_update_blobs (blob_in u bid StatusPending)
      (\<lambda>r. r\<lparr>bl_Status := StatusUploading\<rparr>)) w2 = (Inr bn, w')" "bn \<noteq> 0"
    by (rule andthen_okE) (auto simp: throw_def ret_def split: if_splits)
  note w1 = time_Now_okD [OF now]
  from stmt_ok_db [OF s] w1 obtain r where r: "find (completable u sid n) (upload_sessions (db w)) = Some r" "bid = us_BlobID r"
    "db w2 = (db w)\<lparr>upload_sessions := upd_where (completable u sid n) (set_awaiting n now) (upload_sessions (db w))\<rparr>"
    "bigint_ok n" "objs w2 = objs w"
    by (auto simp: sql_complete_session_def split: if_splits option.splits)
  from stmt_ok_db [OF b'(1)] r b'(2) show ?thesis
    by (intro that [OF r(1)]) (auto simp: sql_update_blobs_def)
qed

lemma frozen_complete_upload: "keeps (\<lambda>w. frozen b0 (db w)) (UploadStore_CompleteClientUpload E u sid n)"
  unfolding UploadStore_CompleteClientUpload_def
proof (rule keeps_frozen_tx)
  fix w w' :: "'a world" and x
  assume w: "frozen b0 (db w)" and run: "complete_body E u sid n w = (Inr x, w')"
  from run show "frozen b0 (db w')"
  proof (cases rule: complete_body_ok)
    case (1 s now)
    with frozen_complete [OF w 1(1), of now] show ?thesis by (simp add: frozen_def blob_ok_def)
  qed
qed

lemma frozen_commit:
  assumes d: "frozen b0 d" and s: "find (session_key u sid) (upload_sessions d) = Some s"
    and st: "us_Status s = UploadSessionAwaitingCommit"
  shows "frozen b0 (d\<lparr>blobs := upd_where (blob_in u (us_BlobID s) StatusUploading) (set_committed at) (blobs d),
    upload_sessions := delete_where (session_key u sid) (upload_sessions d)\<rparr>)"
proof -
  note s' = find_SomeD [OF s]
  have ok: "blob_ok d" using d by (simp add: frozen_def)
  have other: "us_BlobID r \<noteq> us_BlobID s" if "r \<in> set (upload_sessions d)" "\<not> session_key u sid r" for r
    using session_unique [OF ok, of r s] that s' by auto
  show ?thesis
  proof (rule frozen_upd_blobs [OF d, where status_ok' = "\<lambda>_ _. False"])
    fix r
    assume r: "r \<in> set (delete_where (session_key u sid) (upload_sessions d))"
    then have "us_BlobID r \<noteq> us_BlobID s" "session_ok (blobs d) r"
      using other ok by (auto simp: delete_where_def blob_ok_def)
    then show "\<exists>b\<in>set (blobs d). belongs r b \<and>
        (if blob_in u (us_BlobID s) StatusUploading b then False else status_ok r (bl_Status b))"
      by (force simp: session_ok_def belongs_def blob_in_def blob_key_def)
  qed (use ok in \<open>auto simp: blob_in_def set_committed_def blob_ok_def delete_where_def distinct_map_filter\<close>)
qed

lemma commit_body_ok:
  assumes "commit_body E u sid at w = (Inr x, w')"
  obtains s now where "find (session_key u sid) (upload_sessions (db w)) = Some s" and "now \<le> us_ExpiresAt s"
    and "us_Status s = UploadSessionAwaitingCommit"
    and "upload_sessions (db w') = delete_where (session_key u sid) (upload_sessions (db w))"
    and "blobs (db w') = upd_where (blob_in u (us_BlobID s) StatusUploading) (set_committed at) (blobs (db w))"
    and "\<exists>b \<in> set (blobs (db w)). blob_in u (us_BlobID s) StatusUploading b" and "objs w' = objs w"
proof -
  from assms [unfolded commit_body_def] obtain s w1 where sel: "stmt E (sql_select_session u sid) w = (Inr s, w1)"
    and r1: "andthen (time_Now E) (\<lambda>now.
         guard (us_ExpiresAt s < now) ErrUploadSessionExpired
         (guard (us_Status s \<noteq> UploadSessionAwaitingCommit) ErrUploadSessionNotAwaitingCommit
         (andthen (stmt E (sql_delete_session u sid)) (\<lambda>_.
          andthen (stmt E (sql_update_blobs (blob_in u (us_BlobID s) StatusUploading) (set_committed at))) (\<lambda>n.
          if n = 0 then throw BlobErrNotFound else ret ()))))) w1 = (Inr x, w')"
    by (rule handle_okE) auto
  from r1 obtain now w2 where now: "time_Now E w1 = (Inr now, w2)"
    and live: "\<not> us_ExpiresAt s < now" and st: "us_Status s = UploadSessionAwaitingCommit"
    and r2: "andthen (stmt E (sql_delete_session u sid)) (\<lambda>_.
          andthen (stmt E (sql_update_blobs (blob_in u (us_BlobID s) StatusUploading) (set_committed at))) (\<lambda>n.
          if n = 0 then throw BlobErrNotFound else ret ())) w2 = (Inr x, w')"
    by (rule andthen_okE) (elim guard_okE, rule that, simp_all)
  from r2 obtain n w3 where del: "stmt E (sql_delete_session u sid) w2 = (Inr n, w3)"
    and r3: "andthen (stmt E (sql_update_blobs (blob_in u (us_BlobID s) StatusUploading) (set_committed at))) (\<lambda>n.
          if n = 0 then throw BlobErrNotFound else ret ()) w3 = (Inr x, w')" by (rule andthen_okE)
  from r3 obtain k where mark: "stmt E (sql_update_blobs (blob_in u (us_BlobID s) StatusUploading)
      (set_committed at)) w3 = (Inr k, w')" "k \<noteq> 0"
    by (rule andthen_okE) (auto simp: throw_def ret_def split: if_splits)
  from stmt_ok_db [OF sel] have s: "find (session_key u sid) (upload_sessions (db w)) = Some s" "db w1 = db w" "objs w1 = objs w"
    by (auto simp: sql_select_session_def split: option.splits)
  from live have "now \<le> us_ExpiresAt s" by simp
  then show ?thesis
    using stmt_ok_db [OF del] stmt_ok_db [OF mark(1)] mark(2) time_Now_okD [OF now] s(2,3) st
    by (intro that [OF s(1)]) (auto simp: sql_update_blobs_def sql_delete_session_def)
qed

lemma frozen_commit_blob: "keeps (\<lambda>w. frozen b0 (db w)) (UploadStore_CommitUploadedBlob E u sid at)"
  unfolding UploadStore_CommitUploadedBlob_def
proof (rule keeps_frozen_tx)
  fix w w' :: "'a world" and x
  assume w: "frozen b0 (db w)" and run: "commit_body E u sid at w = (Inr x, w')"
  from run show "frozen b0 (db w')"
  proof (cases rule: commit_body_ok)
    case (1 s now)
    with frozen_commit [OF w 1(1,3), of at] show ?thesis by (simp add: frozen_def blob_ok_def)
  qed
qed

text \<open>A handler wired as \<open>app.RunContext\<close> wires it: PostgreSQL stores, MinIO object storage.\<close>

definition pg_blob_handler ::
  "env \<Rightarrow> (bytes \<Rightarrow> bytes) \<Rightarrow> Config \<Rightarrow> 'o minio_client \<Rightarrow> string \<Rightarrow> 'o blobHandler" where
  "pg_blob_handler E sha cfg c bucket =
     \<lparr>bh_env = E, bh_sha256 = sha, bh_cfg = Some cfg, bh_uploadLocks = Some (), bh_uploads = Some (NewUploadStore E),
      bh_blobRepo = Some (NewBlobRepository E), bh_blobStorage = Some (NewObjectStorage c bucket)\<rparr>"

lemma pg_blob_handler_sel [simp]:
  "bh_env (pg_blob_handler E sha cfg c bucket) = E" "bh_sha256 (pg_blob_handler E sha cfg c bucket) = sha"
  "bh_cfg (pg_blob_handler E sha cfg c bucket) = Some cfg" "bh_uploadLocks (pg_blob_handler E sha cfg c bucket) = Some ()"
  "bh_uploads (pg_blob_handler E sha cfg c bucket) = Some (NewUploadStore E)"
  "bh_blobRepo (pg_blob_handler E sha cfg c bucket) = Some (NewBlobRepository E)"
  "bh_blobStorage (pg_blob_handler E sha cfg c bucket) = Some (NewObjectStorage c bucket)"
  by (simp_all add: pg_blob_handler_def)

lemma store_sel [simp]:
  "up_StartSession (NewUploadStore E) = UploadStore_StartSession E" "up_GetSession (NewUploadStore E) = UploadStore_GetSession E"
  "up_DeleteSession (NewUploadStore E) = UploadStore_DeleteSession E"
  "up_CompleteClientUpload (NewUploadStore E) = UploadStore_CompleteClientUpload E"
  "up_CommitUploadedBlob (NewUploadStore E) = UploadStore_CommitUploadedBlob E"
  "br_Create (NewBlobRepository E) = BlobRepository_Create E" "br_GetByID (NewBlobRepository E) = BlobRepository_GetByID E"
  "br_MarkFailed (NewBlobRepository E) = BlobRepository_MarkFailed E"
  by (simp_all add: NewUploadStore_def NewBlobRepository_def)

interpretation pgb: blob_service "pg_blob_handler E sha cfg c bucket" "NewUploadStore E" "NewBlobRepository E"
  "NewObjectStorage c bucket" "\<lambda>w. frozen b0 (db w)"
  for E sha cfg and c :: "'o minio_client" and bucket b0
proof unfold_locales
  show "keeps (\<lambda>w :: 'o world. frozen b0 (db w)) (up_GetSession (NewUploadStore E) u sid)" for u sid
    unfolding store_sel UploadStore_GetSession_def
    by (intro keeps_intros keeps_stmt) (auto simp: sql_select_session_def split: option.splits)
  show "keeps (\<lambda>w :: 'o world. frozen b0 (db w)) (up_DeleteSession (NewUploadStore E) u sid)" for u sid
    unfolding store_sel UploadStore_DeleteSession_def
    by (intro keeps_intros keeps_stmt) (rule frozen_delete_session)
  show "keeps (\<lambda>w :: 'o world. frozen b0 (db w)) (br_GetByID (NewBlobRepository E) u b)" for u b
    unfolding store_sel BlobRepository_GetByID_def
    by (intro keeps_intros keeps_stmt) (auto simp: sql_select_blob_def split: option.splits)
  show "keeps (\<lambda>w :: 'o world. frozen b0 (db w)) (br_MarkFailed (NewBlobRepository E) u b at)" for u b at
    unfolding store_sel BlobRepository_MarkFailed_def exec_mark_def
    by (intro keeps_intros keeps_stmt) (rule frozen_mark_failed)
qed (simp_all add: keeps_uuid keeps_time_Now keeps_storage frozen_start frozen_complete_upload frozen_commit_blob)

end
