(* ===== verification/BlobProps.thy ===== *)
theory BlobProps
  imports BlobService Demo
begin

section \<open>Properties of the blob service\<close>

text \<open>
  What a successful upload, commit and download guarantee, the round trip of the bytes, and that
  committed blobs never change. Databases may fail at any call; the object store is any client that
  satisfies \<open>minio_ok\<close>.
\<close>

subsection \<open>What success means\<close>

lemma load_session_ok:
  assumes "load_session (NewUploadStore E) u sid w = (Inr s, w1)"
  shows "find (session_key u sid) (upload_sessions (db w)) = Some s" "db w1 = db w" "objs w1 = objs w"
proof -
  from assms obtain w0 where "UploadStore_GetSession E u sid w = (Inr s, w1)"
    unfolding load_session_def by (rule handle_okE) (auto simp: ret_def)
  then have "stmt E (sql_select_session u sid) w = (Inr s, w1)"
    unfolding UploadStore_GetSession_def by (rule handle_okE) (auto simp: ret_def)
  from stmt_ok_db [OF this]
  show "find (session_key u sid) (upload_sessions (db w)) = Some s" "db w1 = db w" "objs w1 = objs w"
    by (auto simp: sql_select_session_def split: option.splits)
qed

lemma GetByID_ok:
  assumes "BlobRepository_GetByID E u bid w = (Inr b, w1)"
  shows "find (blob_key u bid) (blobs (db w)) = Some b" "db w1 = db w" "objs w1 = objs w"
proof -
  from assms have "stmt E (sql_select_blob u bid) w = (Inr b, w1)"
    unfolding BlobRepository_GetByID_def by (rule handle_okE) (auto simp: ret_def)
  from stmt_ok_db [OF this]
  show "find (blob_key u bid) (blobs (db w)) = Some b" "db w1 = db w" "objs w1 = objs w"
    by (auto simp: sql_select_blob_def split: option.splits)
qed

lemma load_blob_ok:
  assumes "load_blob (NewBlobRepository E) u bid w = (Inr b, w1)"
  shows "find (blob_key u bid) (blobs (db w)) = Some b" "db w1 = db w" "objs w1 = objs w"
proof -
  from assms have "BlobRepository_GetByID E u bid w = (Inr b, w1)"
    unfolding load_blob_def by (rule handle_okE) (auto simp: ret_def)
  from GetByID_ok [OF this]
  show "find (blob_key u bid) (blobs (db w)) = Some b" "db w1 = db w" "objs w1 = objs w" by auto
qed

text \<open>The messages of a well-formed upload: numbered chunks.\<close>

fun chunk_msgs :: "u64 \<Rightarrow> bytes option list \<Rightarrow> UploadBlobRequest list" where
  "chunk_msgs k [] = []"
| "chunk_msgs k (d # ds) = UploadBlobChunk k d # chunk_msgs (k + 1) ds"

lemma recv_chunks_ok:
  assumes "recv_chunks abort maxChunk expected fin ms buf tot k w = (Inr (buf', tot'), w')"
    and "unat tot = length buf" and "tot \<le> expected" and "unat expected < 2 ^ 63"
    and "\<And>i d. UploadBlobChunk i d \<in> set ms \<Longrightarrow> blen d < 2 ^ 63"
  shows "w' = w \<and> fin = None \<and> unat tot' = length buf' \<and>
    (\<exists>ds. ms = chunk_msgs k ds \<and> buf' = buf @ concat (map bytes_of ds) \<and> (\<forall>d \<in> set ds. blen d \<le> unat maxChunk))"
  using assms
proof (induction ms arbitrary: buf tot k)
  case Nil
  then show ?case by (auto simp: ret_def throw_def intro!: exI [of _ "[]"] split: option.splits)
next
  case (Cons m ms)
  from Cons.prems(1) obtain d where m: "m = UploadBlobChunk k d" and chunk: "word_of_nat (blen d) \<le> maxChunk"
    and fits: "tot + word_of_nat (blen d) \<le> expected"
    and rest: "recv_chunks abort maxChunk expected fin ms (buf @ bytes_of d) (tot + word_of_nat (blen d)) (k + 1) w
        = (Inr (buf', tot'), w')"
    by (auto simp: Let_def throw_def andthen_def handle_def not_less split: UploadBlobRequest.splits if_splits
        prod.splits sum.splits)
  have d: "blen d < 2 ^ 63" by (rule Cons.prems(5) [of k]) (simp add: m)
  then have u: "unat (word_of_nat (blen d) :: u64) = blen d" by (intro unat_word_of_nat_u64) simp
  have "unat tot < 2 ^ 63" using Cons.prems(3,4) by (simp add: word_le_nat_alt)
  then have sum: "unat (tot + word_of_nat (blen d)) = unat tot + blen d"
    using d u by (subst unat_plus_if_size) (simp add: word_size)
  have len: "blen d = length (bytes_of d)" by (simp add: blen_def bytes_of_def split: option.splits)
  have "w' = w \<and> fin = None \<and> unat tot' = length buf' \<and>
    (\<exists>ds. ms = chunk_msgs (k + 1) ds \<and> buf' = (buf @ bytes_of d) @ concat (map bytes_of ds) \<and> (\<forall>d \<in> set ds. blen d \<le> unat maxChunk))"
    using Cons.prems(2,4,5) sum len fits by (intro Cons.IH [OF rest]) auto
  then obtain ds where ds: "w' = w" "fin = None" "unat tot' = length buf'" "ms = chunk_msgs (k + 1) ds"
    "buf' = (buf @ bytes_of d) @ concat (map bytes_of ds)" "\<forall>d \<in> set ds. blen d \<le> unat maxChunk" by blast
  moreover have "blen d \<le> unat maxChunk" using chunk u by (simp add: word_le_nat_alt)
  ultimately show ?case using m by (intro conjI exI [of _ "d # ds"]) auto
qed

lemma complete_upload_ok:
  assumes "UploadStore_CompleteClientUpload E u sid n w = (Inr x, w')"
  obtains s now where "find (completable u sid n) (upload_sessions (db w)) = Some s" and "bigint_ok n"
    and "upload_sessions (db w') = upd_where (completable u sid n) (set_awaiting n now) (upload_sessions (db w))"
    and "blobs (db w') = upd_where (blob_in u (us_BlobID s) StatusPending) (\<lambda>r. r\<lparr>bl_Status := StatusUploading\<rparr>) (blobs (db w))"
    and "objs w' = objs w"
  using assms unfolding UploadStore_CompleteClientUpload_def
  by (elim in_tx_ok complete_body_ok) (rule that, auto)

lemma commit_upload_ok:
  assumes "UploadStore_CommitUploadedBlob E u sid at w = (Inr x, w')"
  obtains s where "find (session_key u sid) (upload_sessions (db w)) = Some s"
    and "us_Status s = UploadSessionAwaitingCommit"
    and "upload_sessions (db w') = delete_where (session_key u sid) (upload_sessions (db w))"
    and "blobs (db w') = upd_where (blob_in u (us_BlobID s) StatusUploading) (set_committed at) (blobs (db w))"
    and "objs w' = objs w"
  using assms unfolding UploadStore_CommitUploadedBlob_def
  by (elim in_tx_ok commit_body_ok) (rule that, auto)

lemma sint_bigint: "bigint_ok v \<Longrightarrow> sint v = int (unat v)"
proof -
  assume "bigint_ok v"
  then have "uint v < 2 ^ 63" by (metis bigint_ok_def of_nat_less_iff of_nat_numeral of_nat_power of_nat_unat)
  then have "sint v = uint v"
    unfolding sint_uint by (intro signed_take_bit_int_eq_self) (auto intro: order_trans [of _ 0])
  then show ?thesis by simp
qed

lemma finish_upload_ok:
  assumes "finish_upload (pg_blob_handler E sha cfg c bucket) (NewUploadStore E) (NewBlobRepository E)
      (NewObjectStorage c bucket) u sid s b close (buf, tot) w = (Inr resp, w')"
  obtains w1 w2 where "tot = us_ExpectedSize s" and "sha buf = bytes_of (us_ExpectedChecksum s)"
    and "resp = \<lparr>ubr_UploadSessionId = sid, ubr_BlobId = us_BlobID s, ubr_ReceivedSize = tot, ubr_Status = StatusUploading\<rparr>"
    and "db w1 = db w" and "ObjectStorage_Put c bucket (bl_ObjectKey b) buf (sint tot) (content_type b) w1 = (Inr (), w2)"
    and "UploadStore_CompleteClientUpload E u sid tot w2 = (Inr (), w')"
proof -
  obtain w1 where tot: "tot = us_ExpectedSize s" and sha: "sha buf = bytes_of (us_ExpectedChecksum s)" and w1: "db w1 = db w"
    and h: "handle (ObjectStorage_Put c bucket (bl_ObjectKey b) buf (sint tot) (content_type b))
          (\<lambda>_. andthen (abortUpload (pg_blob_handler E sha cfg c bucket) (NewUploadStore E) (NewBlobRepository E)
      (NewObjectStorage c bucket) u sid (us_BlobID s) (bl_ObjectKey b)) (\<lambda>_. throw (status Internal ''blob: storage upload failed'')))
          (\<lambda>_. handle (UploadStore_CompleteClientUpload E u sid tot)
            (\<lambda>e. andthen (if e \<noteq> ErrUploadSessionNotOpen then
                     andthen (ignore (ObjectStorage_Delete c bucket (bl_ObjectKey b))) (\<lambda>_.
                       abortUpload (pg_blob_handler E sha cfg c bucket) (NewUploadStore E) (NewBlobRepository E)
      (NewObjectStorage c bucket) u sid (us_BlobID s) [])
                   else ret ())
                 (\<lambda>_. throw (status Internal ''blob: finalize upload failed'')))
            (\<lambda>_. case close of
                Some e \<Rightarrow> throw e
              | None \<Rightarrow> ret \<lparr>ubr_UploadSessionId = sid, ubr_BlobId = us_BlobID s,
                  ubr_ReceivedSize = tot, ubr_Status = StatusUploading\<rparr>)) w1 = (Inr resp, w')"
    using assms [unfolded finish_upload_def Let_def prod.case]
    apply (elim if_abort_okE)
    apply (erule andthen_okE, erule if_abort_okE)
    subgoal for now w1
      by (drule time_Now_okD, rule that [of w1]) (simp_all only: not_not pg_blob_handler_sel store_sel NewObjectStorage_sel)
    done
  from h obtain x w2 where put: "ObjectStorage_Put c bucket (bl_ObjectKey b) buf (sint tot) (content_type b) w1 = (Inr x, w2)"
    and r: "handle (UploadStore_CompleteClientUpload E u sid tot)
            (\<lambda>e. andthen (if e \<noteq> ErrUploadSessionNotOpen then
                     andthen (ignore (ObjectStorage_Delete c bucket (bl_ObjectKey b))) (\<lambda>_.
                       abortUpload (pg_blob_handler E sha cfg c bucket) (NewUploadStore E) (NewBlobRepository E)
      (NewObjectStorage c bucket) u sid (us_BlobID s) [])
                   else ret ())
                 (\<lambda>_. throw (status Internal ''blob: finalize upload failed'')))
            (\<lambda>_. case close of
                Some e \<Rightarrow> throw e
              | None \<Rightarrow> ret \<lparr>ubr_UploadSessionId = sid, ubr_BlobId = us_BlobID s,
                  ubr_ReceivedSize = tot, ubr_Status = StatusUploading\<rparr>) w2 = (Inr resp, w')"
    by (rule handle_okE) (rule isl_andthen_throw, rule that)
  from r obtain y w3 where comp: "UploadStore_CompleteClientUpload E u sid tot w2 = (Inr y, w3)"
    and fin: "(case close of Some e \<Rightarrow> throw e | None \<Rightarrow> ret \<lparr>ubr_UploadSessionId = sid, ubr_BlobId = us_BlobID s,
                  ubr_ReceivedSize = tot, ubr_Status = StatusUploading\<rparr>) w3 = (Inr resp, w')"
    by (rule handle_okE) (rule isl_andthen_throw, rule that)
  from fin have "w3 = w'"
    "resp = \<lparr>ubr_UploadSessionId = sid, ubr_BlobId = us_BlobID s, ubr_ReceivedSize = tot, ubr_Status = StatusUploading\<rparr>"
    by (auto simp: ret_def throw_def split: option.splits)
  with that [OF tot sha _ w1, of w2] put comp show ?thesis by simp
qed

lemma UploadBlob_ok:
  assumes "UploadBlob (pg_blob_handler E sha cfg c bucket) ctx stream w = (Inr resp, w')"
  obtains u hdr rest s b rcvd w1 w2 w3 w4 now where "UserIDFromContext ctx = Some u"
    and "st_msgs stream = UploadBlobHeader hdr # rest"
    and "load_session (NewUploadStore E) u (TrimSpace hdr) w = (Inr s, w1)"
    and "time_Now E w1 = (Inr now, w2)" and "us_Status s = UploadSessionOpen"
    and "load_blob (NewBlobRepository E) u (us_BlobID s) w2 = (Inr b, w3)" and "bl_Status b = StatusPending"
    and "recv_chunks (abortUpload (pg_blob_handler E sha cfg c bucket) (NewUploadStore E) (NewBlobRepository E)
      (NewObjectStorage c bucket) u (TrimSpace hdr) (us_BlobID s) (bl_ObjectKey b))
      (cf_MaxChunkSizeBytes cfg) (us_ExpectedSize s) (st_end stream) rest [] 0 0 w3 = (Inr rcvd, w4)"
    and "finish_upload (pg_blob_handler E sha cfg c bucket) (NewUploadStore E) (NewBlobRepository E)
      (NewObjectStorage c bucket) u (TrimSpace hdr) s b (st_close stream) rcvd w4 = (Inr resp, w')"
proof -
  obtain u hdr rest where 1: "UserIDFromContext ctx = Some u" "st_msgs stream = UploadBlobHeader hdr # rest"
    using assms by (auto simp: UploadBlob_def with_user_def throw_def guard_def
        split: option.splits list.splits UploadBlobRequest.splits if_splits)
  show ?thesis
    using assms [unfolded UploadBlob_def with_user_def]
    apply (simp only: 1 option.case list.case UploadBlobRequest.case Let_def pg_blob_handler_sel prod.case)
    apply (erule guard_okE, erule andthen_okE, erule andthen_okE, erule if_abort_okE, erule guard_okE,
        erule andthen_okE, erule guard_okE, erule andthen_okE)
    apply (rule that [OF 1])
    apply (assumption | simp)+
    done
qed

lemma UploadBlob_stores:
  assumes ok: "blob_ok (db w)" and client: "minio_ok c view"
    and run: "UploadBlob (pg_blob_handler E sha cfg c bucket) ctx stream w = (Inr resp, w')"
    and len: "\<forall>i d. UploadBlobChunk i d \<in> set (st_msgs stream) \<longrightarrow> blen d < 2 ^ 63"
  shows "\<exists>u hdr ds s b now. UserIDFromContext ctx = Some u \<and> st_msgs stream = UploadBlobHeader hdr # chunk_msgs 0 ds \<and>
    st_end stream = None \<and> find (session_key u (TrimSpace hdr)) (upload_sessions (db w)) = Some s \<and>
    find (blob_key u (us_BlobID s)) (blobs (db w)) = Some b \<and>
    length (concat (map bytes_of ds)) = unat (us_ExpectedSize s) \<and>
    sha (concat (map bytes_of ds)) = bytes_of (us_ExpectedChecksum s) \<and>
    view (objs w') bucket (bl_ObjectKey b) = Some (concat (map bytes_of ds)) \<and>
    find (session_key u (TrimSpace hdr)) (upload_sessions (db w')) = Some (set_awaiting (us_ExpectedSize s) now s) \<and>
    find (blob_key u (us_BlobID s)) (blobs (db w')) = Some (b\<lparr>bl_Status := StatusUploading\<rparr>) \<and>
    resp = \<lparr>ubr_UploadSessionId = TrimSpace hdr, ubr_BlobId = us_BlobID s, ubr_ReceivedSize = us_ExpectedSize s,
      ubr_Status = StatusUploading\<rparr>"
  using run
proof (cases rule: UploadBlob_ok)
  case (1 u hdr rest s b rcvd w1 w2 w3 w4 now)
  note ls = load_session_ok [OF 1(3)] and t = time_Now_okD [OF 1(4)] and lb = load_blob_ok [OF 1(6)]
  obtain buf tot where rcvd: "rcvd = (buf, tot)" by fastforce
  from 1(9) [unfolded rcvd] obtain w5 w6 where f: "tot = us_ExpectedSize s" "sha buf = bytes_of (us_ExpectedChecksum s)"
    "resp = \<lparr>ubr_UploadSessionId = TrimSpace hdr, ubr_BlobId = us_BlobID s, ubr_ReceivedSize = tot, ubr_Status = StatusUploading\<rparr>"
    "db w5 = db w4" and put: "ObjectStorage_Put c bucket (bl_ObjectKey b) buf (sint tot) (content_type b) w5 = (Inr (), w6)"
    and comp: "UploadStore_CompleteClientUpload E u (TrimSpace hdr) tot w6 = (Inr (), w')"
    by (rule finish_upload_ok)
  from comp obtain s2 now2 where s2: "find (completable u (TrimSpace hdr) tot) (upload_sessions (db w6)) = Some s2"
    "bigint_ok tot"
    "upload_sessions (db w') = upd_where (completable u (TrimSpace hdr) tot) (set_awaiting tot now2) (upload_sessions (db w6))"
    "blobs (db w') = upd_where (blob_in u (us_BlobID s2) StatusPending) (\<lambda>r. r\<lparr>bl_Status := StatusUploading\<rparr>) (blobs (db w6))"
    "objs w' = objs w6"
    by (rule complete_upload_ok)
  have recv: "w4 = w3 \<and> st_end stream = None \<and> unat tot = length buf \<and>
    (\<exists>ds. rest = chunk_msgs 0 ds \<and> buf = [] @ concat (map bytes_of ds) \<and> (\<forall>d \<in> set ds. blen d \<le> unat (cf_MaxChunkSizeBytes cfg)))"
    using len f(1) s2(2) 1(2)
    by (intro recv_chunks_ok [OF 1(8) [unfolded rcvd]]) (auto simp: bigint_ok_def)
  then obtain ds where ds: "rest = chunk_msgs 0 ds" "buf = concat (map bytes_of ds)" by auto
  have small: "sint tot = int (length buf)"
    using recv s2(2) by (simp add: sint_bigint)
  have dbs: "db w6 = db w" using keepsD [OF keeps_storage(1), of "\<lambda>d. d = db w5", OF _ put] f(4) recv lb(2) t ls(2) by simp
  have "view (objs w') bucket (bl_ObjectKey b) = Some buf"
    using wp_okD [OF wp_Put [OF client, where Q = "\<lambda>_ w. view (objs w) bucket (bl_ObjectKey b) = Some buf" and
        R = "\<lambda>_ _. True"] put] small s2(5) by simp
  moreover have "s2 = s"
    using session_unique [OF ok, of s2 s] find_SomeD [OF s2(1)] find_SomeD [OF ls(1)] dbs
    by (auto simp: completable_def session_key_def)
  moreover have "find (session_key u (TrimSpace hdr)) (upload_sessions (db w')) = Some (set_awaiting tot now2 s)"
    using ls(1) find_SomeD [OF ls(1)] 1(5) f(1) unfolding s2(3) dbs
    by (subst find_upd_where) (auto simp: session_key_def set_awaiting_def completable_def)
  moreover have "find (blob_key u (us_BlobID s)) (blobs (db w')) = Some (b\<lparr>bl_Status := StatusUploading\<rparr>)"
    using lb(1) find_SomeD [OF lb(1)] 1(7) t ls(2) \<open>s2 = s\<close> unfolding s2(4) dbs
    by (subst find_upd_where) (auto simp: blob_key_def blob_in_def)
  ultimately show ?thesis
    using 1(1,2) ds f recv ls(1,2) lb(1) t
    by (intro exI [of _ u] exI [of _ hdr] exI [of _ ds] exI [of _ s] exI [of _ b] exI [of _ now2]) simp
qed

lemma CommitBlobUpload_ok:
  assumes client: "minio_ok c view"
    and run: "CommitBlobUpload (pg_blob_handler E sha cfg c bucket) ctx req w = (Inr info, w')"
  obtains u sid s b d at where "UserIDFromContext ctx = Some u" and "req = Some sid"
    and "find (session_key u (TrimSpace sid)) (upload_sessions (db w)) = Some s"
    and "us_Status s = UploadSessionAwaitingCommit"
    and "find (blob_key u (us_BlobID s)) (blobs (db w)) = Some b" and "bl_Status b = StatusUploading"
    and "view (objs w) bucket (bl_ObjectKey b) = Some d" and "word_of_nat (length d) = bl_SizeBytes b"
    and "view (objs w') = view (objs w)" and "info = toProtoBlobInfo (set_committed at b)"
    and "find (blob_key u (us_BlobID s)) (blobs (db w')) = Some (set_committed at b)"
    and "find (session_key u (TrimSpace sid)) (upload_sessions (db w')) = None"
proof -
  obtain u sid where 1: "UserIDFromContext ctx = Some u" "req = Some sid"
    using run by (auto simp: CommitBlobUpload_def with_user_def throw_def guard_def split: option.splits if_splits)
  obtain s w1 now w2 b w3 sz0 w40 sz w4 at w5 x w6 y w7
    where ls: "load_session (NewUploadStore E) u (TrimSpace sid) w = (Inr s, w1)" and t1: "time_Now E w1 = (Inr now, w2)"
      and nst: "\<not> us_Status s \<noteq> UploadSessionAwaitingCommit"
      and lb: "load_blob (NewBlobRepository E) u (us_BlobID s) w2 = (Inr b, w3)" and nbst: "\<not> bl_Status b \<noteq> StatusUploading"
      and stat: "ObjectStorage_Stat c bucket (bl_ObjectKey b) w3 = (Inr sz0, w40)" "ret sz0 w40 = (Inr sz :: go_error + int, w4)"
      and nsz: "\<not> (sz < 0 \<or> word_of_int sz \<noteq> bl_SizeBytes b)"
      and t2: "time_Now E w4 = (Inr at, w5)" and com: "UploadStore_CommitUploadedBlob E u (TrimSpace sid) at w5 = (Inr x, w6)"
      and re: "BlobRepository_GetByID E u (us_BlobID s) w6 = (Inr y, w7)" and fin: "ret (toProtoBlobInfo y) w7 = (Inr info :: go_error + BlobInfo, w')"
    using run [unfolded CommitBlobUpload_def with_user_def]
    apply (simp only: 1 option.case Let_def pg_blob_handler_sel store_sel NewObjectStorage_sel prod.case option.sel)
    apply (erule guard_okE, erule andthen_okE, erule andthen_okE, erule guard_okE, erule guard_okE,
        erule andthen_okE, erule guard_okE, erule andthen_okE, erule guard_okE, erule andthen_okE)
    apply (erule handle_okE, simp)
    apply (erule handle_okE, simp)
    apply (erule handle_okE, simp)
    subgoal for x w1 xa w1a xb w1b xc w1c xd w1d xe w1e xf w1f xg w1g
      by (rule that [of x w1 xa w1a xb w1b xe w1e xc w1c xd w1d xf w1f xg w1g])
        assumption+
    done
  from nst nbst nsz have st: "us_Status s = UploadSessionAwaitingCommit" and bst: "bl_Status b = StatusUploading"
    and sz: "0 \<le> sz" "word_of_int sz = bl_SizeBytes b" by auto
  from stat have stat': "ObjectStorage_Stat c bucket (bl_ObjectKey b) w3 = (Inr sz, w4)"
    by (simp add: ret_def)
  note ls' = load_session_ok [OF ls] and lb' = load_blob_ok [OF lb] and t1' = time_Now_okD [OF t1] and t2' = time_Now_okD [OF t2]
  have db3: "db w3 = db w" "objs w3 = objs w" using ls' lb' t1' by simp_all
  have "view (objs w4) = view (objs w) \<and> (\<exists>d. view (objs w) bucket (bl_ObjectKey b) = Some d \<and> sz = int (length d))"
    using wp_okD [OF wp_Stat [OF client, where Q = "\<lambda>n w4. view (objs w4) = view (objs w) \<and>
        (\<exists>d. view (objs w) bucket (bl_ObjectKey b) = Some d \<and> n = int (length d))" and R = "\<lambda>_ _. True"] stat'] db3(2) by auto
  then obtain d where d: "view (objs w4) = view (objs w)" "view (objs w) bucket (bl_ObjectKey b) = Some d" "sz = int (length d)"
    by blast
  have db5: "db w5 = db w"
    using keepsD [OF keeps_storage(2), of "\<lambda>d. d = db w", OF _ stat'] db3 t2' by simp
  from com obtain s2 where s2: "find (session_key u (TrimSpace sid)) (upload_sessions (db w5)) = Some s2"
    "upload_sessions (db w6) = delete_where (session_key u (TrimSpace sid)) (upload_sessions (db w5))"
    "blobs (db w6) = upd_where (blob_in u (us_BlobID s2) StatusUploading) (set_committed at) (blobs (db w5))"
    "objs w6 = objs w5"
    by (rule commit_upload_ok)
  have "s2 = s" using s2(1) ls'(1) db5 by simp
  note re' = GetByID_ok [OF re]
  have fb: "find (blob_key u (us_BlobID s)) (blobs (db w6)) = Some (set_committed at b)"
    using lb'(1) find_SomeD [OF lb'(1)] bst t1' ls'(2) \<open>s2 = s\<close> unfolding s2(3) db5
    by (subst find_upd_where) (auto simp: blob_key_def blob_in_def set_committed_def)
  have y: "y = set_committed at b" using fb re'(1) by simp
  have w': "w' = w7" "info = toProtoBlobInfo y" using fin by (simp_all add: ret_def)
  have nosess: "find (session_key u (TrimSpace sid)) (upload_sessions (db w6)) = None"
    unfolding s2(2) by (auto simp: find_None_iff delete_where_def)
  show ?thesis
    using that [OF 1 ls'(1) st _ bst d(2), of at] lb'(1) t1' ls'(2) sz d s2(4) t2' re'(2,3) w' y fb nosess
    by simp
qed

text \<open>The bytes of the chunks of an upload and of a download.\<close>

definition uploaded :: "UploadBlobRequest list \<Rightarrow> bytes" where
  "uploaded ms = concat (map (\<lambda>m. case m of UploadBlobChunk _ d \<Rightarrow> bytes_of d | _ \<Rightarrow> []) ms)"

definition downloaded :: "DownloadBlobResponse list \<Rightarrow> bytes" where
  "downloaded ms = concat (map (\<lambda>m. case m of DownloadBlobChunk _ d \<Rightarrow> d | _ \<Rightarrow> []) ms)"

lemma uploaded_chunks [simp]: "uploaded (UploadBlobHeader h # chunk_msgs k ds) = concat (map bytes_of ds)"
proof -
  have "uploaded (chunk_msgs k ds) = concat (map bytes_of ds)" for k
    by (induction ds arbitrary: k) (simp_all add: uploaded_def)
  then show ?thesis by (simp add: uploaded_def)
qed

lemma send_chunks_ok:
  "send_chunks sendErr ds fin sent idx out = Inr (sent', out') \<Longrightarrow> fin = None \<and> downloaded out' = downloaded out @ concat ds"
  by (induction sendErr ds fin sent idx out rule: send_chunks.induct)
     (auto simp: downloaded_def split: option.splits if_splits)

lemma DownloadBlob_ok:
  assumes client: "minio_ok c view"
    and run: "DownloadBlob (pg_blob_handler E sha cfg c bucket) ctx req sendErr w = (Inr out, w')"
  obtains u bid b where "UserIDFromContext ctx = Some u" and "req = Some bid"
    and "find (blob_key u (TrimSpace bid)) (blobs (db w)) = Some b" and "bl_Status b = StatusCommitted" and "bl_DeletedAt b = None"
    and "view (objs w) bucket (bl_ObjectKey b) = Some (downloaded out)"
proof -
  obtain u bid where 1: "UserIDFromContext ctx = Some u" "req = Some bid"
    using run by (auto simp: DownloadBlob_def throw_def guard_def split: option.splits if_splits)
  let ?n = "unat (cf_MaxChunkSizeBytes cfg)"
  obtain b w1 p w2 where lb: "nothing_sent (load_blob (NewBlobRepository E) u (TrimSpace bid)) w = (Inr b, w1)"
      and nbst: "\<not> bl_Status b \<noteq> StatusCommitted" "\<not> bl_DeletedAt b \<noteq> None"
      and get: "ObjectStorage_Get c bucket (bl_ObjectKey b) w1 = (Inr p, w2)"
      and rest: "(case p of (rc, sz) \<Rightarrow>
              guard (0 \<le> sz \<and> word_of_int sz \<noteq> bl_SizeBytes b) (status Internal ''blob: object size mismatch'', [])
              (case sendErr 0 of Some e \<Rightarrow> throw (e, []) | None \<Rightarrow>
                guard (cf_MaxChunkSizeBytes cfg = 0) (status Internal ''max_chunk_size_bytes is not configured'', [DownloadBlobHeader (toProtoBlobInfo b)])
                (case send_chunks sendErr (fst (ob_Read rc ?n)) (snd (ob_Read rc ?n)) 0 0 [DownloadBlobHeader (toProtoBlobInfo b)] of
                   Inl e \<Rightarrow> throw e
                 | Inr (sent, out) \<Rightarrow>
                     guard (sent \<noteq> bl_SizeBytes b) (status Internal ''blob: short read from storage'', out)
                     (ret out)))) w2 = (Inr out, w')"
    using run [unfolded DownloadBlob_def]
    apply (simp only: 1 option.case Let_def pg_blob_handler_sel store_sel NewObjectStorage_sel prod.case option.sel)
    apply (erule guard_okE, erule andthen_okE, erule guard_okE, erule guard_okE)
    apply (erule handle_okE, simp)
    by (rule that) assumption+
  from nbst have bst: "bl_Status b = StatusCommitted" "bl_DeletedAt b = None" by auto
  from lb have "load_blob (NewBlobRepository E) u (TrimSpace bid) w = (Inr b, w1)"
    unfolding nothing_sent_def by (rule handle_okE) (auto simp: ret_def)
  note lb' = load_blob_ok [OF this]
  obtain rc sz where p: "p = (rc, sz)" by fastforce
  from rest obtain sent where nz: "0 < ?n" and sc: "send_chunks sendErr (fst (ob_Read rc ?n)) (snd (ob_Read rc ?n)) 0 0
      [DownloadBlobHeader (toProtoBlobInfo b)] = Inr (sent, out)"
    by (auto simp: p guard_def throw_def ret_def unat_gt_0 split: if_splits option.splits sum.splits)
  have down: "snd (ob_Read rc ?n) = None" "downloaded out = concat (fst (ob_Read rc ?n))"
    using send_chunks_ok [OF sc] by (auto simp: downloaded_def)
  have "(\<forall>ds. ob_Read rc ?n = (ds, None) \<longrightarrow> view (objs w) bucket (bl_ObjectKey b) = Some (concat ds))"
    using wp_okD [OF wp_Get [OF client, where Q = "\<lambda>q w4. \<forall>ds. ob_Read (fst q) ?n = (ds, None) \<longrightarrow>
        view (objs w) bucket (bl_ObjectKey b) = Some (concat ds)" and R = "\<lambda>_ _. True"] get] nz lb'(3) p by auto
  then have "view (objs w) bucket (bl_ObjectKey b) = Some (downloaded out)"
    using down by (metis prod.collapse)
  with that [OF 1 lb'(1) bst] show ?thesis by blast
qed

subsection \<open>Concrete runs\<close>

text \<open>A configuration with chunks of four bytes, the digest that reverses, and a session for six bytes.\<close>

definition demo_blob_config :: Config where
  "demo_blob_config = \<lparr>cf_GRPCAddr = [], cf_GRPCTLSCertPath = [], cf_GRPCTLSKeyPath = [], cf_LogLevel = ''info'',
     cf_DatabaseURL = [], cf_MinioEndpoint = [], cf_MinioAccessKey = [], cf_MinioSecretKey = [], cf_MinioBucket = ''b'',
     cf_MinioUseSSL = False, cf_JWTSecret = [], cf_AccessTTLSec = 900, cf_RefreshTTLSec = 86400, cf_InlineThresholdBytes = 8,
     cf_MaxBlobSizeBytes = 64, cf_MaxChunkSizeBytes = 4, cf_GRPCMaxMessageBytes = 4096, cf_UploadSessionTTLHours = 24,
     cf_UploadSessionCleanupIntervalMinutes = 15\<rparr>"

abbreviation demo_blob_handler :: "mem_store blobHandler" where
  "demo_blob_handler \<equiv> pg_blob_handler demo_env rev demo_blob_config mem_client ''b''"

definition demo_blob :: Blob where
  "demo_blob = \<lparr>bl_BlobID = ''id-0'', bl_UserID = ''u1'', bl_ObjectKey = ''users/u1/blobs/id-0'', bl_SizeBytes = 6,
     bl_Checksum = Some [6, 5, 4, 3, 2, 1], bl_ContentKind = ''file'', bl_FileName = None, bl_MimeType = None,
     bl_Status = StatusPending, bl_CreatedAt = 0, bl_CommittedAt = None, bl_DeletedAt = None, bl_FailedAt = None\<rparr>"

definition demo_session :: UploadSession where
  "demo_session = \<lparr>us_UploadSessionID = ''id-1'', us_BlobID = ''id-0'', us_UserID = ''u1'', us_ExpectedSize = 6,
     us_ExpectedChecksum = Some [6, 5, 4, 3, 2, 1], us_ReceivedSize = 0, us_Status = UploadSessionOpen,
     us_ExpiresAt = 1000, us_CreatedAt = 0, us_UpdatedAt = 0\<rparr>"

definition demo_blob_world :: "Blob list \<Rightarrow> UploadSession list \<Rightarrow> mem_store \<Rightarrow> nat \<Rightarrow> mem_store world" where
  "demo_blob_world bs ss st n = \<lparr>db = demo_db\<lparr>blobs := bs, upload_sessions := ss\<rparr>, objs = st, tick = n\<rparr>"

definition demo_stream :: UploadStream where
  "demo_stream = \<lparr>st_msgs = [UploadBlobHeader ''id-1'', UploadBlobChunk 0 (Some [1, 2, 3, 4]), UploadBlobChunk 1 (Some [5, 6])],
     st_end = None, st_close = None\<rparr>"

definition demo_ctx :: "auth_context" where
  "demo_ctx = \<lparr>ac_UserID = Some ''u1'', ac_DeviceID = Some ''d1''\<rparr>"

lemmas blob_demo_defs = demo_blob_config_def demo_blob_def demo_session_def demo_blob_world_def demo_stream_def demo_ctx_def
  demo_db_def demo_user_def

lemmas blob_eval = prog_defs Let_def stmt_def in_tx_def commit_def TrimSpace_graphic is_graphic_def with_user_def
  UserIDFromContext_def DeviceIDFromContext_def time_Now_def uuid_NewString_def bigint_ok_def has_user_def has_blob_def
  load_session_def load_blob_def UploadStore_GetSession_def BlobRepository_GetByID_def UploadStore_CompleteClientUpload_def
  UploadStore_CommitUploadedBlob_def complete_body_def commit_body_def sql_select_session_def sql_select_blob_def
  session_key_def blob_key_def blob_in_def upd_where_def count_where_def delete_where_def set_awaiting_def set_committed_def
  completable_def sql_complete_session_def sql_update_blobs_def sql_delete_session_def rollback_def minio_call_def ObjectStorage_Put_def ObjectStorage_Get_def ObjectStorage_Stat_def ObjectStorage_Delete_def mem_client_def
  blen_def bytes_of_def append_copy_def abortUpload_def content_type_def

abbreviation demo_blob_world0 :: "mem_store world" where
  "demo_blob_world0 \<equiv> demo_blob_world [demo_blob] [demo_session] [] 2"

lemma demo_upload:
  "UploadBlob demo_blob_handler demo_ctx demo_stream demo_blob_world0 =
    (Inr \<lparr>ubr_UploadSessionId = ''id-1'', ubr_BlobId = ''id-0'', ubr_ReceivedSize = 6, ubr_Status = StatusUploading\<rparr>,
     demo_blob_world [demo_blob\<lparr>bl_Status := StatusUploading\<rparr>]
       [demo_session\<lparr>us_ReceivedSize := 6, us_Status := UploadSessionAwaitingCommit, us_UpdatedAt := 7\<rparr>]
       [((''b'', ''users/u1/blobs/id-0''), [1, 2, 3, 4, 5, 6])] 11)"
  by (simp add: UploadBlob_def finish_upload_def blob_eval blob_demo_defs)

lemma demo_commit:
  "CommitBlobUpload demo_blob_handler demo_ctx (Some ''id-1'') (snd (UploadBlob demo_blob_handler demo_ctx demo_stream demo_blob_world0)) =
    (Inr (toProtoBlobInfo (set_committed 14 demo_blob)),
     demo_blob_world [set_committed 14 demo_blob] [] [((''b'', ''users/u1/blobs/id-0''), [1, 2, 3, 4, 5, 6])] 22)"
  unfolding demo_upload by (simp add: CommitBlobUpload_def blob_eval blob_demo_defs)

lemma demo_world0_ok: "blob_ok (db demo_blob_world0)"
  by (simp add: blob_ok_def session_ok_def belongs_def status_ok_def blob_eval blob_demo_defs)

text \<open>
  C16. Committed blobs are immutable. Whatever call of the blob service is made, whatever fails on
  the way: the invariant of blobs and sessions is kept and the row of a committed blob stays in the
  table unchanged.
\<close>

theorem committed_blob_immutable:
  assumes "blob_ok (db w)" and "b \<in> set (blobs (db w))" and "bl_Status b = StatusCommitted"
    and "d' \<in> {db (snd (StartBlobUpload (pg_blob_handler E sha cfg c bucket) ctx req w)),
               db (snd (UploadBlob (pg_blob_handler E sha cfg c bucket) ctx stream w)),
               db (snd (CommitBlobUpload (pg_blob_handler E sha cfg c bucket) ctx sid w)),
               db (snd (DownloadBlob (pg_blob_handler E sha cfg c bucket) ctx bid sendErr w))}"
  shows "blob_ok d' \<and> b \<in> set (blobs d')"
proof -
  have w: "frozen b (db w)" using assms by (simp add: frozen_def)
  have "frozen b d'"
    using assms(4) pgb.keeps_StartBlobUpload [of E sha cfg c bucket b ctx req]
      pgb.keeps_UploadBlob [of E sha cfg c bucket b ctx stream]
      pgb.keeps_CommitBlobUpload [of E sha cfg c bucket b ctx sid]
      pgb.keeps_DownloadBlob [of E sha cfg c bucket b ctx bid sendErr] w
    by (auto simp: keeps_def)
  with assms(3) show ?thesis by (simp add: frozen_def)
qed

theorem committed_blob_immutable_witness:
  "set_committed 14 demo_blob \<in> set (blobs (db (snd (UploadBlob demo_blob_handler demo_ctx demo_stream
     (demo_blob_world [set_committed 14 demo_blob] [] [] 2)))))"
proof -
  have "blob_ok (db (demo_blob_world [set_committed 14 demo_blob] [] [] 2))"
    by (simp add: blob_ok_def blob_demo_defs)
  from committed_blob_immutable [OF this, of "set_committed 14 demo_blob" _ demo_env rev demo_blob_config mem_client "''b''"
      demo_ctx _ demo_stream] show ?thesis
    by (simp add: demo_blob_world_def set_committed_def)
qed

text \<open>
  C17. A successful upload. When UploadBlob answers, the stream was a header followed by chunks
  numbered 0, 1, .. and nothing else; their concatenation has exactly the announced size and digest
  and is what the object store now holds under the key of the blob; the session awaits its commit and
  the blob is uploading. (A Go slice is shorter than \<open>2 ^ 63\<close> bytes.)
\<close>

theorem upload_success:
  assumes "blob_ok (db w)" and "minio_ok c view"
    and "UploadBlob (pg_blob_handler E sha cfg c bucket) ctx stream w = (Inr resp, w')"
    and "\<forall>i d. UploadBlobChunk i d \<in> set (st_msgs stream) \<longrightarrow> blen d < 2 ^ 63"
  shows "\<exists>u hdr ds s b now. UserIDFromContext ctx = Some u \<and> st_msgs stream = UploadBlobHeader hdr # chunk_msgs 0 ds \<and>
    st_end stream = None \<and> find (session_key u (TrimSpace hdr)) (upload_sessions (db w)) = Some s \<and>
    find (blob_key u (us_BlobID s)) (blobs (db w)) = Some b \<and>
    length (concat (map bytes_of ds)) = unat (us_ExpectedSize s) \<and>
    sha (concat (map bytes_of ds)) = bytes_of (us_ExpectedChecksum s) \<and>
    view (objs w') bucket (bl_ObjectKey b) = Some (concat (map bytes_of ds)) \<and>
    find (session_key u (TrimSpace hdr)) (upload_sessions (db w')) = Some (set_awaiting (us_ExpectedSize s) now s) \<and>
    find (blob_key u (us_BlobID s)) (blobs (db w')) = Some (b\<lparr>bl_Status := StatusUploading\<rparr>) \<and>
    resp = \<lparr>ubr_UploadSessionId = TrimSpace hdr, ubr_BlobId = us_BlobID s, ubr_ReceivedSize = us_ExpectedSize s,
      ubr_Status = StatusUploading\<rparr>"
  using assms by (rule UploadBlob_stores)

theorem upload_success_witness:
  "\<exists>ds. st_msgs demo_stream = UploadBlobHeader ''id-1'' # chunk_msgs 0 ds \<and>
     mem_view (objs (snd (UploadBlob demo_blob_handler demo_ctx demo_stream demo_blob_world0))) ''b''
       ''users/u1/blobs/id-0'' = Some (concat (map bytes_of ds))"
proof -
  have "\<forall>i d. UploadBlobChunk i d \<in> set (st_msgs demo_stream) \<longrightarrow> blen d < 2 ^ 63"
    by (auto simp: demo_stream_def blen_def)
  from upload_success [OF demo_world0_ok mem_client_ok demo_upload this]
  show ?thesis unfolding demo_upload by (auto simp: blob_eval blob_demo_defs)
qed

text \<open>
  Round trip through the three calls. When an upload, then the commit of its session, then the
  download of the committed blob succeed for one user, the bytes downloaded are the bytes uploaded,
  and the answer to the commit announces their exact length. (Identifiers of
  blobs are uuids, which TrimSpace does not change.)
\<close>

theorem upload_commit_download:
  assumes ok: "blob_ok (db w)" and client: "minio_ok c view"
    and up: "UploadBlob (pg_blob_handler E sha cfg c bucket) ctx stream w = (Inr resp, w1)"
    and com: "CommitBlobUpload (pg_blob_handler E sha cfg c bucket) ctx (Some (ubr_UploadSessionId resp)) w1 = (Inr info, w2)"
    and down: "DownloadBlob (pg_blob_handler E sha cfg c bucket) ctx (Some (bi_BlobId info)) sendErr w2 = (Inr out, w3)"
    and len: "\<forall>i d. UploadBlobChunk i d \<in> set (st_msgs stream) \<longrightarrow> blen d < 2 ^ 63"
    and id: "TrimSpace (bi_BlobId info) = bi_BlobId info"
  shows "downloaded out = uploaded (st_msgs stream) \<and> unat (bi_SizeBytes info) = length (uploaded (st_msgs stream)) \<and>
    bi_Status info = StatusCommitted"
proof -
  from UploadBlob_stores [OF ok client up len] obtain u hdr ds s b now where u: "UserIDFromContext ctx = Some u"
    and ms: "st_msgs stream = UploadBlobHeader hdr # chunk_msgs 0 ds"
    and s: "find (session_key u (TrimSpace hdr)) (upload_sessions (db w1)) = Some (set_awaiting (us_ExpectedSize s) now s)"
    and b: "find (blob_key u (us_BlobID s)) (blobs (db w1)) = Some (b\<lparr>bl_Status := StatusUploading\<rparr>)"
    and v: "view (objs w1) bucket (bl_ObjectKey b) = Some (concat (map bytes_of ds))"
    and resp: "resp = \<lparr>ubr_UploadSessionId = TrimSpace hdr, ubr_BlobId = us_BlobID s, ubr_ReceivedSize = us_ExpectedSize s,
      ubr_Status = StatusUploading\<rparr>"
    and n: "length (concat (map bytes_of ds)) = unat (us_ExpectedSize s)" by blast
  from com obtain u' sid s' b' d at where c1: "UserIDFromContext ctx = Some u'" "Some (ubr_UploadSessionId resp) = Some sid"
    and c2: "find (session_key u' (TrimSpace sid)) (upload_sessions (db w1)) = Some s'"
    and c3: "find (blob_key u' (us_BlobID s')) (blobs (db w1)) = Some b'"
    and c4: "view (objs w1) bucket (bl_ObjectKey b') = Some d" "word_of_nat (length d) = bl_SizeBytes b'"
      "view (objs w2) = view (objs w1)" "info = toProtoBlobInfo (set_committed at b')"
    and c5: "find (blob_key u' (us_BlobID s')) (blobs (db w2)) = Some (set_committed at b')"
    by (rule CommitBlobUpload_ok [OF client])
  from down obtain u2 bid b2 where d1: "UserIDFromContext ctx = Some u2" "Some (bi_BlobId info) = Some bid"
    and d2: "find (blob_key u2 (TrimSpace bid)) (blobs (db w2)) = Some b2"
    and d3: "view (objs w2) bucket (bl_ObjectKey b2) = Some (downloaded out)"
    by (rule DownloadBlob_ok [OF client])
  have "sid = TrimSpace hdr" "u' = u" using c1 u resp by simp_all
  then have s': "s' = set_awaiting (us_ExpectedSize s) now s" using s c2 by simp
  have b': "b' = b\<lparr>bl_Status := StatusUploading\<rparr>" using b c1(1) c3 s' u by (simp add: set_awaiting_def)
  have "bi_BlobId info = us_BlobID s"
    using find_SomeD [OF b] by (simp add: c4(4) b' toProtoBlobInfo_def set_committed_def blob_key_def)
  then have "b2 = set_committed at b'"
    using d1 d2 c1(1) c5 id s' by (simp add: set_awaiting_def)
  then have "downloaded out = concat (map bytes_of ds)"
    using d3 c4(3) v b' by (simp add: set_committed_def)
  moreover have "unat (bl_SizeBytes b) = length (concat (map bytes_of ds))"
  proof -
    have "d = concat (map bytes_of ds)" using c4(1) v b' by simp
    with c4(2) n b' have "bl_SizeBytes b = us_ExpectedSize s" by simp
    with n show ?thesis by simp
  qed
  ultimately show ?thesis by (simp add: ms c4(4) b' toProtoBlobInfo_def set_committed_def)
qed

theorem upload_commit_download_witness:
  "\<exists>out w3. DownloadBlob demo_blob_handler demo_ctx (Some ''id-0'') (\<lambda>_. None)
     (snd (CommitBlobUpload demo_blob_handler demo_ctx (Some ''id-1'')
       (snd (UploadBlob demo_blob_handler demo_ctx demo_stream demo_blob_world0)))) = (Inr out, w3) \<and>
   downloaded out = uploaded (st_msgs demo_stream)"
proof -
  let ?w1 = "snd (UploadBlob demo_blob_handler demo_ctx demo_stream demo_blob_world0)"
  let ?w2 = "snd (CommitBlobUpload demo_blob_handler demo_ctx (Some ''id-1'') ?w1)"
  obtain out w3 where down: "DownloadBlob demo_blob_handler demo_ctx (Some ''id-0'') (\<lambda>_. None) ?w2 = (Inr out, w3)"
    unfolding demo_commit by (simp add: DownloadBlob_def nothing_sent_def chop.simps blob_eval blob_demo_defs)
  have len: "\<forall>i d. UploadBlobChunk i d \<in> set (st_msgs demo_stream) \<longrightarrow> blen d < 2 ^ 63"
    by (auto simp: demo_stream_def blen_def)
  have up: "UploadBlob demo_blob_handler demo_ctx demo_stream demo_blob_world0 = (fst (UploadBlob demo_blob_handler demo_ctx demo_stream demo_blob_world0), ?w1)"
    by simp
  have "downloaded out = uploaded (st_msgs demo_stream)"
    using upload_commit_download [OF demo_world0_ok mem_client_ok demo_upload _ _ len, of _ ?w2 "\<lambda>_. None" out w3]
      demo_commit down unfolding demo_upload snd_conv
    by (simp add: toProtoBlobInfo_def demo_blob_def set_committed_def TrimSpace_graphic is_graphic_def)
  with down show ?thesis by blast
qed

end
