(* ===== verification/Cleanup.thy ===== *)
theory Cleanup
  imports BlobProps
begin

section \<open>Cleanup of expired uploads (\<open>internal/server/jobs/upload_session_cleanup.go\<close>)\<close>

text \<open>
  One pass lists the blobs of expired sessions in batches and deletes object and row of each. The
  loop over batches has no bound in the source: it is written with fuel, \<open>None\<close> when the fuel does not
  suffice, and \<open>cleanup_complete\<close> shows that one more than the number of blobs is always enough when
  the database works. When every delete of a full batch fails the loop of the source goes round again
  with the same batch, until the context of the pass is cancelled (an error of the list query).

  An error of the pass carries the number of blobs removed so far.
\<close>

record 'w CleanupStore =
  cs_ListExpiredUploadBlobRefs :: "time \<Rightarrow> int \<Rightarrow> ('w, go_error, ExpiredUploadBlobRef list) prog"
  cs_DeleteBlobByID :: "string \<Rightarrow> ('w, go_error, unit) prog"

text \<open>The inner loop: errors of both deletes are logged, only rows really removed are counted.\<close>

fun cleanup_refs ::
  "'w CleanupStore \<Rightarrow> 'w ObjectStorage \<Rightarrow> ExpiredUploadBlobRef list \<Rightarrow> nat \<Rightarrow>
   ('w, go_error \<times> nat, nat) prog" where
  "cleanup_refs store objectStorage [] removed = ret removed"
| "cleanup_refs store objectStorage (ref # refs) removed =
     andthen (ignore (os_Delete objectStorage (er_ObjectKey ref))) (\<lambda>_.
     handle (cs_DeleteBlobByID store (er_BlobID ref))
       (\<lambda>_. cleanup_refs store objectStorage refs removed)
       (\<lambda>_. cleanup_refs store objectStorage refs (Suc removed)))"

fun cleanup_batches ::
  "nat \<Rightarrow> 'w CleanupStore \<Rightarrow> 'w ObjectStorage \<Rightarrow> time \<Rightarrow> int \<Rightarrow> nat \<Rightarrow> ('w, go_error \<times> nat, nat option) prog" where
  "cleanup_batches 0 store objectStorage cutoff n removed = ret None"
| "cleanup_batches (Suc fuel) store objectStorage cutoff n removed =
     handle (cs_ListExpiredUploadBlobRefs store cutoff n)
       (\<lambda>e. throw (e, removed))
       (\<lambda>refs. if refs = [] then ret (Some removed)
         else andthen (cleanup_refs store objectStorage refs removed) (\<lambda>removed.
           if int (length refs) < n then ret (Some removed)
           else cleanup_batches fuel store objectStorage cutoff n removed))"

definition cleanupExpiredUploadSessionsOnce ::
  "nat \<Rightarrow> env \<Rightarrow> 'o world CleanupStore \<Rightarrow> 'o world ObjectStorage \<Rightarrow> int \<Rightarrow> ('o world, go_error \<times> nat, nat option) prog" where
  "cleanupExpiredUploadSessionsOnce fuel E store objectStorage listBatchSize =
     (let n = (if listBatchSize \<le> 0 then UploadSessionCleanupListBatchSize else listBatchSize) in
      handle (time_Now E) (\<lambda>e. throw (e, 0))
        (\<lambda>cutoff. cleanup_batches fuel store objectStorage cutoff n 0))"

text \<open>
  The job: an immediate pass and one after each of \<open>ticks\<close> ticks of the timer, until the context is
  done; the outcome of a pass is only logged.
\<close>

fun cleanup_passes :: "nat \<Rightarrow> ('w, 'e, 'a) prog \<Rightarrow> ('w, 'f, unit) prog" where
  "cleanup_passes 0 pass = ret ()"
| "cleanup_passes (Suc k) pass = andthen (ignore pass) (\<lambda>_. cleanup_passes k pass)"

definition RunUploadSessionCleanup ::
  "nat \<Rightarrow> env \<Rightarrow> 'o world CleanupStore \<Rightarrow> 'o world ObjectStorage \<Rightarrow> int \<Rightarrow> nat \<Rightarrow> ('o, unit) server" where
  "RunUploadSessionCleanup fuel E store objectStorage interval ticks =
     (if interval \<le> 0 then ret ()
      else cleanup_passes (Suc ticks)
        (cleanupExpiredUploadSessionsOnce fuel E store objectStorage UploadSessionCleanupListBatchSize))"

definition pg_cleanup_store :: "env \<Rightarrow> 'o world CleanupStore" where
  "pg_cleanup_store E = \<lparr>cs_ListExpiredUploadBlobRefs = UploadStore_ListExpiredUploadBlobRefs E,
     cs_DeleteBlobByID = UploadStore_DeleteBlobByID E\<rparr>"

lemma pg_cleanup_store_sel [simp]:
  "cs_ListExpiredUploadBlobRefs (pg_cleanup_store E) = UploadStore_ListExpiredUploadBlobRefs E"
  "cs_DeleteBlobByID (pg_cleanup_store E) = UploadStore_DeleteBlobByID E"
  by (simp_all add: pg_cleanup_store_def)

subsection \<open>What the list query returns\<close>

definition expired :: "time \<Rightarrow> database \<Rightarrow> string \<Rightarrow> bool" where
  "expired cutoff d b \<longleftrightarrow> (\<exists>r \<in> set (blobs d). bl_BlobID r = b \<and> in_flight r) \<and>
     (\<exists>u \<in> set (upload_sessions d). us_BlobID u = b \<and> us_ExpiresAt u < cutoff)"

definition expired_refs :: "time \<Rightarrow> Blob list \<Rightarrow> UploadSession list \<Rightarrow> ExpiredUploadBlobRef list" where
  "expired_refs cutoff bs us =
     concat (map (\<lambda>b. map (\<lambda>u. \<lparr>er_BlobID = bl_BlobID b, er_ObjectKey = bl_ObjectKey b\<rparr>)
         (filter (\<lambda>u. us_BlobID u = bl_BlobID b \<and> us_ExpiresAt u < cutoff) us)) (filter in_flight bs))"

lemma sql_list_expired_eq:
  "sql_list_expired E cutoff n t d =
     (Inr (take n (sort_by (\<lambda>a b. env_text_le E (er_BlobID a) (er_BlobID b)) (expired_refs cutoff (blobs d) (upload_sessions d)))), d)"
  by (simp add: sql_list_expired_def expired_refs_def)

lemma expired_refs_ids: "er_BlobID ` set (expired_refs cutoff (blobs d) (upload_sessions d)) = {b. expired cutoff d b}"
  by (force simp: expired_refs_def expired_def)

lemma expired_refs_keys:
  "r \<in> set (expired_refs cutoff bs us) \<Longrightarrow> \<exists>b \<in> set bs. er_BlobID r = bl_BlobID b \<and> er_ObjectKey r = bl_ObjectKey b"
  by (auto simp: expired_refs_def)

lemma expired_refs_distinct:
  assumes "distinct (map bl_BlobID bs)" and us: "distinct (map us_BlobID us)"
  shows "distinct (map er_BlobID (expired_refs cutoff bs us))"
  using assms(1)
proof (induction bs)
  case Nil
  then show ?case by (simp add: expired_refs_def)
next
  case (Cons b bs)
  have one: "length (filter (\<lambda>u. us_BlobID u = x \<and> us_ExpiresAt u < cutoff) us) \<le> 1" for x
    using us by (induction us) (auto simp: filter_empty_conv intro: rev_image_eqI)
  have "distinct (map (\<lambda>_. y) xs)" if "length xs \<le> 1" for xs :: "UploadSession list" and y :: string
    using that by (cases xs) auto
  then show ?case
    using Cons one [of "bl_BlobID b"] by (auto simp: expired_refs_def o_def)
qed

subsection \<open>The contract of the store\<close>

text \<open>
  What a pass relies on: the list query and the deletes of listed blobs keep an invariant I. \<open>P\<close> is
  what the list query promises of the references it returns.
\<close>

locale cleanup_contract =
  fixes store :: "'o world CleanupStore" and storage :: "'o world ObjectStorage" and cutoff :: time
    and I :: "'o world \<Rightarrow> bool" and P :: "ExpiredUploadBlobRef \<Rightarrow> bool"
  assumes list_keeps: "keeps I (cs_ListExpiredUploadBlobRefs store cutoff n)"
    and list_refs: "I w \<Longrightarrow> cs_ListExpiredUploadBlobRefs store cutoff n w = (Inr refs, w') \<Longrightarrow> \<forall>r \<in> set refs. P r"
    and delete_keeps: "P r \<Longrightarrow> keeps I (cs_DeleteBlobByID store (er_BlobID r))"
    and object_keeps: "P r \<Longrightarrow> keeps I (os_Delete storage (er_ObjectKey r))"
begin

lemma keeps_refs: "\<forall>r \<in> set refs. P r \<Longrightarrow> keeps I (cleanup_refs store storage refs k)"
  by (induction refs arbitrary: k) (auto intro!: keeps_intros object_keeps delete_keeps)

lemma keeps_batches: "I w \<Longrightarrow> I (snd (cleanup_batches fuel store storage cutoff n k w))"
proof (induction fuel arbitrary: w k)
  case 0
  then show ?case by (simp add: ret_def)
next
  case (Suc fuel)
  obtain r w1 where run: "cs_ListExpiredUploadBlobRefs store cutoff n w = (r, w1)" by fastforce
  have w1: "I w1" using keepsD [OF list_keeps Suc.prems run] .
  show ?case
  proof (cases r)
    case (Inr refs)
    obtain q w2 where q: "cleanup_refs store storage refs k w1 = (q, w2)" by fastforce
    have "I w2" using keepsD [OF keeps_refs [OF list_refs [OF Suc.prems run [unfolded Inr]]] w1 q] .
    with q w1 run Inr Suc.IH show ?thesis
      by (auto simp: prog_defs split: sum.splits)
  qed (use run w1 in \<open>auto simp: prog_defs\<close>)
qed

end

text \<open>A blob that a pass must leave alone, with its session when it has one.\<close>

definition protected :: "time \<Rightarrow> Blob \<Rightarrow> UploadSession set \<Rightarrow> database \<Rightarrow> bool" where
  "protected cutoff b ss d \<longleftrightarrow> blob_ok d \<and> b \<in> set (blobs d) \<and> ss \<subseteq> set (upload_sessions d) \<and>
     (\<forall>s \<in> ss. us_BlobID s = bl_BlobID b \<and> cutoff \<le> us_ExpiresAt s) \<and> (ss = {} \<longrightarrow> bl_Status b = StatusCommitted)"

lemma protected_not_expired:
  assumes "protected cutoff b ss d"
  shows "\<not> expired cutoff d (bl_BlobID b)"
proof
  assume "expired cutoff d (bl_BlobID b)"
  then obtain r u where r: "r \<in> set (blobs d)" "bl_BlobID r = bl_BlobID b" "in_flight r"
    and u: "u \<in> set (upload_sessions d)" "us_BlobID u = bl_BlobID b" "us_ExpiresAt u < cutoff"
    by (auto simp: expired_def)
  have "r = b" using blob_ok_unique [of d r b] assms r by (simp add: protected_def)
  with r(3) have "ss \<noteq> {}" using assms by (auto simp: protected_def in_flight_def)
  then obtain s where s: "s \<in> ss" by blast
  then have "s = u" using session_unique [of d s u] assms u by (auto simp: protected_def)
  with s u(3) assms show False by (auto simp: protected_def)
qed

lemma blob_ok_delete_blob:
  assumes "blob_ok d" and "sql_delete_blob b t d = (r, d')"
  shows "blob_ok d'"
proof -
  have sub: "session_ok (delete_where (\<lambda>r. bl_BlobID r = b) bs) s" if "session_ok bs s" "us_BlobID s \<noteq> b" for bs s
    using that by (auto simp: session_ok_def delete_where_def belongs_def)
  show ?thesis
    using assms sub by (auto simp: sql_delete_blob_def blob_ok_def delete_where_def Let_def distinct_map_filter split: if_splits)
qed

lemma protected_delete_blob:
  assumes "protected cutoff b ss d" and "x \<noteq> bl_BlobID b" and "sql_delete_blob x t d = (r, d')"
  shows "protected cutoff b ss d'"
  using assms blob_ok_delete_blob [OF _ assms(3)]
  by (auto simp: protected_def sql_delete_blob_def delete_where_def Let_def split: if_splits)

lemma listed_refs:
  assumes "UploadStore_ListExpiredUploadBlobRefs E cutoff n w = (Inr refs, w')"
  shows "set refs \<subseteq> set (expired_refs cutoff (blobs (db w)) (upload_sessions (db w)))"
proof (cases "n \<le> 0")
  case False
  with assms have "stmt E (sql_list_expired E cutoff (nat n)) w = (Inr refs, w')"
    by (simp add: UploadStore_ListExpiredUploadBlobRefs_def)
  from stmt_ok_db [OF this] show ?thesis by (auto simp: sql_list_expired_eq dest: in_set_takeD)
qed (use assms in \<open>auto simp: UploadStore_ListExpiredUploadBlobRefs_def ret_def\<close>)

text \<open>The object keys of expired uploads; a delete of a row takes keys out of this set and puts none in.\<close>

definition expired_keys :: "time \<Rightarrow> database \<Rightarrow> string set" where
  "expired_keys cutoff d = bl_ObjectKey ` {b \<in> set (blobs d). expired cutoff d (bl_BlobID b)}"

lemma expired_refs_keys_in:
  assumes "r \<in> set (expired_refs cutoff (blobs d) (upload_sessions d))"
  shows "er_ObjectKey r \<in> expired_keys cutoff d"
  using assms by (force simp: expired_refs_def expired_keys_def expired_def)

lemma expired_keys_delete_blob:
  assumes "sql_delete_blob x t d = (r, d')" and "k \<notin> expired_keys cutoff d"
  shows "k \<notin> expired_keys cutoff d'"
proof -
  have sub: "set (blobs d') \<subseteq> set (blobs d)" "set (upload_sessions d') \<subseteq> set (upload_sessions d)"
    using assms(1) by (auto simp: sql_delete_blob_def delete_where_def Let_def split: if_splits)
  then have "expired cutoff d b" if "expired cutoff d' b" for b using that unfolding expired_def by blast
  with sub assms(2) show ?thesis unfolding expired_keys_def by blast
qed

text \<open>An object that is not one of an expired upload.\<close>

definition kept_object :: "('o \<Rightarrow> string \<Rightarrow> string \<Rightarrow> bytes option) \<Rightarrow> 'o minio_client \<Rightarrow> string \<Rightarrow> time \<Rightarrow> string \<Rightarrow> string \<Rightarrow> bytes option \<Rightarrow>
   'o world \<Rightarrow> bool" where
  "kept_object view c bucket cutoff b k v w \<longleftrightarrow>
     minio_ok c view \<and> (b = bucket \<longrightarrow> k \<notin> expired_keys cutoff (db w)) \<and> view (objs w) b k = v"

lemma keeps_stmt_world:
  assumes "\<And>t w r d. I w \<Longrightarrow> f t (db w) = (r, d) \<Longrightarrow> I (w\<lparr>db := d\<rparr>)" and "\<And>w n. I (w\<lparr>tick := n\<rparr>) = I w"
  shows "keeps I (stmt E f)"
  unfolding keeps_def
proof (intro allI impI)
  fix w assume w: "I w"
  let ?n = "tick w" and ?w1 = "w\<lparr>tick := Suc (tick w)\<rparr>"
  obtain r d where f: "f (env_db_clock E ?n) (db w) = (r, d)" by fastforce
  have "I ?w1" using w assms(2) by simp
  moreover from this f have "I (?w1\<lparr>db := d\<rparr>)" using assms(1) [of ?w1] by simp
  ultimately show "I (snd (stmt E f w))" using f by (auto simp: stmt_def Let_def split: fault.splits)
qed

interpretation pgc: cleanup_contract "pg_cleanup_store E" "NewObjectStorage c bucket" cutoff
  "\<lambda>w. protected cutoff b ss (db w)" "\<lambda>r. er_BlobID r \<noteq> bl_BlobID b"
  for E and c :: "'o minio_client" and bucket cutoff b ss
proof unfold_locales
  show "keeps (\<lambda>w :: 'o world. protected cutoff b ss (db w)) (cs_ListExpiredUploadBlobRefs (pg_cleanup_store E) cutoff n)" for n
    unfolding pg_cleanup_store_sel UploadStore_ListExpiredUploadBlobRefs_def
    by (auto intro!: keeps_intros keeps_stmt simp: sql_list_expired_def)
  show "\<forall>r \<in> set refs. er_BlobID r \<noteq> bl_BlobID b"
    if I: "protected cutoff b ss (db w)" and run: "cs_ListExpiredUploadBlobRefs (pg_cleanup_store E) cutoff n w = (Inr refs, w')"
    for n refs and w w' :: "'o world"
  proof -
    have "set refs \<subseteq> set (expired_refs cutoff (blobs (db w)) (upload_sessions (db w)))"
      using listed_refs run by simp
    then have "er_BlobID ` set refs \<subseteq> {x. expired cutoff (db w) x}"
      unfolding expired_refs_ids [symmetric] by blast
    with protected_not_expired [OF I] show ?thesis by auto
  qed
  show "keeps (\<lambda>w :: 'o world. protected cutoff b ss (db w)) (cs_DeleteBlobByID (pg_cleanup_store E) (er_BlobID r))"
    if "er_BlobID r \<noteq> bl_BlobID b" for r
    unfolding pg_cleanup_store_sel UploadStore_DeleteBlobByID_def
    by (intro keeps_intros keeps_stmt) (rule protected_delete_blob [OF _ that], assumption+)
  show "keeps (\<lambda>w :: 'o world. protected cutoff b ss (db w)) (os_Delete (NewObjectStorage c bucket) (er_ObjectKey r))" for r
    unfolding NewObjectStorage_sel by (rule keeps_storage)
qed

interpretation pgok: cleanup_contract "pg_cleanup_store E" "NewObjectStorage c bucket" cutoff
  "\<lambda>w. blob_ok (db w)" "\<lambda>_. True" for E and c :: "'o minio_client" and bucket cutoff
proof unfold_locales
  show "keeps (\<lambda>w :: 'o world. blob_ok (db w)) (cs_ListExpiredUploadBlobRefs (pg_cleanup_store E) cutoff n)" for n
    unfolding pg_cleanup_store_sel UploadStore_ListExpiredUploadBlobRefs_def
    by (auto intro!: keeps_intros keeps_stmt simp: sql_list_expired_def)
  show "keeps (\<lambda>w :: 'o world. blob_ok (db w)) (cs_DeleteBlobByID (pg_cleanup_store E) (er_BlobID r))" for r
    unfolding pg_cleanup_store_sel UploadStore_DeleteBlobByID_def
    by (intro keeps_intros keeps_stmt) (rule blob_ok_delete_blob, assumption+)
  show "keeps (\<lambda>w :: 'o world. blob_ok (db w)) (os_Delete (NewObjectStorage c bucket) (er_ObjectKey r))" for r
    unfolding NewObjectStorage_sel by (rule keeps_storage)
qed simp

interpretation pgobj: cleanup_contract "pg_cleanup_store E" "NewObjectStorage c bucket" cutoff
  "kept_object view c bucket cutoff b k v" "\<lambda>r. (b, k) \<noteq> (bucket, er_ObjectKey r)"
  for E and c :: "'o minio_client" and bucket cutoff view b k v
proof unfold_locales
  show "keeps (kept_object view c bucket cutoff b k v) (cs_ListExpiredUploadBlobRefs (pg_cleanup_store E) cutoff n)" for n
    unfolding pg_cleanup_store_sel UploadStore_ListExpiredUploadBlobRefs_def
    by (auto intro!: keeps_intros keeps_stmt_world simp: sql_list_expired_def kept_object_def)
  show "\<forall>r \<in> set refs. (b, k) \<noteq> (bucket, er_ObjectKey r)"
    if "kept_object view c bucket cutoff b k v w" "cs_ListExpiredUploadBlobRefs (pg_cleanup_store E) cutoff n w = (Inr refs, w')"
    for n refs and w w' :: "'o world"
    using that listed_refs [of E cutoff n w refs w'] expired_refs_keys_in [of _ cutoff "db w"] by (auto simp: kept_object_def)
  show "keeps (kept_object view c bucket cutoff b k v) (cs_DeleteBlobByID (pg_cleanup_store E) (er_BlobID r))" for r
    unfolding pg_cleanup_store_sel UploadStore_DeleteBlobByID_def
    by (intro keeps_intros keeps_stmt_world) (auto simp: kept_object_def dest: expired_keys_delete_blob)
  show "keeps (kept_object view c bucket cutoff b k v) (os_Delete (NewObjectStorage c bucket) (er_ObjectKey r))"
    if "(b, k) \<noteq> (bucket, er_ObjectKey r)" for r
    unfolding NewObjectStorage_sel keeps_iff_wp
  proof (intro allI impI)
    fix w assume w: "kept_object view c bucket cutoff b k v w"
    then have "minio_ok c view" by (simp add: kept_object_def)
    then show "wp (ObjectStorage_Delete c bucket (er_ObjectKey r)) (\<lambda>_. kept_object view c bucket cutoff b k v)
        (\<lambda>_. kept_object view c bucket cutoff b k v) w"
      by (rule wp_Delete) (use w that in \<open>auto simp: kept_object_def same_but_def\<close>)
  qed
qed

subsection \<open>A pass on a working database\<close>

lemma DeleteBlobByID_reliable:
  assumes "reliable E" and "\<exists>b \<in> set (blobs (db w)). bl_BlobID b = x"
  shows "\<exists>w'. UploadStore_DeleteBlobByID E x w = (Inr (), w') \<and> objs w' = objs w \<and>
    blobs (db w') = filter (\<lambda>b. bl_BlobID b \<noteq> x) (blobs (db w)) \<and>
    upload_sessions (db w') = filter (\<lambda>s. us_BlobID s \<noteq> x) (upload_sessions (db w))"
proof -
  obtain n where n: "count_where (\<lambda>r. bl_BlobID r = x) (blobs (db w)) = Suc n"
    using assms(2) by (cases "count_where (\<lambda>r. bl_BlobID r = x) (blobs (db w))") auto
  have ex: "\<not> (\<forall>r \<in> set (blobs (db w)). bl_BlobID r \<noteq> x)" using assms(2) by blast
  show ?thesis
    using assms(1) by (simp add: UploadStore_DeleteBlobByID_def andthen_def handle_def stmt_def sql_delete_blob_def n ex
        Let_def ret_def delete_where_def)
qed

lemma Delete_healthy:
  assumes "minio_healthy c view"
  shows "\<exists>w'. ObjectStorage_Delete c bucket k w = (Inr (), w') \<and> db w' = db w \<and>
    view (objs w') bucket = (view (objs w) bucket)(k := None)"
proof -
  obtain r w' where run: "ObjectStorage_Delete c bucket k w = (r, w')" by fastforce
  have "\<not> isl (fst (mc_RemoveObject c bucket k (objs w)))" using assms by (auto simp: minio_healthy_def)
  then have "\<not> isl r" using run by (auto simp: ObjectStorage_Delete_def minio_call_def split: prod.splits sum.splits)
  moreover have "db w' = db w" using run by (auto simp: ObjectStorage_Delete_def minio_call_def split: prod.splits sum.splits)
  moreover have "wp (ObjectStorage_Delete c bucket k) (\<lambda>_ w'. view (objs w') bucket = (view (objs w) bucket)(k := None)) (\<lambda>_ _. True) w"
    using assms by (intro wp_Delete) (auto simp: minio_healthy_def same_but_def fun_eq_iff)
  ultimately show ?thesis using run by (cases r) (auto simp: wp_def)
qed

lemma cleanup_refs_reliable:
  assumes "reliable E" and "minio_healthy c view" and "distinct (map er_BlobID refs)"
    and "\<forall>r \<in> set refs. \<exists>b \<in> set (blobs (db w)). bl_BlobID b = er_BlobID r"
  shows "\<exists>w'. cleanup_refs (pg_cleanup_store E) (NewObjectStorage c bucket) refs k w = (Inr (k + length refs), w') \<and>
    blobs (db w') = filter (\<lambda>b. bl_BlobID b \<notin> er_BlobID ` set refs) (blobs (db w)) \<and>
    upload_sessions (db w') = filter (\<lambda>s. us_BlobID s \<notin> er_BlobID ` set refs) (upload_sessions (db w)) \<and>
    view (objs w') bucket = (\<lambda>key. if key \<in> er_ObjectKey ` set refs then None else view (objs w) bucket key)"
  using assms(3,4)
proof (induction refs arbitrary: k w)
  case Nil
  then show ?case by (simp add: ret_def)
next
  case (Cons r refs)
  obtain w1 where w1: "ObjectStorage_Delete c bucket (er_ObjectKey r) w = (Inr (), w1)" "db w1 = db w"
    "view (objs w1) bucket = (view (objs w) bucket)(er_ObjectKey r := None)"
    using Delete_healthy [OF assms(2)] by blast
  obtain w2 where w2: "UploadStore_DeleteBlobByID E (er_BlobID r) w1 = (Inr (), w2)" "objs w2 = objs w1"
    "blobs (db w2) = filter (\<lambda>b. bl_BlobID b \<noteq> er_BlobID r) (blobs (db w))"
    "upload_sessions (db w2) = filter (\<lambda>s. us_BlobID s \<noteq> er_BlobID r) (upload_sessions (db w))"
    using DeleteBlobByID_reliable [OF assms(1), of w1 "er_BlobID r"] Cons.prems(2) w1(2) by auto
  have "\<forall>q \<in> set refs. \<exists>b \<in> set (blobs (db w2)). bl_BlobID b = er_BlobID q"
    using Cons.prems by (auto simp: w2(3)) (metis image_eqI)
  with Cons.IH [of w2 "Suc k"] Cons.prems(1) obtain w3 where w3:
    "cleanup_refs (pg_cleanup_store E) (NewObjectStorage c bucket) refs (Suc k) w2 = (Inr (Suc k + length refs), w3)"
    "blobs (db w3) = filter (\<lambda>b. bl_BlobID b \<notin> er_BlobID ` set refs) (blobs (db w2))"
    "upload_sessions (db w3) = filter (\<lambda>s. us_BlobID s \<notin> er_BlobID ` set refs) (upload_sessions (db w2))"
    "view (objs w3) bucket = (\<lambda>key. if key \<in> er_ObjectKey ` set refs then None else view (objs w2) bucket key)"
    by auto
  have "cleanup_refs (pg_cleanup_store E) (NewObjectStorage c bucket) (r # refs) k w = (Inr (k + length (r # refs)), w3)"
    using w1(1) w2(1) w3(1) by (simp add: andthen_def handle_def ignore_def ret_def)
  moreover have "view (objs w3) bucket = (\<lambda>key. if key \<in> er_ObjectKey ` set (r # refs) then None else view (objs w) bucket key)"
    by (auto simp: w3(4) w2(2) w1(3))
  moreover have "blobs (db w3) = filter (\<lambda>b. bl_BlobID b \<notin> er_BlobID ` set (r # refs)) (blobs (db w))"
    "upload_sessions (db w3) = filter (\<lambda>s. us_BlobID s \<notin> er_BlobID ` set (r # refs)) (upload_sessions (db w))"
    by (auto simp: w3(2,3) w2(3,4) intro: filter_cong)
  ultimately show ?case by blast
qed

lemma expired_after:
  assumes "blobs d' = filter (\<lambda>b. bl_BlobID b \<notin> X) (blobs d)"
    and "upload_sessions d' = filter (\<lambda>s. us_BlobID s \<notin> X) (upload_sessions d)"
  shows "expired cutoff d' x \<longleftrightarrow> expired cutoff d x \<and> x \<notin> X"
  by (auto simp: expired_def assms)

lemma finite_expired [simp]: "finite {x. expired cutoff d x}"
  by (rule finite_subset [of _ "bl_BlobID ` set (blobs d)"]) (auto simp: expired_def)

text \<open>The state a complete pass leaves.\<close>

definition swept :: "time \<Rightarrow> (string \<Rightarrow> bytes option) \<Rightarrow> database \<Rightarrow> (string \<Rightarrow> bytes option) \<Rightarrow> database \<Rightarrow> bool" where
  "swept cutoff v d v' d' \<longleftrightarrow>
     blobs d' = filter (\<lambda>b. \<not> expired cutoff d (bl_BlobID b)) (blobs d) \<and>
     upload_sessions d' = filter (\<lambda>s. \<not> expired cutoff d (us_BlobID s)) (upload_sessions d) \<and>
     v' = (\<lambda>k. if k \<in> expired_keys cutoff d then None else v k)"

lemma swept_nothing: "{x. expired cutoff d x} = {} \<Longrightarrow> swept cutoff v d v d"
  by (simp add: swept_def expired_keys_def)

lemma list_expired_reliable:
  assumes "reliable E" and "0 < n"
  obtains refs where "UploadStore_ListExpiredUploadBlobRefs E cutoff n w = (Inr refs, w\<lparr>tick := Suc (tick w)\<rparr>)"
    and "er_BlobID ` set refs \<subseteq> {x. expired cutoff (db w) x}"
    and "set refs \<subseteq> set (expired_refs cutoff (blobs (db w)) (upload_sessions (db w)))"
    and "blob_ok (db w) \<Longrightarrow> distinct (map er_BlobID refs)"
    and "int (length refs) < n \<Longrightarrow> er_BlobID ` set refs = {x. expired cutoff (db w) x}"
proof -
  let ?L = "sort_by (\<lambda>a b. env_text_le E (er_BlobID a) (er_BlobID b)) (expired_refs cutoff (blobs (db w)) (upload_sessions (db w)))"
  let ?r = "take (nat n) ?L"
  have sub: "set ?r \<subseteq> set (expired_refs cutoff (blobs (db w)) (upload_sessions (db w)))"
    by (auto dest: in_set_takeD)
  have "distinct (map er_BlobID ?r)" if "blob_ok (db w)"
    using that expired_refs_distinct [of "blobs (db w)" "upload_sessions (db w)" cutoff]
    by (simp add: take_map [symmetric] distinct_take blob_ok_def)
  moreover have "er_BlobID ` set ?r = {x. expired cutoff (db w) x}" if "int (length ?r) < n"
    using that by (simp add: expired_refs_ids [symmetric] min_def split: if_splits)
  moreover have "UploadStore_ListExpiredUploadBlobRefs E cutoff n w = (Inr ?r, w\<lparr>tick := Suc (tick w)\<rparr>)"
    using assms by (simp add: UploadStore_ListExpiredUploadBlobRefs_def stmt_def sql_list_expired_eq)
  moreover have "er_BlobID ` set ?r \<subseteq> {x. expired cutoff (db w) x}"
    using sub by (auto simp: expired_refs_ids [symmetric])
  ultimately show ?thesis using that sub by blast
qed

lemma refs_keys:
  assumes "blob_ok d" and sub: "set refs \<subseteq> set (expired_refs cutoff (blobs d) (upload_sessions d))"
  shows "er_ObjectKey ` set refs = bl_ObjectKey ` {b \<in> set (blobs d). bl_BlobID b \<in> er_BlobID ` set refs}"
proof -
  have r: "\<exists>b \<in> set (blobs d). er_BlobID r = bl_BlobID b \<and> er_ObjectKey r = bl_ObjectKey b" if "r \<in> set refs" for r
    using that sub expired_refs_keys by blast
  have "bl_ObjectKey b = er_ObjectKey r" if "b \<in> set (blobs d)" "r \<in> set refs" "bl_BlobID b = er_BlobID r" for b r
    using r [OF that(2)] blob_ok_unique [OF assms(1) that(1)] that(3) by auto
  note key = this
  show ?thesis
  proof (intro set_eqI iffI)
    fix k assume "k \<in> er_ObjectKey ` set refs"
    then obtain q where q: "q \<in> set refs" "k = er_ObjectKey q" by blast
    with r obtain b where "b \<in> set (blobs d)" "er_BlobID q = bl_BlobID b" "er_ObjectKey q = bl_ObjectKey b" by blast
    with q show "k \<in> bl_ObjectKey ` {b \<in> set (blobs d). bl_BlobID b \<in> er_BlobID ` set refs}" by force
  qed (auto simp: key)
qed

lemma swept_batch:
  assumes refs: "ids \<subseteq> {x. expired cutoff d x}" and b: "blobs d1 = filter (\<lambda>b. bl_BlobID b \<notin> ids) (blobs d)"
    and s: "upload_sessions d1 = filter (\<lambda>s. us_BlobID s \<notin> ids) (upload_sessions d)"
    and v: "v1 = (\<lambda>k. if k \<in> bl_ObjectKey ` {b \<in> set (blobs d). bl_BlobID b \<in> ids} then None else v k)"
    and rest: "swept cutoff v1 d1 v2 d2"
  shows "swept cutoff v d v2 d2"
proof -
  note X = expired_after [OF b s, of cutoff]
  have "expired_keys cutoff d = bl_ObjectKey ` {b \<in> set (blobs d). bl_BlobID b \<in> ids} \<union> expired_keys cutoff d1"
    using refs unfolding expired_keys_def X by (auto simp: b)
  moreover have "blobs d2 = filter (\<lambda>b. \<not> expired cutoff d (bl_BlobID b)) (blobs d)"
    "upload_sessions d2 = filter (\<lambda>s. \<not> expired cutoff d (us_BlobID s)) (upload_sessions d)"
    using rest refs by (auto simp: swept_def b s X intro!: filter_cong)
  ultimately show ?thesis using rest by (auto simp: swept_def v)
qed

lemma swept_last:
  assumes "ids = {x. expired cutoff d x}" and "blobs d1 = filter (\<lambda>b. bl_BlobID b \<notin> ids) (blobs d)"
    and "upload_sessions d1 = filter (\<lambda>s. us_BlobID s \<notin> ids) (upload_sessions d)"
    and "v1 = (\<lambda>k. if k \<in> bl_ObjectKey ` {b \<in> set (blobs d). bl_BlobID b \<in> ids} then None else v k)"
  shows "swept cutoff v d v1 d1"
  using assms by (simp add: swept_def expired_keys_def)

lemma cleanup_batches_reliable:
  assumes E: "reliable E" and client: "minio_healthy c view" and n: "0 < n"
  shows "blob_ok (db w) \<Longrightarrow> length (blobs (db w)) < fuel \<Longrightarrow>
    \<exists>w'. cleanup_batches fuel (pg_cleanup_store E) (NewObjectStorage c bucket) cutoff n k w =
          (Inr (Some (k + card {x. expired cutoff (db w) x})), w') \<and>
        swept cutoff (view (objs w) bucket) (db w) (view (objs w') bucket) (db w')"
proof (induction fuel arbitrary: w k)
  case (Suc fuel)
  obtain refs where list: "UploadStore_ListExpiredUploadBlobRefs E cutoff n w = (Inr refs, w\<lparr>tick := Suc (tick w)\<rparr>)"
    and ids: "er_BlobID ` set refs \<subseteq> {x. expired cutoff (db w) x}"
    and sub: "set refs \<subseteq> set (expired_refs cutoff (blobs (db w)) (upload_sessions (db w)))"
    and dist: "distinct (map er_BlobID refs)"
    and all: "int (length refs) < n \<Longrightarrow> er_BlobID ` set refs = {x. expired cutoff (db w) x}"
    using list_expired_reliable [OF E n, of cutoff w] Suc.prems(1) by metis
  have len: "length refs = card (er_BlobID ` set refs)" using distinct_card [OF dist] by simp
  show ?case
  proof (cases "refs = []")
    case True
    then have "{x. expired cutoff (db w) x} = {}" using all n by simp
    with True list swept_nothing [of cutoff "db w" "view (objs w) bucket"] show ?thesis by (simp add: handle_def ret_def)
  next
    case False
    have ex: "\<forall>r \<in> set refs. \<exists>b \<in> set (blobs (db w)). bl_BlobID b = er_BlobID r"
      using ids by (auto simp: expired_def)
    obtain w2 where w2: "cleanup_refs (pg_cleanup_store E) (NewObjectStorage c bucket) refs k (w\<lparr>tick := Suc (tick w)\<rparr>) = (Inr (k + length refs), w2)"
      and b: "blobs (db w2) = filter (\<lambda>b. bl_BlobID b \<notin> er_BlobID ` set refs) (blobs (db w))"
      and s: "upload_sessions (db w2) = filter (\<lambda>s. us_BlobID s \<notin> er_BlobID ` set refs) (upload_sessions (db w))"
      and v: "view (objs w2) bucket = (\<lambda>key. if key \<in> er_ObjectKey ` set refs then None else view (objs w) bucket key)"
      using cleanup_refs_reliable [OF E client dist, of "w\<lparr>tick := Suc (tick w)\<rparr>" bucket k] ex by (auto cong: if_cong)
    note v' = v [unfolded refs_keys [OF Suc.prems(1) sub]]
    have run: "cleanup_batches (Suc fuel) (pg_cleanup_store E) (NewObjectStorage c bucket) cutoff n k w =
      (if int (length refs) < n then ret (Some (k + length refs))
       else cleanup_batches fuel (pg_cleanup_store E) (NewObjectStorage c bucket) cutoff n (k + length refs)) w2"
      using list w2 False by (simp add: handle_def andthen_def)
    show ?thesis
    proof (cases "int (length refs) < n")
      case True
      have "card {x. expired cutoff (db w) x} = length refs" unfolding len all [OF True] ..
      with run True swept_last [OF all [OF True] b s v'] show ?thesis
        by (intro exI [of _ w2] conjI) (simp_all only: if_True ret_def)
    next
      case False
      have ok2: "blob_ok (db w2)"
        using keepsD [OF pgok.keeps_refs _ w2] Suc.prems(1) by simp
      obtain r where r: "r \<in> set refs" using \<open>refs \<noteq> []\<close> by (cases refs) auto
      with ex have "\<exists>b \<in> set (blobs (db w)). \<not> bl_BlobID b \<notin> er_BlobID ` set refs" by (metis image_eqI)
      then have "length (blobs (db w2)) < length (blobs (db w))" unfolding b by (auto intro: length_filter_less)
      then obtain w3 where w3: "cleanup_batches fuel (pg_cleanup_store E) (NewObjectStorage c bucket) cutoff n (k + length refs) w2 =
            (Inr (Some (k + length refs + card {x. expired cutoff (db w2) x})), w3)"
          "swept cutoff (view (objs w2) bucket) (db w2) (view (objs w3) bucket) (db w3)"
        using Suc.IH [OF ok2, of "k + length refs"] Suc.prems(2) by force
      have "{x. expired cutoff (db w2) x} = {x. expired cutoff (db w) x} - er_BlobID ` set refs"
        using expired_after [OF b s] by auto
      then have "length refs + card {x. expired cutoff (db w2) x} = card {x. expired cutoff (db w) x}"
        using len card_mono [OF finite_expired ids] by (simp add: card_Diff_subset ids)
      then show ?thesis using run False w3 swept_batch [OF ids b s v' w3(2)] by (simp add: add.assoc)
    qed
  qed
qed simp

subsection \<open>Properties\<close>

text \<open>What a pass must leave alone: a committed blob, and a blob whose session has not expired.\<close>

definition spared :: "time \<Rightarrow> database \<Rightarrow> Blob \<Rightarrow> bool" where
  "spared cutoff d b \<longleftrightarrow> b \<in> set (blobs d) \<and>
     (bl_Status b = StatusCommitted \<or> (\<exists>s \<in> set (upload_sessions d). us_BlobID s = bl_BlobID b \<and> cutoff \<le> us_ExpiresAt s))"

lemma spared_protected:
  assumes "blob_ok d" and "spared cutoff d b"
  obtains ss where "protected cutoff b ss d"
proof (cases "bl_Status b = StatusCommitted")
  case True
  with assms show ?thesis by (intro that [of "{}"]) (auto simp: protected_def spared_def)
next
  case False
  with assms obtain s where "s \<in> set (upload_sessions d)" "us_BlobID s = bl_BlobID b" "cutoff \<le> us_ExpiresAt s"
    by (auto simp: spared_def)
  with assms show ?thesis by (intro that [of "{s}"]) (auto simp: protected_def spared_def)
qed

lemma spared_key:
  assumes ok: "blob_ok d" and b: "spared cutoff d b"
  shows "bl_ObjectKey b \<notin> expired_keys cutoff d"
proof
  assume "bl_ObjectKey b \<in> expired_keys cutoff d"
  then obtain x where x: "x \<in> set (blobs d)" "expired cutoff d (bl_BlobID x)" "bl_ObjectKey x = bl_ObjectKey b"
    by (auto simp: expired_keys_def)
  then have "x = b" using ok b by (auto simp: blob_ok_def spared_def distinct_map dest: inj_onD)
  from spared_protected [OF ok b] obtain ss where "protected cutoff b ss d" .
  with protected_not_expired x(2) \<open>x = b\<close> show False by blast
qed

text \<open>
  C8. A cleanup pass during which no other call runs is safe, whatever calls of the database or the
  object store fail and however many batches it makes. Committed blobs and blobs whose session has not
  expired at the start of the pass keep their rows, these sessions stay, and the invariant of blobs and
  sessions is kept. Of the object store nothing changes but objects of expired uploads in the bucket of
  the server; in particular the object of every spared blob is as it was. (A commit that lands between
  the list query and the delete of a blob is lost: \<open>cleanup_races_commit\<close>.)
\<close>

theorem cleanup_safe:
  assumes ok: "blob_ok (db w)"
    and run: "cleanupExpiredUploadSessionsOnce fuel E (pg_cleanup_store E) (NewObjectStorage c bucket) n w = (r, w')"
  defines "cutoff \<equiv> env_clock E (tick w)"
  shows "blob_ok (db w') \<and>
    (\<forall>b. spared cutoff (db w) b \<longrightarrow> b \<in> set (blobs (db w'))) \<and>
    (\<forall>s \<in> set (upload_sessions (db w)). cutoff \<le> us_ExpiresAt s \<longrightarrow> s \<in> set (upload_sessions (db w'))) \<and>
    (\<forall>view. minio_ok c view \<longrightarrow>
       (\<forall>bk k. (bk, k) \<notin> {bucket} \<times> expired_keys cutoff (db w) \<longrightarrow> view (objs w') bk k = view (objs w) bk k) \<and>
       (\<forall>b. spared cutoff (db w) b \<longrightarrow> view (objs w') bucket (bl_ObjectKey b) = view (objs w) bucket (bl_ObjectKey b)))"
proof -
  let ?w1 = "w\<lparr>tick := Suc (tick w)\<rparr>"
  define m where "m = (if n \<le> 0 then UploadSessionCleanupListBatchSize else n)"
  have w': "w' = snd (cleanup_batches fuel (pg_cleanup_store E) (NewObjectStorage c bucket) cutoff m 0 ?w1)"
    using run by (simp add: cleanupExpiredUploadSessionsOnce_def Let_def handle_def time_Now_def m_def cutoff_def)
  have kept: "protected cutoff b ss (db w')" if "protected cutoff b ss (db w)" for b ss
    unfolding w' by (rule pgc.keeps_batches) (simp add: that)
  have "blob_ok (db w')" unfolding w' by (rule pgok.keeps_batches) (simp add: ok)
  moreover have "b \<in> set (blobs (db w'))" if b: "spared cutoff (db w) b" for b
  proof -
    from spared_protected [OF ok b] obtain ss where "protected cutoff b ss (db w)" .
    from kept [OF this] show ?thesis by (simp add: protected_def)
  qed
  moreover have "s \<in> set (upload_sessions (db w'))" if s: "s \<in> set (upload_sessions (db w))" "cutoff \<le> us_ExpiresAt s" for s
  proof -
    obtain b where "b \<in> set (blobs (db w))" "bl_BlobID b = us_BlobID s"
      using ok s by (auto simp: blob_ok_def session_ok_def belongs_def)
    with s ok have "protected cutoff b {s} (db w)" by (simp add: protected_def)
    from kept [OF this] show ?thesis by (simp add: protected_def)
  qed
  moreover have obj: "view (objs w') bk k = view (objs w) bk k"
    if "minio_ok c view" "(bk, k) \<notin> {bucket} \<times> expired_keys cutoff (db w)" for view bk k
  proof -
    have "kept_object view c bucket cutoff bk k (view (objs w) bk k) w'"
      unfolding w' by (rule pgobj.keeps_batches) (use that in \<open>auto simp: kept_object_def\<close>)
    then show ?thesis by (simp add: kept_object_def)
  qed
  moreover have "view (objs w') bucket (bl_ObjectKey b) = view (objs w) bucket (bl_ObjectKey b)"
    if "minio_ok c view" "spared cutoff (db w) b" for view b
    using obj [OF that(1)] spared_key [OF ok that(2)] by blast
  ultimately show ?thesis by blast
qed

theorem cleanup_safe_witness:
  "let w = demo_blob_world [set_committed 15 demo_blob] [] [((''b'', ''users/u1/blobs/id-0''), [1, 2, 3])] 2000;
       w' = snd (cleanupExpiredUploadSessionsOnce 5 demo_env (pg_cleanup_store demo_env) (NewObjectStorage mem_client ''b'') 0 w) in
   set_committed 15 demo_blob \<in> set (blobs (db w')) \<and>
   mem_view (objs w') ''b'' ''users/u1/blobs/id-0'' = Some [1, 2, 3]"
proof -
  define w where "w = demo_blob_world [set_committed 15 demo_blob] [] [((''b'', ''users/u1/blobs/id-0''), [1, 2, 3])] 2000"
  define w' where "w' = snd (cleanupExpiredUploadSessionsOnce 5 demo_env (pg_cleanup_store demo_env) (NewObjectStorage mem_client ''b'') 0 w)"
  define x where "x = set_committed 15 demo_blob"
  have ok: "blob_ok (db w)" by (simp add: blob_ok_def demo_blob_world_def w_def)
  have x: "spared (env_clock demo_env (tick w)) (db w) x" "bl_ObjectKey x = ''users/u1/blobs/id-0''"
    by (simp_all add: spared_def demo_blob_world_def set_committed_def w_def x_def demo_blob_def object_key_def)
  have run: "cleanupExpiredUploadSessionsOnce 5 demo_env (pg_cleanup_store demo_env) (NewObjectStorage mem_client ''b'') 0 w =
      (fst (cleanupExpiredUploadSessionsOnce 5 demo_env (pg_cleanup_store demo_env) (NewObjectStorage mem_client ''b'') 0 w), w')"
    by (simp add: w'_def)
  note safe = cleanup_safe [OF ok run]
  from safe x(1) have "x \<in> set (blobs (db w'))" by blast
  moreover have "mem_view (objs w') ''b'' (bl_ObjectKey x) = mem_view (objs w) ''b'' (bl_ObjectKey x)"
    using safe x(1) mem_client_ok by blast
  moreover have "mem_view (objs w) ''b'' ''users/u1/blobs/id-0'' = Some [1, 2, 3]"
    by (simp add: mem_view_def demo_blob_world_def w_def)
  ultimately show ?thesis unfolding Let_def x(2) by (simp add: w'_def w_def x_def)
qed

text \<open>
  C34. A cleanup pass ends and is complete. When the database and the object store work, fuel for one
  more batch than there are blobs is enough: the pass returns, reports exactly the number of blobs in
  flight whose session has expired, and the tables and the bucket afterwards are those before without
  precisely these blobs, their sessions and their objects.
\<close>

theorem cleanup_complete:
  assumes "reliable E" and "minio_healthy c view" and "blob_ok (db w)" and "length (blobs (db w)) < fuel"
  shows "\<exists>w'. cleanupExpiredUploadSessionsOnce fuel E (pg_cleanup_store E) (NewObjectStorage c bucket) n w =
      (Inr (Some (card {x. expired (env_clock E (tick w)) (db w) x})), w') \<and>
    swept (env_clock E (tick w)) (view (objs w) bucket) (db w) (view (objs w') bucket) (db w')"
proof -
  have "0 < (if n \<le> 0 then UploadSessionCleanupListBatchSize else n)" by (simp add: UploadSessionCleanupListBatchSize_def)
  from cleanup_batches_reliable [OF assms(1,2) this, of "w\<lparr>tick := Suc (tick w)\<rparr>" fuel bucket "env_clock E (tick w)" 0] assms(3,4)
  show ?thesis by (simp add: cleanupExpiredUploadSessionsOnce_def Let_def handle_def time_Now_def)
qed

theorem cleanup_complete_witness:
  "upload_sessions (db (snd (cleanupExpiredUploadSessionsOnce 2 demo_env (pg_cleanup_store demo_env)
     (NewObjectStorage mem_client ''b'') 1 (demo_blob_world [demo_blob] [demo_session] [] 2000)))) = []"
proof -
  let ?w = "demo_blob_world [demo_blob] [demo_session] [] 2000"
  have "blob_ok (db ?w)" "length (blobs (db ?w)) < 2"
    using demo_world0_ok by (simp_all add: demo_blob_world_def)
  from cleanup_complete [OF demo_env_reliable mem_client_healthy this, of "''b''" 1]
  obtain w' where "cleanupExpiredUploadSessionsOnce 2 demo_env (pg_cleanup_store demo_env) (NewObjectStorage mem_client ''b'') 1 ?w =
      (Inr (Some (card {x. expired (env_clock demo_env (tick ?w)) (db ?w) x})), w')"
    "swept (env_clock demo_env (tick ?w)) (mem_view (objs ?w) ''b'') (db ?w) (mem_view (objs w') ''b'') (db w')" by blast
  then show ?thesis by (auto simp: swept_def expired_def demo_blob_world_def demo_blob_def demo_session_def in_flight_def)
qed

text \<open>
  The deletes of a pass are not guarded by the status of the blob: when a commit lands between the
  list query and the delete, the committed blob is deleted, row and object.
\<close>

theorem cleanup_races_commit:
  "\<exists>refs (w :: mem_store world) w1 info w2.
     UploadStore_ListExpiredUploadBlobRefs demo_env 2000 100 w = (Inr refs, w1) \<and>
     CommitBlobUpload demo_blob_handler demo_ctx (Some ''id-1'') w1 = (Inr info, w2) \<and>
     blobs (db w2) = [set_committed 15 demo_blob] \<and>
     blobs (db (snd (cleanup_refs (pg_cleanup_store demo_env) (NewObjectStorage mem_client ''b'') refs 0 w2))) = []"
proof -
  let ?w = "snd (UploadBlob demo_blob_handler demo_ctx demo_stream demo_blob_world0)"
  have "UploadStore_ListExpiredUploadBlobRefs demo_env 2000 100 ?w =
      (Inr [\<lparr>er_BlobID = ''id-0'', er_ObjectKey = ''users/u1/blobs/id-0''\<rparr>], ?w\<lparr>tick := 12\<rparr>)"
    unfolding demo_upload
    by (simp add: UploadStore_ListExpiredUploadBlobRefs_def sql_list_expired_def sort_by_def in_flight_def blob_eval blob_demo_defs)
  moreover have "CommitBlobUpload demo_blob_handler demo_ctx (Some ''id-1'') (?w\<lparr>tick := 12\<rparr>) =
    (Inr (toProtoBlobInfo (set_committed 15 demo_blob)),
     demo_blob_world [set_committed 15 demo_blob] [] [((''b'', ''users/u1/blobs/id-0''), [1, 2, 3, 4, 5, 6])] 23)"
    unfolding demo_upload by (simp add: CommitBlobUpload_def blob_eval blob_demo_defs)
  moreover have "blobs (db (snd (cleanup_refs (pg_cleanup_store demo_env) (NewObjectStorage mem_client ''b'')
      [\<lparr>er_BlobID = ''id-0'', er_ObjectKey = ''users/u1/blobs/id-0''\<rparr>] 0
      (demo_blob_world [set_committed 15 demo_blob] [] [((''b'', ''users/u1/blobs/id-0''), [1, 2, 3, 4, 5, 6])] 23)))) = []"
    by (simp add: UploadStore_DeleteBlobByID_def sql_delete_blob_def blob_eval blob_demo_defs)
  ultimately show ?thesis
    by (intro exI conjI) (assumption | simp add: demo_blob_world_def)+
qed

end
