(* ===== verification/VaultEngine.thy ===== *)
theory VaultEngine
  imports VaultRepo
begin

section \<open>The vault engine (\<open>internal/server/vault/engine.go\<close>)\<close>

text \<open>
  The business rules of the vault: creation, optimistic update, tombstone deletion, and idempotency
  by \<open>operation_id\<close>. As in the Go code the engine is written against the interfaces
  \<open>Repository\<close>, \<open>RevisionLogRepository\<close> and \<open>ProcessedOperationsRepository\<close>: records of
  operations over an arbitrary world.

  The contract of these interfaces is the locale \<open>vault_backend\<close>; the PostgreSQL repositories
  interpret it (\<open>pg\<close>). What the engine promises is the abstract machine \<open>vault_step\<close> on
  \<open>vault_abs\<close>: inside the locale every successful operation is shown to be a replay that changes
  nothing or one step of that machine.
\<close>

subsection \<open>Interfaces and operations\<close>

record 'w Repository =
  r_CreateItem :: "Item \<Rightarrow> 'w \<Rightarrow> (go_error + unit) \<times> 'w"
  r_GetItem :: "string \<Rightarrow> string \<Rightarrow> 'w \<Rightarrow> (go_error + Item) \<times> 'w"
  r_ListItems :: "string \<Rightarrow> bool \<Rightarrow> int \<Rightarrow> string \<Rightarrow> 'w \<Rightarrow> (go_error + Item list \<times> string) \<times> 'w"
  r_UpdateItem :: "Item \<Rightarrow> u64 \<Rightarrow> 'w \<Rightarrow> (go_error + unit) \<times> 'w"
  r_DeleteItem :: "string \<Rightarrow> string \<Rightarrow> u64 \<Rightarrow> time \<Rightarrow> 'w \<Rightarrow> (go_error + u64) \<times> 'w"

record 'w RevisionLog =
  l_AppendRevision :: "RevisionLogEntry \<Rightarrow> 'w \<Rightarrow> (go_error + RevisionLogEntry) \<times> 'w"

record 'w ProcessedOps =
  p_MarkProcessed :: "string \<Rightarrow> string \<Rightarrow> string \<Rightarrow> u64 \<Rightarrow> 'w \<Rightarrow> (go_error + unit) \<times> 'w"
  p_Lookup :: "string \<Rightarrow> string \<Rightarrow> 'w \<Rightarrow> (go_error + ProcessedOperation option) \<times> 'w"

record 'w EngineService =
  eng_repo :: "'w Repository"
  eng_revisions :: "'w RevisionLog"
  eng_processedOps :: "'w ProcessedOps"
  eng_now :: "'w \<Rightarrow> (go_error + time) \<times> 'w"
  eng_uuid :: "'w \<Rightarrow> (go_error + string) \<times> 'w"

definition NewEngine ::
  "env \<Rightarrow> 'o world Repository \<Rightarrow> 'o world RevisionLog \<Rightarrow> 'o world ProcessedOps \<Rightarrow>
   ('o, time) server option \<Rightarrow> 'o world EngineService" where
  "NewEngine E repo revisions processedOps now =
     \<lparr>eng_repo = repo, eng_revisions = revisions, eng_processedOps = processedOps,
      eng_now = (case now of None \<Rightarrow> time_Now E | Some f \<Rightarrow> f), eng_uuid = uuid_NewString E\<rparr>"

definition new_item :: "string \<Rightarrow> string \<Rightarrow> CreateInput \<Rightarrow> time \<Rightarrow> Item" where
  "new_item itemID userID inp now =
     \<lparr>it_ItemID = itemID, it_UserID = userID, it_ItemType = ci_ItemType inp,
      it_TitleCiphertext = ci_TitleCiphertext inp, it_TitleNonce = ci_TitleNonce inp,
      it_MetadataCiphertext = ci_MetadataCiphertext inp, it_MetadataNonce = ci_MetadataNonce inp,
      it_PayloadCiphertext = ci_PayloadCiphertext inp, it_PayloadNonce = ci_PayloadNonce inp,
      it_BlobID = ci_BlobID inp, it_Version = 1, it_Checksum = ci_Checksum inp,
      it_CreatedAt = now, it_UpdatedAt = now, it_DeletedAt = None\<rparr>"

definition new_entry :: "string \<Rightarrow> string \<Rightarrow> string \<Rightarrow> ChangeType \<Rightarrow> u64 \<Rightarrow> time \<Rightarrow> RevisionLogEntry" where
  "new_entry userID operationID itemID ct v now =
     \<lparr>rl_RevisionID = 0, rl_UserID = userID, rl_OperationID = Some operationID, rl_ItemID = itemID,
      rl_ChangeType = ct, rl_ItemVersion = v, rl_ChangedAt = now\<rparr>"

definition Engine_Create ::
  "'w EngineService \<Rightarrow> string \<Rightarrow> string \<Rightarrow> CreateInput \<Rightarrow> ('w, go_error, CreateOutput) prog" where
  "Engine_Create e userID operationID inp =
     guard (TrimSpace userID = [] \<or> TrimSpace operationID = []) VaultErrInvalidArgument
     (andthen (p_Lookup (eng_processedOps e) userID operationID) (\<lambda>op.
      case op of
        Some op \<Rightarrow>
          handle (r_GetItem (eng_repo e) userID (po_ItemID op))
            (\<lambda>err. if err = VaultErrNotFound then throw VaultErrNotFound else throw err)
            (\<lambda>item. ret \<lparr>co_ItemID = po_ItemID op, co_Version = it_Version item,
                           co_ServerRevision = po_RevisionID op\<rparr>)
      | None \<Rightarrow>
          andthen (eng_now e) (\<lambda>now.
          andthen (eng_uuid e) (\<lambda>itemID.
          let item = new_item itemID userID inp now in
          andthen (r_CreateItem (eng_repo e) item) (\<lambda>_.
          andthen (l_AppendRevision (eng_revisions e)
                     (new_entry userID operationID itemID ChangeTypeCreated (it_Version item) now)) (\<lambda>entry.
          andthen (p_MarkProcessed (eng_processedOps e) userID operationID itemID (rl_RevisionID entry)) (\<lambda>_.
          ret \<lparr>co_ItemID = itemID, co_Version = it_Version item,
               co_ServerRevision = rl_RevisionID entry\<rparr>)))))))"

definition apply_update :: "UpdateInput \<Rightarrow> time \<Rightarrow> Item \<Rightarrow> Item" where
  "apply_update inp now current =
     current\<lparr>it_TitleCiphertext := ui_TitleCiphertext inp, it_TitleNonce := ui_TitleNonce inp,
       it_MetadataCiphertext := ui_MetadataCiphertext inp, it_MetadataNonce := ui_MetadataNonce inp,
       it_PayloadCiphertext := ui_PayloadCiphertext inp, it_PayloadNonce := ui_PayloadNonce inp,
       it_BlobID := ui_BlobID inp, it_Checksum := ui_Checksum inp,
       it_Version := it_Version current + 1, it_UpdatedAt := now\<rparr>"

definition Engine_Update ::
  "'w EngineService \<Rightarrow> string \<Rightarrow> string \<Rightarrow> string \<Rightarrow> u64 \<Rightarrow> UpdateInput \<Rightarrow>
   ('w, go_error, UpdateOutput) prog" where
  "Engine_Update e userID operationID itemID expectedVersion inp =
     guard (TrimSpace userID = [] \<or> TrimSpace operationID = [] \<or> TrimSpace itemID = [])
       VaultErrInvalidArgument
     (andthen (p_Lookup (eng_processedOps e) userID operationID) (\<lambda>op.
      case op of
        Some op \<Rightarrow>
          guard (po_ItemID op \<noteq> [] \<and> po_ItemID op \<noteq> itemID) VaultErrInvalidArgument
          (andthen (r_GetItem (eng_repo e) userID (po_ItemID op)) (\<lambda>item.
           ret \<lparr>uo_NewVersion = it_Version item, uo_ServerRevision = po_RevisionID op\<rparr>))
      | None \<Rightarrow>
          andthen (r_GetItem (eng_repo e) userID itemID) (\<lambda>current.
          guard (it_DeletedAt current \<noteq> None) VaultErrNotFound
          (guard (it_Version current \<noteq> expectedVersion) VaultErrConflict
          (andthen (eng_now e) (\<lambda>now.
          let current = apply_update inp now current in
          andthen (r_UpdateItem (eng_repo e) current expectedVersion) (\<lambda>_.
          andthen (l_AppendRevision (eng_revisions e)
                     (new_entry userID operationID itemID ChangeTypeUpdated (it_Version current) now)) (\<lambda>entry.
          andthen (p_MarkProcessed (eng_processedOps e) userID operationID itemID (rl_RevisionID entry)) (\<lambda>_.
          ret \<lparr>uo_NewVersion = it_Version current, uo_ServerRevision = rl_RevisionID entry\<rparr>)))))))))"

definition Engine_Delete ::
  "'w EngineService \<Rightarrow> string \<Rightarrow> string \<Rightarrow> string \<Rightarrow> u64 \<Rightarrow> ('w, go_error, DeleteOutput) prog" where
  "Engine_Delete e userID operationID itemID expectedVersion =
     guard (TrimSpace userID = [] \<or> TrimSpace operationID = [] \<or> TrimSpace itemID = [])
       VaultErrInvalidArgument
     (andthen (p_Lookup (eng_processedOps e) userID operationID) (\<lambda>op.
      case op of
        Some op \<Rightarrow>
          guard (po_ItemID op \<noteq> [] \<and> po_ItemID op \<noteq> itemID) VaultErrInvalidArgument
          (handle (r_GetItem (eng_repo e) userID (po_ItemID op))
            (\<lambda>err. if err = VaultErrNotFound then throw VaultErrNotFound else throw err)
            (\<lambda>item. ret \<lparr>do_NewVersion = it_Version item, do_ServerRevision = po_RevisionID op\<rparr>))
      | None \<Rightarrow>
          andthen (eng_now e) (\<lambda>now.
          andthen (r_DeleteItem (eng_repo e) userID itemID expectedVersion now) (\<lambda>newVersion.
          andthen (l_AppendRevision (eng_revisions e)
                     (new_entry userID operationID itemID ChangeTypeDeleted newVersion now)) (\<lambda>entry.
          andthen (p_MarkProcessed (eng_processedOps e) userID operationID itemID (rl_RevisionID entry)) (\<lambda>_.
          ret \<lparr>do_NewVersion = newVersion, do_ServerRevision = rl_RevisionID entry\<rparr>))))))"

definition Engine_Get ::
  "'w EngineService \<Rightarrow> string \<Rightarrow> string \<Rightarrow> ('w, go_error, Item) prog" where
  "Engine_Get e userID itemID =
     guard (TrimSpace userID = [] \<or> TrimSpace itemID = []) VaultErrInvalidArgument
       (r_GetItem (eng_repo e) userID itemID)"

definition Engine_List ::
  "'w EngineService \<Rightarrow> string \<Rightarrow> bool \<Rightarrow> int \<Rightarrow> string \<Rightarrow> ('w, go_error, Item list \<times> string) prog" where
  "Engine_List e userID includeDeleted pageSize pageToken =
     guard (TrimSpace userID = []) VaultErrInvalidArgument
       (r_ListItems (eng_repo e) userID includeDeleted pageSize pageToken)"

subsection \<open>The PostgreSQL engine\<close>

definition NewVaultRepository :: "env \<Rightarrow> 'o world Repository" where
  "NewVaultRepository E =
     \<lparr>r_CreateItem = VaultRepository_CreateItem E, r_GetItem = VaultRepository_GetItem E,
      r_ListItems = VaultRepository_ListItems E, r_UpdateItem = VaultRepository_UpdateItem E,
      r_DeleteItem = VaultRepository_DeleteItem E\<rparr>"

definition NewRevisionLogRepository :: "env \<Rightarrow> 'o world RevisionLog" where
  "NewRevisionLogRepository E = \<lparr>l_AppendRevision = RevisionLogRepository_AppendRevision E\<rparr>"

definition NewProcessedOperationsRepository :: "env \<Rightarrow> 'o world ProcessedOps" where
  "NewProcessedOperationsRepository E =
     \<lparr>p_MarkProcessed = ProcessedOperationsRepository_MarkProcessed E,
      p_Lookup = ProcessedOperationsRepository_Lookup E\<rparr>"

text \<open>The engine \<open>app.RunContext\<close> builds on the connection pool, and the one \<open>WithVaultEngineTx\<close>
  builds on a transaction: the same repositories, on a \<open>Pool\<close> or a \<open>Tx\<close>.\<close>

definition pg_engine :: "env \<Rightarrow> 'o world EngineService" where
  "pg_engine E = NewEngine E (NewVaultRepository E) (NewRevisionLogRepository E)
     (NewProcessedOperationsRepository E) None"

definition WithVaultEngineTx ::
  "env option \<Rightarrow> ('o, time) server option \<Rightarrow> ('o world EngineService \<Rightarrow> ('o, 'a) server) \<Rightarrow> ('o, 'a) server" where
  "WithVaultEngineTx pool now fn =
     (case pool of
        None \<Rightarrow> throw (ErrOther ''postgres: pool is nil'')
      | Some E \<Rightarrow> in_tx E (fn (NewEngine E (NewVaultRepository E) (NewRevisionLogRepository E)
          (NewProcessedOperationsRepository E) now)))"

text \<open>The clock the server passes is \<open>time.Now\<close>, which is also the default.\<close>

lemma WithVaultEngineTx_time_Now [simp]:
  "WithVaultEngineTx (Some E) (Some (time_Now E)) fn = in_tx E (fn (pg_engine E))"
  "WithVaultEngineTx (Some E) None fn = in_tx E (fn (pg_engine E))"
  by (simp_all add: WithVaultEngineTx_def pg_engine_def NewEngine_def)

subsection \<open>The abstract vault\<close>

text \<open>
  Items by owner and id, the revision log in revision order, the processed operations by owner and
  operation id. A step creates, updates or deletes one item on behalf of one operation that has not
  been processed, and records it.
\<close>

record vault_abs =
  va_items :: "string \<times> string \<Rightarrow> Item option"
  va_log :: "RevisionLogEntry list"
  va_ops :: "string \<times> string \<Rightarrow> ProcessedOperation option"

definition recorded :: "string \<Rightarrow> string \<Rightarrow> Item \<Rightarrow> RevisionLogEntry \<Rightarrow> vault_abs \<Rightarrow> vault_abs" where
  "recorded u oid it en s =
     s\<lparr>va_items := (va_items s)((u, it_ItemID it) \<mapsto> it), va_log := va_log s @ [en],
       va_ops := (va_ops s)((u, oid) \<mapsto> \<lparr>po_UserID = u, po_OperationID = oid,
         po_ItemID = it_ItemID it, po_RevisionID = rl_RevisionID en\<rparr>)\<rparr>"

definition entry_for :: "string \<Rightarrow> string \<Rightarrow> Item \<Rightarrow> ChangeType \<Rightarrow> vault_abs \<Rightarrow> RevisionLogEntry \<Rightarrow> bool" where
  "entry_for u oid it ct s en \<longleftrightarrow>
     rl_UserID en = u \<and> rl_OperationID en = Some oid \<and> rl_ItemID en = it_ItemID it \<and>
     rl_ChangeType en = ct \<and> rl_ItemVersion en = it_Version it \<and>
     (\<forall>r \<in> set (va_log s). rl_RevisionID r < rl_RevisionID en)"

inductive vault_step :: "vault_abs \<Rightarrow> vault_abs \<Rightarrow> bool" where
  create: "\<lbrakk>va_ops s (u, oid) = None; \<forall>u'. va_items s (u', i) = None; it = new_item i u inp now;
     entry_for u oid it ChangeTypeCreated s en\<rbrakk> \<Longrightarrow> vault_step s (recorded u oid it en s)"
| update: "\<lbrakk>va_ops s (u, oid) = None; va_items s (u, i) = Some old; it_DeletedAt old = None;
     it = apply_update inp now old; bigint_ok (it_Version old); bigint_ok (it_Version it);
     entry_for u oid it ChangeTypeUpdated s en\<rbrakk> \<Longrightarrow> vault_step s (recorded u oid it en s)"
| delete: "\<lbrakk>va_ops s (u, oid) = None; va_items s (u, i) = Some old; it_DeletedAt old = None;
     it = tombstone now old; bigint_ok (it_Version old); bigint_ok (it_Version it);
     entry_for u oid it ChangeTypeDeleted s en\<rbrakk> \<Longrightarrow> vault_step s (recorded u oid it en s)"

inductive_cases vault_stepE: "vault_step s t"

text \<open>
  The history invariant. Every item is stored under its own key, an id has one owner, the log
  entries of an item carry the versions 1, 2, .., current version in this order and its tombstone
  is its last entry; revision ids increase along the log; every entry belongs to an item and every
  processed operation to its entry.
\<close>

definition item_history :: "vault_abs \<Rightarrow> string \<Rightarrow> RevisionLogEntry list" where
  "item_history s i = filter (\<lambda>r. rl_ItemID r = i) (va_log s)"

definition history_ok :: "vault_abs \<Rightarrow> string \<Rightarrow> Item \<Rightarrow> bool" where
  "history_ok s i it \<longleftrightarrow>
     map (\<lambda>r. unat (rl_ItemVersion r)) (item_history s i) = [1..<Suc (unat (it_Version it))] \<and>
     (it_DeletedAt it \<noteq> None \<longleftrightarrow>
        (\<exists>r \<in> set (item_history s i). rl_ChangeType r = ChangeTypeDeleted)) \<and>
     (\<forall>r \<in> set (butlast (item_history s i)). rl_ChangeType r \<noteq> ChangeTypeDeleted) \<and>
     (\<forall>r \<in> set (item_history s i). rl_ChangeType r \<noteq> ChangeTypeUnspecified)"

definition vault_ok :: "vault_abs \<Rightarrow> bool" where
  "vault_ok s \<longleftrightarrow>
     (\<forall>u i it. va_items s (u, i) = Some it \<longrightarrow>
        it_UserID it = u \<and> it_ItemID it = i \<and> history_ok s i it) \<and>
     (\<forall>u u' i. va_items s (u, i) \<noteq> None \<longrightarrow> va_items s (u', i) \<noteq> None \<longrightarrow> u = u') \<and>
     sorted_wrt (\<lambda>a b. rl_RevisionID a < rl_RevisionID b) (va_log s) \<and>
     (\<forall>r \<in> set (va_log s). va_items s (rl_UserID r, rl_ItemID r) \<noteq> None) \<and>
     (\<forall>u oid p. va_ops s (u, oid) = Some p \<longrightarrow>
        (\<exists>r \<in> set (va_log s). rl_UserID r = u \<and> rl_OperationID r = Some oid \<and>
           rl_ItemID r = po_ItemID p \<and> rl_RevisionID r = po_RevisionID p)) \<and>
     (\<forall>r \<in> set (va_log s). \<forall>oid. rl_OperationID r = Some oid \<longrightarrow> va_ops s (rl_UserID r, oid) \<noteq> None)"

lemma vault_okD:
  assumes "vault_ok s"
  shows "va_items s (u, i) = Some it \<Longrightarrow> it_UserID it = u \<and> it_ItemID it = i \<and> history_ok s i it"
    and "va_items s (u, i) \<noteq> None \<Longrightarrow> va_items s (u', i) \<noteq> None \<Longrightarrow> u = u'"
    and "sorted_wrt (\<lambda>a b. rl_RevisionID a < rl_RevisionID b) (va_log s)"
    and "r \<in> set (va_log s) \<Longrightarrow> va_items s (rl_UserID r, rl_ItemID r) \<noteq> None"
    and "va_ops s (u, oid) = Some p \<Longrightarrow>
        (\<exists>r \<in> set (va_log s). rl_UserID r = u \<and> rl_OperationID r = Some oid \<and>
           rl_ItemID r = po_ItemID p \<and> rl_RevisionID r = po_RevisionID p)"
    and "r \<in> set (va_log s) \<Longrightarrow> rl_OperationID r = Some oid \<Longrightarrow> va_ops s (rl_UserID r, oid) \<noteq> None"
  using assms unfolding vault_ok_def by blast+

lemma unat_Suc_bigint: "bigint_ok v \<Longrightarrow> unat (v + 1) = Suc (unat v)"
  unfolding bigint_ok_def by (simp add: unat_word_ariths)

lemma item_history_recorded:
  "item_history (recorded u oid it en s) i =
     item_history s i @ (if rl_ItemID en = i then [en] else [])"
  by (simp add: item_history_def recorded_def)

text \<open>Recording one change keeps the invariant, given what the change says about its own item.\<close>

lemma recorded_ok:
  assumes ok: "vault_ok s" and u: "it_UserID it = u" and en: "entry_for u oid it ct s en"
    and own: "\<And>u'. va_items s (u', it_ItemID it) \<noteq> None \<Longrightarrow> u' = u"
    and hist: "history_ok (recorded u oid it en s) (it_ItemID it) it"
  shows "vault_ok (recorded u oid it en s)"
proof -
  let ?t = "recorded u oid it en s"
  have items: "it_UserID x = v \<and> it_ItemID x = i \<and> history_ok ?t i x"
    if "va_items ?t (v, i) = Some x" for v i x
  proof (cases "(v, i) = (u, it_ItemID it)")
    case True
    with that u hist show ?thesis by (simp add: recorded_def)
  next
    case False
    with that have old: "va_items s (v, i) = Some x" by (auto simp: recorded_def split: if_splits)
    with False own have "i \<noteq> it_ItemID it" by auto
    with en have "item_history ?t i = item_history s i"
      by (simp add: item_history_recorded entry_for_def)
    with vault_okD(1) [OF ok old] show ?thesis by (simp add: history_ok_def)
  qed
  moreover have "v = v'" if "va_items ?t (v, i) \<noteq> None" "va_items ?t (v', i) \<noteq> None" for v v' i
    using that own vault_okD(2) [OF ok] by (fastforce simp: recorded_def split: if_splits)
  moreover have "sorted_wrt (\<lambda>a b. rl_RevisionID a < rl_RevisionID b) (va_log ?t)"
    using en vault_okD(3) [OF ok] by (auto simp: recorded_def entry_for_def sorted_wrt_append)
  moreover have "\<forall>r \<in> set (va_log ?t). va_items ?t (rl_UserID r, rl_ItemID r) \<noteq> None"
    using en vault_okD(4) [OF ok] by (auto simp: recorded_def entry_for_def)
  moreover have "\<exists>r \<in> set (va_log ?t). rl_UserID r = v \<and> rl_OperationID r = Some oid' \<and>
      rl_ItemID r = po_ItemID p \<and> rl_RevisionID r = po_RevisionID p"
    if "va_ops ?t (v, oid') = Some p" for v oid' p
    using that en vault_okD(5) [OF ok] by (fastforce simp: recorded_def entry_for_def split: if_splits)
  moreover have "va_ops ?t (rl_UserID r, oid') \<noteq> None"
    if "r \<in> set (va_log ?t)" "rl_OperationID r = Some oid'" for r oid'
    using that en vault_okD(6) [OF ok] by (auto simp: recorded_def entry_for_def)
  ultimately show ?thesis unfolding vault_ok_def by blast
qed

lemma history_ok_next:
  assumes "history_ok s i old" and "it_ItemID it = i" and "it_Version it = it_Version old + 1"
    and "bigint_ok (it_Version old)" and "entry_for u oid it ct s en"
    and "it_DeletedAt old = None" and "it_DeletedAt it \<noteq> None \<longleftrightarrow> ct = ChangeTypeDeleted"
    and "ct \<noteq> ChangeTypeUnspecified"
  shows "history_ok (recorded u oid it en s) i it"
  using assms unat_Suc_bigint [OF assms(4)]
  by (auto simp: history_ok_def item_history_recorded entry_for_def)

lemma vault_step_ok: "vault_step s t \<Longrightarrow> vault_ok s \<Longrightarrow> vault_ok t"
proof (induction rule: vault_step.induct)
  case (create s u oid i it inp now en)
  have "item_history s i = []"
    using vault_okD(4) [OF create.prems] create.hyps(2) by (force simp: item_history_def filter_empty_conv)
  with create.hyps(3,4) have "history_ok (recorded u oid it en s) (it_ItemID it) it"
    by (simp add: history_ok_def item_history_recorded entry_for_def new_item_def)
  with create show ?case by (intro recorded_ok) (auto simp: new_item_def)
next
  case (update s u oid i old it inp now en)
  note old = vault_okD(1) [OF update.prems update.hyps(2)]
  with update.hyps have "history_ok (recorded u oid it en s) (it_ItemID it) it"
    by (intro history_ok_next [where old = old]) (auto simp: apply_update_def)
  with update old vault_okD(2) [OF update.prems] show ?case
    by (intro recorded_ok) (auto simp: apply_update_def)
next
  case (delete s u oid i old it now en)
  note old = vault_okD(1) [OF delete.prems delete.hyps(2)]
  with delete.hyps have "history_ok (recorded u oid it en s) (it_ItemID it) it"
    by (intro history_ok_next [where old = old]) (auto simp: tombstone_def)
  with delete old vault_okD(2) [OF delete.prems] show ?case
    by (intro recorded_ok) (auto simp: tombstone_def)
qed

subsection \<open>The contract of the repositories\<close>

text \<open>
  What the engine relies on. \<open>abs\<close> is the vault a world holds and \<open>inv\<close> the invariant of the
  storage. Reads report the abstract vault; a write that succeeds has exactly its effect; a write
  that fails keeps the invariant, and one that answers with an error of the vault itself
  (\<open>domain_error\<close>, as opposed to a driver error) has changed nothing.
\<close>

lemma apply_update_sel [simp]:
  "it_Version (apply_update inp now r) = it_Version r + 1" "it_ItemID (apply_update inp now r) = it_ItemID r"
  "it_UserID (apply_update inp now r) = it_UserID r" "it_DeletedAt (apply_update inp now r) = it_DeletedAt r"
  by (simp_all add: apply_update_def)

lemma tombstone_sel [simp]:
  "it_Version (tombstone now r) = it_Version r + 1" "it_ItemID (tombstone now r) = it_ItemID r"
  "it_UserID (tombstone now r) = it_UserID r" "it_DeletedAt (tombstone now r) = Some now"
  by (simp_all add: tombstone_def)

lemma new_item_sel [simp]:
  "it_Version (new_item i u inp now) = 1" "it_ItemID (new_item i u inp now) = i"
  "it_UserID (new_item i u inp now) = u" "it_DeletedAt (new_item i u inp now) = None"
  by (simp_all add: new_item_def)

lemmas vault_step_intros = vault_step.create [OF _ _ refl, simplified]
  vault_step.update [OF _ _ _ refl, simplified] vault_step.delete [OF _ _ _ refl, simplified]

lemma set_item_cols_apply_update [simp]:
  "set_item_cols (apply_update inp now r) r = apply_update inp now r"
  by (simp add: set_item_cols_def apply_update_def)

text \<open>Along the steps of the machine, items stay, versions grow, tombstones and processed operations
  never change.\<close>

definition keyed_items :: "vault_abs \<Rightarrow> bool" where
  "keyed_items s \<longleftrightarrow> (\<forall>u i it. va_items s (u, i) = Some it \<longrightarrow> it_UserID it = u \<and> it_ItemID it = i)"

lemma vault_step_keyed: "vault_step s t \<Longrightarrow> keyed_items s \<Longrightarrow> keyed_items t"
  by (induction rule: vault_step.induct) (auto simp: keyed_items_def recorded_def)

lemma vault_step_item:
  assumes "vault_step s t" and "keyed_items s" and "va_items s (v, j) = Some x"
  shows "\<exists>y. va_items t (v, j) = Some y \<and> unat (it_Version x) \<le> unat (it_Version y) \<and>
    (it_DeletedAt x \<noteq> None \<longrightarrow> y = x)"
  using assms
  by (induction rule: vault_step.induct) (auto simp: recorded_def keyed_items_def unat_Suc_bigint)

lemma vault_step_op: "vault_step s t \<Longrightarrow> va_ops s k = Some p \<Longrightarrow> va_ops t k = Some p"
  by (induction rule: vault_step.induct) (auto simp: recorded_def)

lemma vault_steps_keyed: "vault_step\<^sup>*\<^sup>* s t \<Longrightarrow> keyed_items s \<Longrightarrow> keyed_items t"
  by (induction rule: rtranclp_induct) (auto intro: vault_step_keyed)

lemma vault_steps_item:
  assumes "vault_step\<^sup>*\<^sup>* s t" and "keyed_items s" and "va_items s (v, j) = Some x"
  shows "\<exists>y. va_items t (v, j) = Some y \<and> unat (it_Version x) \<le> unat (it_Version y) \<and>
    (it_DeletedAt x \<noteq> None \<longrightarrow> y = x)"
  using assms
proof (induction rule: rtranclp_induct)
  case (step t t')
  then obtain y where y: "va_items t (v, j) = Some y" "unat (it_Version x) \<le> unat (it_Version y)"
    "it_DeletedAt x \<noteq> None \<longrightarrow> y = x" by blast
  from vault_step_item [OF step.hyps(2) vault_steps_keyed [OF step.hyps(1) step.prems(1)] y(1)] y(2,3)
  show ?case by fastforce
qed auto

lemma vault_steps_op: "vault_step\<^sup>*\<^sup>* s t \<Longrightarrow> va_ops s k = Some p \<Longrightarrow> va_ops t k = Some p"
  by (induction rule: rtranclp_induct) (auto intro: vault_step_op)

definition domain_error :: "go_error \<Rightarrow> bool" where
  "domain_error er \<longleftrightarrow> er = VaultErrInvalidArgument \<or> er = VaultErrNotFound \<or> er = VaultErrConflict"

locale vault_backend =
  fixes e :: "'w EngineService" and abs :: "'w \<Rightarrow> vault_abs" and inv :: "'w \<Rightarrow> bool"
  assumes keyed: "inv w \<Longrightarrow> va_items (abs w) (u, i) = Some it \<Longrightarrow> it_UserID it = u \<and> it_ItemID it = i"
    and now: "inv w \<Longrightarrow> wp (eng_now e) (\<lambda>_ w'. inv w' \<and> abs w' = abs w) (\<lambda>_ w'. inv w' \<and> abs w' = abs w) w"
    and uuid: "inv w \<Longrightarrow> wp (eng_uuid e) (\<lambda>_ w'. inv w' \<and> abs w' = abs w) (\<lambda>_ w'. inv w' \<and> abs w' = abs w) w"
    and lookup: "inv w \<Longrightarrow> wp (p_Lookup (eng_processedOps e) u oid)
      (\<lambda>r w'. inv w' \<and> abs w' = abs w \<and> va_ops (abs w) (u, oid) = r) (\<lambda>er w'. inv w' \<and> abs w' = abs w) w"
    and get_item: "inv w \<Longrightarrow> wp (r_GetItem (eng_repo e) u i)
      (\<lambda>r w'. inv w' \<and> abs w' = abs w \<and> va_items (abs w) (u, i) = Some r)
      (\<lambda>er w'. inv w' \<and> abs w' = abs w \<and> (er = VaultErrNotFound \<longrightarrow> va_items (abs w) (u, i) = None)) w"
    and create_item: "inv w \<Longrightarrow> wp (r_CreateItem (eng_repo e) it)
      (\<lambda>_ w'. inv w' \<and> (\<forall>u'. va_items (abs w) (u', it_ItemID it) = None) \<and>
         abs w' = abs w\<lparr>va_items := (va_items (abs w))((it_UserID it, it_ItemID it) \<mapsto> it)\<rparr>)
      (\<lambda>er w'. inv w' \<and> (domain_error er \<longrightarrow> abs w' = abs w)) w"
    and update_item: "inv w \<Longrightarrow> wp (r_UpdateItem (eng_repo e) it ev)
      (\<lambda>_ w'. inv w' \<and> (\<exists>old. va_items (abs w) (it_UserID it, it_ItemID it) = Some old \<and>
         it_DeletedAt old = None \<and> it_Version old = ev \<and> bigint_ok ev \<and> bigint_ok (it_Version it) \<and>
         abs w' = abs w\<lparr>va_items := (va_items (abs w))((it_UserID it, it_ItemID it) \<mapsto> set_item_cols it old)\<rparr>))
      (\<lambda>er w'. inv w' \<and> (domain_error er \<longrightarrow> abs w' = abs w)) w"
    and delete_item: "inv w \<Longrightarrow> wp (r_DeleteItem (eng_repo e) u i ev at)
      (\<lambda>v w'. inv w' \<and> (\<exists>old. va_items (abs w) (u, i) = Some old \<and>
         it_DeletedAt old = None \<and> it_Version old = ev \<and> bigint_ok ev \<and> bigint_ok v \<and> v = ev + 1 \<and>
         abs w' = abs w\<lparr>va_items := (va_items (abs w))((u, i) \<mapsto> tombstone at old)\<rparr>))
      (\<lambda>er w'. inv w' \<and> (domain_error er \<longrightarrow> abs w' = abs w)) w"
    and append_revision: "inv w \<Longrightarrow> wp (l_AppendRevision (eng_revisions e) en)
      (\<lambda>en' w'. inv w' \<and> abs w' = abs w\<lparr>va_log := va_log (abs w) @ [en']\<rparr> \<and>
         (\<exists>rid at. en' = en\<lparr>rl_RevisionID := rid, rl_ChangedAt := at\<rparr>) \<and>
         (\<forall>r \<in> set (va_log (abs w)). rl_RevisionID r < rl_RevisionID en'))
      (\<lambda>er w'. inv w' \<and> \<not> domain_error er) w"
    and mark_processed: "inv w \<Longrightarrow> wp (p_MarkProcessed (eng_processedOps e) u oid i rid)
      (\<lambda>_ w'. inv w' \<and> abs w' = (if va_ops (abs w) (u, oid) = None
         then abs w\<lparr>va_ops := (va_ops (abs w))((u, oid) \<mapsto>
           \<lparr>po_UserID = u, po_OperationID = oid, po_ItemID = i, po_RevisionID = rid\<rparr>)\<rparr> else abs w))
      (\<lambda>er w'. inv w' \<and> \<not> domain_error er) w"
begin

lemmas backend_laws = now uuid lookup get_item create_item update_item delete_item append_revision
  mark_processed

text \<open>
  An operation that was processed before changes nothing and is answered from its record; a new one
  stores an item \<open>it\<close>, appends an entry \<open>en\<close> and records the operation.
\<close>

definition replayed :: "string \<Rightarrow> string \<Rightarrow> (ProcessedOperation \<Rightarrow> Item \<Rightarrow> bool) \<Rightarrow> 'w \<Rightarrow> 'w \<Rightarrow> bool" where
  "replayed u oid out w w' \<longleftrightarrow> inv w' \<and> abs w' = abs w \<and>
     (\<exists>p it. va_ops (abs w) (u, oid) = Some p \<and> va_items (abs w) (u, po_ItemID p) = Some it \<and> out p it)"

definition performed ::
  "string \<Rightarrow> string \<Rightarrow> ChangeType \<Rightarrow> (Item \<Rightarrow> RevisionLogEntry \<Rightarrow> bool) \<Rightarrow> 'w \<Rightarrow> 'w \<Rightarrow> bool" where
  "performed u oid ct out w w' \<longleftrightarrow> inv w' \<and> va_ops (abs w) (u, oid) = None \<and>
     (\<exists>it en. abs w' = recorded u oid it en (abs w) \<and> entry_for u oid it ct (abs w) en \<and> out it en)"

definition failed :: "go_error \<Rightarrow> 'w \<Rightarrow> 'w \<Rightarrow> bool" where
  "failed er w w' \<longleftrightarrow> inv w' \<and> (domain_error er \<longrightarrow> abs w' = abs w)"

lemma replayedI:
  "\<lbrakk>inv w'; abs w' = abs w; va_ops (abs w) (u, oid) = Some p; va_items (abs w) (u, po_ItemID p) = Some it;
    out p it\<rbrakk> \<Longrightarrow> replayed u oid out w w'"
  by (auto simp: replayed_def)

text \<open>AppendRevision then MarkProcessed, the tail of the three writing operations.\<close>

lemma record_tail:
  assumes "inv w" and "va_ops (abs w0) (u, oid) = None"
    and "abs w = abs w0\<lparr>va_items := (va_items (abs w0))((u, i) \<mapsto> it)\<rparr>" and "it_ItemID it = i"
    and "v = it_Version it" and out: "\<And>en. out (k en) it en"
  shows "wp (andthen (l_AppendRevision (eng_revisions e) (new_entry u oid i ct v now)) (\<lambda>en.
           andthen (p_MarkProcessed (eng_processedOps e) u oid i (rl_RevisionID en)) (\<lambda>_. ret (k en))))
         (\<lambda>x. performed u oid ct (out x) w0) (\<lambda>er w'. inv w' \<and> \<not> domain_error er) w"
proof (rule wp_andthenI [OF append_revision [OF assms(1)]])
  fix en w1
  assume *: "inv w1 \<and> abs w1 = abs w\<lparr>va_log := va_log (abs w) @ [en]\<rparr> \<and>
    (\<exists>rid at. en = (new_entry u oid i ct v now)\<lparr>rl_RevisionID := rid, rl_ChangedAt := at\<rparr>) \<and>
    (\<forall>r\<in>set (va_log (abs w)). rl_RevisionID r < rl_RevisionID en)"
  then have ent: "entry_for u oid it ct (abs w0) en"
    using assms(3,4,5) by (auto simp: entry_for_def new_entry_def)
  have "performed u oid ct (out (k en)) w0 w2"
    if "inv w2 \<and> abs w2 = (if va_ops (abs w1) (u, oid) = None
         then abs w1\<lparr>va_ops := (va_ops (abs w1))((u, oid) \<mapsto>
           \<lparr>po_UserID = u, po_OperationID = oid, po_ItemID = i, po_RevisionID = rl_RevisionID en\<rparr>)\<rparr> else abs w1)"
    for w2
    unfolding performed_def
  proof (intro conjI exI)
    show "abs w2 = recorded u oid it en (abs w0)"
      using that * assms(2-4) by (simp add: recorded_def)
  qed (use that assms(2) ent out in auto)
  then show "wp (andthen (p_MarkProcessed (eng_processedOps e) u oid i (rl_RevisionID en)) (\<lambda>_. ret (k en)))
      (\<lambda>x. performed u oid ct (out x) w0) (\<lambda>er w'. inv w' \<and> \<not> domain_error er) w1"
    using * by (intro wp_andthenI [OF mark_processed]) (auto simp: wp_ret)
qed

lemma Create_ok:
  assumes "inv w"
  shows "wp (Engine_Create e u oid inp)
    (\<lambda>out w'. replayed u oid (\<lambda>p it. out = \<lparr>co_ItemID = po_ItemID p, co_Version = it_Version it,
           co_ServerRevision = po_RevisionID p\<rparr>) w w' \<or>
       performed u oid ChangeTypeCreated (\<lambda>it en. (\<exists>i now. it = new_item i u inp now \<and>
           (\<forall>u'. va_items (abs w) (u', i) = None)) \<and>
           out = \<lparr>co_ItemID = it_ItemID it, co_Version = 1, co_ServerRevision = rl_RevisionID en\<rparr>) w w')
    (\<lambda>er. failed er w) w"
  unfolding Engine_Create_def Let_def failed_def
  apply (rule wp_guardI, simp add: assms)
  apply (rule wp_andthenI [OF lookup [OF assms]])
   apply (rule wp_case_option)
    apply (rule wp_andthenI [OF now], blast)
     apply (rule wp_andthenI [OF uuid], blast)
      apply (rule wp_andthenI [OF create_item], blast)
  subgoal for op w1 now w2 i w3 _ w4
    by (rule wp_mono [OF record_tail [where ?w0.0 = w and it = "new_item i u inp now" and
      out = "\<lambda>out it en. (\<exists>i now. it = new_item i u inp now \<and> (\<forall>u'. va_items (abs w) (u', i) = None)) \<and>
           out = \<lparr>co_ItemID = it_ItemID it, co_Version = 1, co_ServerRevision = rl_RevisionID en\<rparr>"]])
       auto
      apply auto [3]
  subgoal by (rule wp_handleI [OF get_item], blast) (auto simp: wp_simps intro!: replayedI)
  by blast

lemma Update_ok:
  assumes "inv w"
  shows "wp (Engine_Update e u oid i ev inp)
    (\<lambda>out w'. replayed u oid (\<lambda>p it. out = \<lparr>uo_NewVersion = it_Version it,
           uo_ServerRevision = po_RevisionID p\<rparr> \<and> (po_ItemID p = [] \<or> po_ItemID p = i)) w w' \<or>
       performed u oid ChangeTypeUpdated (\<lambda>it en. (\<exists>old now. va_items (abs w) (u, i) = Some old \<and>
           it_DeletedAt old = None \<and> it_Version old = ev \<and> bigint_ok ev \<and> bigint_ok (ev + 1) \<and>
           it = apply_update inp now old) \<and>
           out = \<lparr>uo_NewVersion = ev + 1, uo_ServerRevision = rl_RevisionID en\<rparr>) w w')
    (\<lambda>er. failed er w) w"
  unfolding Engine_Update_def Let_def failed_def
  apply (rule wp_guardI, simp add: assms)
  apply (rule wp_andthenI [OF lookup [OF assms]])
   apply (rule wp_case_option)
    apply (rule wp_andthenI [OF get_item], blast)
     apply (rule wp_guardI, force)
     apply (rule wp_guardI, force)
     apply (rule wp_andthenI [OF now], blast)
      apply (rule wp_andthenI [OF update_item], blast)
  subgoal for op w1 old w2 now w3 _ w4
    using keyed [OF assms, of u i old]
    by (intro wp_mono [OF record_tail [where ?w0.0 = w and it = "apply_update inp now old" and
      out = "\<lambda>out it en. (\<exists>old now. va_items (abs w) (u, i) = Some old \<and>
           it_DeletedAt old = None \<and> it_Version old = ev \<and> bigint_ok ev \<and> bigint_ok (ev + 1) \<and>
           it = apply_update inp now old) \<and>
           out = \<lparr>uo_NewVersion = ev + 1, uo_ServerRevision = rl_RevisionID en\<rparr>"]])
       auto
      apply auto [3]
  subgoal by (rule wp_guardI, force, rule wp_andthenI [OF get_item], blast)
      (auto simp: wp_simps intro!: replayedI)
  by blast

lemma Delete_ok:
  assumes "inv w"
  shows "wp (Engine_Delete e u oid i ev)
    (\<lambda>out w'. replayed u oid (\<lambda>p it. out = \<lparr>do_NewVersion = it_Version it,
           do_ServerRevision = po_RevisionID p\<rparr> \<and> (po_ItemID p = [] \<or> po_ItemID p = i)) w w' \<or>
       performed u oid ChangeTypeDeleted (\<lambda>it en. (\<exists>old now. va_items (abs w) (u, i) = Some old \<and>
           it_DeletedAt old = None \<and> it_Version old = ev \<and> bigint_ok ev \<and> bigint_ok (ev + 1) \<and>
           it = tombstone now old) \<and>
           out = \<lparr>do_NewVersion = ev + 1, do_ServerRevision = rl_RevisionID en\<rparr>) w w')
    (\<lambda>er. failed er w) w"
  unfolding Engine_Delete_def Let_def failed_def
  apply (rule wp_guardI, simp add: assms)
  apply (rule wp_andthenI [OF lookup [OF assms]])
   apply (rule wp_case_option)
    apply (rule wp_andthenI [OF now], blast)
     apply (rule wp_andthenI [OF delete_item], blast)
  subgoal for op w1 now w2 nv w3
    apply (elim conjE exE)
    subgoal for old
    using keyed [OF assms, of u i old]
    by (intro wp_mono [OF record_tail [where ?w0.0 = w and it = "tombstone now old" and
      out = "\<lambda>out it en. (\<exists>old now. va_items (abs w) (u, i) = Some old \<and>
           it_DeletedAt old = None \<and> it_Version old = ev \<and> bigint_ok ev \<and> bigint_ok (ev + 1) \<and>
           it = tombstone now old) \<and>
           out = \<lparr>do_NewVersion = ev + 1, do_ServerRevision = rl_RevisionID en\<rparr>"]])
       auto
    done
      apply auto [2]
  subgoal by (rule wp_guardI, force, rule wp_handleI [OF get_item], blast)
      (auto simp: wp_simps intro!: replayedI)
  by blast

lemma Create_recorded:
  assumes "inv w" and "Engine_Create e u oid inp w = (Inr out, w')"
  shows "\<exists>p it. va_ops (abs w') (u, oid) = Some p \<and> co_ItemID out = po_ItemID p \<and>
    co_ServerRevision out = po_RevisionID p \<and> va_items (abs w') (u, po_ItemID p) = Some it"
  using wp_okD [OF Create_ok [OF assms(1)] assms(2)]
  by (auto simp: replayed_def performed_def recorded_def)

lemma Update_recorded:
  assumes "inv w" and "Engine_Update e u oid i ev inp w = (Inr out, w')" and "va_ops (abs w) (u, oid) = None"
  shows "\<exists>it. va_items (abs w') (u, i) = Some it \<and> it_Version it = ev + 1 \<and> bigint_ok ev"
  using wp_okD [OF Update_ok [OF assms(1)] assms(2)] assms(3)
  by (auto simp: replayed_def performed_def recorded_def dest: keyed [OF assms(1)])

text \<open>The engine refines the abstract machine.\<close>

lemma refines:
  assumes "inv w"
  shows "Engine_Create e u oid ci w = (Inr co, w') \<Longrightarrow> inv w' \<and>
      (if va_ops (abs w) (u, oid) = None then vault_step (abs w) (abs w') else abs w' = abs w)"
    and "Engine_Update e u oid i ev ui w = (Inr uo, w') \<Longrightarrow> inv w' \<and>
      (if va_ops (abs w) (u, oid) = None then vault_step (abs w) (abs w') else abs w' = abs w)"
    and "Engine_Delete e u oid i ev w = (Inr del, w') \<Longrightarrow> inv w' \<and>
      (if va_ops (abs w) (u, oid) = None then vault_step (abs w) (abs w') else abs w' = abs w)"
  subgoal by (drule wp_okD [OF Create_ok [OF assms]])
     (auto simp: replayed_def performed_def intro: vault_step_intros)
  subgoal by (drule wp_okD [OF Update_ok [OF assms]])
     (auto simp: replayed_def performed_def intro: vault_step_intros)
  subgoal by (drule wp_okD [OF Delete_ok [OF assms]])
     (auto simp: replayed_def performed_def intro: vault_step_intros)
  done

end

subsection \<open>The PostgreSQL repositories meet the contract\<close>

definition abs_db :: "database \<Rightarrow> vault_abs" where
  "abs_db d = \<lparr>va_items = (\<lambda>(u, i). find (item_key u i) (vault_items d)), va_log = revision_log d,
     va_ops = (\<lambda>(u, oid). find (op_key u oid) (processed_operations d))\<rparr>"

lemma abs_db_sel [simp]:
  "va_items (abs_db d) (u, i) = find (item_key u i) (vault_items d)"
  "va_log (abs_db d) = revision_log d"
  "va_ops (abs_db d) (u, oid) = find (op_key u oid) (processed_operations d)"
  by (simp_all add: abs_db_def)

lemma abs_db_cong:
  assumes "vault_items d = vault_items d'" "revision_log d = revision_log d'"
    "processed_operations d = processed_operations d'"
  shows "abs_db d = abs_db d'"
  using assms by (simp add: abs_db_def)

lemma abs_db_tables: "tables d = tables d' \<Longrightarrow> abs_db d = abs_db d'"
  by (intro abs_db_cong) (auto dest: tables_eqD)

lemma abs_db_insert:
  assumes "\<not> has_item d (it_ItemID it)"
  shows "abs_db (d\<lparr>vault_items := vault_items d @ [it]\<rparr>) =
    abs_db d\<lparr>va_items := (va_items (abs_db d))((it_UserID it, it_ItemID it) \<mapsto> it)\<rparr>"
proof -
  have "find (item_key (it_UserID it) (it_ItemID it)) (vault_items d) = None"
    using assms by (auto simp: find_None_iff item_key_def has_item_def list_ex_iff)
  then show ?thesis
    by (auto simp: abs_db_def fun_eq_iff find_append item_key_def split: option.splits)
qed

text \<open>UPDATE .. WHERE on the key, the version and \<open>deleted_at IS NULL\<close> changes one item.\<close>

lemma find_item_cas:
  assumes "schema_ok d" and "r \<in> set (vault_items d)" and "item_cas u i ev r"
  shows "find (item_key u i) (vault_items d) = Some r" and "find (item_cas u i ev) (vault_items d) = Some r"
  using assms by (auto intro!: find_distinct_key [where key = it_ItemID]
      simp: schema_ok_def item_cas_def item_key_def)

lemma abs_db_cas:
  assumes "schema_ok d" and "r \<in> set (vault_items d)" and "item_cas u i ev r"
    and f: "\<And>r. it_UserID (f r) = it_UserID r \<and> it_ItemID (f r) = it_ItemID r"
  shows "abs_db (d\<lparr>vault_items := upd_where (item_cas u i ev) f (vault_items d)\<rparr>) =
    abs_db d\<lparr>va_items := (va_items (abs_db d))((u, i) \<mapsto> f r)\<rparr>"
proof -
  have "find (item_key v j) (upd_where (item_cas u i ev) f (vault_items d)) =
    (if (v, j) = (u, i) then Some (f r) else find (item_key v j) (vault_items d))" for v j
  proof -
    have *: "find (item_key v j) (upd_where (item_cas u i ev) f (vault_items d)) =
      map_option (\<lambda>r. if item_cas u i ev r then f r else r) (find (item_key v j) (vault_items d))"
      by (rule find_upd_where) (simp add: item_key_def f)
    show ?thesis
    proof (cases "(v, j) = (u, i)")
      case True
      with * find_item_cas [OF assms(1-3)] assms(3) show ?thesis by simp
    next
      case False
      then have "map_option (\<lambda>r. if item_cas u i ev r then f r else r) (find (item_key v j) (vault_items d)) =
        find (item_key v j) (vault_items d)"
        by (cases "find (item_key v j) (vault_items d)")
           (auto simp: item_cas_def item_key_def dest: find_SomeD)
      with * False show ?thesis by auto
    qed
  qed
  then show ?thesis by (auto simp: abs_db_def fun_eq_iff)
qed

lemma abs_db_log: "abs_db (d\<lparr>revision_seq := n, revision_log := revision_log d @ [r]\<rparr>) =
    abs_db d\<lparr>va_log := va_log (abs_db d) @ [r]\<rparr>"
  by (simp add: abs_db_def)

lemma abs_db_op:
  assumes "find (op_key u oid) (processed_operations d) = None" and "po_UserID p = u" and "po_OperationID p = oid"
  shows "abs_db (d\<lparr>processed_operations := processed_operations d @ [p]\<rparr>) =
    abs_db d\<lparr>va_ops := (va_ops (abs_db d))((u, oid) \<mapsto> p)\<rparr>"
  using assms by (auto simp: abs_db_def fun_eq_iff find_append op_key_def split: option.splits)

lemma list_ex_op_key: "list_ex (op_key u oid) ps \<longleftrightarrow> find (op_key u oid) ps \<noteq> None"
  by (auto simp: find_None_iff list_ex_iff)

text \<open>One rule for the statements of the repositories: the invariant survives every outcome.\<close>

lemma wp_vault_stmt:
  assumes "schema_ok (db w)" and safe: "sql_safe f"
    and inv: "\<And>t r d'. f t (db w) = (r, d') \<Longrightarrow> schema_ok d'"
    and ok: "\<And>t x d'. f t (db w) = (Inr x, d') \<Longrightarrow> Q x (abs_db d')"
    and err: "\<And>t e d'. f t (db w) = (Inl e, d') \<Longrightarrow> abs_db d' = abs_db (db w) \<Longrightarrow> R e (abs_db d')"
    and conn: "\<And>s. R (ErrSQL ConnectionFailure) s"
  shows "wp (stmt E f) (\<lambda>x w'. schema_ok (db w') \<and> Q x (abs_db (db w')))
    (\<lambda>e w'. schema_ok (db w') \<and> R e (abs_db (db w'))) w"
proof -
  obtain r d where f: "f (env_db_clock E (tick w)) (db w) = (r, d)" by fastforce
  note inv [OF f]
  moreover have "case r of Inl e \<Rightarrow> R e (abs_db d) | Inr x \<Rightarrow> Q x (abs_db d)"
    using f ok err [of _ _ d] abs_db_tables [OF sql_safeD [OF safe]] by (auto split: sum.splits)
  ultimately show ?thesis
    using f assms(1) conn by (auto simp: wp_stmt Let_def split: fault.splits sum.splits)
qed

lemma wp_vault_read:
  assumes "schema_ok (db w)" and read: "\<And>t d r d'. f t d = (r, d') \<Longrightarrow> d' = d"
    and ok: "\<And>t x. f t (db w) = (Inr x, db w) \<Longrightarrow> Q x"
    and err: "\<And>t e. f t (db w) = (Inl e, db w) \<Longrightarrow> R e"
    and conn: "R (ErrSQL ConnectionFailure)"
  shows "wp (stmt E f) (\<lambda>x w'. schema_ok (db w') \<and> abs_db (db w') = abs_db (db w) \<and> Q x)
    (\<lambda>e w'. schema_ok (db w') \<and> abs_db (db w') = abs_db (db w) \<and> R e) w"
proof -
  obtain r d where f: "f (env_db_clock E (tick w)) (db w) = (r, d)" by fastforce
  with read have "d = db w" by blast
  with f assms(1) ok err conn show ?thesis
    by (auto simp: wp_stmt Let_def split: fault.splits sum.splits)
qed

lemma pg_engine_sel [simp]:
  "eng_now (pg_engine E) = time_Now E" "eng_uuid (pg_engine E) = uuid_NewString E"
  "r_CreateItem (eng_repo (pg_engine E)) = VaultRepository_CreateItem E"
  "r_GetItem (eng_repo (pg_engine E)) = VaultRepository_GetItem E"
  "r_ListItems (eng_repo (pg_engine E)) = VaultRepository_ListItems E"
  "r_UpdateItem (eng_repo (pg_engine E)) = VaultRepository_UpdateItem E"
  "r_DeleteItem (eng_repo (pg_engine E)) = VaultRepository_DeleteItem E"
  "l_AppendRevision (eng_revisions (pg_engine E)) = RevisionLogRepository_AppendRevision E"
  "p_MarkProcessed (eng_processedOps (pg_engine E)) = ProcessedOperationsRepository_MarkProcessed E"
  "p_Lookup (eng_processedOps (pg_engine E)) = ProcessedOperationsRepository_Lookup E"
  by (simp_all add: pg_engine_def NewEngine_def NewVaultRepository_def NewRevisionLogRepository_def
      NewProcessedOperationsRepository_def)

lemma pg_lookup:
  assumes "schema_ok (db w)"
  shows "wp (ProcessedOperationsRepository_Lookup E u oid)
    (\<lambda>r w'. schema_ok (db w') \<and> abs_db (db w') = abs_db (db w) \<and> va_ops (abs_db (db w)) (u, oid) = r)
    (\<lambda>er w'. schema_ok (db w') \<and> abs_db (db w') = abs_db (db w)) w"
  unfolding ProcessedOperationsRepository_Lookup_def
  by (rule wp_handleI [OF wp_vault_read [OF assms, where
        Q = "\<lambda>r. find (op_key u oid) (processed_operations (db w)) = Some r" and
        R = "\<lambda>e. e = ErrNoRows \<longrightarrow> find (op_key u oid) (processed_operations (db w)) = None"]])
     (auto simp: sql_lookup_op_def wp_simps split: option.splits)

lemma pg_get_item:
  assumes "schema_ok (db w)"
  shows "wp (VaultRepository_GetItem E u i)
    (\<lambda>r w'. schema_ok (db w') \<and> abs_db (db w') = abs_db (db w) \<and> va_items (abs_db (db w)) (u, i) = Some r)
    (\<lambda>er w'. schema_ok (db w') \<and> abs_db (db w') = abs_db (db w) \<and>
       (er = VaultErrNotFound \<longrightarrow> va_items (abs_db (db w)) (u, i) = None)) w"
  unfolding VaultRepository_GetItem_def
  by (rule wp_handleI [OF wp_vault_read [OF assms, where
        Q = "\<lambda>r. find (item_key u i) (vault_items (db w)) = Some r" and
        R = "\<lambda>e. (e = ErrNoRows \<longrightarrow> find (item_key u i) (vault_items (db w)) = None) \<and> e \<noteq> VaultErrNotFound"]])
     (auto simp: sql_select_item_def wp_simps split: option.splits)

lemma pg_create_item:
  assumes "schema_ok (db w)"
  shows "wp (VaultRepository_CreateItem E it)
    (\<lambda>_ w'. schema_ok (db w') \<and> (\<forall>u'. va_items (abs_db (db w)) (u', it_ItemID it) = None) \<and>
       abs_db (db w') = abs_db (db w)\<lparr>va_items := (va_items (abs_db (db w)))((it_UserID it, it_ItemID it) \<mapsto> it)\<rparr>)
    (\<lambda>er w'. schema_ok (db w') \<and> (domain_error er \<longrightarrow> abs_db (db w') = abs_db (db w))) w"
  unfolding VaultRepository_CreateItem_def
  apply (rule wp_vault_stmt [OF assms vault_sql_safe(1)])
     apply (erule schema_ok_insert_item [OF assms])
  subgoal
    by (auto simp: sql_insert_item_def abs_db_insert fun_upd_def find_None_iff item_key_def has_item_def list_ex_iff
        split: if_splits)
   apply simp
  apply (simp add: domain_error_def)
  done

lemma pg_update_item:
  assumes "schema_ok (db w)"
  shows "wp (VaultRepository_UpdateItem E it ev)
    (\<lambda>_ w'. schema_ok (db w') \<and> (\<exists>old. va_items (abs_db (db w)) (it_UserID it, it_ItemID it) = Some old \<and>
       it_DeletedAt old = None \<and> it_Version old = ev \<and> bigint_ok ev \<and> bigint_ok (it_Version it) \<and>
       abs_db (db w') = abs_db (db w)\<lparr>va_items := (va_items (abs_db (db w)))((it_UserID it, it_ItemID it) \<mapsto> set_item_cols it old)\<rparr>))
    (\<lambda>er w'. schema_ok (db w') \<and> (domain_error er \<longrightarrow> abs_db (db w') = abs_db (db w))) w"
proof -
  let ?P = "item_cas (it_UserID it) (it_ItemID it) ev"
  have "\<exists>old. find (item_key (it_UserID it) (it_ItemID it)) (vault_items (db w)) = Some old \<and>
      it_DeletedAt old = None \<and> it_Version old = ev \<and> bigint_ok ev \<and> bigint_ok (it_Version it) \<and>
      abs_db d = abs_db (db w)\<lparr>va_items := (va_items (abs_db (db w)))((it_UserID it, it_ItemID it) \<mapsto> set_item_cols it old)\<rparr>"
    if r: "sql_update_item it ev t (db w) = (Inr n, d)" "n \<noteq> 0" for t n d
  proof -
    from r obtain old where old: "old \<in> set (vault_items (db w))" "?P old"
      by (auto simp: sql_update_item_def Let_def split: if_splits)
    have "abs_db (db w\<lparr>vault_items := upd_where ?P (set_item_cols it) (vault_items (db w))\<rparr>) =
      abs_db (db w)\<lparr>va_items := (va_items (abs_db (db w)))((it_UserID it, it_ItemID it) \<mapsto> set_item_cols it old)\<rparr>"
      by (rule abs_db_cas [OF assms old]) (simp add: set_item_cols_def)
    with r old find_item_cas [OF assms old] show ?thesis
      by (auto simp: sql_update_item_def Let_def item_cas_def split: if_splits)
  qed
  moreover have "abs_db d = abs_db (db w)" if "sql_update_item it ev t (db w) = (Inr 0, d)" for t d
    using that by (auto simp: sql_update_item_def Let_def split: if_splits)
  ultimately show ?thesis
    unfolding VaultRepository_UpdateItem_def
    by (intro wp_andthenI [OF wp_vault_stmt [OF assms vault_sql_safe(4), where
        Q = "\<lambda>n s. if n = 0 then s = abs_db (db w) else \<exists>old. find (item_key (it_UserID it) (it_ItemID it)) (vault_items (db w)) = Some old \<and>
      it_DeletedAt old = None \<and> it_Version old = ev \<and> bigint_ok ev \<and> bigint_ok (it_Version it) \<and>
      s = abs_db (db w)\<lparr>va_items := (va_items (abs_db (db w)))((it_UserID it, it_ItemID it) \<mapsto> set_item_cols it old)\<rparr>" and
        R = "\<lambda>e s. domain_error e \<longrightarrow> s = abs_db (db w)"]])
      (auto simp: wp_simps domain_error_def intro: schema_ok_update_item [OF assms] split: if_splits)
qed

lemma pg_delete_item:
  assumes "schema_ok (db w)"
  shows "wp (VaultRepository_DeleteItem E u i ev at)
    (\<lambda>v w'. schema_ok (db w') \<and> (\<exists>old. va_items (abs_db (db w)) (u, i) = Some old \<and>
       it_DeletedAt old = None \<and> it_Version old = ev \<and> bigint_ok ev \<and> bigint_ok v \<and> v = ev + 1 \<and>
       abs_db (db w') = abs_db (db w)\<lparr>va_items := (va_items (abs_db (db w)))((u, i) \<mapsto> tombstone at old)\<rparr>))
    (\<lambda>er w'. schema_ok (db w') \<and> (domain_error er \<longrightarrow> abs_db (db w') = abs_db (db w))) w"
proof -
  let ?P = "item_cas u i ev"
  have "\<exists>old. find (item_key u i) (vault_items (db w)) = Some old \<and>
      it_DeletedAt old = None \<and> it_Version old = ev \<and> bigint_ok ev \<and> bigint_ok v \<and> v = ev + 1 \<and>
      abs_db d = abs_db (db w)\<lparr>va_items := (va_items (abs_db (db w)))((u, i) \<mapsto> tombstone at old)\<rparr>"
    if r: "sql_tombstone_item u i ev at t (db w) = (Inr v, d)" for t v d
  proof -
    from r obtain old where old: "find ?P (vault_items (db w)) = Some old"
      by (auto simp: sql_tombstone_item_def Let_def split: if_splits option.splits)
    note o = find_SomeD [OF old]
    have "abs_db (db w\<lparr>vault_items := upd_where ?P (tombstone at) (vault_items (db w))\<rparr>) =
      abs_db (db w)\<lparr>va_items := (va_items (abs_db (db w)))((u, i) \<mapsto> tombstone at old)\<rparr>"
      using o by (intro abs_db_cas [OF assms]) (auto simp: tombstone_def)
    with r old o find_item_cas [OF assms] show ?thesis
      by (auto simp: sql_tombstone_item_def Let_def item_cas_def split: if_splits)
  qed
  then show ?thesis
    unfolding VaultRepository_DeleteItem_def
    by (intro wp_handleI [OF wp_vault_stmt [OF assms vault_sql_safe(5), where
        Q = "\<lambda>v s. \<exists>old. find (item_key u i) (vault_items (db w)) = Some old \<and>
      it_DeletedAt old = None \<and> it_Version old = ev \<and> bigint_ok ev \<and> bigint_ok v \<and> v = ev + 1 \<and>
      s = abs_db (db w)\<lparr>va_items := (va_items (abs_db (db w)))((u, i) \<mapsto> tombstone at old)\<rparr>" and
        R = "\<lambda>e s. (domain_error e \<or> e = ErrNoRows) \<longrightarrow> s = abs_db (db w)"]])
      (auto simp: wp_simps domain_error_def intro: schema_ok_tombstone_item [OF assms])
qed

lemma pg_append_revision:
  assumes "schema_ok (db w)"
  shows "wp (RevisionLogRepository_AppendRevision E en)
    (\<lambda>en' w'. schema_ok (db w') \<and> abs_db (db w') = abs_db (db w)\<lparr>va_log := va_log (abs_db (db w)) @ [en']\<rparr> \<and>
       (\<exists>rid at. en' = en\<lparr>rl_RevisionID := rid, rl_ChangedAt := at\<rparr>) \<and>
       (\<forall>r \<in> set (va_log (abs_db (db w))). rl_RevisionID r < rl_RevisionID en'))
    (\<lambda>er w'. schema_ok (db w') \<and> \<not> domain_error er) w"
  unfolding RevisionLogRepository_AppendRevision_def
  apply (rule wp_vault_stmt [OF assms vault_sql_safe(6)])
     apply (erule schema_ok_append_revision [OF assms])
  subgoal
    by (auto simp: sql_append_revision_def Let_def abs_db_log revision_fresh [OF assms] simp del: of_nat_Suc
        split: if_splits)
  by (auto simp: sql_append_revision_def Let_def domain_error_def split: if_splits)

lemma pg_mark_processed:
  assumes "schema_ok (db w)"
  shows "wp (ProcessedOperationsRepository_MarkProcessed E u oid i rid)
    (\<lambda>_ w'. schema_ok (db w') \<and> abs_db (db w') = (if va_ops (abs_db (db w)) (u, oid) = None
       then abs_db (db w)\<lparr>va_ops := (va_ops (abs_db (db w)))((u, oid) \<mapsto>
         \<lparr>po_UserID = u, po_OperationID = oid, po_ItemID = i, po_RevisionID = rid\<rparr>)\<rparr> else abs_db (db w)))
    (\<lambda>er w'. schema_ok (db w') \<and> \<not> domain_error er) w"
  unfolding ProcessedOperationsRepository_MarkProcessed_def
  apply (rule wp_vault_stmt [OF assms vault_sql_safe(7)])
     apply (erule schema_ok_mark_processed [OF assms])
  subgoal by (auto simp: sql_mark_processed_def list_ex_op_key abs_db_op fun_upd_def split: if_splits)
  by (auto simp: sql_mark_processed_def domain_error_def split: if_splits)

interpretation pg: vault_backend "pg_engine E" "\<lambda>w. abs_db (db w)" "\<lambda>w. schema_ok (db w)" for E :: env
proof unfold_locales
  fix w :: "'a world" and u i it
  assume "va_items (abs_db (db w)) (u, i) = Some it"
  then show "it_UserID it = u \<and> it_ItemID it = i" by (auto simp: item_key_def dest: find_SomeD)
qed (simp_all add: wp_uuid wp_time_Now pg_lookup pg_get_item pg_create_item pg_update_item
    pg_delete_item pg_append_revision pg_mark_processed del: abs_db_sel)
lemma keyed_abs_db [simp]: "keyed_items (abs_db d)"
  by (auto simp: keyed_items_def item_key_def dest: find_SomeD)

lemma Lookup_reliable:
  "reliable E \<Longrightarrow> ProcessedOperationsRepository_Lookup E u oid w =
     (Inr (find (op_key u oid) (processed_operations (db w))), w\<lparr>tick := Suc (tick w)\<rparr>)"
  by (simp add: ProcessedOperationsRepository_Lookup_def prog_defs stmt_def sql_lookup_op_def split: option.splits)

lemma GetItem_reliable:
  "reliable E \<Longrightarrow> VaultRepository_GetItem E u i w =
     ((case find (item_key u i) (vault_items (db w)) of None \<Rightarrow> Inl VaultErrNotFound | Some r \<Rightarrow> Inr r),
      w\<lparr>tick := Suc (tick w)\<rparr>)"
  by (simp add: VaultRepository_GetItem_def prog_defs stmt_def sql_select_item_def split: option.splits)

end
