(* ===== verification/VaultHandler.thy ===== *)
theory VaultHandler
  imports VaultEngine BlobHandler
begin

section \<open>The vault service (\<open>vault_payload.go\<close>, \<open>vault_handler.go\<close> of \<open>internal/server/grpcserver\<close>)\<close>

text \<open>
  The RPCs of the vault: checks of the request, the decision where a payload is stored
  (\<open>resolveVaultPayload\<close>), the engine, the translation of errors and items. Messages of the protocol
  are records of their getters; a message that may be absent is an \<open>option\<close>. The engine is used
  through the interface \<open>vault.Engine\<close>, whose results may be nil, as in the Go code.
\<close>

subsection \<open>Messages\<close>

record CreateItemRequest =
  cr_OperationId :: string
  cr_ItemType :: int
  cr_Title :: "EncryptedField option"
  cr_Metadata :: "EncryptedField option"
  cr_Payload :: "EncryptedField option"
  cr_BlobId :: string

record UpdateItemRequest =
  ur_OperationId :: string
  ur_ItemId :: string
  ur_ExpectedVersion :: u64
  ur_Title :: "EncryptedField option"
  ur_Metadata :: "EncryptedField option"
  ur_Payload :: "EncryptedField option"
  ur_BlobId :: string

record DeleteItemRequest =
  dr_OperationId :: string
  dr_ItemId :: string
  dr_ExpectedVersion :: u64

record ListItemsRequest =
  lr_IncludeDeleted :: bool
  lr_PageSize :: u32
  lr_PageToken :: string

record VaultItem =
  vi_ItemId :: string
  vi_UserId :: string
  vi_ItemType :: int
  vi_Title :: "EncryptedField option"
  vi_Metadata :: "EncryptedField option"
  vi_Payload :: "EncryptedField option"
  vi_BlobId :: string
  vi_Version :: u64
  vi_Checksum :: "bytes option"
  vi_CreatedAt :: time
  vi_UpdatedAt :: time
  vi_DeletedAt :: "time option"

record ItemSummary =
  sm_ItemId :: string
  sm_ItemType :: int
  sm_Title :: "EncryptedField option"
  sm_Metadata :: "EncryptedField option"
  sm_BlobId :: string
  sm_Version :: u64
  sm_UpdatedAt :: time
  sm_DeletedAt :: "time option"

subsection \<open>Payloads\<close>

definition vaultPayloadToProto :: "Item option \<Rightarrow> EncryptedField option" where
  "vaultPayloadToProto it =
     (case it of None \<Rightarrow> None
      | Some it \<Rightarrow> Some \<lparr>ef_Ciphertext = it_PayloadCiphertext it, ef_Nonce = it_PayloadNonce it\<rparr>)"

definition effectiveMaxPayloadCiphertextBytes :: "Config \<Rightarrow> u64" where
  "effectiveMaxPayloadCiphertextBytes cfg =
     (if cf_GRPCMaxMessageBytes cfg \<le> VaultGRPCProtoReserveBytes then 0
      else let grpcBudget = cf_GRPCMaxMessageBytes cfg - VaultGRPCProtoReserveBytes in
        if cf_MaxBlobSizeBytes cfg < grpcBudget then cf_MaxBlobSizeBytes cfg else grpcBudget)"

definition encryptedFieldEmpty :: "EncryptedField option \<Rightarrow> bool" where
  "encryptedFieldEmpty f =
     (case f of None \<Rightarrow> True | Some _ \<Rightarrow> blen (GetCiphertext f) = 0 \<and> blen (GetNonce f) = 0)"

text \<open>The four results: ciphertext and nonce to store inline, blob id, checksum.\<close>

type_synonym payload = "bytes option \<times> bytes option \<times> string option \<times> bytes option"

text \<open>A reference to a blob that exists already.\<close>

definition referenced_blob ::
  "u64 \<Rightarrow> 'o world BlobRepo \<Rightarrow> 'o world ObjectStorage \<Rightarrow> string \<Rightarrow> EncryptedField option \<Rightarrow> string \<Rightarrow> ('o, payload) server" where
  "referenced_blob maxCipher blobRepo blobStorage userID payload blobIDReq =
     guard (\<not> encryptedFieldEmpty payload) (status InvalidArgument ''blob_id and payload are mutually exclusive'')
     (handle (br_GetByID blobRepo userID blobIDReq)
       (\<lambda>e. if e = BlobErrNotFound then throw (status InvalidArgument ''blob not found'')
             else throw (status Internal ''vault: blob lookup failed''))
       (\<lambda>b.
        guard (bl_Status b \<noteq> StatusCommitted) (status InvalidArgument ''blob is not committed'')
        (guard (bl_DeletedAt b \<noteq> None) (status InvalidArgument ''blob is deleted'')
        (guard (TrimSpace (bl_ObjectKey b) = []) (status InvalidArgument ''vault: blob object key missing'')
        (handle (os_Stat blobStorage (bl_ObjectKey b))
          (\<lambda>e. if e = BlobErrObjectNotFound then throw (status InvalidArgument ''vault: blob missing from object storage'')
                else throw (status Internal ''vault: blob object stat failed''))
          (\<lambda>stSize.
           guard (stSize < 0) (status Internal ''vault: blob object size invalid'')
           (guard (word_of_int stSize \<noteq> bl_SizeBytes b) (status InvalidArgument ''vault: blob size does not match metadata'')
           (guard (maxCipher < word_of_int stSize) (status InvalidArgument ''referenced blob exceeds configured size limit'')
           (ret (None, None, Some blobIDReq, Some (bytes_of (bl_Checksum b))))))))))))"

text \<open>A ciphertext above the inline threshold goes to the object store; when its row cannot be
  written, the object is deleted again.\<close>

definition spill_row :: "string \<Rightarrow> string \<Rightarrow> bytes \<Rightarrow> bytes \<Rightarrow> time \<Rightarrow> Blob" where
  "spill_row userID blobUUID ct csum ts =
     \<lparr>bl_BlobID = blobUUID, bl_UserID = userID, bl_ObjectKey = object_key userID blobUUID,
      bl_SizeBytes = word_of_nat (length ct), bl_Checksum = Some csum, bl_ContentKind = ''application/octet-stream'',
      bl_FileName = None, bl_MimeType = None, bl_Status = StatusCommitted, bl_CreatedAt = ts,
      bl_CommittedAt = Some ts, bl_DeletedAt = None, bl_FailedAt = None\<rparr>"

definition spill_blob ::
  "env \<Rightarrow> (bytes \<Rightarrow> bytes) \<Rightarrow> 'o world BlobRepo \<Rightarrow> 'o world ObjectStorage \<Rightarrow> ('o, time) server \<Rightarrow> string \<Rightarrow> bytes \<Rightarrow> ('o, payload) server" where
  "spill_blob E sha blobRepo blobStorage now userID ct =
     andthen (uuid_NewString E) (\<lambda>blobUUID.
     handle (os_Put blobStorage (object_key userID blobUUID) ct (int (length ct)) ''application/octet-stream'')
       (\<lambda>_. throw (status Internal ''vault: blob upload failed''))
       (\<lambda>_. andthen now (\<lambda>ts.
        handle (br_Create blobRepo (spill_row userID blobUUID ct (sha ct) ts))
          (\<lambda>_. andthen (ignore (os_Delete blobStorage (object_key userID blobUUID))) (\<lambda>_.
             throw (status Internal ''vault: blob metadata persist failed'')))
          (\<lambda>_. ret (None, None, Some blobUUID, Some (sha ct))))))"

definition resolveVaultPayload ::
  "env \<Rightarrow> (bytes \<Rightarrow> bytes) \<Rightarrow> Config option \<Rightarrow> 'o world BlobRepo option \<Rightarrow> 'o world ObjectStorage option \<Rightarrow>
   ('o, time) server option \<Rightarrow> string \<Rightarrow> EncryptedField option \<Rightarrow> string \<Rightarrow> ('o, payload) server" where
  "resolveVaultPayload E sha cfg blobRepo blobStorage now userID payload blobIDReq =
     (let now = (case now of None \<Rightarrow> time_Now E | Some f \<Rightarrow> f) in
      case (cfg, blobRepo, blobStorage) of
        (Some cfg, Some blobRepo, Some blobStorage) \<Rightarrow>
          (let maxCipher = effectiveMaxPayloadCiphertextBytes cfg; blobIDReq = TrimSpace blobIDReq in
           if blobIDReq \<noteq> [] then referenced_blob maxCipher blobRepo blobStorage userID payload blobIDReq
           else case payload of
             None \<Rightarrow> throw (status InvalidArgument ''payload is required when blob_id is empty'')
           | Some _ \<Rightarrow>
               (let ct = GetCiphertext payload; nonce = GetNonce payload in
                if blen ct = 0 then
                  (if 0 < blen nonce then throw (status InvalidArgument ''invalid payload: empty ciphertext with non-empty nonce'')
                   else throw (status InvalidArgument ''invalid payload: empty ciphertext''))
                else guard (blen nonce = 0) (status InvalidArgument ''invalid payload: missing nonce'')
                (guard (maxCipher < word_of_nat (blen ct)) (status InvalidArgument ''payload ciphertext exceeds configured limit'')
                (if word_of_nat (blen ct) \<le> cf_InlineThresholdBytes cfg then ret (ct, nonce, None, None)
                 else spill_blob E sha blobRepo blobStorage now userID (bytes_of ct)))))
      | _ \<Rightarrow> throw (status Internal ''vault: storage not configured''))"

subsection \<open>The engine interface and the handler\<close>

record 'w Engine =
  en_Create :: "string \<Rightarrow> string \<Rightarrow> CreateInput \<Rightarrow> ('w, go_error, CreateOutput) prog"
  en_Get :: "string \<Rightarrow> string \<Rightarrow> ('w, go_error, Item option) prog"
  en_List :: "string \<Rightarrow> bool \<Rightarrow> int \<Rightarrow> string \<Rightarrow> ('w, go_error, Item option list \<times> string) prog"
  en_Update :: "string \<Rightarrow> string \<Rightarrow> string \<Rightarrow> u64 \<Rightarrow> UpdateInput \<Rightarrow> ('w, go_error, UpdateOutput) prog"
  en_Delete :: "string \<Rightarrow> string \<Rightarrow> string \<Rightarrow> u64 \<Rightarrow> ('w, go_error, DeleteOutput) prog"

text \<open>\<open>*EngineService\<close> as a \<open>vault.Engine\<close>: its items are never nil.\<close>

definition engine_iface :: "'w EngineService \<Rightarrow> 'w Engine" where
  "engine_iface e = \<lparr>en_Create = Engine_Create e,
     en_Get = (\<lambda>u i. andthen (Engine_Get e u i) (\<lambda>it. ret (Some it))),
     en_List = (\<lambda>u inc n tok. andthen (Engine_List e u inc n tok) (\<lambda>(its, t). ret (map Some its, t))),
     en_Update = Engine_Update e, en_Delete = Engine_Delete e\<rparr>"

record 'o vaultHandler =
  vh_env :: env
  vh_sha256 :: "bytes \<Rightarrow> bytes"
  vh_engine :: "'o world Engine"
  vh_cfg :: "Config option"
  vh_now :: "('o, time) server option"
  vh_blobRepo :: "'o world BlobRepo option"
  vh_blobStorage :: "'o world ObjectStorage option"

definition toVaultStatusError :: "go_error \<Rightarrow> go_error" where
  "toVaultStatusError err =
     (if err = VaultErrInvalidArgument then status InvalidArgument ''invalid argument''
      else if err = VaultErrNotFound then status NotFound ''item not found''
      else if err = VaultErrConflict then status Aborted ''version conflict''
      else status Internal ''vault: internal error'')"

definition toProtoItem :: "Item option \<Rightarrow> VaultItem option" where
  "toProtoItem it =
     (case it of None \<Rightarrow> None
      | Some it \<Rightarrow> Some \<lparr>vi_ItemId = it_ItemID it, vi_UserId = it_UserID it, vi_ItemType = it_ItemType it,
          vi_Title = Some \<lparr>ef_Ciphertext = it_TitleCiphertext it, ef_Nonce = it_TitleNonce it\<rparr>,
          vi_Metadata = Some \<lparr>ef_Ciphertext = it_MetadataCiphertext it, ef_Nonce = it_MetadataNonce it\<rparr>,
          vi_Payload = vaultPayloadToProto (Some it),
          vi_BlobId = (case it_BlobID it of None \<Rightarrow> [] | Some b \<Rightarrow> b), vi_Version = it_Version it,
          vi_Checksum = it_Checksum it, vi_CreatedAt = it_CreatedAt it, vi_UpdatedAt = it_UpdatedAt it,
          vi_DeletedAt = it_DeletedAt it\<rparr>)"

definition toProtoSummary :: "Item option \<Rightarrow> ItemSummary option" where
  "toProtoSummary it =
     (case it of None \<Rightarrow> None
      | Some it \<Rightarrow> Some \<lparr>sm_ItemId = it_ItemID it, sm_ItemType = it_ItemType it,
          sm_Title = Some \<lparr>ef_Ciphertext = it_TitleCiphertext it, ef_Nonce = it_TitleNonce it\<rparr>,
          sm_Metadata = Some \<lparr>ef_Ciphertext = it_MetadataCiphertext it, ef_Nonce = it_MetadataNonce it\<rparr>,
          sm_BlobId = (case it_BlobID it of None \<Rightarrow> [] | Some b \<Rightarrow> b), sm_Version = it_Version it,
          sm_UpdatedAt = it_UpdatedAt it, sm_DeletedAt = it_DeletedAt it\<rparr>)"

definition create_input :: "int \<Rightarrow> EncryptedField option \<Rightarrow> EncryptedField option \<Rightarrow> payload \<Rightarrow> CreateInput" where
  "create_input itemType title metadata p =
     (case p of (pc, pn, bid, csum) \<Rightarrow>
       \<lparr>ci_ItemType = itemType, ci_TitleCiphertext = GetCiphertext title, ci_TitleNonce = GetNonce title,
        ci_MetadataCiphertext = GetCiphertext metadata, ci_MetadataNonce = GetNonce metadata,
        ci_PayloadCiphertext = pc, ci_PayloadNonce = pn, ci_BlobID = bid, ci_Checksum = csum\<rparr>)"

definition update_input :: "EncryptedField option \<Rightarrow> EncryptedField option \<Rightarrow> payload \<Rightarrow> UpdateInput" where
  "update_input title metadata p =
     (case p of (pc, pn, bid, csum) \<Rightarrow>
       \<lparr>ui_TitleCiphertext = GetCiphertext title, ui_TitleNonce = GetNonce title,
        ui_MetadataCiphertext = GetCiphertext metadata, ui_MetadataNonce = GetNonce metadata,
        ui_PayloadCiphertext = pc, ui_PayloadNonce = pn, ui_BlobID = bid, ui_Checksum = csum\<rparr>)"

definition CreateItem :: "'o vaultHandler \<Rightarrow> auth_context \<Rightarrow> CreateItemRequest option \<Rightarrow> ('o, CreateOutput) server" where
  "CreateItem h ctx req = with_user ctx (\<lambda>userID.
     case req of None \<Rightarrow> throw (status InvalidArgument ''invalid CreateItem request: request is required'') | Some req \<Rightarrow>
     guard (cr_Title req = None \<or> cr_Metadata req = None)
       (status InvalidArgument ''invalid CreateItem request: title and metadata are required'')
     (guard (TrimSpace (cr_BlobId req) = [] \<and> cr_Payload req = None)
       (status InvalidArgument ''invalid CreateItem request: payload or blob_id is required'')
     (case concreteProtoItemType (cr_ItemType req) of
        None \<Rightarrow> throw (status InvalidArgument ''invalid CreateItem request: item_type must be a concrete type'')
      | Some itemType \<Rightarrow>
          andthen (resolveVaultPayload (vh_env h) (vh_sha256 h) (vh_cfg h) (vh_blobRepo h) (vh_blobStorage h) (vh_now h) userID
                     (cr_Payload req) (cr_BlobId req)) (\<lambda>p.
          handle (en_Create (vh_engine h) userID (cr_OperationId req) (create_input itemType (cr_Title req) (cr_Metadata req) p))
            (\<lambda>e. throw (toVaultStatusError e)) ret))))"

definition GetItem :: "'o vaultHandler \<Rightarrow> auth_context \<Rightarrow> string option \<Rightarrow> ('o, VaultItem option) server" where
  "GetItem h ctx req = with_user ctx (\<lambda>userID.
     case req of None \<Rightarrow> throw (status InvalidArgument ''invalid GetItem request: request is required'') | Some itemID \<Rightarrow>
     guard (itemID = []) (status InvalidArgument ''invalid GetItem request: item_id is required'')
     (handle (en_Get (vh_engine h) userID itemID) (\<lambda>e. throw (toVaultStatusError e))
       (\<lambda>item. guard (item = None) (status Internal ''vault: internal error'') (ret (toProtoItem item)))))"

text \<open>The summaries, unless an item is nil.\<close>

fun summaries :: "Item option list \<Rightarrow> go_error + ItemSummary option list" where
  "summaries [] = Inr []"
| "summaries (it # its) =
     (if it = None then Inl (status Internal ''vault: internal error'')
      else case summaries its of Inl e \<Rightarrow> Inl e | Inr ss \<Rightarrow> Inr (toProtoSummary it # ss))"

definition ListItems :: "'o vaultHandler \<Rightarrow> auth_context \<Rightarrow> ListItemsRequest option \<Rightarrow>
   ('o, ItemSummary option list \<times> string) server" where
  "ListItems h ctx req = with_user ctx (\<lambda>userID.
     case req of None \<Rightarrow> throw (status InvalidArgument ''invalid ListItems request: request is required'') | Some req \<Rightarrow>
     handle (en_List (vh_engine h) userID (lr_IncludeDeleted req) (sint (lr_PageSize req)) (lr_PageToken req))
       (\<lambda>e. throw (toVaultStatusError e))
       (\<lambda>(items, nextToken). case summaries items of Inl e \<Rightarrow> throw e | Inr ss \<Rightarrow> ret (ss, nextToken)))"

definition UpdateItem :: "'o vaultHandler \<Rightarrow> auth_context \<Rightarrow> UpdateItemRequest option \<Rightarrow> ('o, UpdateOutput) server" where
  "UpdateItem h ctx req = with_user ctx (\<lambda>userID.
     case req of None \<Rightarrow> throw (status InvalidArgument ''invalid UpdateItem request: request is required'') | Some req \<Rightarrow>
     guard (ur_Title req = None \<or> ur_Metadata req = None)
       (status InvalidArgument ''invalid UpdateItem request: title and metadata are required'')
     (guard (TrimSpace (ur_BlobId req) = [] \<and> ur_Payload req = None)
       (status InvalidArgument ''invalid UpdateItem request: payload or blob_id is required'')
     (guard (ur_ItemId req = []) (status InvalidArgument ''invalid UpdateItem request: item_id is required'')
     (andthen (resolveVaultPayload (vh_env h) (vh_sha256 h) (vh_cfg h) (vh_blobRepo h) (vh_blobStorage h) (vh_now h) userID
                 (ur_Payload req) (ur_BlobId req)) (\<lambda>p.
      handle (en_Update (vh_engine h) userID (ur_OperationId req) (ur_ItemId req) (ur_ExpectedVersion req)
                (update_input (ur_Title req) (ur_Metadata req) p))
        (\<lambda>e. throw (toVaultStatusError e)) ret)))))"

definition DeleteItem :: "'o vaultHandler \<Rightarrow> auth_context \<Rightarrow> DeleteItemRequest option \<Rightarrow> ('o, DeleteOutput) server" where
  "DeleteItem h ctx req = with_user ctx (\<lambda>userID.
     case req of None \<Rightarrow> throw (status InvalidArgument ''invalid DeleteItem request: request is required'') | Some req \<Rightarrow>
     guard (dr_ItemId req = []) (status InvalidArgument ''invalid DeleteItem request: item_id is required'')
     (guard (dr_OperationId req = []) (status InvalidArgument ''invalid DeleteItem request: operation_id is required'')
     (handle (en_Delete (vh_engine h) userID (dr_OperationId req) (dr_ItemId req) (dr_ExpectedVersion req))
       (\<lambda>e. throw (toVaultStatusError e)) ret)))"

end
