(* ===== verification/SyncHandler.thy ===== *)
theory SyncHandler
  imports VaultHandler
begin

section \<open>The synchronisation service (\<open>internal/server/grpcserver/sync_handler.go\<close>)\<close>

text \<open>
  Push of pending operations, each in a transaction of its own, and pull of revision events after a
  revision, in pages. \<open>int\<close> is 64 bits wide, so the conversions of page sizes do not wrap.
\<close>

subsection \<open>Messages\<close>

text \<open>The enum values the sources name; a message may carry any other number.\<close>

datatype PendingOperationType = OpUnspecified | OpCreate | OpUpdate | OpDelete | OpUnknown int

record VaultItemSnapshot =
  vs_ItemType :: int
  vs_Title :: "EncryptedField option"
  vs_Metadata :: "EncryptedField option"
  vs_Payload :: "EncryptedField option"
  vs_BlobId :: string

record PendingOperation =
  pe_OperationId :: string
  pe_OperationType :: PendingOperationType
  pe_ItemId :: string
  pe_ExpectedVersion :: u64
  pe_Snapshot :: "VaultItemSnapshot option"

record OperationResult =
  or_OperationId :: string
  or_Applied :: bool
  or_ItemId :: string
  or_NewVersion :: u64
  or_RevisionId :: u64

record Conflict =
  cf_OperationId :: string
  cf_ItemId :: string
  cf_ExpectedVersion :: u64
  cf_ActualVersion :: u64
  cf_CurrentItem :: "VaultItem option"
  cf_Reason :: string

record RevisionEvent =
  ev_RevisionId :: u64
  ev_ItemId :: string
  ev_ChangeType :: ChangeType
  ev_ItemVersion :: u64
  ev_ChangedAt :: time
  ev_Item :: "VaultItem option"

record SyncRequest =
  sr_ClientRevision :: u64
  sr_PendingOperations :: "PendingOperation option list"

record SyncResponse =
  sp_AcceptedOperations :: "OperationResult list"
  sp_Conflicts :: "Conflict list"
  sp_RemoteChanges :: "RevisionEvent list"
  sp_NewServerRevision :: u64

record PullChangesRequest =
  pr_SinceRevision :: u64
  pr_PageSize :: u32
  pr_PageToken :: string

record PullChangesResponse =
  pp_Changes :: "RevisionEvent list"
  pp_NewServerRevision :: u64
  pp_NextPageToken :: string

record PushChangesResponse =
  ps_AcceptedOperations :: "OperationResult list"
  ps_Conflicts :: "Conflict list"
  ps_ServerRevision :: u64

record 'o syncHandler =
  sh_env :: env
  sh_sha256 :: "bytes \<Rightarrow> bytes"
  sh_cfg :: "Config option"
  sh_pool :: "env option"
  sh_now :: "('o, time) server option"
  sh_blobRepo :: "'o world BlobRepo option"
  sh_blobStorage :: "'o world ObjectStorage option"

subsection \<open>Pull\<close>

definition pullAfterRevision :: "u64 \<Rightarrow> string \<Rightarrow> go_error + u64" where
  "pullAfterRevision since pageToken =
     (let tok = TrimSpace pageToken in
      if tok = [] then Inr since
      else case ParseUint tok of
        None \<Rightarrow> Inl (ErrOther ''invalid page_token'')
      | Some u \<Rightarrow> Inr (if since < u then u else since))"

definition normalizePullPageSize :: "u32 \<Rightarrow> int" where
  "normalizePullPageSize n =
     (if n = 0 then DefaultSyncPullPageSize
      else if MaxSyncPullPageSize < uint n then MaxSyncPullPageSize else uint n)"

definition revisionRowsToProto :: "RevisionEventRow list \<Rightarrow> RevisionEvent list" where
  "revisionRowsToProto rows =
     map (\<lambda>r. \<lparr>ev_RevisionId = re_RevisionID r, ev_ItemId = re_ItemID r, ev_ChangeType = re_ChangeType r,
        ev_ItemVersion = re_ItemVersion r, ev_ChangedAt = re_ChangedAt r, ev_Item = toProtoItem (re_Item r)\<rparr>) rows"

text \<open>The body of the snapshot read: events after a revision and the highest revision of the user.\<close>

definition read_revisions :: "string \<Rightarrow> u64 \<Rightarrow> int \<Rightarrow> env \<Rightarrow> ('o, RevisionEventRow list \<times> u64) server" where
  "read_revisions userID after limit exec =
     andthen (ListRevisionEventsAfter exec userID after limit) (\<lambda>rows.
     andthen (UserMaxRevision exec userID) (\<lambda>maxRev. ret (rows, maxRev)))"

definition PullChanges ::
  "'o syncHandler \<Rightarrow> auth_context \<Rightarrow> PullChangesRequest option \<Rightarrow> ('o, PullChangesResponse) server" where
  "PullChanges h ctx req = with_user ctx (\<lambda>userID.
     case req of None \<Rightarrow> throw (status InvalidArgument ''invalid PullChanges request: request is required'') | Some req \<Rightarrow>
     (case pullAfterRevision (pr_SinceRevision req) (pr_PageToken req) of
        Inl _ \<Rightarrow> throw (status InvalidArgument ''invalid page_token'')
      | Inr after \<Rightarrow>
          (let limit = normalizePullPageSize (pr_PageSize req) in
           handle (WithRevisionSnapshotRead (sh_pool h) (read_revisions userID after (limit + 1)))
             (\<lambda>_. throw (status Internal ''sync: revision read failed''))
             (\<lambda>(rows, maxRev).
               if limit < int (length rows) then
                 ret \<lparr>pp_Changes = revisionRowsToProto (take (nat limit) rows), pp_NewServerRevision = maxRev,
                   pp_NextPageToken = FormatUint (re_RevisionID (rows ! (nat limit - 1)))\<rparr>
               else ret \<lparr>pp_Changes = revisionRowsToProto rows, pp_NewServerRevision = maxRev, pp_NextPageToken = []\<rparr>))))"

subsection \<open>Push\<close>

definition mapPushEngineError :: "string \<Rightarrow> go_error \<Rightarrow> go_error" where
  "mapPushEngineError opID err =
     (if err = VaultErrInvalidArgument then statusf InvalidArgument ''pending operation %q: invalid argument'' [opID]
      else if err = VaultErrNotFound then statusf NotFound ''pending operation %q: not found'' [opID]
      else status Internal ''sync: operation failed'')"

definition versionConflict ::
  "'o syncHandler \<Rightarrow> env \<Rightarrow> string \<Rightarrow> string \<Rightarrow> string \<Rightarrow> u64 \<Rightarrow> string \<Rightarrow> ('o, Conflict) server" where
  "versionConflict h pool userID opID itemID expectedVersion reason =
     (let c = \<lparr>cf_OperationId = opID, cf_ItemId = itemID, cf_ExpectedVersion = expectedVersion, cf_ActualVersion = 0,
                cf_CurrentItem = None, cf_Reason = reason\<rparr> in
      handle (r_GetItem (NewVaultRepository pool) userID itemID)
        (\<lambda>_. ret c)
        (\<lambda>it. ret (c\<lparr>cf_ActualVersion := it_Version it, cf_CurrentItem := toProtoItem (Some it)\<rparr>)))"

text \<open>An applied operation or a conflict; both pointers of the Go results are never set together.\<close>

datatype push_result = Accepted OperationResult | Conflicted Conflict

text \<open>The checks on the snapshot that create and update share.\<close>

definition check_snapshot ::
  "string \<Rightarrow> string \<Rightarrow> VaultItemSnapshot option \<Rightarrow> (VaultItemSnapshot \<Rightarrow> int \<Rightarrow> ('o, 'a) server) \<Rightarrow> ('o, 'a) server" where
  "check_snapshot opID missing snap k =
     (case snap of None \<Rightarrow> throw (statusf InvalidArgument missing [opID]) | Some snap \<Rightarrow>
      guard (vs_Title snap = None \<or> vs_Metadata snap = None)
        (statusf InvalidArgument ''pending operation %q: title and metadata are required'' [opID])
      (guard (TrimSpace (vs_BlobId snap) = [] \<and> vs_Payload snap = None)
        (statusf InvalidArgument ''pending operation %q: payload or blob_id is required'' [opID])
      (case concreteProtoItemType (vs_ItemType snap) of
         None \<Rightarrow> throw (statusf InvalidArgument ''pending operation %q: item_type must be a concrete type'' [opID])
       | Some itemType \<Rightarrow> k snap itemType)))"

definition snapshot_payload :: "'o syncHandler \<Rightarrow> string \<Rightarrow> VaultItemSnapshot \<Rightarrow> ('o, payload) server" where
  "snapshot_payload h userID snap =
     resolveVaultPayload (sh_env h) (sh_sha256 h) (sh_cfg h) (sh_blobRepo h) (sh_blobStorage h) (sh_now h) userID
       (vs_Payload snap) (vs_BlobId snap)"

definition accepted :: "string \<Rightarrow> string \<Rightarrow> u64 \<Rightarrow> u64 \<Rightarrow> push_result" where
  "accepted opID itemID v revID =
     Accepted \<lparr>or_OperationId = opID, or_Applied = True, or_ItemId = itemID, or_NewVersion = v, or_RevisionId = revID\<rparr>"

definition pushCreate ::
  "'o syncHandler \<Rightarrow> string \<Rightarrow> string \<Rightarrow> PendingOperation \<Rightarrow> ('o, time) server option \<Rightarrow> ('o, push_result) server" where
  "pushCreate h userID opID op clk =
     check_snapshot opID ''pending operation %q: snapshot is required for create'' (pe_Snapshot op) (\<lambda>snap itemType.
     andthen (snapshot_payload h userID snap) (\<lambda>p.
     handle (WithVaultEngineTx (sh_pool h) clk (\<lambda>eng. Engine_Create eng userID opID
               (create_input itemType (vs_Title snap) (vs_Metadata snap) p)))
       (\<lambda>e. throw (mapPushEngineError opID e))
       (\<lambda>out. ret (accepted opID (co_ItemID out) (co_Version out) (co_ServerRevision out)))))"

text \<open>A conflict of the engine is reported; with a nil pool the transaction never conflicts.\<close>

definition report_conflict ::
  "'o syncHandler \<Rightarrow> string \<Rightarrow> string \<Rightarrow> string \<Rightarrow> u64 \<Rightarrow> go_error \<Rightarrow> ('o, push_result) server" where
  "report_conflict h userID opID itemID ev e =
     (case sh_pool h of
        Some pool \<Rightarrow> if e = VaultErrConflict
          then andthen (versionConflict h pool userID opID itemID ev ''version mismatch'') (\<lambda>c. ret (Conflicted c))
          else throw (mapPushEngineError opID e)
      | None \<Rightarrow> throw (mapPushEngineError opID e))"

definition pushUpdate ::
  "'o syncHandler \<Rightarrow> string \<Rightarrow> string \<Rightarrow> PendingOperation \<Rightarrow> ('o, time) server option \<Rightarrow> ('o, push_result) server" where
  "pushUpdate h userID opID op clk =
     (let itemID = TrimSpace (pe_ItemId op) in
      guard (itemID = []) (statusf InvalidArgument ''pending operation %q: item_id is required for update'' [opID])
      (check_snapshot opID ''pending operation %q: snapshot is required for update'' (pe_Snapshot op) (\<lambda>snap _.
       andthen (snapshot_payload h userID snap) (\<lambda>p.
       handle (WithVaultEngineTx (sh_pool h) clk (\<lambda>eng. Engine_Update eng userID opID itemID (pe_ExpectedVersion op)
                 (update_input (vs_Title snap) (vs_Metadata snap) p)))
         (report_conflict h userID opID itemID (pe_ExpectedVersion op))
         (\<lambda>out. ret (accepted opID itemID (uo_NewVersion out) (uo_ServerRevision out)))))))"

definition pushDelete ::
  "'o syncHandler \<Rightarrow> string \<Rightarrow> string \<Rightarrow> PendingOperation \<Rightarrow> ('o, time) server option \<Rightarrow> ('o, push_result) server" where
  "pushDelete h userID opID op clk =
     (let itemID = TrimSpace (pe_ItemId op) in
      guard (itemID = []) (statusf InvalidArgument ''pending operation %q: item_id is required for delete'' [opID])
      (handle (WithVaultEngineTx (sh_pool h) clk (\<lambda>eng. Engine_Delete eng userID opID itemID (pe_ExpectedVersion op)))
         (report_conflict h userID opID itemID (pe_ExpectedVersion op))
         (\<lambda>out. ret (accepted opID itemID (do_NewVersion out) (do_ServerRevision out)))))"

definition applyPendingOperation ::
  "'o syncHandler \<Rightarrow> string \<Rightarrow> PendingOperation \<Rightarrow> ('o, time) server option \<Rightarrow> ('o, push_result) server" where
  "applyPendingOperation h userID op clk =
     (let opID = TrimSpace (pe_OperationId op) in
      guard (opID = []) (status InvalidArgument ''pending operation: operation_id is required'')
      (case pe_OperationType op of
         OpUnspecified \<Rightarrow> throw (statusf InvalidArgument ''pending operation %q: operation_type is required'' [opID])
       | OpCreate \<Rightarrow> pushCreate h userID opID op clk
       | OpUpdate \<Rightarrow> pushUpdate h userID opID op clk
       | OpDelete \<Rightarrow> pushDelete h userID opID op clk
       | OpUnknown _ \<Rightarrow> throw (statusf InvalidArgument ''pending operation %q: unknown operation_type'' [opID])))"

text \<open>The loop over the operations; the first error ends it.\<close>

fun push_loop ::
  "'o syncHandler \<Rightarrow> string \<Rightarrow> ('o, time) server option \<Rightarrow> PendingOperation option list \<Rightarrow>
   OperationResult list \<Rightarrow> Conflict list \<Rightarrow> ('o, OperationResult list \<times> Conflict list) server" where
  "push_loop h userID clk [] acc confl = ret (acc, confl)"
| "push_loop h userID clk (op # ops) acc confl =
     (case op of
        None \<Rightarrow> throw (status InvalidArgument ''pending_operations: nil entry'')
      | Some op \<Rightarrow>
          andthen (applyPendingOperation h userID op clk) (\<lambda>r.
            case r of Accepted a \<Rightarrow> push_loop h userID clk ops (acc @ [a]) confl
                    | Conflicted c \<Rightarrow> push_loop h userID clk ops acc (confl @ [c])))"

definition runPushOperations ::
  "'o syncHandler \<Rightarrow> string \<Rightarrow> PendingOperation option list \<Rightarrow> ('o, OperationResult list \<times> Conflict list) server" where
  "runPushOperations h userID ops = push_loop h userID (sh_now h) ops [] []"

definition PushChanges ::
  "'o syncHandler \<Rightarrow> auth_context \<Rightarrow> PendingOperation option list option \<Rightarrow> ('o, PushChangesResponse) server" where
  "PushChanges h ctx req = with_user ctx (\<lambda>userID.
     case req of None \<Rightarrow> throw (status InvalidArgument ''invalid PushChanges request: request is required'') | Some ops \<Rightarrow>
     andthen (runPushOperations h userID ops) (\<lambda>(acc, confl).
     handle (WithRevisionSnapshotRead (sh_pool h) (\<lambda>exec. UserMaxRevision exec userID))
       (\<lambda>_. throw (status Internal ''sync: revision read failed''))
       (\<lambda>maxRev. ret \<lparr>ps_AcceptedOperations = acc, ps_Conflicts = confl, ps_ServerRevision = maxRev\<rparr>)))"

subsection \<open>Sync\<close>

definition Sync :: "'o syncHandler \<Rightarrow> auth_context \<Rightarrow> SyncRequest option \<Rightarrow> ('o, SyncResponse) server" where
  "Sync h ctx req = with_user ctx (\<lambda>userID.
     case req of None \<Rightarrow> throw (status InvalidArgument ''invalid Sync request: request is required'') | Some req \<Rightarrow>
     andthen (runPushOperations h userID (sr_PendingOperations req)) (\<lambda>(acc, confl).
     handle (WithRevisionSnapshotRead (sh_pool h) (read_revisions userID (sr_ClientRevision req) MaxSyncBundleRevisionEvents))
       (\<lambda>_. throw (status Internal ''sync: revision read failed''))
       (\<lambda>(rows, maxRev). ret \<lparr>sp_AcceptedOperations = acc, sp_Conflicts = confl,
          sp_RemoteChanges = revisionRowsToProto rows, sp_NewServerRevision = maxRev\<rparr>)))"

end
