(* ===== verification/VaultProps.thy ===== *)
theory VaultProps
  imports VaultEngine BlobRepo Demo
begin

section \<open>Properties of the vault engine on PostgreSQL\<close>

text \<open>
  The properties of \<open>engine.go\<close> run on the repositories of \<open>storage/postgres\<close>: what each operation
  does, exactly-once processing, conflict detection, isolation of users, and the history invariant
  over every sequence of transactions with every pattern of database failures.
\<close>

subsection \<open>Sequences of transactions\<close>

datatype vault_cmd =
    CmdCreate string string CreateInput
  | CmdUpdate string string string u64 UpdateInput
  | CmdDelete string string string u64

fun run_cmd :: "'w EngineService \<Rightarrow> vault_cmd \<Rightarrow> ('w, go_error, unit) prog" where
  "run_cmd e (CmdCreate u oid inp) = andthen (Engine_Create e u oid inp) (\<lambda>_. ret ())"
| "run_cmd e (CmdUpdate u oid i ev inp) = andthen (Engine_Update e u oid i ev inp) (\<lambda>_. ret ())"
| "run_cmd e (CmdDelete u oid i ev) = andthen (Engine_Delete e u oid i ev) (\<lambda>_. ret ())"

text \<open>Several commands in one transaction, as a push of the synchronisation runs them.\<close>

fun run_cmds :: "'w EngineService \<Rightarrow> vault_cmd list \<Rightarrow> ('w, go_error, unit) prog" where
  "run_cmds e [] = ret ()"
| "run_cmds e (c # cs) = andthen (run_cmd e c) (\<lambda>_. run_cmds e cs)"

definition tx_cmds :: "env \<Rightarrow> vault_cmd list \<Rightarrow> ('o, unit) server" where
  "tx_cmds E cs = WithVaultEngineTx (Some E) (Some (time_Now E)) (\<lambda>e. run_cmds e cs)"

text \<open>
  The databases a server can reach: it starts without vault data, runs transactions of vault
  commands under any failures, its cleanup job deletes blob rows, and its other components touch
  other tables, never removing a user row.
\<close>

inductive vault_reach :: "env \<Rightarrow> 'o world \<Rightarrow> bool" for E where
  empty: "\<lbrakk>vault_items (db w) = []; revision_log (db w) = []; processed_operations (db w) = [];
     revision_seq (db w) = 0\<rbrakk> \<Longrightarrow> vault_reach E w"
| tx: "\<lbrakk>vault_reach E w; tx_cmds E cs w = (r, w')\<rbrakk> \<Longrightarrow> vault_reach E w'"
| other: "\<lbrakk>vault_reach E w; vault_items (db w') = vault_items (db w); revision_log (db w') = revision_log (db w);
     processed_operations (db w') = processed_operations (db w); revision_seq (db w') = revision_seq (db w);
     \<forall>u. has_user (db w) u \<longrightarrow> has_user (db w') u; \<forall>b. has_blob (db w) b \<longrightarrow> has_blob (db w') b\<rbrakk>
     \<Longrightarrow> vault_reach E w'"
| drop_blob: "\<lbrakk>vault_reach E w; sql_delete_blob b t (db w) = (r, db w')\<rbrakk> \<Longrightarrow> vault_reach E w'"

text \<open>The sequence never runs backwards, so a rollback keeps the schema invariant.\<close>

lemma keeps_schema:
  "keeps (\<lambda>w. schema_ok (db w)) (Engine_Create (pg_engine E) u oid ci)"
  "keeps (\<lambda>w. schema_ok (db w)) (Engine_Update (pg_engine E) u oid i ev ui)"
  "keeps (\<lambda>w. schema_ok (db w)) (Engine_Delete (pg_engine E) u oid i ev)"
  unfolding keeps_iff_wp
  by (auto intro: wp_mono [OF pg.Create_ok] wp_mono [OF pg.Update_ok] wp_mono [OF pg.Delete_ok]
      simp: pg.replayed_def pg.performed_def pg.failed_def)

subsection \<open>Invariants of the whole engine\<close>

lemma keeps_andthen_dep:
  assumes "keeps I m" and "\<And>x w w'. m w = (Inr x, w') \<Longrightarrow> keeps I (k x)"
  shows "keeps I (andthen m k)"
  unfolding keeps_def
proof (intro allI impI)
  fix w
  assume w: "I w"
  obtain r w' where m: "m w = (r, w')" by fastforce
  with assms(1) w have "I w'" by (auto dest: keepsD)
  with assms(2) m show "I (snd (andthen m k w))"
    by (cases r) (auto simp: andthen_def handle_def throw_def keeps_def)
qed

lemma GetItem_keyed:
  "VaultRepository_GetItem E u i w = (Inr x, w') \<Longrightarrow> it_UserID x = u \<and> it_ItemID x = i"
  by (auto simp: VaultRepository_GetItem_def handle_def stmt_def sql_select_item_def Let_def ret_def
      throw_def item_key_def split: prod.splits sum.splits option.splits fault.splits if_splits
      dest: find_SomeD)

text \<open>A predicate of the tables that the statements of user \<open>u\<close> keep is kept by every operation
  of \<open>u\<close>, whatever fails.\<close>

lemma keeps_engine:
  assumes "\<And>it t d r d'. it_UserID it = u \<Longrightarrow> I d \<Longrightarrow> sql_insert_item it t d = (r, d') \<Longrightarrow> I d'"
    and "\<And>it ev t d r d'. it_UserID it = u \<Longrightarrow> I d \<Longrightarrow> sql_update_item it ev t d = (r, d') \<Longrightarrow> I d'"
    and "\<And>i ev at t d r d'. I d \<Longrightarrow> sql_tombstone_item u i ev at t d = (r, d') \<Longrightarrow> I d'"
    and "\<And>en t d r d'. rl_UserID en = u \<Longrightarrow> I d \<Longrightarrow> sql_append_revision en t d = (r, d') \<Longrightarrow> I d'"
    and "\<And>oid i rid t d r d'. I d \<Longrightarrow> sql_mark_processed u oid i rid t d = (r, d') \<Longrightarrow> I d'"
  shows "keeps (\<lambda>w. I (db w)) (Engine_Create (pg_engine E) u oid ci)"
    and "keeps (\<lambda>w. I (db w)) (Engine_Update (pg_engine E) u oid i ev ui)"
    and "keeps (\<lambda>w. I (db w)) (Engine_Delete (pg_engine E) u oid i ev)"
proof -
  let ?K = "\<lambda>w. I (db w)"
  have insert: "keeps ?K (VaultRepository_CreateItem E it)" if "it_UserID it = u" for it
    unfolding VaultRepository_CreateItem_def using assms(1) that by (intro keeps_stmt) blast
  have update: "keeps ?K (VaultRepository_UpdateItem E it ev)" if "it_UserID it = u" for it ev
    unfolding VaultRepository_UpdateItem_def using assms(2) that
    by (intro keeps_intros keeps_stmt) blast
  have delete: "keeps ?K (VaultRepository_DeleteItem E u i ev at)" for i ev at
    unfolding VaultRepository_DeleteItem_def using assms(3) by (intro keeps_intros keeps_stmt) blast
  have log: "keeps ?K (RevisionLogRepository_AppendRevision E (new_entry u oid i ct v now))" for oid i ct v now
    unfolding RevisionLogRepository_AppendRevision_def
    by (intro keeps_stmt, rule assms(4)) (simp_all add: new_entry_def)
  have mark: "keeps ?K (ProcessedOperationsRepository_MarkProcessed E u oid i rid)" for oid i rid
    unfolding ProcessedOperationsRepository_MarkProcessed_def using assms(5) by (intro keeps_stmt) blast
  have lookup: "keeps ?K (ProcessedOperationsRepository_Lookup E u oid)" for oid
    unfolding ProcessedOperationsRepository_Lookup_def
    by (intro keeps_intros keeps_stmt) (auto simp: sql_lookup_op_def split: option.splits)
  have get: "keeps ?K (VaultRepository_GetItem E u i)" for i
    unfolding VaultRepository_GetItem_def
    by (intro keeps_intros keeps_stmt) (auto simp: sql_select_item_def split: option.splits)
  note K = insert update delete log mark lookup get keeps_uuid keeps_time_Now
  show "keeps ?K (Engine_Create (pg_engine E) u oid ci)"
    unfolding Engine_Create_def Let_def by (simp, intro keeps_intros K) simp
  show "keeps ?K (Engine_Delete (pg_engine E) u oid i ev)"
    unfolding Engine_Delete_def by (simp, intro keeps_intros K)
  show "keeps ?K (Engine_Update (pg_engine E) u oid i ev ui)"
    unfolding Engine_Update_def Let_def
    apply (simp, intro keeps_guard keeps_andthen [OF lookup] keeps_case_option)
     apply (rule keeps_andthen_dep [OF get], drule GetItem_keyed, intro keeps_intros K, simp)
    apply (intro keeps_intros K)
    done
qed

lemma keeps_seq:
  "keeps (\<lambda>w. n \<le> revision_seq (db w)) (Engine_Create (pg_engine E) u oid ci)"
  "keeps (\<lambda>w. n \<le> revision_seq (db w)) (Engine_Update (pg_engine E) u oid i ev ui)"
  "keeps (\<lambda>w. n \<le> revision_seq (db w)) (Engine_Delete (pg_engine E) u oid i ev)"
  by (rule keeps_engine;
      auto simp: sql_insert_item_def sql_update_item_def sql_tombstone_item_def sql_append_revision_def
        sql_mark_processed_def Let_def split: if_splits option.splits)+

lemma keeps_run_cmd:
  "keeps (\<lambda>w. schema_ok (db w) \<and> n \<le> revision_seq (db w)) (run_cmd (pg_engine E) c)"
  by (cases c) (auto intro!: keeps_andthen keeps_ret keeps_conj keeps_schema keeps_seq)

lemma keeps_run_cmds:
  "keeps (\<lambda>w. schema_ok (db w) \<and> n \<le> revision_seq (db w)) (run_cmds (pg_engine E) cs)"
  by (induction cs) (auto intro: keeps_ret keeps_andthen keeps_run_cmd)

lemma run_cmd_step:
  assumes "schema_ok (db w)" and "run_cmd (pg_engine E) c w = (Inr x, w')"
  shows "vault_step\<^sup>*\<^sup>* (abs_db (db w)) (abs_db (db w'))"
proof -
  have "abs_db (db w') = abs_db (db w) \<or> vault_step (abs_db (db w)) (abs_db (db w'))"
    using assms(2) pg.refines [OF assms(1)]
    by (cases c) (fastforce simp: andthen_def handle_def ret_def throw_def split: prod.splits sum.splits if_splits)+
  then show ?thesis by (metis r_into_rtranclp rtranclp.rtrancl_refl)
qed

lemma run_cmds_steps:
  assumes "schema_ok (db w)" and "run_cmds (pg_engine E) cs w = (Inr x, w')"
  shows "vault_step\<^sup>*\<^sup>* (abs_db (db w)) (abs_db (db w'))"
  using assms
proof (induction cs arbitrary: w)
  case (Cons c cs)
  from Cons.prems(2) obtain y w1 where c: "run_cmd (pg_engine E) c w = (Inr y, w1)"
    and cs: "run_cmds (pg_engine E) cs w1 = (Inr x, w')"
    by (auto simp: andthen_def handle_def throw_def split: prod.splits sum.splits)
  have "schema_ok (db w1)" using keepsD [OF keeps_run_cmd _ c, of 0] Cons.prems(1) by simp
  from Cons.IH [OF this cs] run_cmd_step [OF Cons.prems(1) c] show ?case by simp
qed (simp add: ret_def)

text \<open>The user and the operation id of a command; a command that succeeds is recorded under them.\<close>

fun cmd_op :: "vault_cmd \<Rightarrow> string \<times> string" where
  "cmd_op (CmdCreate u oid _) = (u, oid)"
| "cmd_op (CmdUpdate u oid _ _ _) = (u, oid)"
| "cmd_op (CmdDelete u oid _ _) = (u, oid)"

lemma run_cmd_recorded:
  assumes "schema_ok (db w)" and "run_cmd (pg_engine E) c w = (Inr x, w')"
  shows "va_ops (abs_db (db w')) (cmd_op c) \<noteq> None"
proof (cases c)
  case (CmdCreate u oid inp)
  with assms(2) obtain out where "Engine_Create (pg_engine E) u oid inp w = (Inr out, w')"
    by (auto elim!: andthen_okE simp: ret_def)
  from wp_okD [OF pg.Create_ok [OF assms(1)] this] CmdCreate show ?thesis
    by (auto simp: pg.replayed_def pg.performed_def recorded_def simp del: abs_db_sel)
next
  case (CmdUpdate u oid i ev inp)
  with assms(2) obtain out where "Engine_Update (pg_engine E) u oid i ev inp w = (Inr out, w')"
    by (auto elim!: andthen_okE simp: ret_def)
  from wp_okD [OF pg.Update_ok [OF assms(1)] this] CmdUpdate show ?thesis
    by (auto simp: pg.replayed_def pg.performed_def recorded_def simp del: abs_db_sel)
next
  case (CmdDelete u oid i ev)
  with assms(2) obtain out where "Engine_Delete (pg_engine E) u oid i ev w = (Inr out, w')"
    by (auto elim!: andthen_okE simp: ret_def)
  from wp_okD [OF pg.Delete_ok [OF assms(1)] this] CmdDelete show ?thesis
    by (auto simp: pg.replayed_def pg.performed_def recorded_def simp del: abs_db_sel)
qed

lemma run_cmds_recorded:
  "schema_ok (db w) \<Longrightarrow> run_cmds (pg_engine E) cs w = (Inr x, w') \<Longrightarrow> c \<in> set cs \<Longrightarrow>
    va_ops (abs_db (db w')) (cmd_op c) \<noteq> None"
proof (induction cs arbitrary: w)
  case (Cons a cs)
  from Cons.prems(2) obtain y w1 where a: "run_cmd (pg_engine E) a w = (Inr y, w1)"
    and cs: "run_cmds (pg_engine E) cs w1 = (Inr x, w')"
    by (auto elim: andthen_okE)
  have ok: "schema_ok (db w1)" using keepsD [OF keeps_run_cmd _ a, of 0] Cons.prems(1) by simp
  show ?case
  proof (cases "c = a")
    case True
    then obtain p where "va_ops (abs_db (db w1)) (cmd_op c) = Some p" using run_cmd_recorded [OF Cons.prems(1) a] by auto
    from vault_steps_op [OF run_cmds_steps [OF ok cs] this] show ?thesis by simp
  next
    case False
    with Cons.IH [OF ok cs] Cons.prems(3) show ?thesis by simp
  qed
qed simp

text \<open>The whole sequence of commands has been run on the tables before, and what it left is stored.\<close>

definition stored_run :: "env \<Rightarrow> vault_cmd list \<Rightarrow> 'o world \<Rightarrow> 'o world \<Rightarrow> bool" where
  "stored_run E cs w w' \<longleftrightarrow>
     (\<exists>(w1 :: 'o world) w2 x. db w1 = db w \<and> run_cmds (pg_engine E) cs w1 = (Inr x, w2) \<and> db w' = db w2)"

lemma stored_run_effect:
  assumes "stored_run E cs w w'" and "schema_ok (db w)"
  shows "vault_step\<^sup>*\<^sup>* (abs_db (db w)) (abs_db (db w'))"
    and "c \<in> set cs \<Longrightarrow> va_ops (abs_db (db w')) (cmd_op c) \<noteq> None"
proof -
  from assms(1) obtain w1 w2 :: "'a world" and x where r: "db w1 = db w" "run_cmds (pg_engine E) cs w1 = (Inr x, w2)" "db w' = db w2"
    unfolding stored_run_def by blast
  with assms(2) have ok: "schema_ok (db w1)" by simp
  from run_cmds_steps [OF ok r(2)] run_cmds_recorded [OF ok r(2)] r
  show "vault_step\<^sup>*\<^sup>* (abs_db (db w)) (abs_db (db w'))"
    "c \<in> set cs \<Longrightarrow> va_ops (abs_db (db w')) (cmd_op c) \<noteq> None" by simp_all
qed

text \<open>A transaction of vault commands happens entirely or not at all, and keeps the schema.\<close>

lemma tx_cmds_atomic:
  assumes ok: "schema_ok (db w)" and run: "tx_cmds E cs w = (r, w')"
  shows "schema_ok (db w')"
    and "abs_db (db w') = abs_db (db w) \<and> isl r \<or> vault_step\<^sup>*\<^sup>* (abs_db (db w)) (abs_db (db w'))"
proof -
  have run': "in_tx E (run_cmds (pg_engine E) cs) w = (r, w')"
    using run by (simp add: tx_cmds_def)
  show "schema_ok (db w')"
    using run'
  proof (cases rule: in_tx_db)
    case (ran w1 x w2)
    with ok have "schema_ok (db w2) \<and> revision_seq (db w) \<le> revision_seq (db w2)"
      by (intro keepsD [OF keeps_run_cmds _ ran(1)]) simp
    moreover from this have "schema_ok ((db w)\<lparr>revision_seq := revision_seq (db w2)\<rparr>)"
      by (intro schema_ok_seq [OF ok]) (auto simp: schema_ok_def)
    ultimately show ?thesis using ran(4) by auto
  qed (simp add: ok)
  show "abs_db (db w') = abs_db (db w) \<and> isl r \<or> vault_step\<^sup>*\<^sup>* (abs_db (db w)) (abs_db (db w'))"
    using run'
  proof (cases rule: in_tx_cases)
    case (committed x w1 w2)
    then show ?thesis using run_cmds_steps [of w1 E cs x w2] ok by simp
  qed (auto dest: abs_db_tables)
qed

lemma vault_steps_ok: "vault_step\<^sup>*\<^sup>* s t \<Longrightarrow> vault_ok s \<Longrightarrow> vault_ok t"
  by (induction rule: rtranclp_induct) (auto intro: vault_step_ok)

lemma schema_ok_other:
  assumes "schema_ok d" "vault_items d' = vault_items d" "revision_log d' = revision_log d"
    "processed_operations d' = processed_operations d" "revision_seq d' = revision_seq d"
    "\<forall>u. has_user d u \<longrightarrow> has_user d' u" "\<forall>b. has_blob d b \<longrightarrow> has_blob d' b"
  shows "schema_ok d'"
  using assms by (auto simp: schema_ok_def has_item_def)

text \<open>Deleting a blob row clears the references of items to it and nothing else.\<close>

lemma clear_blob_sel [simp]:
  "it_ItemID (clear_blob b r) = it_ItemID r" "it_UserID (clear_blob b r) = it_UserID r"
  "it_Version (clear_blob b r) = it_Version r" "it_DeletedAt (clear_blob b r) = it_DeletedAt r"
  "item_not_null (clear_blob b r) = item_not_null r"
  by (simp_all add: clear_blob_def item_not_null_def)

lemma find_clear_blob: "find (item_key u i) (map (clear_blob b) rs) = map_option (clear_blob b) (find (item_key u i) rs)"
  by (induction rs) (simp_all add: item_key_def)

lemma sql_delete_blob_cases:
  assumes "sql_delete_blob b t d = (r, d')"
  obtains "d' = d" | "d' = d\<lparr>blobs := delete_where (\<lambda>r. bl_BlobID r = b) (blobs d),
      upload_sessions := delete_where (\<lambda>u. us_BlobID u = b) (upload_sessions d),
      vault_items := map (clear_blob b) (vault_items d)\<rparr>"
  using assms by (auto simp: sql_delete_blob_def Let_def split: if_splits)

lemma schema_ok_delete_blob:
  assumes "schema_ok d" and "sql_delete_blob b t d = (r, d')"
  shows "schema_ok d'"
  using assms(2)
proof (cases rule: sql_delete_blob_cases)
  case 2
  have "has_blob d' (it_BlobID (clear_blob b x))" if "has_blob d (it_BlobID x)" for x
    using that by (auto simp: 2 has_blob_def clear_blob_def delete_where_def list_ex_iff split: option.splits)
  moreover have "has_user d' u = has_user d u" "has_item d' i = has_item d i" for u i
    by (auto simp: 2 has_user_def has_item_def list_ex_iff)
  moreover have "map it_ItemID (vault_items d') = map it_ItemID (vault_items d)" by (simp add: 2)
  moreover have "set (vault_items d') = clear_blob b ` set (vault_items d)"
    "revision_log d' = revision_log d" "revision_seq d' = revision_seq d"
    "processed_operations d' = processed_operations d" by (simp_all add: 2)
  ultimately show ?thesis using assms(1) unfolding schema_ok_def by auto
qed (use assms in simp)

lemma vault_ok_clear_blob:
  assumes "vault_ok s"
  shows "vault_ok (s\<lparr>va_items := (\<lambda>k. map_option (clear_blob b) (va_items s k))\<rparr>)"
proof -
  have hist: "history_ok (s\<lparr>va_items := f\<rparr>) i (clear_blob b x) = history_ok s i x" for f i x
    by (simp add: history_ok_def item_history_def)
  show ?thesis using assms unfolding vault_ok_def by (auto simp: hist)
qed

lemma vault_ok_delete_blob:
  assumes "vault_ok (abs_db d)" and "sql_delete_blob b t d = (r, d')"
  shows "vault_ok (abs_db d')"
  using assms(2)
proof (cases rule: sql_delete_blob_cases)
  case 2
  then have "abs_db d' = abs_db d\<lparr>va_items := (\<lambda>k. map_option (clear_blob b) (va_items (abs_db d) k))\<rparr>"
    by (auto simp: abs_db_def fun_eq_iff find_clear_blob)
  with vault_ok_clear_blob [OF assms(1)] show ?thesis by simp
qed (use assms in simp)

subsection \<open>A concrete vault\<close>

definition demo_create :: CreateInput where
  "demo_create = \<lparr>ci_ItemType = 1, ci_TitleCiphertext = Some [1], ci_TitleNonce = Some [2],
     ci_MetadataCiphertext = Some [3], ci_MetadataNonce = Some [4], ci_PayloadCiphertext = Some [5],
     ci_PayloadNonce = Some [6], ci_BlobID = None, ci_Checksum = None\<rparr>"

definition demo_update :: UpdateInput where
  "demo_update = \<lparr>ui_TitleCiphertext = Some [11], ui_TitleNonce = Some [12],
     ui_MetadataCiphertext = Some [13], ui_MetadataNonce = Some [14], ui_PayloadCiphertext = Some [15],
     ui_PayloadNonce = Some [16], ui_BlobID = None, ui_Checksum = None\<rparr>"

text \<open>The equations by which concrete runs of the engine are evaluated.\<close>

lemmas vault_eval = prog_defs Let_def stmt_def TrimSpace_graphic is_graphic_def show_nat.simps
  time_Now_def uuid_NewString_def bigint_ok_def has_user_def has_blob_def has_item_def
  ProcessedOperationsRepository_Lookup_def ProcessedOperationsRepository_MarkProcessed_def
  VaultRepository_CreateItem_def VaultRepository_GetItem_def VaultRepository_UpdateItem_def
  VaultRepository_DeleteItem_def RevisionLogRepository_AppendRevision_def
  sql_lookup_op_def sql_insert_item_def sql_append_revision_def sql_mark_processed_def
  sql_select_item_def sql_update_item_def sql_tombstone_item_def item_key_def item_cas_def op_key_def
  set_item_cols_def tombstone_def upd_where_def count_where_def item_not_null_def
  new_entry_def new_item_def apply_update_def demo_user_def demo_create_def demo_update_def

definition demo_item :: "u64 \<Rightarrow> time option \<Rightarrow> Item" where
  "demo_item v del = (new_item ''i1'' ''u1'' demo_create 0)\<lparr>it_Version := v, it_DeletedAt := del\<rparr>"

definition demo_entry :: "u64 \<Rightarrow> ChangeType \<Rightarrow> RevisionLogEntry" where
  "demo_entry v ct = \<lparr>rl_RevisionID = v, rl_UserID = ''u1'', rl_OperationID = Some (''op'' @ FormatUint v),
     rl_ItemID = ''i1'', rl_ChangeType = ct, rl_ItemVersion = v, rl_ChangedAt = 0\<rparr>"

definition demo_op :: "u64 \<Rightarrow> ProcessedOperation" where
  "demo_op v = \<lparr>po_UserID = ''u1'', po_OperationID = ''op'' @ FormatUint v, po_ItemID = ''i1'', po_RevisionID = v\<rparr>"

text \<open>One item of user \<open>u1\<close>, created by operation \<open>op1\<close>.\<close>

definition demo_world1 :: "unit world" where
  "demo_world1 = \<lparr>db = demo_db\<lparr>vault_items := [demo_item 1 None], revision_log := [demo_entry 1 ChangeTypeCreated],
     revision_seq := 1, processed_operations := [demo_op 1]\<rparr>, objs = (), tick = 0\<rparr>"

lemmas demo_defs = demo_world1_def demo_item_def demo_entry_def demo_op_def demo_world_def demo_db_def FormatUint_def

lemma demo_world1_ok: "schema_ok (db demo_world1)"
  by (simp add: schema_ok_def vault_eval demo_defs)

subsection \<open>History and atomicity\<close>

text \<open>
  C3. History invariant. In every database the server can reach by transactions of vault commands,
  with any pattern of database failures, the schema constraints hold and the revision log is the
  exact history of the vault: the entries of each item carry the versions 1, 2, .., its current
  version, a deletion appears in the log of an item exactly when the item is a tombstone, revision
  ids strictly increase along the log, every entry belongs to an item of its user and every
  processed operation to its entry.
\<close>

theorem history_invariant:
  assumes "vault_reach E w"
  shows "schema_ok (db w) \<and> vault_ok (abs_db (db w))"
  using assms
proof (induction rule: vault_reach.induct)
  case (empty w)
  then show ?case by (simp add: schema_ok_def vault_ok_def abs_db_def)
next
  case (tx w cs r w')
  then show ?case using tx_cmds_atomic [OF _ tx.hyps(2)] vault_steps_ok by metis
next
  case (other w w')
  then have "abs_db (db w') = abs_db (db w)" by (intro abs_db_cong) auto
  with other show ?case using schema_ok_other [of "db w" "db w'"] by auto
next
  case (drop_blob w b t r w')
  then show ?case using schema_ok_delete_blob vault_ok_delete_blob by blast
qed

theorem history_invariant_witness:
  "fst (tx_cmds demo_env [CmdCreate ''u1'' ''op1'' demo_create] demo_world) = Inr () \<and>
   vault_ok (abs_db (db (snd (tx_cmds demo_env [CmdCreate ''u1'' ''op1'' demo_create] demo_world))))"
proof -
  let ?t = "tx_cmds demo_env [CmdCreate ''u1'' ''op1'' demo_create] demo_world"
  have "vault_reach demo_env demo_world" by (rule vault_reach.empty) (simp_all add: demo_defs)
  then have "vault_reach demo_env (snd ?t)" by (rule vault_reach.tx) (rule prod.collapse [symmetric])
  from history_invariant [OF this] have "vault_ok (abs_db (db (snd ?t)))" by simp
  moreover have "fst ?t = Inr ()"
    by (simp add: tx_cmds_def in_tx_def commit_def Engine_Create_def vault_eval demo_defs)
  ultimately show ?thesis by blast
qed

text \<open>
  C5. A transaction of vault commands happens entirely or not at all, whatever database call fails. After
  a success all the commands have run, one after the other, on the tables as they were before, and what
  they left is stored: a run of steps of the abstract vault, with the operation of every command
  recorded. After an error the vault is as it was, or, when only the answer of COMMIT was lost, the
  whole run is stored in the same sense; when no answer is lost an error leaves the vault as it was.
\<close>

theorem vault_transaction_atomic:
  fixes w w' :: "'o world"
  assumes "schema_ok (db w)" and "tx_cmds E cs w = (r, w')"
  defines "entirely \<equiv> stored_run E cs w w' \<and> vault_step\<^sup>*\<^sup>* (abs_db (db w)) (abs_db (db w')) \<and>
      (\<forall>c \<in> set cs. va_ops (abs_db (db w')) (cmd_op c) \<noteq> None)"
  shows "(case r of Inr _ \<Rightarrow> entirely | Inl _ \<Rightarrow> abs_db (db w') = abs_db (db w) \<or> entirely) \<and>
    ((\<forall>n. env_db_fault E n \<noteq> FailAfter) \<and> isl r \<longrightarrow> abs_db (db w') = abs_db (db w))"
proof -
  have run: "in_tx E (run_cmds (pg_engine E) cs) w = (r, w')"
    using assms(2) by (simp add: tx_cmds_def)
  have "abs_db (db w') = abs_db (db w)" if "\<forall>n. env_db_fault E n \<noteq> FailAfter" "isl r"
    using in_tx_answered [OF run that] by (rule abs_db_tables)
  moreover have "case r of Inr _ \<Rightarrow> entirely | Inl _ \<Rightarrow> abs_db (db w') = abs_db (db w) \<or> entirely"
    using run
  proof (cases rule: in_tx_cases)
    case (committed x w1 w2)
    then have "stored_run E cs w w'" unfolding stored_run_def by blast
    with stored_run_effect [OF this assms(1)] have entirely by (simp add: entirely_def)
    then show ?thesis by (cases r) simp_all
  qed (auto dest: abs_db_tables)
  ultimately show ?thesis by blast
qed

theorem vault_transaction_atomic_witness:
  "isl (fst (tx_cmds (demo_env_failing 6) [CmdCreate ''u1'' ''op1'' demo_create] demo_world)) \<and>
   (abs_db (db (snd (tx_cmds (demo_env_failing 6) [CmdCreate ''u1'' ''op1'' demo_create] demo_world))) =
      abs_db (db demo_world) \<or>
    stored_run (demo_env_failing 6) [CmdCreate ''u1'' ''op1'' demo_create] demo_world
      (snd (tx_cmds (demo_env_failing 6) [CmdCreate ''u1'' ''op1'' demo_create] demo_world))) \<and>
   \<not> isl (fst (tx_cmds demo_env [CmdCreate ''u1'' ''op1'' demo_create] demo_world)) \<and>
   va_ops (abs_db (db (snd (tx_cmds demo_env [CmdCreate ''u1'' ''op1'' demo_create] demo_world)))) (''u1'', ''op1'') \<noteq> None"
proof -
  let ?t = "tx_cmds (demo_env_failing 6) [CmdCreate ''u1'' ''op1'' demo_create] demo_world"
  let ?s = "tx_cmds demo_env [CmdCreate ''u1'' ''op1'' demo_create] demo_world"
  have ok: "schema_ok (db demo_world)" by (simp add: schema_ok_def demo_defs)
  have r: "isl (fst ?t)" "\<not> isl (fst ?s)"
    by (simp_all add: tx_cmds_def in_tx_def commit_def Engine_Create_def vault_eval demo_defs)
  note atomic = vault_transaction_atomic [OF ok prod.collapse [of ?t, symmetric]]
    vault_transaction_atomic [OF ok prod.collapse [of ?s, symmetric]]
  from atomic(1) r(1) have "abs_db (db (snd ?t)) = abs_db (db demo_world) \<or>
      stored_run (demo_env_failing 6) [CmdCreate ''u1'' ''op1'' demo_create] demo_world (snd ?t)"
    by (auto split: sum.splits)
  moreover from atomic(2) r(2) have "va_ops (abs_db (db (snd ?s))) (''u1'', ''op1'') \<noteq> None"
    by (auto simp del: abs_db_sel split: sum.splits)
  ultimately show ?thesis using r by blast
qed

text \<open>
  C2. Refinement. Whatever fails on the way, an operation of the engine on PostgreSQL that reports
  success has either answered a repeated operation without changing the vault or performed exactly
  one step of the abstract vault machine (create, update or delete one item, append its entry,
  record the operation).
\<close>

theorem engine_refines_vault_machine:
  assumes "schema_ok (db w)"
    and "(\<exists>ci co. Engine_Create (pg_engine E) u oid ci w = (Inr co, w')) \<or>
         (\<exists>i ev ui uo. Engine_Update (pg_engine E) u oid i ev ui w = (Inr uo, w')) \<or>
         (\<exists>i ev del. Engine_Delete (pg_engine E) u oid i ev w = (Inr del, w'))"
  shows "schema_ok (db w') \<and>
    (if va_ops (abs_db (db w)) (u, oid) = None then vault_step (abs_db (db w)) (abs_db (db w'))
     else abs_db (db w') = abs_db (db w))"
  using assms(2) by (elim disjE exE) (erule pg.refines [OF assms(1)])+

theorem engine_refines_vault_machine_witness:
  "vault_step (abs_db (db demo_world1))
     (abs_db (db (snd (Engine_Update (pg_engine demo_env) ''u1'' ''op2'' ''i1'' 1 demo_update demo_world1))))"
proof -
  let ?r = "Engine_Update (pg_engine demo_env) ''u1'' ''op2'' ''i1'' 1 demo_update demo_world1"
  have "fst ?r = Inr \<lparr>uo_NewVersion = 2, uo_ServerRevision = 2\<rparr>"
    by (simp add: Engine_Update_def vault_eval demo_defs)
  then have run: "?r = (Inr \<lparr>uo_NewVersion = 2, uo_ServerRevision = 2\<rparr>, snd ?r)" by (metis prod.collapse)
  have "va_ops (abs_db (db demo_world1)) (''u1'', ''op2'') = None" by (simp add: vault_eval demo_defs)
  then show ?thesis
    using engine_refines_vault_machine [OF demo_world1_ok, of demo_env "''u1''" "''op2''" "snd ?r"] run by auto
qed

subsection \<open>Exactly-once processing, conflicts, tombstones, isolation\<close>

lemma engine_ok_nonblank:
  "Engine_Create e u oid ci w = (Inr co, w') \<Longrightarrow> TrimSpace u \<noteq> [] \<and> TrimSpace oid \<noteq> []"
  "Engine_Update e u oid i ev ui w = (Inr uo, w') \<Longrightarrow> TrimSpace u \<noteq> [] \<and> TrimSpace oid \<noteq> [] \<and> TrimSpace i \<noteq> []"
  by (auto simp: Engine_Create_def Engine_Update_def guard_def throw_def split: if_splits)

text \<open>
  C11. Exactly once. A create that succeeded is repeated, under the same operation id and with any
  input, any number of other vault steps later: the second call succeeds, returns the item id and
  the server revision of the first, and changes no table.
\<close>

theorem create_exactly_once:
  fixes w w1 :: "'o world" and w2 :: "'p world"
  assumes "schema_ok (db w)" and first: "Engine_Create (pg_engine E) u oid inp w = (Inr out, w1)"
    and later: "vault_step\<^sup>*\<^sup>* (abs_db (db w1)) (abs_db (db w2))" and "reliable E'"
  shows "\<exists>out' w3. Engine_Create (pg_engine E') u oid inp' w2 = (Inr out', w3) \<and>
    co_ItemID out' = co_ItemID out \<and> co_ServerRevision out' = co_ServerRevision out \<and> db w3 = db w2"
proof -
  obtain p it where p: "va_ops (abs_db (db w1)) (u, oid) = Some p" "co_ItemID out = po_ItemID p"
      "co_ServerRevision out = po_RevisionID p" and it: "va_items (abs_db (db w1)) (u, po_ItemID p) = Some it"
    using pg.Create_recorded [OF assms(1) first] by auto
  have p2: "va_ops (abs_db (db w2)) (u, oid) = Some p" by (rule vault_steps_op [OF later p(1)])
  obtain it2 where it2: "va_items (abs_db (db w2)) (u, po_ItemID p) = Some it2"
    using vault_steps_item [OF later keyed_abs_db it] by blast
  from engine_ok_nonblank(1) [OF first] p p2 it2 assms(4) show ?thesis
    by (simp add: Engine_Create_def guard_def andthen_def handle_def ret_def Lookup_reliable GetItem_reliable)
qed

theorem create_exactly_once_witness:
  "\<exists>out' w3. Engine_Create (pg_engine demo_env) ''u1'' ''op1'' demo_create
      (snd (Engine_Create (pg_engine demo_env) ''u1'' ''op1'' demo_create demo_world)) = (Inr out', w3) \<and>
    co_ItemID out' = ''id-2'' \<and> co_ServerRevision out' = 1 \<and>
    db w3 = db (snd (Engine_Create (pg_engine demo_env) ''u1'' ''op1'' demo_create demo_world))"
proof -
  let ?r = "Engine_Create (pg_engine demo_env) ''u1'' ''op1'' demo_create demo_world"
  have ok: "schema_ok (db demo_world)" by (simp add: schema_ok_def demo_defs)
  have "fst ?r = Inr \<lparr>co_ItemID = ''id-2'', co_Version = 1, co_ServerRevision = 1\<rparr>"
    by (simp add: Engine_Create_def vault_eval demo_defs)
  then have run: "?r = (Inr \<lparr>co_ItemID = ''id-2'', co_Version = 1, co_ServerRevision = 1\<rparr>, snd ?r)"
    by (metis prod.collapse)
  show ?thesis
    using create_exactly_once [OF ok run rtranclp.rtrancl_refl demo_env_reliable, of demo_create] by simp
qed

text \<open>
  C9. No lost update. After an update of an item from version \<open>ev\<close> has succeeded, no other
  operation that expects the version \<open>ev\<close> can update the item, however many vault steps lie in
  between and whatever fails: it reports an error.
\<close>

theorem no_lost_update:
  fixes w w1 :: "'o world" and w2 :: "'p world"
  assumes "schema_ok (db w)" and new1: "find (op_key u oid1) (processed_operations (db w)) = None"
    and first: "Engine_Update (pg_engine E) u oid1 i ev inp1 w = (Inr out, w1)"
    and later: "vault_step\<^sup>*\<^sup>* (abs_db (db w1)) (abs_db (db w2))" and "schema_ok (db w2)"
    and new2: "find (op_key u oid2) (processed_operations (db w2)) = None"
  shows "isl (fst (Engine_Update (pg_engine E') u oid2 i ev inp2 w2))"
proof (rule ccontr)
  assume "\<not> isl (fst (Engine_Update (pg_engine E') u oid2 i ev inp2 w2))"
  then obtain out2 w3 where second: "Engine_Update (pg_engine E') u oid2 i ev inp2 w2 = (Inr out2, w3)"
    by (metis isl_def prod.collapse sum.exhaust)
  obtain it where it: "va_items (abs_db (db w1)) (u, i) = Some it" "it_Version it = ev + 1" "bigint_ok ev"
    using pg.Update_recorded [OF assms(1) first] new1 by auto
  obtain cur where cur: "va_items (abs_db (db w2)) (u, i) = Some cur" "it_Version cur = ev"
    using wp_okD [OF pg.Update_ok [OF assms(5)] second] new2
    by (auto simp: pg.replayed_def pg.performed_def)
  from vault_steps_item [OF later keyed_abs_db it(1)] cur it unat_Suc_bigint [OF it(3)] show False by auto
qed

theorem no_lost_update_witness:
  "isl (fst (Engine_Update (pg_engine demo_env) ''u1'' ''op3'' ''i1'' 1 demo_update
     (snd (Engine_Update (pg_engine demo_env) ''u1'' ''op2'' ''i1'' 1 demo_update demo_world1))))"
proof -
  let ?r = "Engine_Update (pg_engine demo_env) ''u1'' ''op2'' ''i1'' 1 demo_update demo_world1"
  have "fst ?r = Inr \<lparr>uo_NewVersion = 2, uo_ServerRevision = 2\<rparr>"
    by (simp add: Engine_Update_def vault_eval demo_defs)
  then have run: "?r = (Inr \<lparr>uo_NewVersion = 2, uo_ServerRevision = 2\<rparr>, snd ?r)" by (metis prod.collapse)
  have new: "find (op_key ''u1'' ''op2'') (processed_operations (db demo_world1)) = None"
    by (simp add: vault_eval demo_defs)
  have new2: "find (op_key ''u1'' ''op3'') (processed_operations (db (snd ?r))) = None"
    by (simp add: Engine_Update_def vault_eval demo_defs)
  have "schema_ok (db (snd ?r))" using pg.refines(2) [OF demo_world1_ok run] by blast
  from no_lost_update [OF demo_world1_ok new run rtranclp.rtrancl_refl this new2] show ?thesis .
qed

text \<open>
  What can happen to the vault tables: a transaction of vault commands (a push of the synchronisation),
  a command of the engine on the connection pool (the VaultService), the deletion of a blob row by the
  cleanup, and anything that leaves the items alone; each in any environment, whatever fails.
\<close>

inductive vault_traffic :: "'o world \<Rightarrow> 'o world \<Rightarrow> bool" where
  transaction: "tx_cmds E cs w = (r, w') \<Longrightarrow> vault_traffic w w'"
| pool_call: "run_cmd (pg_engine E) c w = (r, w') \<Longrightarrow> vault_traffic w w'"
| drop_blob: "sql_delete_blob b t (db w) = (r, db w') \<Longrightarrow> vault_traffic w w'"
| other: "vault_items (db w') = vault_items (db w) \<Longrightarrow> vault_traffic w w'"

text \<open>A row is as it was, except that its blob id may have been cleared.\<close>

definition same_row :: "string \<Rightarrow> string \<Rightarrow> Item \<Rightarrow> database \<Rightarrow> bool" where
  "same_row u i it d \<longleftrightarrow>
     (\<exists>b \<in> {it_BlobID it, None}. find (item_key u i) (vault_items d) = Some (it\<lparr>it_BlobID := b\<rparr>))"

lemma find_upd_dead:
  assumes "find (item_key u i) rs = Some it" and "it_DeletedAt it \<noteq> None"
    and "\<And>r. it_UserID (f r) = it_UserID r \<and> it_ItemID (f r) = it_ItemID r"
  shows "find (item_key u i) (upd_where (item_cas u' i' ev) f rs) = Some it"
  using assms by (induction rs) (auto simp: upd_where_def item_key_def item_cas_def split: if_splits)

lemma same_row_sql:
  assumes "same_row u i it d" and dead: "it_DeletedAt it \<noteq> None"
  shows "sql_insert_item x t d = (r1, d') \<Longrightarrow> same_row u i it d'"
    and "sql_update_item x ev t d = (r2, d') \<Longrightarrow> same_row u i it d'"
    and "sql_tombstone_item u' i' ev at t d = (r3, d') \<Longrightarrow> same_row u i it d'"
    and "sql_append_revision en t d = (r4, d') \<Longrightarrow> same_row u i it d'"
    and "sql_mark_processed u' oid i' rid t d = (r5, d') \<Longrightarrow> same_row u i it d'"
    and "sql_delete_blob b t d = (r6, d') \<Longrightarrow> same_row u i it d'"
proof -
  from assms(1) [unfolded same_row_def] obtain c
    where c': "c \<in> {it_BlobID it, None}" and found: "find (item_key u i) (vault_items d) = Some (it\<lparr>it_BlobID := c\<rparr>)"
    by (rule bexE)
  from c' have c: "c = it_BlobID it \<or> c = None" "find (item_key u i) (vault_items d) = Some (it\<lparr>it_BlobID := c\<rparr>)"
    using found by simp_all
  have upd: "find (item_key u i) (upd_where (item_cas u' i' ev) f (vault_items d)) = Some (it\<lparr>it_BlobID := c\<rparr>)"
    if "\<And>r. it_UserID (f r) = it_UserID r \<and> it_ItemID (f r) = it_ItemID r" for u' i' ev f
    by (rule find_upd_dead [OF c(2)]) (use dead that in auto)
  show "sql_insert_item x t d = (r1, d') \<Longrightarrow> same_row u i it d'"
    using c by (auto simp: same_row_def sql_insert_item_def find_append split: if_splits)
  show "sql_update_item x ev t d = (r2, d') \<Longrightarrow> same_row u i it d'"
    using c upd [of "set_item_cols x"] by (auto simp: same_row_def sql_update_item_def Let_def set_item_cols_def split: if_splits)
  show "sql_tombstone_item u' i' ev at t d = (r3, d') \<Longrightarrow> same_row u i it d'"
    using c upd [of "tombstone at"] by (auto simp: same_row_def sql_tombstone_item_def Let_def tombstone_def split: if_splits option.splits)
  show "sql_append_revision en t d = (r4, d') \<Longrightarrow> same_row u i it d'"
    using c by (auto simp: same_row_def sql_append_revision_def Let_def split: if_splits)
  show "sql_mark_processed u' oid i' rid t d = (r5, d') \<Longrightarrow> same_row u i it d'"
    using c by (auto simp: same_row_def sql_mark_processed_def split: if_splits)
  show "sql_delete_blob b t d = (r6, d') \<Longrightarrow> same_row u i it d'"
    by (erule sql_delete_blob_cases) (use c in \<open>auto simp: same_row_def find_clear_blob clear_blob_def\<close>)
qed

lemma same_row_traffic:
  assumes "vault_traffic w w'" and row: "same_row u i it (db w)" and dead: "it_DeletedAt it \<noteq> None"
  shows "same_row u i it (db w')"
proof -
  have cmd: "keeps (\<lambda>w. same_row u i it (db w)) (run_cmd (pg_engine E) c)" for E c
    by (cases c) (auto intro!: keeps_andthen keeps_ret keeps_engine [where I = "same_row u i it"] dest: same_row_sql [OF _ dead])
  have cmds: "keeps (\<lambda>w. same_row u i it (db w)) (run_cmds (pg_engine E) cs)" for E cs
    by (induction cs) (auto intro: keeps_ret keeps_andthen cmd)
  show ?thesis
    using assms(1)
  proof cases
    case (transaction E cs r)
    then have "in_tx E (run_cmds (pg_engine E) cs) w = (r, w')" by (simp add: tx_cmds_def)
    then show ?thesis
    proof (cases rule: in_tx_db)
      case (ran w1 x w2)
      from keepsD [OF cmds _ ran(1)] ran(2) row have "same_row u i it (db w2)" by simp
      with ran(4) row show ?thesis by (auto simp: same_row_def)
    qed (simp add: row)
  next
    case (pool_call E c r)
    with keepsD [OF cmd row] show ?thesis by blast
  next
    case (drop_blob b t r)
    with same_row_sql(6) [OF row dead] show ?thesis by blast
  next
    case other
    with row show ?thesis by (simp add: same_row_def)
  qed
qed

text \<open>
  C30. Tombstones are final. Through any sequence of transactions of vault commands, of commands of the
  engine on the connection pool and of deletions of blob rows, by whatever users, successful or not and
  whatever fails in the middle, a deleted item stays, and stays as it is: only its blob id may be
  cleared, when the blob itself is removed.
\<close>

theorem tombstone_final:
  assumes "vault_traffic\<^sup>*\<^sup>* w w'" and "find (item_key u i) (vault_items (db w)) = Some it" and "it_DeletedAt it \<noteq> None"
  shows "\<exists>b \<in> {it_BlobID it, None}. find (item_key u i) (vault_items (db w')) = Some (it\<lparr>it_BlobID := b\<rparr>)"
proof -
  have "same_row u i it (db w)" using assms(2) by (simp add: same_row_def)
  with assms(1) have "same_row u i it (db w')"
    by (induction rule: rtranclp_induct) (auto intro: same_row_traffic [OF _ _ assms(3)])
  then show ?thesis by (simp add: same_row_def)
qed

definition demo_world_deleted :: "unit world" where
  "demo_world_deleted = \<lparr>db = demo_db\<lparr>vault_items := [demo_item 2 (Some 7)],
     revision_log := [demo_entry 1 ChangeTypeCreated, demo_entry 2 ChangeTypeDeleted],
     revision_seq := 2, processed_operations := [demo_op 1, demo_op 2]\<rparr>, objs = (), tick = 0\<rparr>"

theorem tombstone_final_witness:
  "let w1 = snd (tx_cmds demo_env [CmdUpdate ''u1'' ''op9'' ''i1'' 2 demo_update] demo_world_deleted);
       w2 = snd (run_cmd (pg_engine demo_env) (CmdUpdate ''u1'' ''op9'' ''i1'' 2 demo_update) w1) in
   find (item_key ''u1'' ''i1'') (vault_items (db w2)) = Some (demo_item 2 (Some 7))"
proof -
  let ?w1 = "snd (tx_cmds demo_env [CmdUpdate ''u1'' ''op9'' ''i1'' 2 demo_update] demo_world_deleted)"
  let ?w2 = "snd (run_cmd (pg_engine demo_env) (CmdUpdate ''u1'' ''op9'' ''i1'' 2 demo_update) ?w1)"
  have "vault_traffic demo_world_deleted ?w1" "vault_traffic ?w1 ?w2"
    by (rule vault_traffic.intros, rule prod.collapse [symmetric])+
  then have "vault_traffic\<^sup>*\<^sup>* demo_world_deleted ?w2" by simp
  moreover have "find (item_key ''u1'' ''i1'') (vault_items (db demo_world_deleted)) = Some (demo_item 2 (Some 7))"
    by (simp add: vault_eval demo_defs demo_world_deleted_def)
  moreover have "it_DeletedAt (demo_item 2 (Some 7)) \<noteq> None" "it_BlobID (demo_item 2 (Some 7)) = None"
    by (simp_all add: demo_item_def new_item_def demo_create_def)
  ultimately show ?thesis using tombstone_final [of demo_world_deleted ?w2 "''u1''" "''i1''" "demo_item 2 (Some 7)"]
    by (simp add: Let_def)
qed

definition others :: "string \<Rightarrow> database \<Rightarrow> Item list \<times> RevisionLogEntry list \<times> ProcessedOperation list" where
  "others u d = (filter (\<lambda>r. it_UserID r \<noteq> u) (vault_items d), filter (\<lambda>r. rl_UserID r \<noteq> u) (revision_log d),
     filter (\<lambda>r. po_UserID r \<noteq> u) (processed_operations d))"

lemma others_upd:
  assumes "\<And>r. P r \<Longrightarrow> it_UserID r = u" and "\<And>r. it_UserID (f r) = it_UserID r"
  shows "filter (\<lambda>r. it_UserID r \<noteq> u) (upd_where P f rs) = filter (\<lambda>r. it_UserID r \<noteq> u) rs"
  by (rule filter_upd_where_disjoint) (use assms in auto)

lemma others_sql:
  "sql_insert_item it t d = (r1, d') \<Longrightarrow> it_UserID it = u \<Longrightarrow> others u d' = others u d"
  "sql_update_item it ev t d = (r2, d') \<Longrightarrow> it_UserID it = u \<Longrightarrow> others u d' = others u d"
  "sql_tombstone_item u i ev at t d = (r3, d') \<Longrightarrow> others u d' = others u d"
  "sql_append_revision en t d = (r4, d') \<Longrightarrow> rl_UserID en = u \<Longrightarrow> others u d' = others u d"
  "sql_mark_processed u oid i rid t d = (r5, d') \<Longrightarrow> others u d' = others u d"
proof -
  have cas: "filter (\<lambda>r. it_UserID r \<noteq> u) (upd_where (item_cas u i ev) f rs) = filter (\<lambda>r. it_UserID r \<noteq> u) rs"
    if "\<And>r. it_UserID (f r) = it_UserID r" for u i ev f rs
    using that by (intro others_upd) (auto simp: item_cas_def item_key_def)
  show "sql_insert_item it t d = (r1, d') \<Longrightarrow> it_UserID it = u \<Longrightarrow> others u d' = others u d"
    by (auto simp: others_def sql_insert_item_def split: if_splits)
  show "sql_update_item it ev t d = (r2, d') \<Longrightarrow> it_UserID it = u \<Longrightarrow> others u d' = others u d"
    by (auto simp: others_def sql_update_item_def Let_def cas set_item_cols_def split: if_splits)
  show "sql_tombstone_item u i ev at t d = (r3, d') \<Longrightarrow> others u d' = others u d"
    by (auto simp: others_def sql_tombstone_item_def Let_def cas split: if_splits option.splits)
  show "sql_append_revision en t d = (r4, d') \<Longrightarrow> rl_UserID en = u \<Longrightarrow> others u d' = others u d"
    by (auto simp: others_def sql_append_revision_def Let_def split: if_splits)
  show "sql_mark_processed u oid i rid t d = (r5, d') \<Longrightarrow> others u d' = others u d"
    by (auto simp: others_def sql_mark_processed_def split: if_splits)
qed

text \<open>
  C25. Isolation of users. Whatever the outcome and whatever fails, an operation on behalf of one
  user leaves the items, log entries and processed operations of every other user as they were.
\<close>

theorem users_isolated:
  "others u (db (snd (Engine_Create (pg_engine E) u oid ci w))) = others u (db w) \<and>
   others u (db (snd (Engine_Update (pg_engine E) u oid i ev ui w))) = others u (db w) \<and>
   others u (db (snd (Engine_Delete (pg_engine E) u oid i ev w))) = others u (db w)"
proof -
  have "keeps (\<lambda>w. others u (db w) = X) (Engine_Create (pg_engine E) u oid ci)"
    "keeps (\<lambda>w. others u (db w) = X) (Engine_Update (pg_engine E) u oid i ev ui)"
    "keeps (\<lambda>w. others u (db w) = X) (Engine_Delete (pg_engine E) u oid i ev)" for X
    by (rule keeps_engine; auto dest: others_sql)+
  then show ?thesis unfolding keeps_def by blast
qed

subsection \<open>What update and delete do\<close>

lemma fresh_op_log:
  assumes "vault_ok (abs_db d)" and "find (op_key u oid) (processed_operations d) = None"
  shows "\<not> list_ex (\<lambda>r. rl_UserID r = u \<and> rl_OperationID r = Some oid) (revision_log d)"
proof -
  have "find (op_key (rl_UserID r) oid) (processed_operations d) \<noteq> None"
    if "r \<in> set (revision_log d)" "rl_OperationID r = Some oid" for r
    using vault_okD(6) [OF assms(1), of r oid] that by simp
  with assms(2) show ?thesis unfolding list_ex_iff by blast
qed

lemma cas_rows:
  assumes "schema_ok d" and "find (item_key u i) (vault_items d) = Some old" and "it_DeletedAt old = None"
  shows "find (item_cas u i (it_Version old)) (vault_items d) = Some old"
    and "count_where (item_cas u i (it_Version old)) (vault_items d) \<noteq> 0"
    and "upd_where (item_cas u i (it_Version old)) f (vault_items d) = upd_where (item_key u i) (\<lambda>_. f old) (vault_items d)"
proof -
  have old: "old \<in> set (vault_items d)" "item_cas u i (it_Version old) old"
    using find_SomeD [OF assms(2)] assms(3) by (auto simp: item_cas_def)
  then show "find (item_cas u i (it_Version old)) (vault_items d) = Some old"
    "count_where (item_cas u i (it_Version old)) (vault_items d) \<noteq> 0"
    using find_item_cas(2) [OF assms(1)] by auto
  have "r = old" if "r \<in> set (vault_items d)" "item_key u i r" for r
    using assms(1) that old by (auto simp: schema_ok_def item_key_def item_cas_def distinct_map dest: inj_onD)
  then show "upd_where (item_cas u i (it_Version old)) f (vault_items d) =
      upd_where (item_key u i) (\<lambda>_. f old) (vault_items d)"
    using old(2) by (auto simp: upd_where_def item_cas_def)
qed

text \<open>The tables after a change of one item: the row, its log entry, the processed operation.\<close>

definition changed :: "database \<Rightarrow> string \<Rightarrow> string \<Rightarrow> string \<Rightarrow> ChangeType \<Rightarrow> Item \<Rightarrow> time \<Rightarrow> database" where
  "changed d u oid i ct it t =
     d\<lparr>vault_items := upd_where (item_key u i) (\<lambda>_. it) (vault_items d), revision_seq := Suc (revision_seq d),
       revision_log := revision_log d @ [\<lparr>rl_RevisionID = word_of_nat (Suc (revision_seq d)), rl_UserID = u,
         rl_OperationID = Some oid, rl_ItemID = i, rl_ChangeType = ct, rl_ItemVersion = it_Version it, rl_ChangedAt = t\<rparr>],
       processed_operations := processed_operations d @
         [\<lparr>po_UserID = u, po_OperationID = oid, po_ItemID = i, po_RevisionID = word_of_nat (Suc (revision_seq d))\<rparr>]\<rparr>"

lemma bigint_word_of_nat: "n < 2 ^ 63 \<Longrightarrow> bigint_ok (word_of_nat n)"
  using unat_word_of_nat_u64 [of n] by (simp add: bigint_ok_def)

lemma has_upd_items:
  "find (item_key u i) (vault_items d) = Some old \<Longrightarrow> it_ItemID it = i \<Longrightarrow>
    i \<in> it_ItemID ` set (upd_where (item_key u i) (\<lambda>_. it) (vault_items d))"
  by (force simp: set_upd_where dest: find_SomeD)

lemma AppendRevision_reliable:
  assumes "reliable E" and "Suc (revision_seq (db w)) < 2 ^ 63" and "bigint_ok v"
    and "has_user (db w) u" and "has_item (db w) i"
    and "\<not> list_ex (\<lambda>r. rl_UserID r = u \<and> rl_OperationID r = Some oid) (revision_log (db w))"
  shows "RevisionLogRepository_AppendRevision E (new_entry u oid i ct v now) w =
    (let en = \<lparr>rl_RevisionID = word_of_nat (Suc (revision_seq (db w))), rl_UserID = u, rl_OperationID = Some oid,
           rl_ItemID = i, rl_ChangeType = ct, rl_ItemVersion = v, rl_ChangedAt = env_db_clock E (tick w)\<rparr> in
     (Inr en, w\<lparr>tick := Suc (tick w), db := (db w)\<lparr>revision_seq := Suc (revision_seq (db w)),
        revision_log := revision_log (db w) @ [en]\<rparr>\<rparr>))"
  using assms
  by (simp add: RevisionLogRepository_AppendRevision_def stmt_def sql_append_revision_def new_entry_def Let_def
      del: of_nat_Suc)

lemma MarkProcessed_reliable:
  assumes "reliable E" and "bigint_ok rid" and "has_user (db w) u"
    and "\<not> list_ex (op_key u oid) (processed_operations (db w))"
  shows "ProcessedOperationsRepository_MarkProcessed E u oid i rid w =
    (Inr (), w\<lparr>tick := Suc (tick w), db := (db w)\<lparr>processed_operations := processed_operations (db w) @
         [\<lparr>po_UserID = u, po_OperationID = oid, po_ItemID = i, po_RevisionID = rid\<rparr>]\<rparr>\<rparr>)"
  using assms
  by (simp add: ProcessedOperationsRepository_MarkProcessed_def stmt_def sql_mark_processed_def)

lemma record_reliable:
  assumes "reliable E" and "Suc (revision_seq (db w)) < 2 ^ 63" and "bigint_ok v"
    and "has_user (db w) u" and "has_item (db w) i"
    and "\<not> list_ex (\<lambda>r. rl_UserID r = u \<and> rl_OperationID r = Some oid) (revision_log (db w))"
    and "\<not> list_ex (op_key u oid) (processed_operations (db w))"
  shows "andthen (RevisionLogRepository_AppendRevision E (new_entry u oid i ct v now)) (\<lambda>en.
       andthen (ProcessedOperationsRepository_MarkProcessed E u oid i (rl_RevisionID en)) (\<lambda>_. ret (k en))) w =
    (let rid = word_of_nat (Suc (revision_seq (db w)));
         en = \<lparr>rl_RevisionID = rid, rl_UserID = u, rl_OperationID = Some oid, rl_ItemID = i, rl_ChangeType = ct,
           rl_ItemVersion = v, rl_ChangedAt = env_db_clock E (tick w)\<rparr> in
     (Inr (k en), w\<lparr>tick := Suc (Suc (tick w)), db := (db w)\<lparr>revision_seq := Suc (revision_seq (db w)),
        revision_log := revision_log (db w) @ [en], processed_operations := processed_operations (db w) @
         [\<lparr>po_UserID = u, po_OperationID = oid, po_ItemID = i, po_RevisionID = rid\<rparr>]\<rparr>\<rparr>))"
  using assms bigint_word_of_nat [OF assms(2)]
  by (simp add: prog_defs AppendRevision_reliable MarkProcessed_reliable Let_def del: of_nat_Suc)

text \<open>
  C31. Effect of an update. On a database that satisfies the invariants and when no call fails, an
  update of a live item from its current version succeeds; it returns the next version and the next
  revision id. Of exactly that row, title, metadata, payload (each ciphertext and nonce), blob id and
  checksum are those of the request, the version is the next one and the instant of the update is the
  reading of the clock, while id, owner, type and instant of creation stay; one log entry and one
  processed operation are appended, and nothing else changes.
\<close>

theorem update_effect:
  assumes "reliable E" and "schema_ok (db w)" and "vault_ok (abs_db (db w))"
    and "TrimSpace u \<noteq> []" and "TrimSpace oid \<noteq> []" and "TrimSpace i \<noteq> []"
    and new: "find (op_key u oid) (processed_operations (db w)) = None"
    and old: "find (item_key u i) (vault_items (db w)) = Some old" and live: "it_DeletedAt old = None"
    and "bigint_ok (it_Version old + 1)" and "Suc (revision_seq (db w)) < 2 ^ 63"
    and given: "ui_TitleCiphertext inp \<noteq> None" "ui_TitleNonce inp \<noteq> None" "ui_MetadataCiphertext inp \<noteq> None"
      "ui_MetadataNonce inp \<noteq> None" and "has_blob (db w) (ui_BlobID inp)"
  shows "Engine_Update (pg_engine E) u oid i (it_Version old) inp w =
    (Inr \<lparr>uo_NewVersion = it_Version old + 1, uo_ServerRevision = word_of_nat (Suc (revision_seq (db w)))\<rparr>,
     w\<lparr>tick := tick w + 6, db := changed (db w) u oid i ChangeTypeUpdated
        \<lparr>it_ItemID = i, it_UserID = u, it_ItemType = it_ItemType old, it_TitleCiphertext = ui_TitleCiphertext inp,
         it_TitleNonce = ui_TitleNonce inp, it_MetadataCiphertext = ui_MetadataCiphertext inp,
         it_MetadataNonce = ui_MetadataNonce inp, it_PayloadCiphertext = ui_PayloadCiphertext inp,
         it_PayloadNonce = ui_PayloadNonce inp, it_BlobID = ui_BlobID inp, it_Version = it_Version old + 1,
         it_Checksum = ui_Checksum inp, it_CreatedAt = it_CreatedAt old, it_UpdatedAt = env_clock E (tick w + 2),
         it_DeletedAt = None\<rparr> (env_db_clock E (tick w + 4))\<rparr>)"
proof -
  let ?now = "env_clock E (Suc (Suc (tick w)))"
  let ?it = "apply_update inp ?now old"
  have key: "it_UserID old = u" "it_ItemID old = i" "old \<in> set (vault_items (db w))"
    using find_SomeD [OF old] by (auto simp: item_key_def)
  have facts: "bigint_ok (it_Version old)" "has_user (db w) u" "item_not_null ?it" "it_BlobID ?it = ui_BlobID inp"
    using assms(2) given key by (auto simp: schema_ok_def item_not_null_def apply_update_def)
  have upd: "VaultRepository_UpdateItem E ?it (it_Version old) x =
      (Inr (), x\<lparr>tick := Suc (tick x), db := (db w)\<lparr>vault_items := upd_where (item_key u i) (\<lambda>_. ?it) (vault_items (db w))\<rparr>\<rparr>)"
    if "db x = db w" for x :: "'a world"
    using that assms facts key cas_rows [OF assms(2) old live]
    by (simp add: VaultRepository_UpdateItem_def prog_defs stmt_def sql_update_item_def Let_def)
  have ticks: "tick w + 2 = Suc (Suc (tick w))" "tick w + 4 = Suc (Suc (Suc (Suc (tick w))))"
    "tick w + 6 = Suc (Suc (Suc (Suc (Suc (Suc (tick w))))))" by simp_all
  let ?w3 = "w\<lparr>tick := Suc (Suc (Suc (Suc (tick w)))), db := (db w)\<lparr>vault_items := upd_where (item_key u i) (\<lambda>_. ?it) (vault_items (db w))\<rparr>\<rparr>"
  have "Engine_Update (pg_engine E) u oid i (it_Version old) inp w =
      andthen (RevisionLogRepository_AppendRevision E (new_entry u oid i ChangeTypeUpdated (it_Version old + 1) ?now)) (\<lambda>en.
        andthen (ProcessedOperationsRepository_MarkProcessed E u oid i (rl_RevisionID en)) (\<lambda>_.
          ret \<lparr>uo_NewVersion = it_Version old + 1, uo_ServerRevision = rl_RevisionID en\<rparr>)) ?w3"
    using assms(1,4-9)
    by (simp add: Engine_Update_def guard_def andthen_ok time_Now_def Lookup_reliable GetItem_reliable upd)
  also have "\<dots> = (Inr \<lparr>uo_NewVersion = it_Version old + 1, uo_ServerRevision = word_of_nat (Suc (revision_seq (db w)))\<rparr>,
     w\<lparr>tick := tick w + 6, db := changed (db w) u oid i ChangeTypeUpdated ?it (env_db_clock E (tick w + 4))\<rparr>)"
    unfolding ticks
    using assms(10,11) facts fresh_op_log [OF assms(3) new] has_upd_items [OF old, of ?it] key new
    by (subst record_reliable [OF assms(1)])
       (simp_all add: list_ex_op_key changed_def Let_def del: of_nat_Suc)
  also have "?it = \<lparr>it_ItemID = i, it_UserID = u, it_ItemType = it_ItemType old, it_TitleCiphertext = ui_TitleCiphertext inp,
         it_TitleNonce = ui_TitleNonce inp, it_MetadataCiphertext = ui_MetadataCiphertext inp,
         it_MetadataNonce = ui_MetadataNonce inp, it_PayloadCiphertext = ui_PayloadCiphertext inp,
         it_PayloadNonce = ui_PayloadNonce inp, it_BlobID = ui_BlobID inp, it_Version = it_Version old + 1,
         it_Checksum = ui_Checksum inp, it_CreatedAt = it_CreatedAt old, it_UpdatedAt = ?now, it_DeletedAt = None\<rparr>"
    using key live by (simp add: apply_update_def)
  finally show ?thesis unfolding ticks .
qed

lemma demo_world1_vault_ok: "vault_ok (abs_db (db demo_world1))"
proof -
  have "history_ok (abs_db (db demo_world1)) ''i1'' (demo_item 1 None)"
    by (simp add: history_ok_def item_history_def demo_defs vault_eval)
  then show ?thesis
    by (auto simp: vault_ok_def demo_defs vault_eval split: if_splits)
qed

theorem update_effect_witness:
  "fst (Engine_Update (pg_engine demo_env) ''u1'' ''op2'' ''i1'' 1 demo_update demo_world1) =
      Inr \<lparr>uo_NewVersion = 2, uo_ServerRevision = 2\<rparr> \<and>
   map it_TitleNonce (vault_items (db (snd (Engine_Update (pg_engine demo_env) ''u1'' ''op2'' ''i1'' 1 demo_update demo_world1)))) =
      [Some [12]]"
proof -
  have v: "it_Version (demo_item 1 None) = 1" by (simp add: demo_item_def)
  have "Engine_Update (pg_engine demo_env) ''u1'' ''op2'' ''i1'' (it_Version (demo_item 1 None)) demo_update demo_world1 =
    (Inr \<lparr>uo_NewVersion = it_Version (demo_item 1 None) + 1,
        uo_ServerRevision = word_of_nat (Suc (revision_seq (db demo_world1)))\<rparr>,
     demo_world1\<lparr>tick := tick demo_world1 + 6, db := changed (db demo_world1) ''u1'' ''op2'' ''i1'' ChangeTypeUpdated
        \<lparr>it_ItemID = ''i1'', it_UserID = ''u1'', it_ItemType = it_ItemType (demo_item 1 None),
         it_TitleCiphertext = ui_TitleCiphertext demo_update, it_TitleNonce = ui_TitleNonce demo_update,
         it_MetadataCiphertext = ui_MetadataCiphertext demo_update, it_MetadataNonce = ui_MetadataNonce demo_update,
         it_PayloadCiphertext = ui_PayloadCiphertext demo_update, it_PayloadNonce = ui_PayloadNonce demo_update,
         it_BlobID = ui_BlobID demo_update, it_Version = it_Version (demo_item 1 None) + 1,
         it_Checksum = ui_Checksum demo_update, it_CreatedAt = it_CreatedAt (demo_item 1 None),
         it_UpdatedAt = env_clock demo_env (tick demo_world1 + 2), it_DeletedAt = None\<rparr>
        (env_db_clock demo_env (tick demo_world1 + 4))\<rparr>)"
    by (rule update_effect)
       (simp_all add: demo_world1_ok demo_world1_vault_ok, simp_all add: demo_defs vault_eval)
  then show ?thesis unfolding v by (simp add: changed_def demo_defs vault_eval)
qed

text \<open>
  Stale writes. When no call fails, a new operation that names a missing item, a tombstone or a
  version other than the current one is refused and changes nothing: update answers NotFound for
  a missing or deleted item and Conflict for a version mismatch, delete answers Conflict in all
  three cases.
\<close>

theorem stale_write_refused:
  fixes w :: "'o world"
  assumes "reliable E" and "TrimSpace u \<noteq> []" and "TrimSpace oid \<noteq> []" and "TrimSpace i \<noteq> []"
    and "find (op_key u oid) (processed_operations (db w)) = None" and "schema_ok (db w)" and "bigint_ok ev"
    and stale: "case find (item_key u i) (vault_items (db w)) of None \<Rightarrow> True
           | Some it \<Rightarrow> it_DeletedAt it \<noteq> None \<or> it_Version it \<noteq> ev"
  shows "fst (Engine_Update (pg_engine E) u oid i ev inp w) =
      Inl (case find (item_key u i) (vault_items (db w)) of None \<Rightarrow> VaultErrNotFound
           | Some it \<Rightarrow> if it_DeletedAt it \<noteq> None then VaultErrNotFound else VaultErrConflict) \<and>
    db (snd (Engine_Update (pg_engine E) u oid i ev inp w)) = db w \<and>
    fst (Engine_Delete (pg_engine E) u oid i ev w) = Inl VaultErrConflict \<and>
    db (snd (Engine_Delete (pg_engine E) u oid i ev w)) = db w"
proof -
  have "find (item_cas u i ev) (vault_items (db w)) = None"
  proof (rule ccontr)
    assume "find (item_cas u i ev) (vault_items (db w)) \<noteq> None"
    then obtain r where "r \<in> set (vault_items (db w))" "item_cas u i ev r" by (auto dest: find_SomeD)
    with find_item_cas(1) [OF assms(6)] stale show False by (auto simp: item_cas_def)
  qed
  then have del: "VaultRepository_DeleteItem E u i ev at x = (Inl VaultErrConflict, x\<lparr>tick := Suc (tick x)\<rparr>)"
    if "db x = db w" for at and x :: "'o world"
    using that assms(1,7) by (simp add: VaultRepository_DeleteItem_def prog_defs stmt_def sql_tombstone_item_def)
  show ?thesis
    using assms(1-5) stale
    by (auto simp: Engine_Update_def Engine_Delete_def guard_def andthen_ok andthen_err throw_def time_Now_def
        Lookup_reliable GetItem_reliable del split: option.splits)
qed

theorem stale_write_refused_witness:
  "fst (Engine_Update (pg_engine demo_env) ''u1'' ''op2'' ''i1'' 7 demo_update demo_world1) = Inl VaultErrConflict \<and>
   fst (Engine_Delete (pg_engine demo_env) ''u1'' ''op2'' ''i1'' 7 demo_world1) = Inl VaultErrConflict"
proof -
  have item: "find (item_key ''u1'' ''i1'') (vault_items (db demo_world1)) = Some (demo_item 1 None)"
    by (simp add: demo_defs vault_eval)
  have "fst (Engine_Update (pg_engine demo_env) ''u1'' ''op2'' ''i1'' 7 demo_update demo_world1) =
      Inl (case find (item_key ''u1'' ''i1'') (vault_items (db demo_world1)) of None \<Rightarrow> VaultErrNotFound
           | Some it \<Rightarrow> if it_DeletedAt it \<noteq> None then VaultErrNotFound else VaultErrConflict) \<and>
    db (snd (Engine_Update (pg_engine demo_env) ''u1'' ''op2'' ''i1'' 7 demo_update demo_world1)) = db demo_world1 \<and>
    fst (Engine_Delete (pg_engine demo_env) ''u1'' ''op2'' ''i1'' 7 demo_world1) = Inl VaultErrConflict \<and>
    db (snd (Engine_Delete (pg_engine demo_env) ''u1'' ''op2'' ''i1'' 7 demo_world1)) = db demo_world1"
    by (rule stale_write_refused)
       (simp_all add: demo_world1_ok item, simp_all add: demo_defs vault_eval)
  then show ?thesis by (simp add: item) (simp add: demo_item_def)
qed

subsection \<open>Listing\<close>

text \<open>
  A page of a listing. Whatever the parameters, a page has at most 500 rows, at most the
  requested number, all of them distinct rows of the caller, without tombstones unless asked for;
  a first page without a continuation token holds every such row.
\<close>

theorem list_page_sound:
  assumes "schema_ok (db w)" and run: "VaultRepository_ListItems E u incl limit tok w = (Inr (items, ntok), w')"
  shows "length items \<le> page_limit limit \<and> page_limit limit \<le> 500 \<and>
    (0 < limit \<longrightarrow> int (page_limit limit) \<le> limit) \<and> distinct (map it_ItemID items) \<and>
    (\<forall>it \<in> set items. it \<in> set (vault_items (db w)) \<and> it_UserID it = u \<and> (incl \<or> it_DeletedAt it = None)) \<and>
    (tok = [] \<and> ntok = [] \<longrightarrow> (\<forall>it \<in> set (vault_items (db w)).
       it_UserID it = u \<and> (incl \<or> it_DeletedAt it = None) \<longrightarrow> it \<in> set items))"
proof -
  obtain cur where cur: "parse_page_token tok = Some cur"
    using run by (cases "parse_page_token tok") (auto simp: VaultRepository_ListItems_def throw_def)
  define rows where "rows = sort_by (list_order E) (filter (\<lambda>r. it_UserID r = u \<and>
      (incl \<or> it_DeletedAt r = None) \<and> before_cursor E cur r) (vault_items (db w)))"
  have items: "items = take (page_limit limit) rows" and ntok: "ntok = [] \<Longrightarrow> length rows \<le> page_limit limit"
    using run cur
    by (auto simp: VaultRepository_ListItems_def prog_defs stmt_def sql_list_items_def Let_def rows_def min_def
        page_token_def split: if_splits fault.splits)
  have "distinct (map it_ItemID rows)"
    using assms(1) by (auto simp: rows_def schema_ok_def distinct_map_filter)
  then have "distinct (map it_ItemID items)" by (simp add: items take_map [symmetric])
  moreover have "set items \<subseteq> set rows" by (simp add: items set_take_subset)
  moreover have "set items = set rows" if "ntok = []" using ntok [OF that] by (simp add: items)
  ultimately show ?thesis
    using cur by (auto simp: items rows_def page_limit_def parse_page_token_def before_cursor_def Let_def)
qed

definition demo_list_world :: "unit world" where
  "demo_list_world = \<lparr>db = demo_db\<lparr>vault_items :=
     [(demo_item 1 None)\<lparr>it_ItemID := ''a'', it_UpdatedAt := 3\<rparr>, (demo_item 1 None)\<lparr>it_ItemID := ''b'', it_UpdatedAt := 2\<rparr>,
      (demo_item 1 None)\<lparr>it_ItemID := ''c'', it_UpdatedAt := 1\<rparr>]\<rparr>, objs = (), tick = 0\<rparr>"

lemmas list_eval = VaultRepository_ListItems_def sql_list_items_def parse_page_token_def page_limit_def
  before_cursor_def list_order_def page_token_def UnixNano_def sort_by_def show_int_def ParseInt_def is_digit_def
  demo_list_world_def demo_defs vault_eval

theorem list_page_sound_witness:
  "\<exists>items ntok. fst (VaultRepository_ListItems demo_env ''u1'' False 1 [] demo_list_world) = Inr (items, ntok) \<and>
    length items \<le> page_limit 1 \<and> distinct (map it_ItemID items)"
proof -
  let ?r = "VaultRepository_ListItems demo_env ''u1'' False 1 [] demo_list_world"
  obtain items tok where r: "fst ?r = Inr (items, tok)" by (simp add: list_eval)
  then have run: "?r = (Inr (items, tok), snd ?r)" by (metis prod.collapse)
  have "schema_ok (db demo_list_world)" by (simp add: schema_ok_def demo_list_world_def demo_defs vault_eval)
  from list_page_sound [OF this run] r show ?thesis by auto
qed

text \<open>
  The page boundary. The continuation token is built from the first row that did not fit, and the
  next page starts strictly after it: that row is on neither page. Three items, pages of one: the
  second item is never listed.
\<close>

theorem list_skips_boundary_row:
  "fst (VaultRepository_ListItems demo_env ''u1'' False 1 [] demo_list_world) =
     Inr ([(demo_item 1 None)\<lparr>it_ItemID := ''a'', it_UpdatedAt := 3\<rparr>], ''2000:b'') \<and>
   fst (VaultRepository_ListItems demo_env ''u1'' False 1 ''2000:b'' demo_list_world) =
     Inr ([(demo_item 1 None)\<lparr>it_ItemID := ''c'', it_UpdatedAt := 1\<rparr>], [])"
  by (simp add: list_eval)

text \<open>
  The continuation token round-trips: the token of a row parses back to the instant (in
  nanoseconds) and the id of that row, for every instant that fits in 64 bits and every id.
\<close>

theorem page_token_roundtrip:
  assumes "- (2 ^ 63) \<le> UnixNano (it_UpdatedAt r)" and "UnixNano (it_UpdatedAt r) < 2 ^ 63"
  shows "parse_page_token (page_token r) = Some (Some (UnixNano (it_UpdatedAt r), it_ItemID r))"
  using ParseInt_show_int [OF assms] split_first_append [OF show_int_no_colon]
  by (simp add: parse_page_token_def page_token_def)

theorem page_token_roundtrip_witness:
  "parse_page_token (page_token (demo_item 1 None)) = Some (Some (0, ''i1''))"
  using page_token_roundtrip [of "demo_item 1 None"] by (simp add: UnixNano_def demo_defs vault_eval)

subsection \<open>Where the code falls short\<close>

text \<open>
  A repeated operation is answered with the item's current version, not with the version the
  operation produced: after a create and an update, repeating the create reports version 2.
\<close>

theorem replay_reports_current_version:
  "let w1 = snd (Engine_Update (pg_engine demo_env) ''u1'' ''op2'' ''i1'' 1 demo_update demo_world1) in
   fst (Engine_Create (pg_engine demo_env) ''u1'' ''op1'' demo_create w1) =
     Inr \<lparr>co_ItemID = ''i1'', co_Version = 2, co_ServerRevision = 1\<rparr>"
  by (simp add: Engine_Create_def Engine_Update_def vault_eval demo_defs)

text \<open>
  The engine on the connection pool, which the direct vault calls use, is not atomic: when the
  insert of the log entry fails the item stays without a log entry, so the history invariant is
  broken, and repeating the operation creates a second item.
\<close>

theorem pool_engine_not_atomic:
  "let w1 = snd (Engine_Create (pg_engine (demo_env_failing 4)) ''u1'' ''op1'' demo_create demo_world);
       w2 = snd (Engine_Create (pg_engine (demo_env_failing 4)) ''u1'' ''op1'' demo_create w1) in
   map it_ItemID (vault_items (db w1)) = [''id-2''] \<and> revision_log (db w1) = [] \<and>
   \<not> vault_ok (abs_db (db w1)) \<and> length (vault_items (db w2)) = 2"
proof -
  let ?w1 = "snd (Engine_Create (pg_engine (demo_env_failing 4)) ''u1'' ''op1'' demo_create demo_world)"
  have items: "map it_ItemID (vault_items (db ?w1)) = [''id-2'']" "revision_log (db ?w1) = []"
    "va_items (abs_db (db ?w1)) (''u1'', ''id-2'') \<noteq> None"
    by (simp_all add: Engine_Create_def vault_eval demo_defs)
  then obtain it where "va_items (abs_db (db ?w1)) (''u1'', ''id-2'') = Some it" by blast
  moreover have "it_Version it = 1" if "va_items (abs_db (db ?w1)) (''u1'', ''id-2'') = Some it"
    using that by (auto simp: Engine_Create_def vault_eval demo_defs)
  ultimately have "\<not> vault_ok (abs_db (db ?w1))"
    using items(2) vault_okD(1) [of "abs_db (db ?w1)" "''u1''" "''id-2''" it]
    by (auto simp: history_ok_def item_history_def)
  moreover have "length (vault_items (db (snd (Engine_Create (pg_engine (demo_env_failing 4)) ''u1'' ''op1'' demo_create ?w1)))) = 2"
    by (simp add: Engine_Create_def vault_eval demo_defs)
  ultimately show ?thesis using items by (simp add: Let_def)
qed

end
