(* ===== verification/SyncService.thy ===== *)
theory SyncService
  imports SyncHandler BlobService VaultProps
begin

section \<open>Vault and synchronisation services on PostgreSQL\<close>

text \<open>
  What the RPC handlers keep of the database. \<open>payload_stores\<close> is the contract \<open>resolveVaultPayload\<close>
  relies on; it is interpreted on the PostgreSQL blob repository and the object storage adapter, for
  the history of the vault and for the invariant of blobs. \<open>advanced s0\<close> says that the vault has moved
  from \<open>s0\<close> by complete steps of the abstract machine only; every push keeps it, whatever fails.
\<close>

subsection \<open>The stores behind payloads\<close>

locale payload_stores =
  fixes E :: env and repo :: "'o world BlobRepo" and storage :: "'o world ObjectStorage" and I :: "'o world \<Rightarrow> bool"
  assumes ids: "keeps I (uuid_NewString E)" and clock: "keeps I (time_Now E)"
    and get: "keeps I (br_GetByID repo u b)"
    and create: "bl_Status row = StatusCommitted \<Longrightarrow> keeps I (br_Create repo row)"
    and put: "keeps I (os_Put storage k d n ct)" and stat: "keeps I (os_Stat storage k)" and delete: "keeps I (os_Delete storage k)"
begin

lemma keeps_spill: "keeps I (spill_blob E sha repo storage (time_Now E) u ct)"
  unfolding spill_blob_def by (intro keeps_intros ids clock create put delete) (simp add: spill_row_def)

lemma keeps_reference: "keeps I (referenced_blob m repo storage u p b)"
  unfolding referenced_blob_def by (intro keeps_intros get stat)

lemma keeps_resolve:
  assumes "now = None \<or> now = Some (time_Now E)"
  shows "keeps I (resolveVaultPayload E sha cfg (Some repo) (Some storage) now u p b)"
proof -
  have "(case now of None \<Rightarrow> time_Now E | Some f \<Rightarrow> f) = time_Now E" using assms by auto
  then show ?thesis
    unfolding resolveVaultPayload_def Let_def
    by (auto intro!: keeps_intros keeps_spill keeps_reference split: option.splits)
qed

end

subsection \<open>The history of the vault\<close>

definition still :: "vault_abs \<Rightarrow> database \<Rightarrow> bool" where
  "still s d \<longleftrightarrow> schema_ok d \<and> abs_db d = s"

definition advanced :: "vault_abs \<Rightarrow> database \<Rightarrow> bool" where
  "advanced s0 d \<longleftrightarrow> schema_ok d \<and> vault_step\<^sup>*\<^sup>* s0 (abs_db d)"

lemma sql_insert_blob_cases:
  assumes "sql_insert_blob b t d = (r, d')"
  obtains "d' = d" "isl r" | "d' = d\<lparr>blobs := blobs d @ [b\<lparr>bl_FailedAt := None\<rparr>]\<rparr>" "r = Inr ()"
  using assms by (auto simp: sql_insert_blob_def split: if_splits)

lemma still_insert_blob:
  assumes "still s d" and "sql_insert_blob b t d = (r, d')"
  shows "still s d'"
  using assms(2)
proof (cases rule: sql_insert_blob_cases)
  case 2
  have "has_blob d x \<Longrightarrow> has_blob d' x" for x
    by (cases x) (simp_all add: 2 has_blob_def)
  moreover have "has_user d' u = has_user d u" for u by (simp add: 2 has_user_def)
  ultimately have "schema_ok d'"
    using assms(1) unfolding still_def by (intro schema_ok_other [of d d']) (simp_all add: 2)
  moreover have "abs_db d' = abs_db d" by (rule abs_db_cong) (simp_all add: 2)
  ultimately show ?thesis using assms(1) by (simp add: still_def)
qed (use assms in simp)

interpretation payload_history: payload_stores E "NewBlobRepository E" "NewObjectStorage c bucket" "\<lambda>w. still s (db w)"
  for E and c :: "'o minio_client" and bucket s
proof unfold_locales
  show "keeps (\<lambda>w :: 'o world. still s (db w)) (br_GetByID (NewBlobRepository E) u b)" for u b
    unfolding store_sel BlobRepository_GetByID_def
    by (intro keeps_intros keeps_stmt) (auto simp: sql_select_blob_def split: option.splits)
  show "keeps (\<lambda>w :: 'o world. still s (db w)) (br_Create (NewBlobRepository E) b)" for b
    unfolding store_sel BlobRepository_Create_def execInsertBlob_def
    by (intro keeps_stmt) (rule still_insert_blob)
qed (simp_all add: keeps_uuid keeps_time_Now keeps_storage)

lemma keeps_still_advanced:
  fixes m :: "('o, 'a) server"
  assumes "\<And>s. keeps (\<lambda>w. still s (db w)) m"
  shows "keeps (\<lambda>w. advanced s0 (db w)) m"
  unfolding keeps_def
proof (intro allI impI)
  fix w :: "'o world" assume "advanced s0 (db w)"
  with assms [of "abs_db (db w)"] show "advanced s0 (db (snd (m w)))"
    by (auto simp: keeps_def still_def advanced_def)
qed

interpretation payload_blobs: payload_stores E "NewBlobRepository E" "NewObjectStorage c bucket" "\<lambda>w. frozen b0 (db w)"
  for E and c :: "'o minio_client" and bucket b0
proof unfold_locales
  show "keeps (\<lambda>w :: 'o world. frozen b0 (db w)) (br_GetByID (NewBlobRepository E) u b)" for u b
    unfolding store_sel BlobRepository_GetByID_def
    by (intro keeps_intros keeps_stmt) (auto simp: sql_select_blob_def split: option.splits)
  show "keeps (\<lambda>w :: 'o world. frozen b0 (db w)) (br_Create (NewBlobRepository E) b)" for b
    unfolding store_sel BlobRepository_Create_def execInsertBlob_def
    by (intro keeps_stmt) (rule frozen_insert_blob)
qed (simp_all add: keeps_uuid keeps_time_Now keeps_storage)

text \<open>A transaction around one engine operation is one step or nothing.\<close>

definition one_step :: "('o, 'a) server \<Rightarrow> bool" where
  "one_step m \<longleftrightarrow> (\<forall>n. keeps (\<lambda>w. schema_ok (db w) \<and> n \<le> revision_seq (db w)) m) \<and>
     (\<forall>w x w'. schema_ok (db w) \<longrightarrow> m w = (Inr x, w') \<longrightarrow>
        vault_step\<^sup>*\<^sup>* (abs_db (db w)) (abs_db (db w')))"

lemma one_step_engine:
  "one_step (Engine_Create (pg_engine E) u oid ci)" "one_step (Engine_Update (pg_engine E) u oid i ev ui)"
  "one_step (Engine_Delete (pg_engine E) u oid i ev)"
  unfolding one_step_def
  by (auto intro!: keeps_conj keeps_schema keeps_seq dest: pg.refines split: if_splits)

lemma keeps_tx:
  assumes "one_step m"
  shows "keeps (\<lambda>w. advanced s0 (db w)) (in_tx E m)"
  unfolding keeps_def
proof (intro allI impI)
  fix w :: "'a world" assume adv: "advanced s0 (db w)"
  then have ok: "schema_ok (db w)" by (simp add: advanced_def)
  obtain r w' where run: "in_tx E m w = (r, w')" by fastforce
  have "schema_ok (db w')"
    using run
  proof (cases rule: in_tx_db)
    case (ran w1 x w2)
    have "keeps (\<lambda>v. schema_ok (db v) \<and> revision_seq (db w) \<le> revision_seq (db v)) m"
      using assms by (simp add: one_step_def)
    from keepsD [OF this _ ran(1)] ran(2) ok
    have "schema_ok (db w2) \<and> revision_seq (db w) \<le> revision_seq (db w2)" by simp
    moreover from this have "schema_ok ((db w)\<lparr>revision_seq := revision_seq (db w2)\<rparr>)"
      by (intro schema_ok_seq [OF ok]) (auto simp: schema_ok_def)
    ultimately show ?thesis using ran(4) by auto
  qed (simp add: ok)
  moreover have "vault_step\<^sup>*\<^sup>* s0 (abs_db (db w'))"
    using run
  proof (cases rule: in_tx_cases)
    case (rolled_back e)
    then show ?thesis using abs_db_tables [of "db w'" "db w"] adv by (simp add: advanced_def)
  next
    case (committed x w1 w2)
    then show ?thesis using assms ok adv unfolding one_step_def advanced_def by (metis rtranclp_trans)
  qed
  ultimately show "advanced s0 (db (snd (in_tx E m w)))" using run by (simp add: advanced_def)
qed

subsection \<open>The handlers keep the history\<close>

definition pg_sync_handler :: "env \<Rightarrow> (bytes \<Rightarrow> bytes) \<Rightarrow> Config \<Rightarrow> 'o minio_client \<Rightarrow> string \<Rightarrow> 'o syncHandler" where
  "pg_sync_handler E sha cfg c bucket =
     \<lparr>sh_env = E, sh_sha256 = sha, sh_cfg = Some cfg, sh_pool = Some E, sh_now = Some (time_Now E),
      sh_blobRepo = Some (NewBlobRepository E), sh_blobStorage = Some (NewObjectStorage c bucket)\<rparr>"

lemma pg_sync_handler_sel [simp]:
  "sh_env (pg_sync_handler E sha cfg c bucket) = E" "sh_pool (pg_sync_handler E sha cfg c bucket) = Some E"
  "sh_now (pg_sync_handler E sha cfg c bucket) = Some (time_Now E)"
  by (simp_all add: pg_sync_handler_def)

lemma keeps_snapshot_payload:
  "keeps (\<lambda>w. still s (db w)) (snapshot_payload (pg_sync_handler E sha cfg c bucket) u snap)"
  "keeps (\<lambda>w. advanced s0 (db w)) (snapshot_payload (pg_sync_handler E sha cfg c bucket) u snap)"
  "keeps (\<lambda>w. frozen b0 (db w)) (snapshot_payload (pg_sync_handler E sha cfg c bucket) u snap)"
  unfolding snapshot_payload_def pg_sync_handler_def
  by (simp_all add: keeps_still_advanced payload_history.keeps_resolve payload_blobs.keeps_resolve)

lemma keeps_check_snapshot:
  "(\<And>sn ty. keeps I (k sn ty)) \<Longrightarrow> keeps I (check_snapshot oid m snap k)"
  unfolding check_snapshot_def by (auto intro!: keeps_intros split: option.splits)

lemma keeps_GetItem: "keeps (\<lambda>w. I (db w)) (VaultRepository_GetItem E u i)"
  unfolding VaultRepository_GetItem_def
  by (intro keeps_intros keeps_stmt) (auto simp: sql_select_item_def split: option.splits)

lemma keeps_report_conflict: "keeps (\<lambda>w. I (db w)) (report_conflict h u oid i ev e)"
proof -
  have "keeps (\<lambda>w. I (db w)) (r_GetItem (NewVaultRepository E) u i)" for E
    by (simp add: NewVaultRepository_def keeps_GetItem)
  then show ?thesis
    unfolding report_conflict_def versionConflict_def Let_def by (auto intro!: keeps_intros split: option.splits)
qed

lemmas keeps_push = keeps_snapshot_payload keeps_check_snapshot keeps_report_conflict keeps_tx one_step_engine

lemma keeps_apply:
  "keeps (\<lambda>w. advanced s0 (db w)) (applyPendingOperation (pg_sync_handler E sha cfg c bucket) u op (Some (time_Now E)))"
  unfolding applyPendingOperation_def pushCreate_def pushUpdate_def pushDelete_def Let_def
  by (auto intro!: keeps_intros keeps_push split: PendingOperationType.splits)

lemma keeps_push_loop:
  "keeps (\<lambda>w. advanced s0 (db w)) (push_loop (pg_sync_handler E sha cfg c bucket) u (Some (time_Now E)) ops acc confl)"
  by (induction ops arbitrary: acc confl)
     (auto intro!: keeps_intros keeps_apply split: option.splits push_result.splits)

text \<open>A transaction that only reads.\<close>

lemma keeps_tx_read:
  assumes "\<And>d0. keeps (\<lambda>w. db w = d0) m"
  shows "keeps (\<lambda>w. I (db w)) (in_tx E m)"
  unfolding keeps_def
proof (intro allI impI)
  fix w :: "'a world" assume I: "I (db w)"
  obtain r w' where run: "in_tx E m w = (r, w')" by fastforce
  from run have "db w' = db w"
  proof (cases rule: in_tx_db)
    case (ran w1 x w2)
    then show ?thesis using keepsD [OF assms _ ran(1)] by auto
  qed
  with run I show "I (db (snd (in_tx E m w)))" by simp
qed

lemma keeps_read_revisions: "keeps (\<lambda>w. db w = d0) (read_revisions u after n E)"
  "keeps (\<lambda>w. db w = d0) (UserMaxRevision E u)"
  unfolding read_revisions_def ListRevisionEventsAfter_def UserMaxRevision_def
  by (auto intro!: keeps_intros keeps_stmt simp: sql_events_after_def sql_max_revision_def split: if_splits)

lemma keeps_snapshot_read:
  "keeps (\<lambda>w. I (db w)) (WithRevisionSnapshotRead (Some E) (read_revisions u after n))"
  "keeps (\<lambda>w. I (db w)) (WithRevisionSnapshotRead (Some E) (\<lambda>exec. UserMaxRevision exec u))"
  unfolding WithRevisionSnapshotRead_def by (simp_all add: keeps_tx_read keeps_read_revisions)

lemma keeps_sync_rpc:
  "keeps (\<lambda>w. advanced s0 (db w)) (Sync (pg_sync_handler E sha cfg c bucket) ctx sreq)"
  "keeps (\<lambda>w. advanced s0 (db w)) (PushChanges (pg_sync_handler E sha cfg c bucket) ctx ops)"
  "keeps (\<lambda>w. advanced s0 (db w)) (PullChanges (pg_sync_handler E sha cfg c bucket) ctx preq)"
  unfolding Sync_def PushChanges_def PullChanges_def with_user_def runPushOperations_def Let_def
  by (auto intro!: keeps_intros keeps_push_loop keeps_snapshot_read split: option.splits prod.splits sum.splits)

subsection \<open>What the results of a push mean\<close>

definition pushed :: "string \<Rightarrow> string \<Rightarrow> vault_abs \<Rightarrow> push_result \<Rightarrow> vault_abs \<Rightarrow> bool" where
  "pushed u oid s r s' \<longleftrightarrow> (case r of
      Accepted a \<Rightarrow> or_OperationId a = oid \<and> or_Applied a \<and>
        (\<exists>p. va_ops s' (u, oid) = Some p \<and> po_RevisionID p = or_RevisionId a)
    | Conflicted c \<Rightarrow> cf_OperationId c = oid \<and> s' = s)"

context vault_backend
begin

lemma op_recorded:
  assumes "inv w"
  shows "Engine_Create e u oid ci w = (Inr co, w') \<Longrightarrow>
      \<exists>p. va_ops (abs w') (u, oid) = Some p \<and> po_RevisionID p = co_ServerRevision co"
    and "Engine_Update e u oid i ev ui w = (Inr uo, w') \<Longrightarrow>
      \<exists>p. va_ops (abs w') (u, oid) = Some p \<and> po_RevisionID p = uo_ServerRevision uo"
    and "Engine_Delete e u oid i ev w = (Inr del, w') \<Longrightarrow>
      \<exists>p. va_ops (abs w') (u, oid) = Some p \<and> po_RevisionID p = do_ServerRevision del"
  subgoal by (drule wp_okD [OF Create_ok [OF assms]]) (auto simp: replayed_def performed_def recorded_def)
  subgoal by (drule wp_okD [OF Update_ok [OF assms]]) (auto simp: replayed_def performed_def recorded_def)
  subgoal by (drule wp_okD [OF Delete_ok [OF assms]]) (auto simp: replayed_def performed_def recorded_def)
  done

end

lemma in_tx_conflict:
  assumes "in_tx E m w = (Inl VaultErrConflict, w')"
  shows "tables (db w') = tables (db w)"
  using assms by (auto simp: in_tx_def stmt_def commit_def Let_def split: prod.splits sum.splits fault.splits)

lemma pushed_tx:
  assumes ok: "schema_ok (db w)" and pool: "sh_pool h = Some E"
    and run: "handle (in_tx E m) (report_conflict h u oid i ev) (\<lambda>out. ret (accepted oid (f out) (v out) (g out))) w = (Inr r, w')"
    and rec: "\<And>w1 out w2. schema_ok (db w1) \<Longrightarrow> m w1 = (Inr out, w2) \<Longrightarrow>
       \<exists>p. va_ops (abs_db (db w2)) (u, oid) = Some p \<and> po_RevisionID p = g out"
  shows "pushed u oid (abs_db (db w)) r (abs_db (db w'))"
proof -
  obtain q w1 where tx: "in_tx E m w = (q, w1)" by fastforce
  show ?thesis
  proof (cases q)
    case (Inr out)
    with tx run have r: "r = accepted oid (f out) (v out) (g out)" "w' = w1" by (simp_all add: handle_def ret_def)
    from tx Inr obtain w2 w3 where "m w2 = (Inr out, w3)" "db w2 = db w" "db w1 = db w3"
      by (auto elim: in_tx_ok)
    with rec [of w2 out w3] ok r show ?thesis by (simp add: pushed_def accepted_def)
  next
    case (Inl e)
    with tx run pool have "e = VaultErrConflict" and rc: "report_conflict h u oid i ev e w1 = (Inr r, w')"
      by (auto simp: handle_def report_conflict_def throw_def split: if_splits)
    with tx Inl have "abs_db (db w1) = abs_db (db w)" by (intro abs_db_tables in_tx_conflict) simp
    moreover have "db w' = db w1"
      using keepsD [OF keeps_report_conflict [of "\<lambda>d. d = db w1"] _ rc] by simp
    moreover obtain c where "r = Conflicted c" "cf_OperationId c = oid"
      using rc \<open>e = VaultErrConflict\<close> pool
      by (auto simp: report_conflict_def versionConflict_def Let_def handle_def andthen_def ret_def throw_def
          split: prod.splits sum.splits)
    ultimately show ?thesis by (simp add: pushed_def)
  qed
qed

lemma check_snapshot_okE:
  assumes "check_snapshot oid m snap k w = (Inr x, w')"
  obtains sn ty where "k sn ty w = (Inr x, w')"
  using assms by (auto simp: check_snapshot_def guard_def throw_def split: option.splits if_splits)

lemma apply_pushed:
  fixes w :: "'o world"
  assumes ok: "schema_ok (db w)"
    and run: "applyPendingOperation (pg_sync_handler E sha cfg c bucket) u op (Some (time_Now E)) w = (Inr r, w')"
  shows "pushed u (TrimSpace (pe_OperationId op)) (abs_db (db w)) r (abs_db (db w'))"
proof -
  let ?h = "pg_sync_handler E sha cfg c bucket" and ?oid = "TrimSpace (pe_OperationId op)"
  let ?s = "abs_db (db w)"
  have payload: "schema_ok (db w1) \<and> abs_db (db w1) = ?s" if "snapshot_payload ?h u sn w = (Inr p, w1)" for sn p w1
    using keepsD [OF keeps_snapshot_payload(1) _ that, of ?s] ok by (simp add: still_def)
  show ?thesis
  proof (cases "pe_OperationType op")
    case OpCreate
    with run have "pushCreate ?h u ?oid op (Some (time_Now E)) w = (Inr r, w')"
      by (auto simp: applyPendingOperation_def Let_def elim: guard_okE)
    then obtain sn ty p and w1 :: "'o world" where p: "snapshot_payload ?h u sn w = (Inr p, w1)"
      and "handle (in_tx E (Engine_Create (pg_engine E) u ?oid (create_input ty (vs_Title sn) (vs_Metadata sn) p)))
          (\<lambda>e. throw (mapPushEngineError ?oid e))
          (\<lambda>out. ret (accepted ?oid (co_ItemID out) (co_Version out) (co_ServerRevision out))) w1 = (Inr r, w')"
      unfolding pushCreate_def pg_sync_handler_sel WithVaultEngineTx_time_Now
      by (elim check_snapshot_okE andthen_okE) (rule that)
    then obtain out and w2 :: "'o world" where tx: "in_tx E (Engine_Create (pg_engine E) u ?oid (create_input ty (vs_Title sn) (vs_Metadata sn) p)) w1 = (Inr out, w2)"
      and r: "r = accepted ?oid (co_ItemID out) (co_Version out) (co_ServerRevision out)" "w' = w2"
      by (auto elim!: handle_okE simp: ret_def)
    from tx obtain w3 w4 :: "'o world" where en: "Engine_Create (pg_engine E) u ?oid (create_input ty (vs_Title sn) (vs_Metadata sn) p) w3 = (Inr out, w4)"
      and dbs: "db w3 = db w1" "db w2 = db w4" by (rule in_tx_ok) (rule that)
    from pg.op_recorded(1) [OF _ en] payload [OF p] dbs r show ?thesis
      by (auto simp: pushed_def accepted_def simp del: abs_db_sel)
  next
    case OpUpdate
    with run have "pushUpdate ?h u ?oid op (Some (time_Now E)) w = (Inr r, w')"
      by (auto simp: applyPendingOperation_def Let_def elim: guard_okE)
    then obtain sn p w1 where p: "snapshot_payload ?h u sn w = (Inr p, w1)"
      and tx: "handle (in_tx E (Engine_Update (pg_engine E) u ?oid (TrimSpace (pe_ItemId op)) (pe_ExpectedVersion op)
            (update_input (vs_Title sn) (vs_Metadata sn) p))) (report_conflict ?h u ?oid (TrimSpace (pe_ItemId op)) (pe_ExpectedVersion op))
          (\<lambda>out. ret (accepted ?oid (TrimSpace (pe_ItemId op)) (uo_NewVersion out) (uo_ServerRevision out))) w1 = (Inr r, w')"
      unfolding pushUpdate_def Let_def pg_sync_handler_sel WithVaultEngineTx_time_Now
      by (elim guard_okE check_snapshot_okE andthen_okE) (rule that)
    have "pushed u ?oid (abs_db (db w1)) r (abs_db (db w'))"
      using payload [OF p] by (intro pushed_tx [OF _ _ tx]) (auto dest: pg.op_recorded(2) simp del: abs_db_sel)
    with payload [OF p] show ?thesis by simp
  next
    case OpDelete
    with run have "pushDelete ?h u ?oid op (Some (time_Now E)) w = (Inr r, w')"
      by (auto simp: applyPendingOperation_def Let_def elim: guard_okE)
    then have tx: "handle (in_tx E (Engine_Delete (pg_engine E) u ?oid (TrimSpace (pe_ItemId op)) (pe_ExpectedVersion op)))
          (report_conflict ?h u ?oid (TrimSpace (pe_ItemId op)) (pe_ExpectedVersion op))
          (\<lambda>out. ret (accepted ?oid (TrimSpace (pe_ItemId op)) (do_NewVersion out) (do_ServerRevision out))) w = (Inr r, w')"
      unfolding pushDelete_def Let_def by (elim guard_okE) simp
    show ?thesis
      using ok by (intro pushed_tx [OF _ _ tx]) (auto dest: pg.op_recorded(3) simp del: abs_db_sel)
  qed (use run in \<open>auto simp: applyPendingOperation_def Let_def throw_def guard_def split: if_splits\<close>)
qed

text \<open>The results of a sequence of operations, in the order of the request.\<close>

definition result_op :: "push_result \<Rightarrow> string" where
  "result_op r = (case r of Accepted a \<Rightarrow> or_OperationId a | Conflicted c \<Rightarrow> cf_OperationId c)"

definition accepts :: "push_result list \<Rightarrow> OperationResult list" where
  "accepts rs = concat (map (\<lambda>r. case r of Accepted a \<Rightarrow> [a] | Conflicted _ \<Rightarrow> []) rs)"

definition conflicts :: "push_result list \<Rightarrow> Conflict list" where
  "conflicts rs = concat (map (\<lambda>r. case r of Accepted _ \<Rightarrow> [] | Conflicted c \<Rightarrow> [c]) rs)"

definition durable :: "string \<Rightarrow> vault_abs \<Rightarrow> OperationResult \<Rightarrow> bool" where
  "durable u s a \<longleftrightarrow> or_Applied a \<and> (\<exists>p. va_ops s (u, or_OperationId a) = Some p \<and> po_RevisionID p = or_RevisionId a)"

lemma pushed_result:
  assumes "pushed u oid s r s'"
  shows "result_op r = oid" and "\<forall>a \<in> set (accepts [r]). durable u s' a"
  using assms by (auto simp: pushed_def result_op_def accepts_def durable_def split: push_result.splits)

lemma durable_steps: "durable u s a \<Longrightarrow> vault_step\<^sup>*\<^sup>* s t \<Longrightarrow> durable u t a"
  by (auto simp: durable_def dest: vault_steps_op)

lemma accepts_Cons: "accepts (r # rs) = accepts [r] @ accepts rs" "conflicts (r # rs) = conflicts [r] @ conflicts rs"
  by (simp_all add: accepts_def conflicts_def)

lemma push_loop_ok:
  assumes "schema_ok (db w)"
    and "push_loop (pg_sync_handler E sha cfg c bucket) u (Some (time_Now E)) ops acc confl w = (Inr (acc', confl'), w')"
  shows "\<exists>rs. list_all2 (\<lambda>op r. \<exists>x. op = Some x \<and> result_op r = TrimSpace (pe_OperationId x)) ops rs \<and>
    acc' = acc @ accepts rs \<and> confl' = confl @ conflicts rs \<and> (\<forall>a \<in> set (accepts rs). durable u (abs_db (db w')) a)"
  using assms
proof (induction ops arbitrary: w acc confl)
  case Nil
  then show ?case by (auto simp: ret_def accepts_def conflicts_def)
next
  case (Cons op ops)
  let ?h = "pg_sync_handler E sha cfg c bucket"
  obtain x where x: "op = Some x" using Cons.prems(2) by (cases op) (auto simp: throw_def)
  with Cons.prems(2) obtain r w1 where r: "applyPendingOperation ?h u x (Some (time_Now E)) w = (Inr r, w1)"
    and rest: "push_loop ?h u (Some (time_Now E)) ops (acc @ accepts [r]) (confl @ conflicts [r]) w1 = (Inr (acc', confl'), w')"
    by (auto elim!: andthen_okE simp: accepts_def conflicts_def split: push_result.splits)
  note pr = pushed_result [OF apply_pushed [OF Cons.prems(1) r]]
  have "advanced (abs_db (db w)) (db w1)"
    using keepsD [OF keeps_apply _ r, of "abs_db (db w)"] Cons.prems(1) by (simp add: advanced_def)
  then have ok1: "schema_ok (db w1)" by (simp add: advanced_def)
  then have adv: "vault_step\<^sup>*\<^sup>* (abs_db (db w1)) (abs_db (db w'))"
    using keepsD [OF keeps_push_loop _ rest, of "abs_db (db w1)"] by (simp add: advanced_def)
  from Cons.IH [OF ok1 rest] obtain rs where rs: "list_all2 (\<lambda>op r. \<exists>x. op = Some x \<and> result_op r = TrimSpace (pe_OperationId x)) ops rs"
    "acc' = (acc @ accepts [r]) @ accepts rs" "confl' = (confl @ conflicts [r]) @ conflicts rs"
    "\<forall>a \<in> set (accepts rs). durable u (abs_db (db w')) a" by blast
  then show ?case
    using x pr durable_steps [OF _ adv] by (intro exI [of _ "r # rs"]) (auto simp: accepts_Cons [of r rs])
qed

end
