(* ===== verification/SyncProps.thy ===== *)
theory SyncProps
  imports SyncService BlobProps
begin

section \<open>Properties of the synchronisation service\<close>

text \<open>
  Push: the history of the vault survives every call and every failure, results are reported in
  order, accepted operations are durable. Pull: following the page tokens delivers every event after
  a revision exactly once, in revision order, in pages of bounded size.
\<close>

subsection \<open>The revision log as a list of events\<close>

definition events_after :: "string \<Rightarrow> u64 \<Rightarrow> database \<Rightarrow> RevisionEventRow list" where
  "events_after u after d = map (event_row d) (filter (\<lambda>r. rl_UserID r = u \<and> after < rl_RevisionID r) (revision_log d))"

lemma insort_by_front: "\<forall>y \<in> set xs. le x y \<Longrightarrow> insort_by le x xs = x # xs"
  by (cases xs) auto

lemma sort_by_sorted: "sorted_wrt le xs \<Longrightarrow> sort_by le xs = xs"
  by (induction xs) (simp_all add: sort_by_def insort_by_front)

lemma schema_ok_sorted: "schema_ok d \<Longrightarrow> sorted_wrt (\<lambda>a b. rl_RevisionID a < rl_RevisionID b) (revision_log d)"
  by (simp add: schema_ok_def)

lemma sql_events_after_eq:
  assumes "schema_ok d" and "bigint_ok after"
  shows "sql_events_after u after n t d = (Inr (take n (events_after u after d)), d)"
proof -
  have "sort_by (\<lambda>a b. rl_RevisionID a \<le> rl_RevisionID b) (filter P (revision_log d)) = filter P (revision_log d)" for P
    using schema_ok_sorted [OF assms(1)]
    by (intro sort_by_sorted sorted_wrt_filter) (rule sorted_wrt_mono_rel, auto)
  then show ?thesis using assms(2) by (simp add: sql_events_after_def events_after_def)
qed

lemma events_after_sorted:
  assumes "schema_ok d"
  shows "sorted_wrt (\<lambda>a b. re_RevisionID a < re_RevisionID b) (events_after u after d)"
  using sorted_wrt_filter [OF schema_ok_sorted [OF assms]]
  by (simp add: events_after_def sorted_wrt_map event_row_def)

lemma events_after_gt: "r \<in> set (events_after u after d) \<Longrightarrow> after < re_RevisionID r"
  by (auto simp: events_after_def event_row_def)

lemma events_bigint: "schema_ok d \<Longrightarrow> r \<in> set (events_after u after d) \<Longrightarrow> bigint_ok (re_RevisionID r)"
  by (fastforce simp: events_after_def event_row_def schema_ok_def bigint_ok_def)

lemma filter_beyond:
  assumes "sorted_wrt (\<lambda>a b. k a < k b) xs" and "n < length xs"
  shows "filter (\<lambda>x. (k (xs ! n) :: 'k :: linorder) < k x) xs = drop (Suc n) xs"
proof -
  have split: "xs = take (Suc n) xs @ drop (Suc n) xs" by simp
  have "\<not> k (xs ! n) < k x" if x: "x \<in> set (take (Suc n) xs)" for x
  proof -
    from x obtain i where i: "i < Suc n" "x = xs ! i" using assms(2) by (auto simp: in_set_conv_nth)
    then show ?thesis
      using sorted_wrt_nth_less [OF assms(1), of i n] assms(2) by (cases "i = n") auto
  qed
  moreover have "k (xs ! n) < k x" if x: "x \<in> set (drop (Suc n) xs)" for x
  proof -
    from x obtain i where "i < length (drop (Suc n) xs)" "x = drop (Suc n) xs ! i" by (auto simp: in_set_conv_nth)
    then show ?thesis using sorted_wrt_nth_less [OF assms(1), of n "Suc n + i"] assms(2) by simp
  qed
  ultimately have "filter (\<lambda>x. k (xs ! n) < k x) (take (Suc n) xs) = []"
    "filter (\<lambda>x. k (xs ! n) < k x) (drop (Suc n) xs) = drop (Suc n) xs"
    by (auto simp: filter_empty_conv filter_id_conv)
  then show ?thesis by (subst split, simp only: filter_append append_Nil)
qed

text \<open>Continuing after the n-th event gives the events that follow it.\<close>

lemma events_after_continue:
  assumes ok: "schema_ok d" and n: "n < length (events_after u after d)"
  shows "events_after u (re_RevisionID (events_after u after d ! n)) d = drop (Suc n) (events_after u after d)"
proof -
  let ?evs = "events_after u after d" and ?x = "re_RevisionID (events_after u after d ! n)"
  have "after < ?x" by (rule events_after_gt [of _ u after d]) (rule nth_mem [OF n])
  then have "filter (\<lambda>r. rl_UserID r = u \<and> ?x < rl_RevisionID r) (revision_log d) =
      filter (\<lambda>r. ?x < rl_RevisionID r) (filter (\<lambda>r. rl_UserID r = u \<and> after < rl_RevisionID r) (revision_log d))"
    by (auto intro!: filter_cong)
  then have "events_after u ?x d = filter (\<lambda>e. ?x < re_RevisionID e) ?evs"
    by (simp add: events_after_def filter_map o_def event_row_def)
  also have "\<dots> = drop (Suc n) ?evs" using filter_beyond [OF events_after_sorted [OF ok] n] .
  finally show ?thesis .
qed

definition max_revision :: "string \<Rightarrow> database \<Rightarrow> u64" where
  "max_revision u d = foldr max (map rl_RevisionID (filter (\<lambda>r. rl_UserID r = u) (revision_log d))) 0"

lemma read_revisions_reliable:
  assumes "reliable E" and "schema_ok (db w)" and "bigint_ok after" and "0 < n"
  shows "\<exists>w'. WithRevisionSnapshotRead (Some E) (read_revisions u after n) w =
      (Inr (take (nat n) (events_after u after (db w)), max_revision u (db w)), w') \<and> db w' = db w \<and> objs w' = objs w"
proof -
  let ?w1 = "w\<lparr>tick := Suc (tick w)\<rparr>"
  have "read_revisions u after n E ?w1 =
      (Inr (take (nat n) (events_after u after (db w)), max_revision u (db w)), ?w1\<lparr>tick := Suc (Suc (Suc (tick w)))\<rparr>)"
    using assms sql_events_after_eq [OF assms(2,3)]
    by (simp add: read_revisions_def ListRevisionEventsAfter_def UserMaxRevision_def andthen_def handle_def ret_def
        stmt_def sql_max_revision_def max_revision_def)
  from in_tx_reliable [where body = "read_revisions u after n E", OF assms(1) this] show ?thesis
    by (simp add: WithRevisionSnapshotRead_def)
qed

lemma read_revisions_ok:
  fixes w w' :: "'o world"
  assumes "schema_ok (db w)" and "0 < n" and run: "WithRevisionSnapshotRead (Some E) (read_revisions u after n) w = (Inr (rows, m), w')"
  shows "rows = take (nat n) (events_after u after (db w))" "m = max_revision u (db w)" "db w' = db w"
proof -
  from run obtain w1 w2 :: "'o world" where body: "read_revisions u after n E w1 = (Inr (rows, m), w2)"
    and d: "db w1 = db w" "db w' = db w2"
    unfolding WithRevisionSnapshotRead_def option.case by (rule in_tx_ok)
  from body obtain w3 where l: "ListRevisionEventsAfter E u after n w1 = (Inr rows, w3)"
    and mx: "UserMaxRevision E u w3 = (Inr m, w2)"
    unfolding read_revisions_def by (auto elim!: andthen_okE simp: ret_def)
  note 1 = stmt_ok_db [OF l [unfolded ListRevisionEventsAfter_def, unfolded if_not_P [OF assms(2) [unfolded not_le [symmetric]]]]]
    and 2 = stmt_ok_db [OF mx [unfolded UserMaxRevision_def]]
  have "bigint_ok after" using 1(1) by (auto simp: sql_events_after_def split: if_splits)
  with sql_events_after_eq [OF assms(1) this] 1 2 d
  show "rows = take (nat n) (events_after u after (db w))" "m = max_revision u (db w)" "db w' = db w"
    by (simp_all add: sql_max_revision_def max_revision_def)
qed

subsection \<open>Pulling page by page\<close>

text \<open>A client that follows the page tokens; \<open>None\<close> when the fuel does not suffice.\<close>

fun pull_all :: "nat \<Rightarrow> 'o syncHandler \<Rightarrow> auth_context \<Rightarrow> u64 \<Rightarrow> u32 \<Rightarrow> string \<Rightarrow> ('o, RevisionEvent list option) server" where
  "pull_all 0 h ctx since pageSize tok = ret None"
| "pull_all (Suc fuel) h ctx since pageSize tok =
     andthen (PullChanges h ctx (Some \<lparr>pr_SinceRevision = since, pr_PageSize = pageSize, pr_PageToken = tok\<rparr>)) (\<lambda>resp.
       if pp_NextPageToken resp = [] then ret (Some (pp_Changes resp))
       else andthen (pull_all fuel h ctx since pageSize (pp_NextPageToken resp)) (\<lambda>rest.
         ret (map_option (\<lambda>cs. pp_Changes resp @ cs) rest)))"

lemma page_size_bounds: "1 \<le> normalizePullPageSize n" "normalizePullPageSize n \<le> 500"
proof -
  have "n \<noteq> 0 \<Longrightarrow> 0 < uint n" by (simp add: word_neq_0_conv word_less_def)
  then show "1 \<le> normalizePullPageSize n" "normalizePullPageSize n \<le> 500"
    by (auto simp: normalizePullPageSize_def DefaultSyncPullPageSize_def MaxSyncPullPageSize_def)
qed

lemma revisionRowsToProto_append [simp]:
  "revisionRowsToProto (xs @ ys) = revisionRowsToProto xs @ revisionRowsToProto ys"
  by (simp add: revisionRowsToProto_def)

lemma pull_page:
  assumes "reliable E" and "schema_ok (db w)" and "bigint_ok after" and "UserIDFromContext ctx = Some u"
    and "pullAfterRevision since tok = Inr after"
  shows "\<exists>w'. PullChanges (pg_sync_handler E sha cfg c bucket) ctx
        (Some \<lparr>pr_SinceRevision = since, pr_PageSize = ps, pr_PageToken = tok\<rparr>) w =
      (Inr (let evs = events_after u after (db w); k = nat (normalizePullPageSize ps) in
         \<lparr>pp_Changes = revisionRowsToProto (take k evs), pp_NewServerRevision = max_revision u (db w),
          pp_NextPageToken = (if k < length evs then FormatUint (re_RevisionID (evs ! (k - 1))) else [])\<rparr>), w') \<and>
    db w' = db w"
proof -
  let ?evs = "events_after u after (db w)"
  obtain k where k: "normalizePullPageSize ps = int k" "1 \<le> k"
    using page_size_bounds [of ps] nonneg_int_cases [of "normalizePullPageSize ps"] by (metis of_nat_1 of_nat_le_iff order_trans zero_le_one)
  have n: "nat (int k + 1) = Suc k" by simp
  obtain w' where w': "WithRevisionSnapshotRead (Some E) (read_revisions u after (int k + 1)) w =
      (Inr (take (nat (int k + 1)) ?evs, max_revision u (db w)), w')" "db w' = db w"
    using read_revisions_reliable [OF assms(1-3), of "int k + 1" u] by auto
  show ?thesis
  proof (cases "k < length ?evs")
    case True
    with w' assms(4,5) k(2) show ?thesis
      by (simp add: PullChanges_def with_user_def handle_def Let_def k(1) n ret_def min_def)
  next
    case False
    with w' assms(4,5) k(2) show ?thesis
      by (simp add: PullChanges_def with_user_def handle_def Let_def k(1) n ret_def)
  qed
qed

lemma pull_all_reliable:
  assumes E: "reliable E" and ctx: "UserIDFromContext ctx = Some u" and since: "bigint_ok since"
  shows "schema_ok (db w) \<Longrightarrow> pullAfterRevision since tok = Inr after \<Longrightarrow> since \<le> after \<Longrightarrow> bigint_ok after \<Longrightarrow>
    length (events_after u after (db w)) < fuel \<Longrightarrow>
    \<exists>w'. pull_all fuel (pg_sync_handler E sha cfg c bucket) ctx since ps tok w =
      (Inr (Some (revisionRowsToProto (events_after u after (db w)))), w') \<and> db w' = db w"
proof (induction fuel arbitrary: w tok after)
  case (Suc fuel)
  let ?evs = "events_after u after (db w)" and ?k = "nat (normalizePullPageSize ps)"
  have k: "0 < ?k" using page_size_bounds [of ps] by simp
  obtain w1 where w1: "PullChanges (pg_sync_handler E sha cfg c bucket) ctx
        (Some \<lparr>pr_SinceRevision = since, pr_PageSize = ps, pr_PageToken = tok\<rparr>) w =
      (Inr \<lparr>pp_Changes = revisionRowsToProto (take ?k ?evs), pp_NewServerRevision = max_revision u (db w),
          pp_NextPageToken = (if ?k < length ?evs then FormatUint (re_RevisionID (?evs ! (?k - 1))) else [])\<rparr>, w1)"
    "db w1 = db w"
    using pull_page [OF E Suc.prems(1,4) ctx Suc.prems(2), of sha cfg c bucket ps] by (auto simp: Let_def)
  show ?case
  proof (cases "?k < length ?evs")
    case False
    with w1 show ?thesis by (simp add: andthen_def handle_def ret_def)
  next
    case True
    let ?x = "re_RevisionID (?evs ! (?k - 1))"
    have mem: "?evs ! (?k - 1) \<in> set ?evs" using True by (intro nth_mem) simp
    have x: "after < ?x" "bigint_ok ?x" using events_after_gt [OF mem] events_bigint [OF Suc.prems(1) mem] by auto
    have next_evs: "events_after u ?x (db w) = drop ?k ?evs"
      using events_after_continue [OF Suc.prems(1), of "?k - 1" u after] True k by simp
    have "pullAfterRevision since (FormatUint ?x) = Inr ?x"
      using x Suc.prems(3) by (auto simp: pullAfterRevision_def Let_def)
    moreover have "since \<le> ?x" using x(1) Suc.prems(3) by order
    moreover have "length (events_after u ?x (db w1)) < fuel" using next_evs w1(2) Suc.prems(5) True k by simp
    ultimately obtain w2 where "pull_all fuel (pg_sync_handler E sha cfg c bucket) ctx since ps (FormatUint ?x) w1 =
        (Inr (Some (revisionRowsToProto (drop ?k ?evs))), w2)" "db w2 = db w"
      using Suc.IH [of w1 "FormatUint ?x" ?x] Suc.prems(1) w1(2) x(2) next_evs by auto
    then show ?thesis
      using w1 True revisionRowsToProto_append [of "take ?k ?evs" "drop ?k ?evs"]
      by (simp add: andthen_def handle_def ret_def del: revisionRowsToProto_append)
  qed
qed simp

subsection \<open>Concrete pushes and logs\<close>

definition demo_cfg :: Config where
  "demo_cfg = demo_blob_config\<lparr>cf_GRPCMaxMessageBytes := 1048576\<rparr>"

abbreviation demo_sync_handler :: "mem_store syncHandler" where
  "demo_sync_handler \<equiv> pg_sync_handler demo_env rev demo_cfg mem_client ''b''"

definition demo_field :: "byte \<Rightarrow> EncryptedField" where
  "demo_field b = \<lparr>ef_Ciphertext = Some [b], ef_Nonce = Some [b + 1]\<rparr>"

definition demo_snapshot :: VaultItemSnapshot where
  "demo_snapshot = \<lparr>vs_ItemType = 1, vs_Title = Some (demo_field 1), vs_Metadata = Some (demo_field 3),
     vs_Payload = Some (demo_field 5), vs_BlobId = []\<rparr>"

definition demo_pending :: PendingOperation where
  "demo_pending = \<lparr>pe_OperationId = ''op1'', pe_OperationType = OpCreate, pe_ItemId = [], pe_ExpectedVersion = 0,
     pe_Snapshot = Some demo_snapshot\<rparr>"

text \<open>One item with a log of n entries.\<close>

definition demo_log :: "nat \<Rightarrow> RevisionLogEntry list" where
  "demo_log n = map (\<lambda>k. (demo_entry 1 ChangeTypeUpdated)\<lparr>rl_RevisionID := word_of_nat k, rl_OperationID := None\<rparr>) [1..<Suc n]"

definition demo_log_world :: "nat \<Rightarrow> mem_store world" where
  "demo_log_world n = \<lparr>db = demo_db\<lparr>vault_items := [demo_item 1 None], revision_log := demo_log n, revision_seq := n\<rparr>,
     objs = [], tick = 0\<rparr>"

lemma demo_log_ok:
  assumes "n < 1000"
  shows "schema_ok (db (demo_log_world n))"
proof -
  have u: "unat (word_of_nat k :: u64) = k" if "k \<le> n" for k
    using that assms by (intro unat_word_of_nat_u64) simp
  have "sorted_wrt (\<lambda>i j. (word_of_nat i :: u64) < word_of_nat j) [1..<Suc n]"
    by (rule sorted_wrt_mono_rel [OF _ sorted_wrt_upt]) (auto simp: word_less_nat_alt u)
  then have sorted: "sorted_wrt (\<lambda>a b. rl_RevisionID a < rl_RevisionID b) (demo_log n)"
    by (simp add: demo_log_def sorted_wrt_map del: upt_Suc)
  have log: "\<forall>r \<in> set (demo_log n). unat (rl_RevisionID r) \<le> n \<and> rl_UserID r = ''u1'' \<and> rl_ItemID r = ''i1''"
    using u by (auto simp: demo_log_def demo_entry_def)
  show ?thesis
    using sorted log assms
    by (auto simp: schema_ok_def demo_log_world_def demo_db_def demo_item_def new_item_def demo_create_def item_not_null_def
        has_user_def has_blob_def has_item_def bigint_ok_def demo_user_def)
qed

lemma demo_log_events: "n < 1000 \<Longrightarrow> length (events_after ''u1'' 0 (db (demo_log_world n))) = n"
proof -
  assume n: "n < 1000"
  have "0 < (word_of_nat k :: u64)" if "k \<in> set [1..<Suc n]" for k
    using that n unat_word_of_nat_u64 [of k] by (auto simp: word_less_nat_alt)
  then have "filter (\<lambda>r. rl_UserID r = ''u1'' \<and> 0 < rl_RevisionID r) (demo_log n) = demo_log n"
    by (auto simp: filter_id_conv demo_log_def demo_entry_def)
  then show ?thesis by (simp add: events_after_def demo_log_world_def) (simp add: demo_log_def)
qed

lemmas sync_eval = PushChanges_def runPushOperations_def applyPendingOperation_def pushCreate_def check_snapshot_def
  snapshot_payload_def pg_sync_handler_def resolveVaultPayload_def effectiveMaxPayloadCiphertextBytes_def
  concreteProtoItemType_def create_input_def accepted_def GetCiphertext_def GetNonce_def WithRevisionSnapshotRead_def
  UserMaxRevision_def sql_max_revision_def VaultGRPCProtoReserveBytes_def demo_field_def demo_snapshot_def demo_pending_def demo_cfg_def

lemma demo_push:
  "\<exists>w. PushChanges demo_sync_handler demo_ctx (Some [Some demo_pending]) (demo_blob_world [] [] [] 0) =
    (Inr \<lparr>ps_AcceptedOperations = [\<lparr>or_OperationId = ''op1'', or_Applied = True, or_ItemId = ''id-3'', or_NewVersion = 1,
       or_RevisionId = 1\<rparr>], ps_Conflicts = [], ps_ServerRevision = 1\<rparr>, w)"
  by (simp add: sync_eval Engine_Create_def vault_eval blob_eval blob_demo_defs)

lemma demo_empty_ok:
  "schema_ok (db (demo_blob_world [] [] [] 0))" "vault_ok (abs_db (db (demo_blob_world [] [] [] 0)))"
  by (simp_all add: schema_ok_def vault_ok_def abs_db_def demo_blob_world_def demo_db_def)

subsection \<open>Properties\<close>

text \<open>
  C23. Synchronisation keeps the history. Whatever a client sends to Sync, PushChanges or PullChanges
  and whatever database or storage call fails in the middle, the schema invariant and the history
  invariant hold afterwards, and the vault has moved from its old state by complete steps of the
  abstract machine only.
\<close>

theorem sync_history:
  assumes "schema_ok (db w)" and "vault_ok (abs_db (db w))"
    and "d' \<in> {db (snd (Sync (pg_sync_handler E sha cfg c bucket) ctx sreq w)),
                db (snd (PushChanges (pg_sync_handler E sha cfg c bucket) ctx ops w)),
                db (snd (PullChanges (pg_sync_handler E sha cfg c bucket) ctx preq w))}"
  shows "schema_ok d' \<and> vault_ok (abs_db d') \<and> vault_step\<^sup>*\<^sup>* (abs_db (db w)) (abs_db d')"
proof -
  have "advanced (abs_db (db w)) (db w)" using assms(1) by (simp add: advanced_def)
  then have "advanced (abs_db (db w)) d'"
    using assms(3) keeps_sync_rpc [of "abs_db (db w)" E sha cfg c bucket ctx] by (auto simp: keeps_def)
  then show ?thesis using vault_steps_ok [OF _ assms(2)] by (simp add: advanced_def)
qed

theorem sync_history_witness:
  "vault_ok (abs_db (db (snd (PushChanges demo_sync_handler demo_ctx (Some [Some demo_pending]) (demo_blob_world [] [] [] 0)))))"
  using sync_history [OF demo_empty_ok, of _ demo_env rev demo_cfg mem_client "''b''" demo_ctx _ "Some [Some demo_pending]"]
  by blast

text \<open>
  C24. What a push reports. When PushChanges answers, no operation of the request was dropped: there
  is one result per operation, in the order of the request and under its trimmed id; the accepted ones
  and the conflicts are the two lists of the answer; and every accepted operation is recorded in the
  database, with the revision the answer names, so that sending it again is a replay.
\<close>

theorem push_accounts:
  assumes "schema_ok (db w)" and "PushChanges (pg_sync_handler E sha cfg c bucket) ctx (Some ops) w = (Inr resp, w')"
  shows "\<exists>u rs. UserIDFromContext ctx = Some u \<and>
    list_all2 (\<lambda>op r. \<exists>x. op = Some x \<and> result_op r = TrimSpace (pe_OperationId x)) ops rs \<and>
    ps_AcceptedOperations resp = accepts rs \<and> ps_Conflicts resp = conflicts rs \<and>
    (\<forall>a \<in> set (accepts rs). durable u (abs_db (db w')) a)"
proof -
  obtain u where u: "UserIDFromContext ctx = Some u"
    using assms(2) by (auto simp: PushChanges_def with_user_def throw_def split: option.splits)
  obtain acc confl w1 m w2 where loop: "push_loop (pg_sync_handler E sha cfg c bucket) u (Some (time_Now E)) ops [] [] w = (Inr (acc, confl), w1)"
    and read: "WithRevisionSnapshotRead (Some E) (\<lambda>exec. UserMaxRevision exec u) w1 = (Inr m, w2)"
    and resp: "resp = \<lparr>ps_AcceptedOperations = acc, ps_Conflicts = confl, ps_ServerRevision = m\<rparr>" "w' = w2"
    using assms(2) u
    by (auto simp: PushChanges_def with_user_def runPushOperations_def ret_def elim!: andthen_okE handle_okE)
  have "db w2 = db w1" using keepsD [OF keeps_snapshot_read(2) _ read, of "\<lambda>d. d = db w1"] by simp
  with push_loop_ok [OF assms(1) loop] u resp show ?thesis by auto
qed

theorem push_accounts_witness:
  "\<exists>resp w'. PushChanges demo_sync_handler demo_ctx (Some [Some demo_pending]) (demo_blob_world [] [] [] 0) = (Inr resp, w') \<and>
     (\<exists>u rs. length rs = 1 \<and> ps_AcceptedOperations resp = accepts rs \<and> (\<forall>a \<in> set (accepts rs). durable u (abs_db (db w')) a))"
proof -
  obtain resp w' where run: "PushChanges demo_sync_handler demo_ctx (Some [Some demo_pending]) (demo_blob_world [] [] [] 0) = (Inr resp, w')"
    using demo_push by blast
  obtain u rs where rs: "list_all2 (\<lambda>op r. \<exists>x. op = Some x \<and> result_op r = TrimSpace (pe_OperationId x)) [Some demo_pending] rs"
    "ps_AcceptedOperations resp = accepts rs" "\<forall>a \<in> set (accepts rs). durable u (abs_db (db w')) a"
    using push_accounts [OF demo_empty_ok(1) run] by blast
  from list_all2_lengthD [OF rs(1)] have "length rs = 1" by simp
  with run rs(2,3) show ?thesis by blast
qed

text \<open>
  C15. Pull delivers everything once. On a database that does not change and when no call fails, a
  client that follows the page tokens, with any page size, gets an answer after at most one call per
  event and one more: exactly the events of its own log after the revision it names, each once, in
  the order of their revisions.
\<close>

theorem pull_complete:
  assumes "reliable E" and "schema_ok (db w)" and "UserIDFromContext ctx = Some u" and "bigint_ok since"
  shows "\<exists>w'. pull_all (Suc (length (revision_log (db w)))) (pg_sync_handler E sha cfg c bucket) ctx since ps [] w =
      (Inr (Some (revisionRowsToProto (events_after u since (db w)))), w') \<and> db w' = db w \<and>
    sorted_wrt (\<lambda>a b. re_RevisionID a < re_RevisionID b) (events_after u since (db w))"
proof -
  have "length (events_after u since (db w)) < Suc (length (revision_log (db w)))"
    by (simp add: events_after_def less_Suc_eq_le)
  from pull_all_reliable [OF assms(1,3,4,2), of "[]" since "Suc (length (revision_log (db w)))" sha cfg c bucket ps] this
    assms(4) events_after_sorted [OF assms(2)]
  show ?thesis by (auto simp: pullAfterRevision_def)
qed

theorem pull_complete_witness:
  "\<exists>evs w'. length evs = 7 \<and> pull_all 8 demo_sync_handler demo_ctx 0 3 [] (demo_log_world 7) =
     (Inr (Some (revisionRowsToProto evs)), w')"
proof -
  have u: "UserIDFromContext demo_ctx = Some ''u1''" by (simp add: UserIDFromContext_def demo_ctx_def)
  have "Suc (length (revision_log (db (demo_log_world 7)))) = 8" by (simp add: demo_log_world_def demo_log_def)
  with pull_complete [OF demo_env_reliable demo_log_ok u, of 7 0 rev demo_cfg mem_client "''b''" 3] demo_log_events [of 7]
  show ?thesis by (auto simp: bigint_ok_def)
qed

lemma sorted_last: "sorted_wrt (<) xs \<Longrightarrow> x \<in> set xs \<Longrightarrow> x \<le> last (xs :: u64 list)"
proof (induction xs)
  case (Cons y ys)
  then show ?case by (cases "ys = []") (auto dest: last_in_set intro: less_imp_le)
qed simp

lemma foldr_max_sorted:
  "xs \<noteq> [] \<Longrightarrow> sorted_wrt (<) xs \<Longrightarrow> foldr max xs (0 :: u64) = last xs"
proof (induction xs)
  case (Cons x xs)
  then show ?case by (cases "xs = []") (auto simp: max_absorb2 intro: less_imp_le)
qed simp

text \<open>The highest revision of a user is that of the last event of its log.\<close>

lemma max_revision_last:
  assumes "schema_ok d" and "events_after u after d \<noteq> []"
  shows "max_revision u d = re_RevisionID (last (events_after u after d))"
proof -
  let ?log = "filter (\<lambda>r. rl_UserID r = u) (revision_log d)"
  let ?new = "filter (\<lambda>r. rl_UserID r = u \<and> after < rl_RevisionID r) (revision_log d)"
  have sorted: "sorted_wrt (<) (map rl_RevisionID ?log)"
    using sorted_wrt_filter [OF schema_ok_sorted [OF assms(1)]] by (simp add: sorted_wrt_map)
  have ne: "?new \<noteq> []" using assms(2) by (auto simp: events_after_def)
  then have "?log \<noteq> []" by (auto simp: filter_empty_conv)
  then have max: "max_revision u d = rl_RevisionID (last ?log)"
    unfolding max_revision_def using foldr_max_sorted [OF _ sorted] by (simp add: last_map)
  have "after < rl_RevisionID (last ?log)"
  proof -
    obtain r where r: "r \<in> set ?new" using ne by (cases ?new) auto
    then have mem: "rl_RevisionID r \<in> set (map rl_RevisionID ?log)" by auto
    from sorted_last [OF sorted mem] r show ?thesis using \<open>?log \<noteq> []\<close> by (auto simp: last_map)
  qed
  moreover have "?new = filter (\<lambda>r. after < rl_RevisionID r) ?log" by (auto intro: filter_cong)
  moreover have "last (filter P xs) = last xs" if "xs \<noteq> []" "P (last xs)" for P and xs :: "RevisionLogEntry list"
    using that by (cases xs rule: rev_cases) auto
  ultimately have "last ?new = last ?log" using \<open>?log \<noteq> []\<close> by metis
  then show ?thesis using ne max by (simp add: events_after_def last_map event_row_def)
qed

text \<open>The parts of a Sync that succeeds: the push, then the read of the log it has left.\<close>

lemma Sync_okE:
  fixes w w' :: "'o world"
  assumes ok: "schema_ok (db w)"
    and run: "Sync (pg_sync_handler E sha cfg c bucket) ctx (Some req) w = (Inr resp, w')" and u: "UserIDFromContext ctx = Some u"
  obtains acc confl w1 where "runPushOperations (pg_sync_handler E sha cfg c bucket) u (sr_PendingOperations req) w = (Inr (acc, confl), w1)"
    and "sp_AcceptedOperations resp = acc" and "sp_Conflicts resp = confl" and "db w' = db w1" and "schema_ok (db w1)"
    and "vault_step\<^sup>*\<^sup>* (abs_db (db w)) (abs_db (db w1))"
    and "sp_RemoteChanges resp = revisionRowsToProto (take 500 (events_after u (sr_ClientRevision req) (db w')))"
    and "sp_NewServerRevision resp = max_revision u (db w')"
proof -
  from run u obtain acc confl rows m and w1 :: "'o world"
    where push: "runPushOperations (pg_sync_handler E sha cfg c bucket) u (sr_PendingOperations req) w = (Inr (acc, confl), w1)"
    and rd: "WithRevisionSnapshotRead (Some E) (read_revisions u (sr_ClientRevision req) 500) w1 = (Inr (rows, m), w')"
    and resp: "sp_AcceptedOperations resp = acc" "sp_Conflicts resp = confl" "sp_RemoteChanges resp = revisionRowsToProto rows"
      "sp_NewServerRevision resp = m"
    by (auto simp: Sync_def with_user_def ret_def MaxSyncBundleRevisionEvents_def elim!: andthen_okE handle_okE)
  have "advanced (abs_db (db w)) (db w1)"
    using keepsD [OF keeps_push_loop _ push [unfolded runPushOperations_def pg_sync_handler_sel], of "abs_db (db w)"] ok
    by (simp add: advanced_def)
  then have adv: "schema_ok (db w1)" "vault_step\<^sup>*\<^sup>* (abs_db (db w)) (abs_db (db w1))" by (simp_all add: advanced_def)
  from read_revisions_ok [OF adv(1) _ rd] that [OF push resp(1,2) _ adv] resp show ?thesis by simp
qed

lemma Sync_ok:
  fixes w w' :: "'o world"
  assumes ok: "schema_ok (db w)" "vault_ok (abs_db (db w))"
    and run: "Sync (pg_sync_handler E sha cfg c bucket) ctx (Some req) w = (Inr resp, w')" and u: "UserIDFromContext ctx = Some u"
  shows "sp_RemoteChanges resp = revisionRowsToProto (take 500 (events_after u (sr_ClientRevision req) (db w')))"
    "sp_NewServerRevision resp = max_revision u (db w')" "schema_ok (db w')" "vault_ok (abs_db (db w'))"
  by (rule Sync_okE [OF ok(1) run u]; simp add: vault_steps_ok [OF _ ok(2)])+

text \<open>On a working database a Sync fails only when its push does.\<close>

lemma Sync_reliable:
  fixes w :: "'o world"
  assumes "reliable E" and ok: "schema_ok (db w)" and u: "UserIDFromContext ctx = Some u" and "bigint_ok (sr_ClientRevision req)"
    and push: "\<not> isl (fst (runPushOperations (pg_sync_handler E sha cfg c bucket) u (sr_PendingOperations req) w))"
  shows "\<not> isl (fst (Sync (pg_sync_handler E sha cfg c bucket) ctx (Some req) w))"
proof -
  obtain acc confl and w1 :: "'o world"
    where p: "runPushOperations (pg_sync_handler E sha cfg c bucket) u (sr_PendingOperations req) w = (Inr (acc, confl), w1)"
    using push by (cases "runPushOperations (pg_sync_handler E sha cfg c bucket) u (sr_PendingOperations req) w"; cases "fst (runPushOperations (pg_sync_handler E sha cfg c bucket) u (sr_PendingOperations req) w)") auto
  have "schema_ok (db w1)"
    using keepsD [OF keeps_push_loop _ p [unfolded runPushOperations_def pg_sync_handler_sel], of "abs_db (db w)"] ok
    by (simp add: advanced_def)
  from read_revisions_reliable [OF assms(1) this assms(4), of 500 u] p u show ?thesis
    by (auto simp: Sync_def with_user_def MaxSyncBundleRevisionEvents_def andthen_def handle_def ret_def)
qed

text \<open>When a bundle leaves events out, the last of them has the highest revision.\<close>

lemma events_left_out:
  assumes ok: "schema_ok d" and n: "500 < length (events_after u rev0 d)"
  shows "\<exists>e \<in> set (drop 500 (events_after u rev0 d)). re_RevisionID e = max_revision u d \<and>
    (\<forall>x \<in> set (revisionRowsToProto (take 500 (events_after u rev0 d))). ev_RevisionId x < max_revision u d)"
proof -
  let ?evs = "events_after u rev0 d"
  have "?evs \<noteq> []" using n by auto
  then have last: "last ?evs \<in> set (drop 500 ?evs)" "re_RevisionID (last ?evs) = max_revision u d"
    using n max_revision_last [OF ok, of u rev0] last_in_set [of "drop 500 ?evs"] by auto
  have "sorted_wrt (\<lambda>a b. re_RevisionID a < re_RevisionID b) (take 500 ?evs @ drop 500 ?evs)"
    using events_after_sorted [OF ok] by simp
  with last have "\<forall>x \<in> set (take 500 ?evs). re_RevisionID x < max_revision u d"
    unfolding sorted_wrt_append by metis
  with last show ?thesis by (auto simp: revisionRowsToProto_def)
qed

text \<open>
  C32. The bundle of Sync. Whatever operations the client sends and whatever database calls fail, an
  answer of Sync reports the push of those operations, carries the first 500 events after the revision
  the client names and announces the highest revision of the user, both of the log as it is at the end
  of the call, which is the log the push has left. On a working database Sync answers whenever the push
  does. When there are more than 500 events the announced revision is that of an event that was not
  sent: a client that continues from it never learns of the events in between.
\<close>

theorem sync_bundle:
  fixes w :: "'o world"
  assumes ok: "schema_ok (db w)" and u: "UserIDFromContext ctx = Some u"
  shows "case Sync (pg_sync_handler E sha cfg c bucket) ctx (Some req) w of
      (Inl e, w') \<Rightarrow> reliable E \<and> bigint_ok (sr_ClientRevision req) \<longrightarrow>
        isl (fst (runPushOperations (pg_sync_handler E sha cfg c bucket) u (sr_PendingOperations req) w))
    | (Inr resp, w') \<Rightarrow>
        fst (runPushOperations (pg_sync_handler E sha cfg c bucket) u (sr_PendingOperations req) w) =
          Inr (sp_AcceptedOperations resp, sp_Conflicts resp) \<and>
        db w' = db (snd (runPushOperations (pg_sync_handler E sha cfg c bucket) u (sr_PendingOperations req) w)) \<and>
        sp_RemoteChanges resp = revisionRowsToProto (take 500 (events_after u (sr_ClientRevision req) (db w'))) \<and>
        sp_NewServerRevision resp = max_revision u (db w') \<and>
        (500 < length (events_after u (sr_ClientRevision req) (db w')) \<longrightarrow>
          (\<exists>e \<in> set (drop 500 (events_after u (sr_ClientRevision req) (db w'))). re_RevisionID e = sp_NewServerRevision resp \<and>
             (\<forall>x \<in> set (sp_RemoteChanges resp). ev_RevisionId x < sp_NewServerRevision resp)))"
proof -
  obtain r and w' :: "'o world" where run: "Sync (pg_sync_handler E sha cfg c bucket) ctx (Some req) w = (r, w')" by fastforce
  show ?thesis
  proof (cases r)
    case (Inl e)
    with run Sync_reliable [OF _ ok u, of E req sha cfg c bucket] show ?thesis by auto
  next
    case (Inr resp)
    from Sync_okE [OF ok run [unfolded Inr] u] obtain acc confl and w1 :: "'o world"
      where p: "runPushOperations (pg_sync_handler E sha cfg c bucket) u (sr_PendingOperations req) w = (Inr (acc, confl), w1)"
      and f: "sp_AcceptedOperations resp = acc" "sp_Conflicts resp = confl" "db w' = db w1" "schema_ok (db w1)"
        "sp_RemoteChanges resp = revisionRowsToProto (take 500 (events_after u (sr_ClientRevision req) (db w')))"
        "sp_NewServerRevision resp = max_revision u (db w')" .
    have "schema_ok (db w')" using f by simp
    from events_left_out [OF this, of u "sr_ClientRevision req"] run Inr p f show ?thesis by simp
  qed
qed

theorem sync_bundle_witness:
  "\<exists>resp w'. Sync demo_sync_handler demo_ctx (Some \<lparr>sr_ClientRevision = 0, sr_PendingOperations = []\<rparr>) (demo_log_world 501) =
     (Inr resp, w') \<and> (\<forall>x \<in> set (sp_RemoteChanges resp). ev_RevisionId x < sp_NewServerRevision resp)"
proof -
  have ctx: "UserIDFromContext demo_ctx = Some ''u1''" by (simp add: UserIDFromContext_def demo_ctx_def)
  let ?req = "\<lparr>sr_ClientRevision = 0, sr_PendingOperations = []\<rparr>"
  obtain r w' where run: "Sync demo_sync_handler demo_ctx (Some ?req) (demo_log_world 501) = (r, w')" by fastforce
  note b = sync_bundle [OF demo_log_ok ctx, of 501 demo_env ?req rev demo_cfg mem_client "''b''", unfolded run]
  have "\<not> isl r" using b demo_env_reliable by (auto simp: runPushOperations_def ret_def bigint_ok_def split: sum.splits)
  then obtain resp where "r = Inr resp" by (cases r) auto
  with b run have "db w' = db (demo_log_world 501)" by (simp add: runPushOperations_def ret_def)
  with b run \<open>r = Inr resp\<close> demo_log_events [of 501] show ?thesis by auto
qed

end
