(* ===== verification/VaultHandlerProps.thy ===== *)
theory VaultHandlerProps
  imports SyncProps Cleanup
begin

section \<open>Properties of the vault service\<close>

text \<open>
  Where a payload goes, that it fits the limits of the protocol, that a failed placement leaves no
  object behind, and the round trip of an item through CreateItem and GetItem.
\<close>

subsection \<open>Limits\<close>

text \<open>
  A payload that is accepted can be returned. The largest ciphertext the service accepts never
  exceeds the configured blob size and, together with the reserve for the rest of the message, never
  the configured size of a gRPC message; nothing wraps around.
\<close>

theorem payload_limit:
  "unat (effectiveMaxPayloadCiphertextBytes cfg) \<le> unat (cf_MaxBlobSizeBytes cfg) \<and>
   (effectiveMaxPayloadCiphertextBytes cfg = 0 \<or>
    unat (effectiveMaxPayloadCiphertextBytes cfg) + 524288 \<le> unat (cf_GRPCMaxMessageBytes cfg))"
proof (cases "cf_GRPCMaxMessageBytes cfg \<le> VaultGRPCProtoReserveBytes")
  case False
  have r: "unat VaultGRPCProtoReserveBytes = 524288" by (simp add: VaultGRPCProtoReserveBytes_def)
  from False have lt: "VaultGRPCProtoReserveBytes \<le> cf_GRPCMaxMessageBytes cfg" by simp
  with r have "unat (cf_GRPCMaxMessageBytes cfg - VaultGRPCProtoReserveBytes) + 524288 = unat (cf_GRPCMaxMessageBytes cfg)"
    by (simp add: unat_sub word_le_nat_alt)
  with False show ?thesis
    by (auto simp: effectiveMaxPayloadCiphertextBytes_def Let_def word_less_nat_alt word_le_nat_alt)
qed (simp add: effectiveMaxPayloadCiphertextBytes_def)

subsection \<open>Placement\<close>

lemma blen_pos [simp]: "0 < blen b \<longleftrightarrow> bytes_of b \<noteq> []"
  by (metis blen_0 gr0I less_irrefl)

abbreviation pg_resolve ::
  "env \<Rightarrow> (bytes \<Rightarrow> bytes) \<Rightarrow> Config \<Rightarrow> 'o minio_client \<Rightarrow> string \<Rightarrow> string \<Rightarrow> EncryptedField option \<Rightarrow> string \<Rightarrow> ('o, payload) server" where
  "pg_resolve E sha cfg c bucket u p bid \<equiv> resolveVaultPayload E sha (Some cfg) (Some (NewBlobRepository E))
     (Some (NewObjectStorage c bucket)) (Some (time_Now E)) u p bid"

lemma referenced_blob_ok:
  assumes client: "minio_ok c view"
    and run: "referenced_blob m (NewBlobRepository E) (NewObjectStorage c bucket) u p bid w = (Inr r, w')"
  obtains b d where "r = (None, None, Some bid, Some (bytes_of (bl_Checksum b)))" and "encryptedFieldEmpty p"
    and "find (blob_key u bid) (blobs (db w)) = Some b" and "bl_Status b = StatusCommitted" and "bl_DeletedAt b = None"
    and "view (objs w) bucket (bl_ObjectKey b) = Some d" and "word_of_nat (length d) = bl_SizeBytes b" and "bl_SizeBytes b \<le> m"
    and "db w' = db w" and "view (objs w') = view (objs w)"
proof -
  obtain b w1 n w2 where ne: "\<not> \<not> encryptedFieldEmpty p" and get: "BlobRepository_GetByID E u bid w = (Inr b, w1)"
    and st: "\<not> bl_Status b \<noteq> StatusCommitted" "\<not> bl_DeletedAt b \<noteq> None"
    and stat: "ObjectStorage_Stat c bucket (bl_ObjectKey b) w1 = (Inr n, w2)"
    and n: "\<not> n < 0" "\<not> word_of_int n \<noteq> bl_SizeBytes b" "\<not> m < word_of_int n"
    and fin: "ret (None, None, Some bid, Some (bytes_of (bl_Checksum b))) w2 = (Inr r :: go_error + payload, w')"
    using run [unfolded referenced_blob_def store_sel NewObjectStorage_sel]
    apply (elim guard_okE)
    apply (erule handle_okE, simp)
    apply (elim guard_okE)
    apply (erule handle_okE, simp)
    apply (elim guard_okE)
    apply (rule that)
    apply assumption+
    done
  note g = GetByID_ok [OF get]
  have "view (objs w2) = view (objs w1) \<and> (\<exists>d. view (objs w1) bucket (bl_ObjectKey b) = Some d \<and> n = int (length d))"
    using wp_okD [OF wp_Stat [OF client, where Q = "\<lambda>n w2. view (objs w2) = view (objs w1) \<and>
        (\<exists>d. view (objs w1) bucket (bl_ObjectKey b) = Some d \<and> n = int (length d))" and R = "\<lambda>_ _. True"] stat] by auto
  then obtain d where d: "view (objs w2) = view (objs w1)" "view (objs w1) bucket (bl_ObjectKey b) = Some d" "n = int (length d)" by blast
  have "db w2 = db w1" using keepsD [OF keeps_storage(2) _ stat, of "\<lambda>x. x = db w1"] by simp
  then show ?thesis using that [OF _ _ g(1)] ne st d n g(2,3) fin by (simp add: ret_def)
qed

lemma spill_blob_ok:
  assumes client: "minio_ok c view"
    and run: "spill_blob E sha (NewBlobRepository E) (NewObjectStorage c bucket) (time_Now E) u ct w = (Inr r, w')"
  obtains b where "r = (None, None, Some (bl_BlobID b), Some (sha ct))" and "\<exists>ts. b = spill_row u (bl_BlobID b) ct (sha ct) ts"
    and "db w' = (db w)\<lparr>blobs := blobs (db w) @ [b]\<rparr>" and "view (objs w') bucket (bl_ObjectKey b) = Some ct"
proof -
  obtain x w1 y w2 ts w3 z w4 where id: "uuid_NewString E w = (Inr x, w1)"
    and put: "ObjectStorage_Put c bucket (object_key u x) ct (int (length ct)) ''application/octet-stream'' w1 = (Inr y, w2)"
    and now: "time_Now E w2 = (Inr ts, w3)" and ins: "BlobRepository_Create E (spill_row u x ct (sha ct) ts) w3 = (Inr z, w4)"
    and fin: "ret (None, None, Some x, Some (sha ct)) w4 = (Inr r :: go_error + payload, w')"
    using run [unfolded spill_blob_def store_sel NewObjectStorage_sel]
    apply (elim andthen_okE)
    apply (erule handle_okE, simp)
    apply (elim andthen_okE)
    apply (erule handle_okE, simp)
    apply (rule that)
    apply assumption+
    done
  have "stmt E (sql_insert_blob (spill_row u x ct (sha ct) ts)) w3 = (Inr z, w4)"
    using ins by (simp add: BlobRepository_Create_def execInsertBlob_def)
  from stmt_okD [OF this] have row: "db w4 = (db w3)\<lparr>blobs := blobs (db w3) @ [spill_row u x ct (sha ct) ts]\<rparr>" and o: "objs w4 = objs w3"
    by (auto elim!: sql_insert_blob_cases simp: spill_row_def)
  have "view (objs w2) bucket (object_key u x) = Some ct"
    using wp_okD [OF wp_Put [OF client, where Q = "\<lambda>_ w. view (objs w) bucket (object_key u x) = Some ct" and
        R = "\<lambda>_ _. True"] put] by simp
  moreover have "db w3 = db w" "objs w3 = objs w2"
    using keepsD [OF keeps_storage(1) _ put, of "\<lambda>d. d = db w1"] id time_Now_okD [OF now] by (auto simp: uuid_NewString_def)
  ultimately show ?thesis using that [of "spill_row u x ct (sha ct) ts"] row o fin
    by (simp add: ret_def spill_row_def)
qed

text \<open>
  What a failed placement can leave behind: at most the one object it wrote, when the object store also
  refused to delete it, and at most the one row, when its insertion was executed without an answer.
\<close>

lemma insert_blob_failed:
  assumes "BlobRepository_Create E b w = (Inl e, w')" and "bl_FailedAt b = None"
  shows "objs w' = objs w \<and> (db w' = db w \<or> (\<exists>n. env_db_fault E n = FailAfter) \<and> db w' = (db w)\<lparr>blobs := blobs (db w) @ [b]\<rparr>)"
  using assms unfolding BlobRepository_Create_def execInsertBlob_def
  by (auto simp: stmt_def Let_def split: fault.splits prod.splits elim!: sql_insert_blob_cases)

lemma spill_blob_failed:
  assumes client: "minio_ok c view"
    and run: "spill_blob E sha (NewBlobRepository E) (NewObjectStorage c bucket) (time_Now E) u ct w = (Inl e, w')"
  defines "k \<equiv> object_key u (env_uuid E (tick w))"
  shows "same_but bucket k (view (objs w)) (view (objs w')) \<and>
    (db w' = db w \<or> (\<exists>n. env_db_fault E n = FailAfter) \<and>
      (\<exists>ts. db w' = (db w)\<lparr>blobs := blobs (db w) @ [spill_row u (env_uuid E (tick w)) ct (sha ct) ts]\<rparr>)) \<and>
    (minio_healthy c view \<longrightarrow> view (objs w') bucket k = None)"
proof -
  let ?w1 = "w\<lparr>tick := Suc (tick w)\<rparr>"
  obtain q w2 where put: "ObjectStorage_Put c bucket k ct (int (length ct)) ''application/octet-stream'' ?w1 = (q, w2)" by fastforce
  have v2: "same_but bucket k (view (objs w)) (view (objs w2))" and d2: "db w2 = db w"
    using wp_sndD [OF wp_Put [OF client, where w = ?w1 and Q = "\<lambda>_ w2. same_but bucket k (view (objs w)) (view (objs w2))" and
        R = "\<lambda>_ w2. same_but bucket k (view (objs w)) (view (objs w2))"], of bucket k ct "int (length ct)" "''application/octet-stream''"]
      put keepsD [OF keeps_storage(1) _ put, of "\<lambda>d. d = db w"] by simp_all
  show ?thesis
  proof (cases q)
    case (Inl x)
    with run put have "w' = w2"
      by (simp add: spill_blob_def store_sel uuid_NewString_def andthen_def handle_def throw_def k_def)
    moreover have "\<not> minio_healthy c view" using put Inl
      by (auto simp: minio_healthy_def ObjectStorage_Put_def minio_call_def split: prod.splits sum.splits) (metis fst_conv isl_def)
    ultimately show ?thesis using v2 d2 by simp
  next
    case (Inr x)
    let ?row = "spill_row u (env_uuid E (tick w)) ct (sha ct) (env_clock E (tick w2))"
    let ?w3 = "w2\<lparr>tick := Suc (tick w2)\<rparr>"
    obtain r w4 where ins: "BlobRepository_Create E ?row ?w3 = (r, w4)" by fastforce
    obtain err where r: "r = Inl err" using run put Inr ins
      by (cases r) (auto simp: spill_blob_def store_sel uuid_NewString_def time_Now_def andthen_def handle_def ret_def k_def)
    have d4: "objs w4 = objs ?w3 \<and> (db w4 = db ?w3 \<or> (\<exists>n. env_db_fault E n = FailAfter) \<and>
        db w4 = (db ?w3)\<lparr>blobs := blobs (db ?w3) @ [?row]\<rparr>)"
      by (rule insert_blob_failed [OF ins [unfolded r]]) (simp add: spill_row_def)
    obtain y w5 where del: "ObjectStorage_Delete c bucket k w4 = (y, w5)" by fastforce
    have v5: "same_but bucket k (view (objs w4)) (view (objs w5))" and d5: "db w5 = db w4"
      using wp_sndD [OF wp_Delete [OF client, where w = w4 and Q = "\<lambda>_ w5. same_but bucket k (view (objs w4)) (view (objs w5))" and
          R = "\<lambda>_ w5. same_but bucket k (view (objs w4)) (view (objs w5))"], of bucket k]
        del keepsD [OF keeps_storage(3) _ del, of "\<lambda>d. d = db w4"] by simp_all
    have gone: "view (objs w5) bucket k = None" if "minio_healthy c view"
      using Delete_healthy [OF that, of bucket k w4] del by auto
    have "w' = w5"
      using run put Inr ins r del
      by (cases y) (auto simp: spill_blob_def store_sel uuid_NewString_def time_Now_def andthen_def handle_def ignore_def ret_def throw_def k_def)
    then show ?thesis using v2 v5 d2 d4 d5 gone by (auto simp: same_but_def)
  qed
qed

lemma same_but_eq: "same_but b k v v' \<Longrightarrow> v' b k = v b k \<Longrightarrow> v' = v"
proof (intro ext)
  fix b' k'
  assume "same_but b k v v'" and "v' b k = v b k"
  then show "v' b' k' = v b' k'" by (cases "(b', k') = (b, k)") (auto simp: same_but_def)
qed

lemma referenced_blob_reads:
  assumes "minio_ok c view"
  shows "keeps (\<lambda>w. db w = d \<and> view (objs w) = v) (referenced_blob m (NewBlobRepository E) (NewObjectStorage c bucket) u p bid)"
    (is "keeps ?I _")
proof -
  have "keeps ?I (stmt E (sql_select_blob u bid))"
    by (auto simp: keeps_def stmt_def sql_select_blob_def Let_def split: fault.splits option.splits)
  then have get: "keeps ?I (BlobRepository_GetByID E u bid)"
    unfolding BlobRepository_GetByID_def by (intro keeps_intros)
  have stat: "keeps ?I (ObjectStorage_Stat c bucket k)" for k
    unfolding keeps_iff_wp by (intro allI impI wp_Stat [OF assms]) simp_all
  show ?thesis unfolding referenced_blob_def store_sel NewObjectStorage_sel by (intro keeps_intros get stat)
qed

text \<open>The three places of a payload.\<close>

definition stored_inline :: "Config \<Rightarrow> EncryptedField option \<Rightarrow> payload \<Rightarrow> bool" where
  "stored_inline cfg p r \<longleftrightarrow> r = (GetCiphertext p, GetNonce p, None, None) \<and> 0 < blen (GetNonce p) \<and>
     0 < blen (GetCiphertext p) \<and> blen (GetCiphertext p) \<le> unat (cf_InlineThresholdBytes cfg)"

definition stored_new ::
  "Config \<Rightarrow> (bytes \<Rightarrow> bytes) \<Rightarrow> string \<Rightarrow> bytes \<Rightarrow> payload \<Rightarrow> (string \<Rightarrow> bytes option) \<Rightarrow> database \<Rightarrow> database \<Rightarrow> bool" where
  "stored_new cfg sha u ct r v' d d' \<longleftrightarrow> unat (cf_InlineThresholdBytes cfg) < length ct \<and>
     (\<exists>b. r = (None, None, Some (bl_BlobID b), Some (sha ct)) \<and> bl_UserID b = u \<and> bl_Status b = StatusCommitted \<and>
        bl_Checksum b = Some (sha ct) \<and> unat (bl_SizeBytes b) = length ct \<and> d' = d\<lparr>blobs := blobs d @ [b]\<rparr> \<and>
        v' (bl_ObjectKey b) = Some ct)"

definition stored_before :: "Config \<Rightarrow> string \<Rightarrow> string \<Rightarrow> payload \<Rightarrow> (string \<Rightarrow> bytes option) \<Rightarrow> database \<Rightarrow> bool" where
  "stored_before cfg u bid r v d \<longleftrightarrow>
     (\<exists>b x. r = (None, None, Some bid, Some (bytes_of (bl_Checksum b))) \<and> find (blob_key u bid) (blobs d) = Some b \<and>
        bl_Status b = StatusCommitted \<and> bl_DeletedAt b = None \<and> v (bl_ObjectKey b) = Some x \<and>
        word_of_nat (length x) = bl_SizeBytes b \<and> bl_SizeBytes b \<le> effectiveMaxPayloadCiphertextBytes cfg)"

text \<open>
  C27. Where a payload goes. When \<open>resolveVaultPayload\<close> succeeds, the payload is in exactly one of
  three places. Inline: both parts present, no larger than the threshold, nothing stored. New blob:
  larger than the threshold, one committed row of the user with the exact size and digest is added and
  the object store holds the ciphertext. Reference: no payload was sent and the named blob is a
  committed, undeleted blob of the same user whose object has the recorded size. In the first two
  cases the ciphertext is within the limit.
\<close>

theorem payload_placement:
  assumes client: "minio_ok c view" and len: "blen (GetCiphertext p) < 2 ^ 63"
    and run: "resolveVaultPayload E sha (Some cfg) (Some (NewBlobRepository E)) (Some (NewObjectStorage c bucket))
      (Some (time_Now E)) u p bid w = (Inr r, w')"
  shows "if TrimSpace bid = []
    then blen (GetCiphertext p) \<le> unat (effectiveMaxPayloadCiphertextBytes cfg) \<and>
      (stored_inline cfg p r \<and> w' = w \<or>
       stored_new cfg sha u (bytes_of (GetCiphertext p)) r (view (objs w') bucket) (db w) (db w'))
    else encryptedFieldEmpty p \<and> stored_before cfg u (TrimSpace bid) r (view (objs w) bucket) (db w) \<and> db w' = db w"
proof (cases "TrimSpace bid = []")
  case False
  with run have "referenced_blob (effectiveMaxPayloadCiphertextBytes cfg) (NewBlobRepository E) (NewObjectStorage c bucket) u p (TrimSpace bid) w = (Inr r, w')"
    by (simp add: resolveVaultPayload_def Let_def)
  then obtain b x where "r = (None, None, Some (TrimSpace bid), Some (bytes_of (bl_Checksum b)))" "encryptedFieldEmpty p"
    "find (blob_key u (TrimSpace bid)) (blobs (db w)) = Some b" "bl_Status b = StatusCommitted" "bl_DeletedAt b = None"
    "view (objs w) bucket (bl_ObjectKey b) = Some x" "word_of_nat (length x) = bl_SizeBytes b"
    "bl_SizeBytes b \<le> effectiveMaxPayloadCiphertextBytes cfg" "db w' = db w"
    by (rule referenced_blob_ok [OF client])
  then show ?thesis using False by (auto simp: stored_before_def)
next
  case True
  let ?ct = "GetCiphertext p"
  have u: "unat (word_of_nat (blen ?ct) :: u64) = blen ?ct" using len by (intro unat_word_of_nat_u64) simp
  have l: "blen ?ct = length (bytes_of ?ct)" by (simp add: blen_def bytes_of_def split: option.splits)
  from run True have fits: "\<not> effectiveMaxPayloadCiphertextBytes cfg < word_of_nat (blen ?ct)"
    and ne: "0 < blen ?ct" "0 < blen (GetNonce p)"
    and k: "(if word_of_nat (blen ?ct) \<le> cf_InlineThresholdBytes cfg then ret (?ct, GetNonce p, None, None)
      else spill_blob E sha (NewBlobRepository E) (NewObjectStorage c bucket) (time_Now E) u (bytes_of ?ct)) w = (Inr r, w')"
    by (auto simp: resolveVaultPayload_def Let_def throw_def guard_def split: option.splits if_splits)
  from fits u have max: "blen ?ct \<le> unat (effectiveMaxPayloadCiphertextBytes cfg)" by (simp add: not_less word_le_nat_alt)
  show ?thesis
  proof (cases "word_of_nat (blen ?ct) \<le> cf_InlineThresholdBytes cfg")
    case inline: True
    with k have "r = (?ct, GetNonce p, None, None)" "w' = w" by (simp_all add: ret_def)
    with inline True max ne u show ?thesis by (simp add: stored_inline_def word_le_nat_alt)
  next
    case big: False
    with k have "spill_blob E sha (NewBlobRepository E) (NewObjectStorage c bucket) (time_Now E) u (bytes_of ?ct) w = (Inr r, w')" by simp
    then obtain b ts where "r = (None, None, Some (bl_BlobID b), Some (sha (bytes_of ?ct)))"
      "b = spill_row u (bl_BlobID b) (bytes_of ?ct) (sha (bytes_of ?ct)) ts"
      "db w' = (db w)\<lparr>blobs := blobs (db w) @ [b]\<rparr>" "view (objs w') bucket (bl_ObjectKey b) = Some (bytes_of ?ct)"
      by (rule spill_blob_ok [OF client]) blast
    moreover from this(2) u l have "bl_UserID b = u" "bl_Status b = StatusCommitted" "bl_Checksum b = Some (sha (bytes_of ?ct))"
      "unat (bl_SizeBytes b) = length (bytes_of ?ct)"
      by (metis (no_types) spill_row_def Blob.select_convs)+
    moreover have "unat (cf_InlineThresholdBytes cfg) < length (bytes_of ?ct)" using big u l by (simp add: word_le_nat_alt)
    ultimately have "stored_new cfg sha u (bytes_of ?ct) r (view (objs w') bucket) (db w) (db w')"
      unfolding stored_new_def by blast
    with True max show ?thesis by simp
  qed
qed

theorem payload_placement_witness:
  "\<exists>r w'. resolveVaultPayload demo_env rev (Some demo_cfg) (Some (NewBlobRepository demo_env)) (Some (NewObjectStorage mem_client ''b''))
      (Some (time_Now demo_env)) ''u1'' (Some \<lparr>ef_Ciphertext = Some (replicate 9 7), ef_Nonce = Some [1]\<rparr>) [] (demo_blob_world [] [] [] 0) = (Inr r, w') \<and>
     stored_new demo_cfg rev ''u1'' (replicate 9 7) r (mem_view (objs w') ''b'') (db (demo_blob_world [] [] [] 0)) (db w')"
proof -
  let ?p = "Some \<lparr>ef_Ciphertext = Some (replicate 9 7), ef_Nonce = Some [1]\<rparr> :: EncryptedField option"
  have len: "blen (GetCiphertext ?p) < 2 ^ 63" by (simp add: GetCiphertext_def blen_def)
  obtain r w' where run: "resolveVaultPayload demo_env rev (Some demo_cfg) (Some (NewBlobRepository demo_env)) (Some (NewObjectStorage mem_client ''b''))
      (Some (time_Now demo_env)) ''u1'' ?p [] (demo_blob_world [] [] [] 0) = (Inr r, w')"
    by (simp add: sync_eval spill_blob_def spill_row_def object_key_def BlobRepository_Create_def execInsertBlob_def sql_insert_blob_def
        vault_eval blob_eval blob_demo_defs)
  from payload_placement [OF mem_client_ok len run] run show ?thesis
    by (auto simp: stored_inline_def GetCiphertext_def blen_def bytes_of_def demo_cfg_def demo_blob_config_def)
qed

text \<open>
  C28. What a failed placement leaves behind. When \<open>resolveVaultPayload\<close> fails, whatever statement or
  call to the object store failed, no object other than the one under the new key is touched, and no row is
  stored, except the new blob's own row when its insertion was executed and only its answer was lost.
  When the object store answers every call and had nothing under the new key, the store is exactly as
  before: an object written before its row was refused has been deleted again. A request that
  references a stored blob changes nothing at all. (If the store refuses the compensating delete, the
  object stays; the code only logs it.)
\<close>

theorem placement_compensated:
  assumes client: "minio_ok c view"
    and run: "resolveVaultPayload E sha (Some cfg) (Some (NewBlobRepository E)) (Some (NewObjectStorage c bucket))
      (Some (time_Now E)) u p bid w = (Inl e, w')"
  shows "same_but bucket (object_key u (env_uuid E (tick w))) (view (objs w)) (view (objs w')) \<and>
    (db w' = db w \<or> (\<exists>n. env_db_fault E n = FailAfter) \<and>
      (\<exists>ts. db w' = (db w)\<lparr>blobs := blobs (db w) @
        [spill_row u (env_uuid E (tick w)) (bytes_of (GetCiphertext p)) (sha (bytes_of (GetCiphertext p))) ts]\<rparr>)) \<and>
    (minio_healthy c view \<and> view (objs w) bucket (object_key u (env_uuid E (tick w))) = None \<longrightarrow> view (objs w') = view (objs w)) \<and>
    (TrimSpace bid \<noteq> [] \<longrightarrow> db w' = db w \<and> view (objs w') = view (objs w))"
proof (cases "TrimSpace bid = []")
  case True
  have "w' = w \<or> spill_blob E sha (NewBlobRepository E) (NewObjectStorage c bucket) (time_Now E) u (bytes_of (GetCiphertext p)) w = (Inl e, w')"
    using run True by (auto simp: resolveVaultPayload_def Let_def throw_def guard_def ret_def split: option.splits if_splits)
  then show ?thesis
  proof
    assume "spill_blob E sha (NewBlobRepository E) (NewObjectStorage c bucket) (time_Now E) u (bytes_of (GetCiphertext p)) w = (Inl e, w')"
    from spill_blob_failed [OF client this] True show ?thesis by (auto simp: same_but_eq)
  qed (simp add: same_but_def True)
next
  case False
  with run have "referenced_blob (effectiveMaxPayloadCiphertextBytes cfg) (NewBlobRepository E) (NewObjectStorage c bucket) u p
      (TrimSpace bid) w = (Inl e, w')"
    by (simp add: resolveVaultPayload_def Let_def)
  from keepsD [OF referenced_blob_reads [OF client, of "db w" "view (objs w)"] _ this]
  show ?thesis by (simp add: same_but_def)
qed

theorem placement_compensated_witness:
  "\<exists>e w'. resolveVaultPayload (demo_env_failing 2) rev (Some demo_cfg) (Some (NewBlobRepository (demo_env_failing 2)))
      (Some (NewObjectStorage mem_client ''b'')) (Some (time_Now (demo_env_failing 2))) ''u1''
      (Some \<lparr>ef_Ciphertext = Some (replicate 9 7), ef_Nonce = Some [1]\<rparr>) [] (demo_blob_world [] [] [] 0) = (Inl e, w') \<and>
     db w' = db (demo_blob_world [] [] [] 0) \<and> mem_view (objs w') = mem_view []"
proof -
  let ?p = "Some \<lparr>ef_Ciphertext = Some (replicate 9 7), ef_Nonce = Some [1]\<rparr> :: EncryptedField option"
  let ?E = "demo_env_failing 2" and ?w = "demo_blob_world [] [] [] 0"
  obtain e w' where run: "resolveVaultPayload ?E rev (Some demo_cfg) (Some (NewBlobRepository ?E)) (Some (NewObjectStorage mem_client ''b''))
      (Some (time_Now ?E)) ''u1'' ?p [] ?w = (Inl e, w')"
    by (simp add: sync_eval spill_blob_def spill_row_def object_key_def BlobRepository_Create_def execInsertBlob_def sql_insert_blob_def
        vault_eval blob_eval blob_demo_defs)
  have "mem_view (objs ?w) ''b'' (object_key ''u1'' (env_uuid ?E (tick ?w))) = None" "\<forall>n. env_db_fault ?E n \<noteq> FailAfter"
    by (simp_all add: demo_blob_world_def mem_view_def)
  with placement_compensated [OF mem_client_ok run] mem_client_healthy have "db w' = db ?w" "mem_view (objs w') = mem_view (objs ?w)"
    by auto
  with run show ?thesis by (auto simp: demo_blob_world_def)
qed

subsection \<open>Create, then get\<close>

definition pg_vault_handler :: "env \<Rightarrow> (bytes \<Rightarrow> bytes) \<Rightarrow> Config \<Rightarrow> 'o minio_client \<Rightarrow> string \<Rightarrow> 'o vaultHandler" where
  "pg_vault_handler E sha cfg c bucket =
     \<lparr>vh_env = E, vh_sha256 = sha, vh_engine = engine_iface (pg_engine E), vh_cfg = Some cfg, vh_now = Some (time_Now E),
      vh_blobRepo = Some (NewBlobRepository E), vh_blobStorage = Some (NewObjectStorage c bucket)\<rparr>"

lemma pg_vault_handler_sel [simp]:
  "vh_env (pg_vault_handler E sha cfg c bucket) = E" "vh_sha256 (pg_vault_handler E sha cfg c bucket) = sha"
  "vh_engine (pg_vault_handler E sha cfg c bucket) = engine_iface (pg_engine E)" "vh_cfg (pg_vault_handler E sha cfg c bucket) = Some cfg"
  "vh_now (pg_vault_handler E sha cfg c bucket) = Some (time_Now E)"
  "vh_blobRepo (pg_vault_handler E sha cfg c bucket) = Some (NewBlobRepository E)"
  "vh_blobStorage (pg_vault_handler E sha cfg c bucket) = Some (NewObjectStorage c bucket)"
  by (simp_all add: pg_vault_handler_def)

lemma CreateItem_ok:
  assumes "CreateItem (pg_vault_handler E sha cfg c bucket) ctx (Some req) w = (Inr out, w')"
  obtains u p w1 where "UserIDFromContext ctx = Some u" and "cr_Title req \<noteq> None" and "cr_Metadata req \<noteq> None"
    and "pg_resolve E sha cfg c bucket u (cr_Payload req) (cr_BlobId req) w = (Inr p, w1)"
    and "Engine_Create (pg_engine E) u (cr_OperationId req) (create_input (cr_ItemType req) (cr_Title req) (cr_Metadata req) p) w1 = (Inr out, w')"
proof -
  obtain u where u: "UserIDFromContext ctx = Some u"
    using assms by (auto simp: CreateItem_def with_user_def throw_def split: option.splits)
  have ty: "concreteProtoItemType t = Some ty \<Longrightarrow> ty = t" for t ty
    by (simp add: concreteProtoItemType_def split: if_splits)
  from assms [unfolded CreateItem_def with_user_def u option.case]
  obtain t where t: "concreteProtoItemType (cr_ItemType req) = Some t" and tm: "cr_Title req \<noteq> None" "cr_Metadata req \<noteq> None"
    and run: "andthen (pg_resolve E sha cfg c bucket u (cr_Payload req) (cr_BlobId req)) (\<lambda>p.
          handle (Engine_Create (pg_engine E) u (cr_OperationId req) (create_input t (cr_Title req) (cr_Metadata req) p))
            (\<lambda>e. throw (toVaultStatusError e)) ret) w = (Inr out, w')"
    by (auto simp: guard_def throw_def engine_iface_def split: option.splits if_splits)
  from run obtain p w1 where p: "pg_resolve E sha cfg c bucket u (cr_Payload req) (cr_BlobId req) w = (Inr p, w1)"
    and "handle (Engine_Create (pg_engine E) u (cr_OperationId req) (create_input t (cr_Title req) (cr_Metadata req) p))
            (\<lambda>e. throw (toVaultStatusError e)) ret w1 = (Inr out, w')" by (rule andthen_okE)
  then have "Engine_Create (pg_engine E) u (cr_OperationId req) (create_input t (cr_Title req) (cr_Metadata req) p) w1 = (Inr out, w')"
    by (auto elim!: handle_okE simp: ret_def)
  with that [OF u tm p] ty [OF t] show ?thesis by simp
qed

lemma GetItem_ok:
  assumes "GetItem (pg_vault_handler E sha cfg c bucket) ctx (Some i) w = (Inr item, w')" and "UserIDFromContext ctx = Some u"
  obtains it where "find (item_key u i) (vault_items (db w)) = Some it" and "item = toProtoItem (Some it)"
proof -
  have "handle (andthen (Engine_Get (pg_engine E) u i) (\<lambda>it. ret (Some it))) (\<lambda>e. throw (toVaultStatusError e))
       (\<lambda>item. guard (item = None) (status Internal ''vault: internal error'') (ret (toProtoItem item))) w = (Inr item, w')"
    using assms by (auto simp: GetItem_def with_user_def engine_iface_def elim: guard_okE)
  then obtain x w1 where x: "andthen (Engine_Get (pg_engine E) u i) (\<lambda>it. ret (Some it)) w = (Inr x, w1)"
    and fin: "guard (x = None) (status Internal ''vault: internal error'') (ret (toProtoItem x)) w1 = (Inr item, w')"
    by (rule handle_okE) simp
  from x obtain it where it: "Engine_Get (pg_engine E) u i w = (Inr it, w1)" "x = Some it"
    by (auto elim!: andthen_okE simp: ret_def)
  from it(1) have "VaultRepository_GetItem E u i w = (Inr it, w1)"
    by (auto simp: Engine_Get_def elim: guard_okE)
  then have "stmt E (sql_select_item u i) w = (Inr it, w1)"
    unfolding VaultRepository_GetItem_def by (auto elim!: handle_okE simp: ret_def)
  from stmt_ok_db(1) [OF this] have "find (item_key u i) (vault_items (db w)) = Some it"
    by (auto simp: sql_select_item_def split: option.splits)
  with that fin it(2) show ?thesis by (auto simp: guard_def ret_def)
qed

text \<open>
  C29. Round trip of an item. When a create of an operation that was not processed before succeeds and
  the item it names is read back, the reader gets version 1 of an item of its own with the type, the
  title and the metadata that were sent; a payload small enough to stay inline comes back unchanged.
\<close>

theorem create_get_roundtrip:
  assumes ok: "schema_ok (db w)"
    and create: "CreateItem (pg_vault_handler E sha cfg c bucket) ctx (Some req) w = (Inr out, w1)"
    and new: "\<forall>u. va_ops (abs_db (db w)) (u, cr_OperationId req) = None"
    and get: "GetItem (pg_vault_handler E sha cfg c bucket) ctx (Some (co_ItemID out)) w1 = (Inr item, w2)"
  shows "\<exists>v. item = Some v \<and> vi_ItemId v = co_ItemID out \<and> Some (vi_UserId v) = UserIDFromContext ctx \<and> vi_Version v = 1 \<and>
    vi_DeletedAt v = None \<and> vi_ItemType v = cr_ItemType req \<and>
    GetCiphertext (vi_Title v) = GetCiphertext (cr_Title req) \<and> GetNonce (vi_Title v) = GetNonce (cr_Title req) \<and>
    GetCiphertext (vi_Metadata v) = GetCiphertext (cr_Metadata req) \<and> GetNonce (vi_Metadata v) = GetNonce (cr_Metadata req) \<and>
    (TrimSpace (cr_BlobId req) = [] \<and> word_of_nat (blen (GetCiphertext (cr_Payload req))) \<le> cf_InlineThresholdBytes cfg \<longrightarrow>
      vi_BlobId v = [] \<and> GetCiphertext (vi_Payload v) = GetCiphertext (cr_Payload req) \<and>
      GetNonce (vi_Payload v) = GetNonce (cr_Payload req))"
proof -
  from create obtain u p w0 where u: "UserIDFromContext ctx = Some u"
    and p: "pg_resolve E sha cfg c bucket u (cr_Payload req) (cr_BlobId req) w = (Inr p, w0)"
    and eng: "Engine_Create (pg_engine E) u (cr_OperationId req) (create_input (cr_ItemType req) (cr_Title req) (cr_Metadata req) p) w0 = (Inr out, w1)"
    by (rule CreateItem_ok)
  obtain pc pn bo cs where p4: "p = (pc, pn, bo, cs)" by (cases p) auto
  have "still (abs_db (db w)) (db w0)"
    using keepsD [OF payload_history.keeps_resolve _ p, of "abs_db (db w)"] ok by (simp add: still_def)
  then have w0: "schema_ok (db w0)" "va_ops (abs_db (db w0)) (u, cr_OperationId req) = None" using new by (auto simp: still_def)
  obtain i now where it: "va_items (abs_db (db w1)) (u, co_ItemID out) =
      Some (new_item i u (create_input (cr_ItemType req) (cr_Title req) (cr_Metadata req) p) now)" "co_ItemID out = i"
    using wp_okD [OF pg.Create_ok [OF w0(1)] eng] w0(2)
    by (auto simp: pg.replayed_def pg.performed_def recorded_def simp del: abs_db_sel)
  obtain x where x: "find (item_key u (co_ItemID out)) (vault_items (db w1)) = Some x" "item = toProtoItem (Some x)"
    using GetItem_ok [OF get u] by blast
  then have x': "x = new_item i u (create_input (cr_ItemType req) (cr_Title req) (cr_Metadata req) p) now"
    using it by simp
  have inline: "p = (GetCiphertext (cr_Payload req), GetNonce (cr_Payload req), None, None)"
    if "TrimSpace (cr_BlobId req) = []" "word_of_nat (blen (GetCiphertext (cr_Payload req))) \<le> cf_InlineThresholdBytes cfg"
    using p that by (auto simp: resolveVaultPayload_def Let_def throw_def guard_def ret_def split: option.splits if_splits)
  show ?thesis
    using x(2) x' it(2) u inline
    by (auto simp: toProtoItem_def new_item_def create_input_def p4 GetCiphertext_def GetNonce_def vaultPayloadToProto_def)
qed

definition demo_create_request :: CreateItemRequest where
  "demo_create_request = \<lparr>cr_OperationId = ''op1'', cr_ItemType = 1, cr_Title = Some (demo_field 1), cr_Metadata = Some (demo_field 3),
     cr_Payload = Some (demo_field 5), cr_BlobId = []\<rparr>"

theorem create_get_roundtrip_witness:
  "\<exists>out w1 v w2. CreateItem (pg_vault_handler demo_env rev demo_cfg mem_client ''b'') demo_ctx (Some demo_create_request)
       (demo_blob_world [] [] [] 0) = (Inr out, w1) \<and>
     GetItem (pg_vault_handler demo_env rev demo_cfg mem_client ''b'') demo_ctx (Some (co_ItemID out)) w1 = (Inr (Some v), w2) \<and>
     GetCiphertext (vi_Title v) = Some [1]"
proof -
  let ?h = "pg_vault_handler demo_env rev demo_cfg mem_client ''b''"
  obtain out w1 item w2 where create: "CreateItem ?h demo_ctx (Some demo_create_request) (demo_blob_world [] [] [] 0) = (Inr out, w1)"
    and get: "GetItem ?h demo_ctx (Some (co_ItemID out)) w1 = (Inr item, w2)"
    by (simp add: CreateItem_def GetItem_def demo_create_request_def engine_iface_def Engine_Create_def Engine_Get_def sync_eval
        vault_eval blob_eval blob_demo_defs)
  have "\<forall>u. va_ops (abs_db (db (demo_blob_world [] [] [] 0))) (u, cr_OperationId demo_create_request) = None"
    by (simp add: demo_blob_world_def demo_db_def)
  from create_get_roundtrip [OF demo_empty_ok(1) create this get] create get show ?thesis
    by (auto simp: demo_create_request_def demo_field_def GetCiphertext_def)
qed

end
