(* ===== verification/AuthRepo.thy ===== *)
theory AuthRepo
  imports VaultRepo
begin

section \<open>Accounts, devices and refresh tokens (\<open>storage/postgres/auth_repositories.go\<close>)\<close>

text \<open>
  The methods of \<open>AuthRepositories\<close>, each with its statements and its transaction, and the interfaces
  of \<open>internal/server/auth/types.go\<close> they implement: \<open>UserRepository\<close>, \<open>AuthTx\<close>,
  \<open>SessionRepository\<close>, \<open>DeviceAdmin\<close>. \<open>RotateRefresh\<close> completes the session its caller passes by
  reference; the model returns the completed session.

  \<open>auth_ok\<close> collects the constraints of the schema (keys, foreign keys) with the one the code adds:
  every refresh token belongs to the owner of its device. \<open>auth_later\<close> is what time can do to the
  three tables: accounts stay as they are, a device keeps its owner, a token keeps its identity and a
  revoked token stays revoked. Every method moves the tables along \<open>auth_later\<close> and keeps \<open>auth_ok\<close>.
\<close>

subsection \<open>Interfaces\<close>

record 'w UserRepository =
  ure_GetByLogin :: "string \<Rightarrow> ('w, go_error, User) prog"

record 'w AuthTx =
  atx_RegisterWithSession :: "User \<Rightarrow> Device \<Rightarrow> Session \<Rightarrow> ('w, go_error, unit) prog"
  atx_LoginWithDeviceAndSession :: "Device \<Rightarrow> Session \<Rightarrow> ('w, go_error, unit) prog"

record 'w SessionRepository =
  sre_RevokeByHash :: "bytes \<Rightarrow> ('w, go_error, unit) prog"
  sre_RotateRefresh :: "bytes \<Rightarrow> string \<Rightarrow> time \<Rightarrow> Session \<Rightarrow> ('w, go_error, Session) prog"

record 'w DeviceAdmin =
  dad_ListDevicesByUser :: "string \<Rightarrow> ('w, go_error, DeviceRecord list) prog"
  dad_RevokeDeviceForUser :: "string \<Rightarrow> string \<Rightarrow> ('w, go_error, unit) prog"

subsection \<open>Statements\<close>

definition user_not_null :: "User \<Rightarrow> bool" where
  "user_not_null u \<longleftrightarrow> ur_PasswordHash u \<noteq> None \<and> ur_PasswordSalt u \<noteq> None \<and>
     ur_EncryptedVaultKey u \<noteq> None \<and> ur_EncryptedVaultKeyNonce u \<noteq> None"

definition sql_insert_user :: "User \<Rightarrow> unit sql" where
  "sql_insert_user u t d =
     (if \<not> user_not_null u then (Inl (ErrSQL NotNullViolation), d)
      else if list_ex (\<lambda>r. ur_UserID r = ur_UserID u \<or> ur_Login r = ur_Login u) (users d)
        then (Inl (ErrSQL UniqueViolation), d)
      else (Inr (), d\<lparr>users := users d @ [u]\<rparr>))"

definition sql_select_user :: "string \<Rightarrow> User sql" where
  "sql_select_user login t d =
     (case find (\<lambda>r. ur_Login r = login) (users d) of None \<Rightarrow> (Inl ErrNoRows, d) | Some r \<Rightarrow> (Inr r, d))"

definition has_device :: "database \<Rightarrow> string \<Rightarrow> bool" where
  "has_device d i \<longleftrightarrow> list_ex (\<lambda>r. dr_DeviceID r = i) (devices d)"

definition device_key :: "string \<Rightarrow> string \<Rightarrow> DeviceRecord \<Rightarrow> bool" where
  "device_key u i r \<longleftrightarrow> dr_UserID r = u \<and> dr_DeviceID r = i"

definition new_device :: "Device \<Rightarrow> time \<Rightarrow> DeviceRecord" where
  "new_device v t =
     \<lparr>dr_DeviceID = dv_DeviceID v, dr_UserID = dv_UserID v, dr_DeviceName = dv_DeviceName v,
      dr_Platform = dv_Platform v, dr_ClientVersion = dv_ClientVersion v, dr_CreatedAt = t,
      dr_LastSeenAt = t, dr_RevokedAt = None\<rparr>"

definition seen_device :: "Device \<Rightarrow> time \<Rightarrow> DeviceRecord \<Rightarrow> DeviceRecord" where
  "seen_device v t r =
     r\<lparr>dr_DeviceName := dv_DeviceName v, dr_Platform := dv_Platform v,
       dr_ClientVersion := dv_ClientVersion v, dr_LastSeenAt := t, dr_RevokedAt := None\<rparr>"

definition sql_upsert_device :: "Device \<Rightarrow> nat sql" where
  "sql_upsert_device v t d =
     (if has_device d (dv_DeviceID v)
      then let P = device_key (dv_UserID v) (dv_DeviceID v) in
        (Inr (count_where P (devices d)), d\<lparr>devices := upd_where P (seen_device v t) (devices d)\<rparr>)
      else if \<not> has_user d (dv_UserID v) then (Inl (ErrSQL ForeignKeyViolation), d)
      else (Inr 1, d\<lparr>devices := devices d @ [new_device v t]\<rparr>))"

definition new_token :: "Session \<Rightarrow> RefreshToken" where
  "new_token s =
     \<lparr>rt_TokenID = ss_TokenID s, rt_UserID = ss_UserID s, rt_DeviceID = ss_DeviceID s,
      rt_TokenHash = ss_TokenHash s, rt_ExpiresAt = ss_ExpiresAt s, rt_RevokedAt = None\<rparr>"

definition sql_insert_token :: "Session \<Rightarrow> unit sql" where
  "sql_insert_token s t d =
     (if ss_TokenHash s = None then (Inl (ErrSQL NotNullViolation), d)
      else if list_ex (\<lambda>r. rt_TokenID r = ss_TokenID s \<or> rt_TokenHash r = ss_TokenHash s) (refresh_tokens d)
        then (Inl (ErrSQL UniqueViolation), d)
      else if \<not> has_user d (ss_UserID s) \<or> \<not> has_device d (ss_DeviceID s)
        then (Inl (ErrSQL ForeignKeyViolation), d)
      else (Inr (), d\<lparr>refresh_tokens := refresh_tokens d @ [new_token s]\<rparr>))"

text \<open>\<open>UPDATE refresh_tokens SET revoked_at = NOW() WHERE .. AND revoked_at IS NULL\<close>.\<close>

definition sql_revoke_tokens :: "(RefreshToken \<Rightarrow> bool) \<Rightarrow> nat sql" where
  "sql_revoke_tokens P t d =
     (let Q = (\<lambda>r. P r \<and> rt_RevokedAt r = None) in
      (Inr (count_where Q (refresh_tokens d)),
       d\<lparr>refresh_tokens := upd_where Q (\<lambda>r. r\<lparr>rt_RevokedAt := Some t\<rparr>) (refresh_tokens d)\<rparr>))"

definition token_hash :: "bytes \<Rightarrow> RefreshToken \<Rightarrow> bool" where
  "token_hash h r \<longleftrightarrow> rt_TokenHash r = Some h"

definition token_device :: "string \<Rightarrow> string \<Rightarrow> RefreshToken \<Rightarrow> bool" where
  "token_device u i r \<longleftrightarrow> rt_UserID r = u \<and> rt_DeviceID r = i"

text \<open>The row the rotation accepts: live, not expired, of that device, the device not revoked.\<close>

definition rotatable :: "bytes \<Rightarrow> string \<Rightarrow> time \<Rightarrow> database \<Rightarrow> RefreshToken \<Rightarrow> bool" where
  "rotatable h i now d r \<longleftrightarrow>
     token_hash h r \<and> rt_DeviceID r = i \<and> rt_RevokedAt r = None \<and> rt_ExpiresAt r > now \<and>
     list_ex (\<lambda>v. device_key (rt_UserID r) (rt_DeviceID r) v \<and> dr_RevokedAt v = None) (devices d)"

definition sql_select_rotatable :: "bytes \<Rightarrow> string \<Rightarrow> time \<Rightarrow> (string \<times> string) sql" where
  "sql_select_rotatable h i now t d =
     (case find (rotatable h i now d) (refresh_tokens d) of
        None \<Rightarrow> (Inl ErrNoRows, d)
      | Some r \<Rightarrow> (Inr (rt_UserID r, rt_DeviceID r), d))"

definition sql_list_devices :: "string \<Rightarrow> DeviceRecord list sql" where
  "sql_list_devices u t d =
     (Inr (sort_by (\<lambda>a b. dr_CreatedAt a \<le> dr_CreatedAt b) (filter (\<lambda>r. dr_UserID r = u) (devices d))), d)"

definition sql_revoke_device :: "string \<Rightarrow> string \<Rightarrow> nat sql" where
  "sql_revoke_device u i t d =
     (let Q = (\<lambda>r. device_key u i r \<and> dr_RevokedAt r = None) in
      (Inr (count_where Q (devices d)),
       d\<lparr>devices := upd_where Q (\<lambda>r. r\<lparr>dr_RevokedAt := Some t\<rparr>) (devices d)\<rparr>))"

definition sql_device_exists :: "string \<Rightarrow> string \<Rightarrow> unit sql" where
  "sql_device_exists u i t d =
     (if list_ex (device_key u i) (devices d) then (Inr (), d) else (Inl ErrNoRows, d))"

subsection \<open>Methods\<close>

definition insertUser :: "env \<Rightarrow> User \<Rightarrow> ('o, unit) server" where
  "insertUser E user =
     handle (stmt E (sql_insert_user user))
       (\<lambda>e. if e = ErrSQL UniqueViolation then throw AuthErrAlreadyExists else throw e)
       ret"

definition GetByLogin :: "env \<Rightarrow> string \<Rightarrow> ('o, User) server" where
  "GetByLogin E login =
     handle (stmt E (sql_select_user login))
       (\<lambda>e. if e = ErrNoRows then throw AuthErrUnauthorized else throw e)
       ret"

definition upsertDevice :: "env \<Rightarrow> Device \<Rightarrow> ('o, unit) server" where
  "upsertDevice E device =
     andthen (stmt E (sql_upsert_device device)) (\<lambda>n. guard (n = 0) AuthErrUnauthorized (ret ()))"

definition insertSession :: "env \<Rightarrow> Session \<Rightarrow> ('o, unit) server" where
  "insertSession E session = stmt E (sql_insert_token session)"

definition RevokeByHash :: "env \<Rightarrow> bytes \<Rightarrow> ('o, unit) server" where
  "RevokeByHash E tokenHash =
     andthen (stmt E (sql_revoke_tokens (token_hash tokenHash)))
       (\<lambda>affected. guard (affected = 0) AuthErrUnauthorized (ret ()))"

definition RegisterWithSession :: "env \<Rightarrow> User \<Rightarrow> Device \<Rightarrow> Session \<Rightarrow> ('o, unit) server" where
  "RegisterWithSession E user device session =
     in_tx E
      (andthen (insertUser E user) (\<lambda>_.
       andthen (upsertDevice E device) (\<lambda>_.
       insertSession E session)))"

definition LoginWithDeviceAndSession :: "env \<Rightarrow> Device \<Rightarrow> Session \<Rightarrow> ('o, unit) server" where
  "LoginWithDeviceAndSession E device session =
     in_tx E (andthen (upsertDevice E device) (\<lambda>_. insertSession E session))"

definition rotate_body :: "env \<Rightarrow> bytes \<Rightarrow> string \<Rightarrow> time \<Rightarrow> Session \<Rightarrow> ('o, Session) server" where
  "rotate_body E oldHash deviceID now newSession =
     handle (stmt E (sql_select_rotatable oldHash deviceID now))
       (\<lambda>e. if e = ErrNoRows then throw AuthErrUnauthorized else throw e)
       (\<lambda>(userID, devID).
     andthen (stmt E (sql_revoke_tokens (token_hash oldHash))) (\<lambda>revoked.
     guard (revoked \<noteq> 1) AuthErrUnauthorized
    (let s = newSession\<lparr>ss_UserID := userID, ss_DeviceID := devID\<rparr> in
     andthen (stmt E (sql_insert_token s)) (\<lambda>_. ret s))))"

definition RotateRefresh :: "env \<Rightarrow> bytes \<Rightarrow> string \<Rightarrow> time \<Rightarrow> Session \<Rightarrow> ('o, Session) server" where
  "RotateRefresh E oldHash deviceID now newSession = in_tx E (rotate_body E oldHash deviceID now newSession)"

definition ListDevicesByUser :: "env \<Rightarrow> string \<Rightarrow> ('o, DeviceRecord list) server" where
  "ListDevicesByUser E userID = stmt E (sql_list_devices userID)"

definition revoke_body :: "env \<Rightarrow> string \<Rightarrow> string \<Rightarrow> ('o, unit) server" where
  "revoke_body E userID deviceID =
     andthen (stmt E (sql_revoke_device userID deviceID)) (\<lambda>n.
     andthen
      (if n = 0
       then handle (stmt E (sql_device_exists userID deviceID))
         (\<lambda>e. if e = ErrNoRows then throw AuthErrDeviceNotFound else throw e) ret
       else ret ()) (\<lambda>_.
     andthen (stmt E (sql_revoke_tokens (token_device userID deviceID))) (\<lambda>_. ret ())))"

definition RevokeDeviceForUser :: "env \<Rightarrow> string \<Rightarrow> string \<Rightarrow> ('o, unit) server" where
  "RevokeDeviceForUser E userID deviceID = in_tx E (revoke_body E userID deviceID)"

text \<open>One value of \<open>AuthRepositories\<close> serves every interface; \<open>SessionRepository()\<close> wraps it.\<close>

definition AuthRepositories_users :: "env \<Rightarrow> 'o world UserRepository" where
  "AuthRepositories_users E = \<lparr>ure_GetByLogin = GetByLogin E\<rparr>"

definition AuthRepositories_authTx :: "env \<Rightarrow> 'o world AuthTx" where
  "AuthRepositories_authTx E =
     \<lparr>atx_RegisterWithSession = RegisterWithSession E,
      atx_LoginWithDeviceAndSession = LoginWithDeviceAndSession E\<rparr>"

definition sessionRepoAdapter :: "env \<Rightarrow> 'o world SessionRepository" where
  "sessionRepoAdapter E = \<lparr>sre_RevokeByHash = RevokeByHash E, sre_RotateRefresh = RotateRefresh E\<rparr>"

definition AuthRepositories_devices :: "env \<Rightarrow> 'o world DeviceAdmin" where
  "AuthRepositories_devices E =
     \<lparr>dad_ListDevicesByUser = ListDevicesByUser E, dad_RevokeDeviceForUser = RevokeDeviceForUser E\<rparr>"

subsection \<open>Invariant and monotonicity\<close>

definition auth_ok :: "database \<Rightarrow> bool" where
  "auth_ok d \<longleftrightarrow>
     distinct (map ur_UserID (users d)) \<and> distinct (map ur_Login (users d)) \<and>
     distinct (map dr_DeviceID (devices d)) \<and>
     distinct (map rt_TokenID (refresh_tokens d)) \<and> distinct (map rt_TokenHash (refresh_tokens d)) \<and>
     (\<forall>v \<in> set (devices d). has_user d (dr_UserID v)) \<and>
     (\<forall>r \<in> set (refresh_tokens d). rt_TokenHash r \<noteq> None \<and>
        list_ex (device_key (rt_UserID r) (rt_DeviceID r)) (devices d))"

text \<open>A row of one table after some time: the parts that never change.\<close>

definition same_device :: "DeviceRecord \<Rightarrow> DeviceRecord \<Rightarrow> bool" where
  "same_device a b \<longleftrightarrow> dr_DeviceID b = dr_DeviceID a \<and> dr_UserID b = dr_UserID a \<and> dr_CreatedAt b = dr_CreatedAt a"

definition same_token :: "RefreshToken \<Rightarrow> RefreshToken \<Rightarrow> bool" where
  "same_token a b \<longleftrightarrow> b = a \<or> rt_RevokedAt a = None \<and> (\<exists>t. b = a\<lparr>rt_RevokedAt := Some t\<rparr>)"

text \<open>Every row of a table has a row it became: rows are appended and updated, never deleted.\<close>

definition persists :: "('a \<Rightarrow> 'a \<Rightarrow> bool) \<Rightarrow> 'a list \<Rightarrow> 'a list \<Rightarrow> bool" where
  "persists R xs ys \<longleftrightarrow> (\<forall>x \<in> set xs. \<exists>y \<in> set ys. R x y)"

definition auth_later :: "database \<Rightarrow> database \<Rightarrow> bool" where
  "auth_later d d' \<longleftrightarrow>
     set (users d) \<subseteq> set (users d') \<and>
     persists same_device (devices d) (devices d') \<and>
     persists same_token (refresh_tokens d) (refresh_tokens d')"

lemma persists_append: "(\<And>x. R x x) \<Longrightarrow> persists R xs (xs @ ys)"
  by (auto simp: persists_def)

lemma persists_upd_where: "(\<And>x. R x x) \<Longrightarrow> (\<And>x. P x \<Longrightarrow> R x (f x)) \<Longrightarrow> persists R xs (upd_where P f xs)"
  by (induction xs) (auto simp: persists_def upd_where_def)

lemma persists_trans:
  "persists R xs ys \<Longrightarrow> persists R ys zs \<Longrightarrow> (\<And>x y z. R x y \<Longrightarrow> R y z \<Longrightarrow> R x z) \<Longrightarrow> persists R xs zs"
  unfolding persists_def by meson

lemma same_device_refl [simp]: "same_device v v"
  by (simp add: same_device_def)

lemma same_device_trans: "same_device a b \<Longrightarrow> same_device b c \<Longrightarrow> same_device a c"
  by (simp add: same_device_def)

lemma same_token_refl [simp]: "same_token r r"
  by (simp add: same_token_def)

lemma same_token_trans: "same_token a b \<Longrightarrow> same_token b c \<Longrightarrow> same_token a c"
  by (auto simp: same_token_def)

lemma persists_rows [simp]:
  "persists same_device xs xs" "persists same_token ys ys"
  "persists same_device xs (xs @ xs')" "persists same_token ys (ys @ ys')"
  using persists_append [of same_device xs "[]"] persists_append [of same_token ys "[]"]
  by (simp_all add: persists_append)

lemma auth_later_refl [simp]: "auth_later d d"
  by (simp add: auth_later_def)

lemma auth_later_trans:
  assumes "auth_later a b" and "auth_later b c"
  shows "auth_later a c"
proof -
  have "persists same_device (devices a) (devices c)"
    by (rule persists_trans [where R = same_device and ys = "devices b"])
       (use assms in \<open>auto simp: auth_later_def elim: same_device_trans\<close>)
  moreover have "persists same_token (refresh_tokens a) (refresh_tokens c)"
    by (rule persists_trans [where R = same_token and ys = "refresh_tokens b"])
       (use assms in \<open>auto simp: auth_later_def elim: same_token_trans\<close>)
  ultimately show ?thesis using assms by (auto simp: auth_later_def)
qed

lemma auth_tables:
  assumes "users d' = users d" "devices d' = devices d" "refresh_tokens d' = refresh_tokens d"
  shows "auth_ok d' = auth_ok d" "auth_later c d' = auth_later c d"
  using assms by (simp_all add: auth_ok_def auth_later_def has_user_def)

text \<open>What one statement does: it keeps the invariant and moves along \<open>auth_later\<close>.\<close>

definition auth_move :: "database \<Rightarrow> database \<Rightarrow> bool" where
  "auth_move d d' \<longleftrightarrow> auth_ok d \<longrightarrow> auth_ok d' \<and> auth_later d d'"

lemma auth_move_refl [simp]: "auth_move d d"
  by (simp add: auth_move_def)

lemma auth_move_insert_user: "auth_move d (snd (sql_insert_user u t d))"
  by (auto simp: auth_move_def auth_ok_def auth_later_def sql_insert_user_def has_user_def list_ex_iff)

lemma map_upd_keep: "(\<And>r. g (f r) = g r) \<Longrightarrow> map g (upd_where P f rs) = map g rs"
  by (simp add: map_upd_where)

lemma list_ex_upd_where: "(\<And>r. S (f r) = S r) \<Longrightarrow> list_ex S (upd_where P f rs) = list_ex S rs"
  by (induction rs) (auto simp: upd_where_def)

lemma auth_move_upd_devices:
  assumes "\<And>r. same_device r (f r)"
  shows "auth_move d (d\<lparr>devices := upd_where P f (devices d)\<rparr>)"
proof -
  have keys: "map dr_DeviceID (upd_where P f (devices d)) = map dr_DeviceID (devices d)"
    using assms by (intro map_upd_keep) (simp add: same_device_def)
  have key: "device_key u i (f r) = device_key u i r" "dr_UserID (f r) = dr_UserID r" for u i r
    using assms [of r] by (simp_all add: device_key_def same_device_def)
  have ex: "list_ex (device_key u i) (upd_where P f (devices d)) = list_ex (device_key u i) (devices d)" for u i
    by (simp add: list_ex_upd_where key)
  show ?thesis
    using assms by (auto simp: auth_move_def auth_ok_def auth_later_def keys ex has_user_def set_upd_where key
        simp del: set_map intro!: persists_upd_where)
qed

lemma same_device_seen [simp]: "same_device r (seen_device v t r)"
  by (simp add: same_device_def seen_device_def)

lemma auth_move_upsert_device: "auth_move d (snd (sql_upsert_device v t d))"
proof -
  have "\<not> has_device d (dv_DeviceID v) \<Longrightarrow> has_user d (dv_UserID v) \<Longrightarrow>
      auth_move d (d\<lparr>devices := devices d @ [new_device v t]\<rparr>)"
    by (auto simp: auth_move_def auth_ok_def auth_later_def has_device_def has_user_def new_device_def list_ex_iff)
  then show ?thesis by (simp add: sql_upsert_device_def Let_def auth_move_upd_devices)
qed

lemma auth_move_revoke_device: "auth_move d (snd (sql_revoke_device u i t d))"
  by (simp add: sql_revoke_device_def Let_def auth_move_upd_devices same_device_def)

lemma auth_move_revoke_tokens: "auth_move d (snd (sql_revoke_tokens P t d))"
proof -
  let ?f = "\<lambda>r. r\<lparr>rt_RevokedAt := Some t\<rparr>"
  let ?Q = "\<lambda>r. P r \<and> rt_RevokedAt r = None"
  have keys: "map rt_TokenID (upd_where ?Q ?f (refresh_tokens d)) = map rt_TokenID (refresh_tokens d)"
    "map rt_TokenHash (upd_where ?Q ?f (refresh_tokens d)) = map rt_TokenHash (refresh_tokens d)"
    by (simp_all add: map_upd_keep)
  show ?thesis
    by (auto simp: auth_move_def auth_ok_def auth_later_def sql_revoke_tokens_def Let_def keys has_user_def set_upd_where
        same_token_def simp del: set_map intro!: persists_upd_where)
qed

text \<open>A token may only be inserted for the owner of its device.\<close>

lemma auth_move_insert_token:
  assumes "list_ex (device_key (ss_UserID s) (ss_DeviceID s)) (devices d)"
  shows "auth_move d (snd (sql_insert_token s t d))"
  using assms
  by (auto simp: auth_move_def auth_ok_def auth_later_def sql_insert_token_def has_user_def list_ex_iff new_token_def)

end
