(* ===== verification/AuthService.thy ===== *)
theory AuthService
  imports AuthRepo Config Proto
begin

section \<open>Accounts and sessions (\<open>internal/server/auth\<close>)\<close>

text \<open>
  \<open>service.go\<close> (Register, Login, Refresh, Logout), \<open>tokens.go\<close>, \<open>jwt.go\<close>, \<open>crypto.go\<close> and the
  service of \<open>types.go\<close>. Outside the repository, hence parameters: the random source (the n-th
  external call reads \<open>rand n\<close>), sha256, bcrypt (\<open>bcrypt_lib\<close>) and the JWT package (\<open>jwt_lib\<close>).
  Durations are microseconds, the resolution of \<open>time\<close>.
\<close>

subsection \<open>Inputs and outputs\<close>

record RegisterInput =
  ri_Login :: string
  ri_Password :: string
  ri_PasswordSalt :: "bytes option"
  ri_KDFAlgorithm :: string
  ri_KDFMemoryKiB :: int
  ri_KDFIterations :: int
  ri_KDFParallelism :: int
  ri_KDFKeyLength :: int
  ri_EncryptedVaultKey :: "bytes option"
  ri_EncryptedVaultKeyNonce :: "bytes option"
  ri_DeviceID :: string
  ri_DeviceName :: string
  ri_Platform :: int
  ri_ClientVersion :: string

record RegisterOutput =
  ro_UserID :: string
  ro_Login :: string
  ro_DeviceID :: string
  ro_AccessToken :: string
  ro_RefreshToken :: string

record LoginInput =
  li_Login :: string
  li_Password :: string
  li_DeviceID :: string
  li_DeviceName :: string
  li_Platform :: int
  li_ClientVersion :: string

record LoginOutput =
  lo_UserID :: string
  lo_Login :: string
  lo_DeviceID :: string
  lo_AccessToken :: string
  lo_RefreshToken :: string
  lo_PasswordSalt :: "bytes option"
  lo_KDFAlgorithm :: string
  lo_KDFMemoryKiB :: int
  lo_KDFIterations :: int
  lo_KDFParallelism :: int
  lo_KDFKeyLength :: int
  lo_EncryptedVaultKey :: "bytes option"
  lo_EncryptedVaultKeyNonce :: "bytes option"

record RefreshInput =
  fi_RefreshToken :: string
  fi_DeviceID :: string

record RefreshOutput =
  fo_AccessToken :: string
  fo_RefreshToken :: string

record Limits =
  lm_InlineThresholdBytes :: u64
  lm_MaxBlobSizeBytes :: u64
  lm_MaxChunkSizeBytes :: u64

subsection \<open>Tokens\<close>

text \<open>\<open>[]byte(s)\<close>.\<close>

definition string_bytes :: "string \<Rightarrow> bytes" where
  "string_bytes s = map of_char s"

definition b64_alphabet :: string where
  "b64_alphabet = ''ABCDEFGHIJKLMNOPQRSTUVWXYZabcdefghijklmnopqrstuvwxyz0123456789-_''"

definition b64_char :: "nat \<Rightarrow> char" where
  "b64_char n = b64_alphabet ! (n mod 64)"

text \<open>\<open>base64.RawURLEncoding.EncodeToString\<close>: six bits per character, no padding.\<close>

fun RawURLEncoding :: "bytes \<Rightarrow> string" where
  "RawURLEncoding [] = []"
| "RawURLEncoding [a] = (let n = unat a * 16 in [b64_char (n div 64), b64_char n])"
| "RawURLEncoding [a, b] =
     (let n = (unat a * 256 + unat b) * 4 in [b64_char (n div 4096), b64_char (n div 64), b64_char n])"
| "RawURLEncoding (a # b # c # r) =
     (let n = (unat a * 256 + unat b) * 256 + unat c in
      [b64_char (n div 262144), b64_char (n div 4096), b64_char (n div 64), b64_char n] @ RawURLEncoding r)"

text \<open>\<open>rand.Read\<close> of 32 bytes is one external call.\<close>

definition NewRefreshToken :: "(nat \<Rightarrow> go_error + bytes) \<Rightarrow> ('o, string) server" where
  "NewRefreshToken rand w =
     (map_sum id RawURLEncoding (rand (tick w)), w\<lparr>tick := Suc (tick w)\<rparr>)"

definition HashToken :: "(bytes \<Rightarrow> bytes) \<Rightarrow> string \<Rightarrow> bytes" where
  "HashToken sha256 token = sha256 (string_bytes token)"

subsection \<open>Password hashing and access tokens\<close>

record 'w PasswordHasher =
  ph_Hash :: "string \<Rightarrow> ('w, go_error, bytes) prog"
  ph_Compare :: "bytes option \<Rightarrow> string \<Rightarrow> go_error option"

record AccessTokenClaims =
  at_UserID :: string
  at_DeviceID :: string

record 'w TokenIssuer =
  ti_IssueAccessToken :: "AccessTokenClaims \<Rightarrow> int \<Rightarrow> ('w, go_error, string) prog"

text \<open>The bcrypt package: a salted digest (the n-th external call draws the salt), its comparison
  (\<open>None\<close> is a match) and the default cost.\<close>

record bcrypt_lib =
  bc_GenerateFromPassword :: "nat \<Rightarrow> bytes \<Rightarrow> int \<Rightarrow> go_error + bytes"
  bc_CompareHashAndPassword :: "bytes \<Rightarrow> bytes \<Rightarrow> go_error option"
  bc_DefaultCost :: int

definition BcryptHasher_Hash :: "bcrypt_lib \<Rightarrow> int \<Rightarrow> string \<Rightarrow> ('o, bytes) server" where
  "BcryptHasher_Hash B hCost password w =
     (let cost = (if hCost = 0 then bc_DefaultCost B else hCost) in
      (bc_GenerateFromPassword B (tick w) (string_bytes password) cost, w\<lparr>tick := Suc (tick w)\<rparr>))"

definition BcryptHasher_Compare :: "bcrypt_lib \<Rightarrow> bytes option \<Rightarrow> string \<Rightarrow> go_error option" where
  "BcryptHasher_Compare B hash password = bc_CompareHashAndPassword B (bytes_of hash) (string_bytes password)"

definition BcryptHasher :: "bcrypt_lib \<Rightarrow> int \<Rightarrow> 'o world PasswordHasher" where
  "BcryptHasher B Cost = \<lparr>ph_Hash = BcryptHasher_Hash B Cost, ph_Compare = BcryptHasher_Compare B\<rparr>"

text \<open>The JWT package: claims are a finite map from names to JSON values; signing takes the name of
  the method and the key; parsing takes the instant at which registered claims are validated and the
  key function, which sees the name of the method.\<close>

datatype claim = ClaimString string | ClaimNumber int | ClaimOther

type_synonym map_claims = "(string \<times> claim) list"

datatype parsed_claims = MapClaims map_claims | OtherClaims

record jwt_token =
  jt_Valid :: bool
  jt_Claims :: parsed_claims

record jwt_lib =
  jwt_SignedString :: "string \<Rightarrow> map_claims \<Rightarrow> bytes \<Rightarrow> go_error + string"
  jwt_Parse :: "time \<Rightarrow> string \<Rightarrow> (string \<Rightarrow> go_error + bytes) \<Rightarrow> go_error + jwt_token"

definition Unix :: "time \<Rightarrow> int" where
  "Unix t = t div 1000000"

record 'o JWTIssuer =
  ji_secret :: bytes
  ji_now :: "('o, time) server"

definition NewJWTIssuer :: "env \<Rightarrow> string \<Rightarrow> ('o, time) server option \<Rightarrow> 'o JWTIssuer" where
  "NewJWTIssuer E secret now =
     \<lparr>ji_secret = string_bytes secret, ji_now = (case now of None \<Rightarrow> time_Now E | Some f \<Rightarrow> f)\<rparr>"

definition access_claims :: "AccessTokenClaims \<Rightarrow> time \<Rightarrow> int \<Rightarrow> map_claims" where
  "access_claims claims now ttl =
     [(''sub'', ClaimString (at_UserID claims)), (''device_id'', ClaimString (at_DeviceID claims)),
      (''iat'', ClaimNumber (Unix now)), (''exp'', ClaimNumber (Unix (now + ttl)))]"

definition IssueAccessToken :: "jwt_lib \<Rightarrow> 'o JWTIssuer \<Rightarrow> AccessTokenClaims \<Rightarrow> int \<Rightarrow> ('o, string) server" where
  "IssueAccessToken J j claims ttl =
     andthen (ji_now j) (\<lambda>now w. (jwt_SignedString J ''HS256'' (access_claims claims now ttl) (ji_secret j), w))"

subsection \<open>The service\<close>

record 'o Service =
  sv_env :: env
  sv_rand :: "nat \<Rightarrow> go_error + bytes"
  sv_sha256 :: "bytes \<Rightarrow> bytes"
  sv_users :: "'o world UserRepository"
  sv_sessions :: "'o world SessionRepository"
  sv_authTx :: "'o world AuthTx"
  sv_hasher :: "'o world PasswordHasher"
  sv_tokenIssuer :: "'o world TokenIssuer"
  sv_now :: "('o, time) server"
  sv_accessTTL :: int
  sv_refreshTTL :: int
  sv_inlineLimit :: u64
  sv_maxBlobSize :: u64
  sv_maxChunkSize :: u64

definition NewService ::
  "env \<Rightarrow> (nat \<Rightarrow> go_error + bytes) \<Rightarrow> (bytes \<Rightarrow> bytes) \<Rightarrow> 'o world UserRepository \<Rightarrow> 'o world SessionRepository \<Rightarrow>
   'o world AuthTx \<Rightarrow> 'o world PasswordHasher \<Rightarrow> 'o world TokenIssuer \<Rightarrow> ('o, time) server option \<Rightarrow> int \<Rightarrow> int \<Rightarrow>
   u64 \<Rightarrow> u64 \<Rightarrow> u64 \<Rightarrow> 'o Service" where
  "NewService E rand sha us ss atx hasher issuer now accessTTL refreshTTL inlineLimit maxBlobSize maxChunkSize =
     \<lparr>sv_env = E, sv_rand = rand, sv_sha256 = sha, sv_users = us, sv_sessions = ss, sv_authTx = atx,
      sv_hasher = hasher, sv_tokenIssuer = issuer,
      sv_now = (case now of None \<Rightarrow> time_Now E | Some f \<Rightarrow> f),
      sv_accessTTL = accessTTL, sv_refreshTTL = refreshTTL, sv_inlineLimit = inlineLimit,
      sv_maxBlobSize = maxBlobSize, sv_maxChunkSize = maxChunkSize\<rparr>"

definition Service_Limits :: "'o Service \<Rightarrow> Limits" where
  "Service_Limits s =
     \<lparr>lm_InlineThresholdBytes = sv_inlineLimit s, lm_MaxBlobSizeBytes = sv_maxBlobSize s,
      lm_MaxChunkSizeBytes = sv_maxChunkSize s\<rparr>"

text \<open>\<open>deviceID := strings.TrimSpace(in.DeviceID); if deviceID == "" { deviceID = uuid.NewString() }\<close>.\<close>

definition device_or_new :: "'o Service \<Rightarrow> string \<Rightarrow> ('o, string) server" where
  "device_or_new s inDeviceID =
     (let deviceID = TrimSpace inDeviceID in
      if deviceID = [] then uuid_NewString (sv_env s) else ret deviceID)"

definition Service_Register :: "'o Service \<Rightarrow> RegisterInput \<Rightarrow> ('o, RegisterOutput) server" where
  "Service_Register s inp =
     (let login = TrimSpace (ri_Login inp) in
      guard (login = [] \<or> ri_Password inp = []) AuthErrInvalidArgument
     (andthen (ph_Hash (sv_hasher s) (ri_Password inp)) (\<lambda>passwordHash.
      andthen (uuid_NewString (sv_env s)) (\<lambda>userID.
      andthen (device_or_new s (ri_DeviceID inp)) (\<lambda>deviceID.
      andthen (NewRefreshToken (sv_rand s)) (\<lambda>refreshPlain.
      andthen (uuid_NewString (sv_env s)) (\<lambda>tokenID.
      andthen (sv_now s) (\<lambda>now.
      let session = \<lparr>ss_TokenID = tokenID, ss_UserID = userID, ss_DeviceID = deviceID,
            ss_TokenHash = Some (HashToken (sv_sha256 s) refreshPlain), ss_ExpiresAt = now + sv_refreshTTL s\<rparr>;
          user = \<lparr>ur_UserID = userID, ur_Login = login, ur_PasswordHash = Some passwordHash,
            ur_PasswordSalt = ri_PasswordSalt inp, ur_KDFAlgorithm = ri_KDFAlgorithm inp,
            ur_KDFMemoryKiB = ri_KDFMemoryKiB inp, ur_KDFIterations = ri_KDFIterations inp,
            ur_KDFParallelism = ri_KDFParallelism inp, ur_KDFKeyLength = ri_KDFKeyLength inp,
            ur_EncryptedVaultKey = ri_EncryptedVaultKey inp,
            ur_EncryptedVaultKeyNonce = ri_EncryptedVaultKeyNonce inp\<rparr>;
          device = \<lparr>dv_DeviceID = deviceID, dv_UserID = userID, dv_DeviceName = ri_DeviceName inp,
            dv_Platform = ri_Platform inp, dv_ClientVersion = ri_ClientVersion inp\<rparr> in
      andthen (atx_RegisterWithSession (sv_authTx s) user device session) (\<lambda>_.
      andthen (ti_IssueAccessToken (sv_tokenIssuer s) \<lparr>at_UserID = userID, at_DeviceID = deviceID\<rparr> (sv_accessTTL s))
        (\<lambda>accessToken.
      ret \<lparr>ro_UserID = userID, ro_Login = login, ro_DeviceID = deviceID, ro_AccessToken = accessToken,
           ro_RefreshToken = refreshPlain\<rparr>))))))))))"

definition Service_Login :: "'o Service \<Rightarrow> LoginInput \<Rightarrow> ('o, LoginOutput) server" where
  "Service_Login s inp =
     (let login = TrimSpace (li_Login inp) in
      guard (login = [] \<or> li_Password inp = []) AuthErrInvalidArgument
     (andthen (ure_GetByLogin (sv_users s) login) (\<lambda>user.
      guard (ph_Compare (sv_hasher s) (ur_PasswordHash user) (li_Password inp) \<noteq> None) AuthErrUnauthorized
     (andthen (device_or_new s (li_DeviceID inp)) (\<lambda>deviceID.
      andthen (NewRefreshToken (sv_rand s)) (\<lambda>refreshPlain.
      andthen (uuid_NewString (sv_env s)) (\<lambda>tokenID.
      andthen (sv_now s) (\<lambda>now.
      let session = \<lparr>ss_TokenID = tokenID, ss_UserID = ur_UserID user, ss_DeviceID = deviceID,
            ss_TokenHash = Some (HashToken (sv_sha256 s) refreshPlain), ss_ExpiresAt = now + sv_refreshTTL s\<rparr>;
          device = \<lparr>dv_DeviceID = deviceID, dv_UserID = ur_UserID user, dv_DeviceName = li_DeviceName inp,
            dv_Platform = li_Platform inp, dv_ClientVersion = li_ClientVersion inp\<rparr> in
      andthen (atx_LoginWithDeviceAndSession (sv_authTx s) device session) (\<lambda>_.
      andthen (ti_IssueAccessToken (sv_tokenIssuer s)
          \<lparr>at_UserID = ur_UserID user, at_DeviceID = deviceID\<rparr> (sv_accessTTL s)) (\<lambda>accessToken.
      ret \<lparr>lo_UserID = ur_UserID user, lo_Login = ur_Login user, lo_DeviceID = deviceID,
           lo_AccessToken = accessToken, lo_RefreshToken = refreshPlain, lo_PasswordSalt = ur_PasswordSalt user,
           lo_KDFAlgorithm = ur_KDFAlgorithm user, lo_KDFMemoryKiB = ur_KDFMemoryKiB user,
           lo_KDFIterations = ur_KDFIterations user, lo_KDFParallelism = ur_KDFParallelism user,
           lo_KDFKeyLength = ur_KDFKeyLength user, lo_EncryptedVaultKey = ur_EncryptedVaultKey user,
           lo_EncryptedVaultKeyNonce = ur_EncryptedVaultKeyNonce user\<rparr>))))))))))"

definition Service_Refresh :: "'o Service \<Rightarrow> RefreshInput \<Rightarrow> ('o, RefreshOutput) server" where
  "Service_Refresh s inp =
     guard (TrimSpace (fi_RefreshToken inp) = [] \<or> TrimSpace (fi_DeviceID inp) = []) AuthErrInvalidArgument
     (andthen (sv_now s) (\<lambda>now.
      let oldHash = HashToken (sv_sha256 s) (fi_RefreshToken inp) in
      andthen (NewRefreshToken (sv_rand s)) (\<lambda>refreshPlain.
      andthen (uuid_NewString (sv_env s)) (\<lambda>tokenID.
      let newSession = \<lparr>ss_TokenID = tokenID, ss_UserID = [], ss_DeviceID = TrimSpace (fi_DeviceID inp),
            ss_TokenHash = Some (HashToken (sv_sha256 s) refreshPlain), ss_ExpiresAt = now + sv_refreshTTL s\<rparr> in
      andthen (sre_RotateRefresh (sv_sessions s) oldHash (ss_DeviceID newSession) now newSession) (\<lambda>newSession'.
      andthen (ti_IssueAccessToken (sv_tokenIssuer s)
          \<lparr>at_UserID = ss_UserID newSession', at_DeviceID = ss_DeviceID newSession'\<rparr> (sv_accessTTL s)) (\<lambda>accessToken.
      ret \<lparr>fo_AccessToken = accessToken, fo_RefreshToken = refreshPlain\<rparr>))))))"

definition Service_Logout :: "'o Service \<Rightarrow> string \<Rightarrow> ('o, unit) server" where
  "Service_Logout s refreshToken =
     guard (TrimSpace refreshToken = []) AuthErrInvalidArgument
     (handle (sre_RevokeByHash (sv_sessions s) (HashToken (sv_sha256 s) refreshToken))
       (\<lambda>e. if e \<noteq> AuthErrUnauthorized then throw e else ret ())
       ret)"

subsection \<open>Fresh tokens\<close>

lemma b64_char_graphic: "is_graphic (b64_char n)"
proof -
  have "list_all is_graphic b64_alphabet" by (simp add: b64_alphabet_def is_graphic_def)
  moreover have "n mod 64 < length b64_alphabet" by (simp add: b64_alphabet_def)
  ultimately show ?thesis unfolding b64_char_def list_all_length by blast
qed

lemma RawURLEncoding_graphic: "list_all is_graphic (RawURLEncoding bs)"
  by (induction bs rule: RawURLEncoding.induct) (simp_all add: Let_def b64_char_graphic)

lemma RawURLEncoding_empty [simp]: "RawURLEncoding bs = [] \<longleftrightarrow> bs = []"
  by (cases bs rule: RawURLEncoding.cases) (simp_all add: Let_def)

text \<open>A generated token is never blank, so Refresh and Logout accept it.\<close>

lemma fresh_token_accepted: "bs \<noteq> [] \<Longrightarrow> TrimSpace (RawURLEncoding bs) \<noteq> []"
  by (simp add: TrimSpace_graphic [OF RawURLEncoding_graphic])

subsection \<open>The contract of the stores\<close>

text \<open>
  What the service needs of its stores to keep an invariant of the world: the tokens it stores are
  always issued to the owner of the device named in the same call.
\<close>

definition issued_to :: "Device \<Rightarrow> Session \<Rightarrow> bool" where
  "issued_to v s \<longleftrightarrow> ss_UserID s = dv_UserID v \<and> ss_DeviceID s = dv_DeviceID v"

locale auth_stores =
  fixes svc :: "'o Service" and I :: "'o world \<Rightarrow> bool"
  assumes ids: "keeps I (uuid_NewString (sv_env svc))" and fresh: "keeps I (NewRefreshToken (sv_rand svc))"
    and clock: "keeps I (sv_now svc)" and hash: "keeps I (ph_Hash (sv_hasher svc) p)"
    and issue: "keeps I (ti_IssueAccessToken (sv_tokenIssuer svc) claims ttl)"
    and get_user: "keeps I (ure_GetByLogin (sv_users svc) login)"
    and register: "issued_to v s \<Longrightarrow> dv_UserID v = ur_UserID u \<Longrightarrow> keeps I (atx_RegisterWithSession (sv_authTx svc) u v s)"
    and login: "issued_to v s \<Longrightarrow> keeps I (atx_LoginWithDeviceAndSession (sv_authTx svc) v s)"
    and revoke: "keeps I (sre_RevokeByHash (sv_sessions svc) h)"
    and rotate: "keeps I (sre_RotateRefresh (sv_sessions svc) h i now s)"
begin

lemmas store_ops = ids fresh clock hash issue get_user revoke rotate

lemma keeps_device: "keeps I (device_or_new svc i)"
  unfolding device_or_new_def Let_def by (intro keeps_intros store_ops)

lemma keeps_Register: "keeps I (Service_Register svc inp)"
  unfolding Service_Register_def Let_def
  by (intro keeps_intros store_ops keeps_device register) (simp_all add: issued_to_def)

lemma keeps_Login: "keeps I (Service_Login svc inp)"
  unfolding Service_Login_def Let_def
  by (intro keeps_intros store_ops keeps_device login) (simp_all add: issued_to_def)

lemma keeps_Refresh: "keeps I (Service_Refresh svc inp)"
  unfolding Service_Refresh_def Let_def by (intro keeps_intros store_ops)

lemma keeps_Logout: "keeps I (Service_Logout svc t)"
  unfolding Service_Logout_def by (intro keeps_intros store_ops)

lemmas keeps_service = keeps_Register keeps_Login keeps_Refresh keeps_Logout

end

end
