(* ===== verification/AuthHandler.thy ===== *)
theory AuthHandler
  imports AuthService
begin

section \<open>Authentication and device RPCs (\<open>internal/server/grpcserver\<close>)\<close>

text \<open>
  \<open>auth_handler.go\<close>, \<open>device_handler.go\<close>, \<open>device_platform.go\<close> and the access token check of
  \<open>interceptor_auth.go\<close>. Conversions between Go integer types are written out: \<open>int32(x)\<close> of a
  uint32 reads the same 32 bits as a signed number, \<open>uint32(x)\<close> reads them back, \<open>int16(x)\<close> keeps the
  low 16 bits. A stream context and a unary context carry the same values, so both interceptors act
  on an \<open>auth_context\<close> and the incoming metadata. The service behind the handler is the interface
  \<open>AuthService\<close> of \<open>server.go\<close>.
\<close>

subsection \<open>Messages\<close>

record KdfParams =
  kp_Algorithm :: string
  kp_MemoryKib :: u32
  kp_Iterations :: u32
  kp_Parallelism :: u32
  kp_KeyLength :: u32

record DeviceInfo =
  di_DeviceId :: string
  di_DeviceName :: string
  di_Platform :: int
  di_ClientVersion :: string

record RegisterRequest =
  rq_Login :: string
  rq_Password :: string
  rq_PasswordSalt :: "bytes option"
  rq_KdfParams :: "KdfParams option"
  rq_EncryptedVaultKey :: "bytes option"
  rq_EncryptedVaultKeyNonce :: "bytes option"
  rq_Device :: "DeviceInfo option"

record UserInfo =
  ui_UserId :: string
  ui_Login :: string

record RegisterResponse =
  rr_User :: "UserInfo option"
  rr_DeviceId :: string
  rr_AccessToken :: string
  rr_RefreshToken :: string
  rr_Limits :: Limits

record LoginRequest =
  lq_Login :: string
  lq_Password :: string
  lq_Device :: "DeviceInfo option"

record LoginResponse =
  lr_User :: "UserInfo option"
  lr_DeviceId :: string
  lr_AccessToken :: string
  lr_RefreshToken :: string
  lr_PasswordSalt :: "bytes option"
  lr_KdfParams :: KdfParams
  lr_EncryptedVaultKey :: "bytes option"
  lr_EncryptedVaultKeyNonce :: "bytes option"
  lr_Limits :: Limits

record RefreshRequest =
  fq_RefreshToken :: string
  fq_DeviceId :: string

record RefreshResponse =
  fr_AccessToken :: string
  fr_RefreshToken :: string

text \<open>The generated getters: a nil message reads as the default.\<close>

definition kdf_of :: "KdfParams option \<Rightarrow> KdfParams" where
  "kdf_of k = (case k of None \<Rightarrow> \<lparr>kp_Algorithm = [], kp_MemoryKib = 0, kp_Iterations = 0, kp_Parallelism = 0,
     kp_KeyLength = 0\<rparr> | Some x \<Rightarrow> x)"

definition device_of :: "DeviceInfo option \<Rightarrow> DeviceInfo" where
  "device_of v = (case v of None \<Rightarrow> \<lparr>di_DeviceId = [], di_DeviceName = [], di_Platform = 0, di_ClientVersion = []\<rparr>
     | Some x \<Rightarrow> x)"

subsection \<open>Integer conversions\<close>

definition int32 :: "u32 \<Rightarrow> int" where
  "int32 x = sint x"

definition uint32 :: "int \<Rightarrow> u32" where
  "uint32 x = word_of_int x"

definition int16 :: "int \<Rightarrow> int" where
  "int16 x = signed_take_bit 15 x"

lemma uint32_int32 [simp]: "uint32 (int32 x) = x"
  by (simp add: uint32_def int32_def)

subsection \<open>AuthService\<close>

record 'o AuthService =
  as_Register :: "RegisterInput \<Rightarrow> ('o, RegisterOutput) server"
  as_Login :: "LoginInput \<Rightarrow> ('o, LoginOutput) server"
  as_Refresh :: "RefreshInput \<Rightarrow> ('o, RefreshOutput) server"
  as_Logout :: "string \<Rightarrow> ('o, unit) server"
  as_Limits :: Limits

definition toStatusError :: "go_error \<Rightarrow> go_error" where
  "toStatusError e =
     (if e = AuthErrInvalidArgument then status InvalidArgument ''invalid argument''
      else if e = AuthErrAlreadyExists then status AlreadyExists ''already exists''
      else if e = AuthErrUnauthorized then status Unauthenticated ''unauthorized''
      else status Internal ''internal error'')"

definition register_input :: "RegisterRequest \<Rightarrow> RegisterInput" where
  "register_input req =
     (let kdf = kdf_of (rq_KdfParams req); dev = device_of (rq_Device req) in
      \<lparr>ri_Login = rq_Login req, ri_Password = rq_Password req, ri_PasswordSalt = rq_PasswordSalt req,
       ri_KDFAlgorithm = kp_Algorithm kdf, ri_KDFMemoryKiB = int32 (kp_MemoryKib kdf),
       ri_KDFIterations = int32 (kp_Iterations kdf), ri_KDFParallelism = int32 (kp_Parallelism kdf),
       ri_KDFKeyLength = int32 (kp_KeyLength kdf), ri_EncryptedVaultKey = rq_EncryptedVaultKey req,
       ri_EncryptedVaultKeyNonce = rq_EncryptedVaultKeyNonce req, ri_DeviceID = di_DeviceId dev,
       ri_DeviceName = di_DeviceName dev, ri_Platform = int16 (di_Platform dev),
       ri_ClientVersion = di_ClientVersion dev\<rparr>)"

definition authHandler_Register :: "'o AuthService \<Rightarrow> RegisterRequest \<Rightarrow> ('o, RegisterResponse) server" where
  "authHandler_Register svc req =
     handle (as_Register svc (register_input req))
       (\<lambda>e. throw (toStatusError e))
       (\<lambda>out. ret \<lparr>rr_User = Some \<lparr>ui_UserId = ro_UserID out, ui_Login = ro_Login out\<rparr>,
          rr_DeviceId = ro_DeviceID out, rr_AccessToken = ro_AccessToken out,
          rr_RefreshToken = ro_RefreshToken out, rr_Limits = as_Limits svc\<rparr>)"

definition login_input :: "LoginRequest \<Rightarrow> LoginInput" where
  "login_input req =
     (let dev = device_of (lq_Device req) in
      \<lparr>li_Login = lq_Login req, li_Password = lq_Password req, li_DeviceID = di_DeviceId dev,
       li_DeviceName = di_DeviceName dev, li_Platform = int16 (di_Platform dev),
       li_ClientVersion = di_ClientVersion dev\<rparr>)"

definition authHandler_Login :: "'o AuthService \<Rightarrow> LoginRequest \<Rightarrow> ('o, LoginResponse) server" where
  "authHandler_Login svc req =
     handle (as_Login svc (login_input req))
       (\<lambda>e. throw (toStatusError e))
       (\<lambda>out. ret \<lparr>lr_User = Some \<lparr>ui_UserId = lo_UserID out, ui_Login = lo_Login out\<rparr>,
          lr_DeviceId = lo_DeviceID out, lr_AccessToken = lo_AccessToken out,
          lr_RefreshToken = lo_RefreshToken out, lr_PasswordSalt = lo_PasswordSalt out,
          lr_KdfParams = \<lparr>kp_Algorithm = lo_KDFAlgorithm out, kp_MemoryKib = uint32 (lo_KDFMemoryKiB out),
            kp_Iterations = uint32 (lo_KDFIterations out), kp_Parallelism = uint32 (lo_KDFParallelism out),
            kp_KeyLength = uint32 (lo_KDFKeyLength out)\<rparr>,
          lr_EncryptedVaultKey = lo_EncryptedVaultKey out,
          lr_EncryptedVaultKeyNonce = lo_EncryptedVaultKeyNonce out, lr_Limits = as_Limits svc\<rparr>)"

definition authHandler_Refresh :: "'o AuthService \<Rightarrow> RefreshRequest \<Rightarrow> ('o, RefreshResponse) server" where
  "authHandler_Refresh svc req =
     handle (as_Refresh svc \<lparr>fi_RefreshToken = fq_RefreshToken req, fi_DeviceID = fq_DeviceId req\<rparr>)
       (\<lambda>e. throw (toStatusError e))
       (\<lambda>out. ret \<lparr>fr_AccessToken = fo_AccessToken out, fr_RefreshToken = fo_RefreshToken out\<rparr>)"

definition authHandler_Logout :: "'o AuthService \<Rightarrow> string \<Rightarrow> ('o, bool) server" where
  "authHandler_Logout svc refreshToken =
     handle (as_Logout svc refreshToken) (\<lambda>e. throw (toStatusError e)) (\<lambda>_. ret True)"

subsection \<open>DeviceService\<close>

datatype DevicePlatform = DEVICE_PLATFORM_UNSPECIFIED | DEVICE_PLATFORM_LINUX | DEVICE_PLATFORM_WINDOWS
  | DEVICE_PLATFORM_MACOS

definition protoDevicePlatform :: "int \<Rightarrow> DevicePlatform" where
  "protoDevicePlatform p =
     (if p = 1 then DEVICE_PLATFORM_LINUX
      else if p = 2 then DEVICE_PLATFORM_WINDOWS
      else if p = 3 then DEVICE_PLATFORM_MACOS
      else DEVICE_PLATFORM_UNSPECIFIED)"

record ProtoDevice =
  pd_DeviceId :: string
  pd_UserId :: string
  pd_DeviceName :: string
  pd_Platform :: DevicePlatform
  pd_ClientVersion :: string
  pd_CreatedAt :: time
  pd_LastSeenAt :: time
  pd_RevokedAt :: "time option"

definition deviceRecordToProto :: "DeviceRecord \<Rightarrow> ProtoDevice" where
  "deviceRecordToProto r =
     \<lparr>pd_DeviceId = dr_DeviceID r, pd_UserId = dr_UserID r, pd_DeviceName = dr_DeviceName r,
      pd_Platform = protoDevicePlatform (dr_Platform r), pd_ClientVersion = dr_ClientVersion r,
      pd_CreatedAt = dr_CreatedAt r, pd_LastSeenAt = dr_LastSeenAt r, pd_RevokedAt = dr_RevokedAt r\<rparr>"

definition ListDevices :: "'o world DeviceAdmin \<Rightarrow> auth_context \<Rightarrow> ('o, ProtoDevice list) server" where
  "ListDevices devs ctx =
     with_user ctx (\<lambda>userID.
     handle (dad_ListDevicesByUser devs userID)
       (\<lambda>_. throw (status Internal ''devices: internal error''))
       (\<lambda>rows. ret (map deviceRecordToProto rows)))"

definition RevokeDevice :: "'o world DeviceAdmin \<Rightarrow> auth_context \<Rightarrow> string option \<Rightarrow> ('o, bool) server" where
  "RevokeDevice devs ctx req =
     with_user ctx (\<lambda>userID.
     case req of
       None \<Rightarrow> throw (status InvalidArgument ''device_id is required'')
     | Some reqDeviceID \<Rightarrow>
         guard (TrimSpace reqDeviceID = []) (status InvalidArgument ''device_id is required'')
        (let deviceID = TrimSpace reqDeviceID in
         handle (dad_RevokeDeviceForUser devs userID deviceID)
           (\<lambda>e. if e = AuthErrDeviceNotFound then throw (status NotFound ''device not found'')
                else throw (status Internal ''devices: internal error''))
           (\<lambda>_. ret True)))"

subsection \<open>The access token check\<close>

definition publicMethods :: "string list" where
  "publicMethods =
     [''/gophkeeper.v1.AuthService/Register'', ''/gophkeeper.v1.AuthService/Login'',
      ''/gophkeeper.v1.AuthService/Refresh'', ''/gophkeeper.v1.HealthService/Check'',
      ''/grpc.health.v1.Health/Check'']"

text \<open>Incoming metadata: \<open>None\<close> when the context has none, else the values of each (lower case) key.\<close>

type_synonym metadata = "(string \<times> string list) list option"

definition md_Get :: "(string \<times> string list) list \<Rightarrow> string \<Rightarrow> string list" where
  "md_Get md k = (case map_of md k of None \<Rightarrow> [] | Some vs \<Rightarrow> vs)"

definition bearerTokenFromMetadata :: "metadata \<Rightarrow> go_error + string" where
  "bearerTokenFromMetadata md_opt =
     (case md_opt of
        None \<Rightarrow> Inl (ErrOther ''metadata is missing'')
      | Some md \<Rightarrow>
          (case md_Get md ''authorization'' of
             [] \<Rightarrow> Inl (ErrOther ''authorization header is missing'')
           | v # _ \<Rightarrow>
               (let raw = TrimSpace v in
                if raw = [] then Inl (ErrOther ''authorization header is empty'')
                else if take 7 (ToLower raw) \<noteq> ''bearer '' then Inl (ErrOther ''authorization scheme is not bearer'')
                else let token = TrimSpace (drop 7 raw) in
                  if token = [] then Inl (ErrOther ''bearer token is empty'') else Inr token)))"

text \<open>The type assertion \<open>v, _ := mapClaims[k].(string)\<close>.\<close>

definition claim_string :: "map_claims \<Rightarrow> string \<Rightarrow> string" where
  "claim_string cs k = (case map_of cs k of Some (ClaimString s) \<Rightarrow> s | _ \<Rightarrow> [])"

definition key_for :: "bytes \<Rightarrow> string \<Rightarrow> go_error + bytes" where
  "key_for secret alg = (if alg \<noteq> ''HS256'' then Inl (ErrOther ''unexpected signing method: %s'') else Inr secret)"

definition parseAccessToken :: "jwt_lib \<Rightarrow> time \<Rightarrow> string \<Rightarrow> bytes \<Rightarrow> go_error + AccessTokenClaims" where
  "parseAccessToken J now token secret =
     (case jwt_Parse J now token (key_for secret) of
        Inl _ \<Rightarrow> Inl (ErrOther ''token invalid'')
      | Inr parsed \<Rightarrow>
          if \<not> jt_Valid parsed then Inl (ErrOther ''token invalid'')
          else (case jt_Claims parsed of
              OtherClaims \<Rightarrow> Inl (ErrOther ''claims type is invalid'')
            | MapClaims cs \<Rightarrow>
                (let userID = claim_string cs ''sub''; deviceID = claim_string cs ''device_id'' in
                 if TrimSpace userID = [] \<or> TrimSpace deviceID = []
                 then Inl (ErrOther ''required claims are missing'')
                 else Inr \<lparr>at_UserID = userID, at_DeviceID = deviceID\<rparr>)))"

definition newAuthUnaryInterceptor ::
  "env \<Rightarrow> jwt_lib \<Rightarrow> string \<Rightarrow> string \<Rightarrow> metadata \<Rightarrow> auth_context \<Rightarrow> (auth_context \<Rightarrow> ('o, 'a) server) \<Rightarrow> ('o, 'a) server"
  where
  "newAuthUnaryInterceptor E J secret fullMethod md ctx handler =
     (if fullMethod \<in> set publicMethods then handler ctx
      else case bearerTokenFromMetadata md of
        Inl _ \<Rightarrow> throw (status Unauthenticated ''missing or invalid authorization metadata'')
      | Inr token \<Rightarrow>
          andthen (time_Now E) (\<lambda>now.
          case parseAccessToken J now token (string_bytes secret) of
            Inl _ \<Rightarrow> throw (status Unauthenticated ''invalid access token'')
          | Inr claims \<Rightarrow> handler (WithAuthContext ctx (at_UserID claims) (at_DeviceID claims))))"

text \<open>The stream interceptor: the same check; the handler sees the stream with the extended context.\<close>

definition newAuthStreamInterceptor ::
  "env \<Rightarrow> jwt_lib \<Rightarrow> string \<Rightarrow> string \<Rightarrow> metadata \<Rightarrow> auth_context \<Rightarrow> 's \<Rightarrow> (auth_context \<Rightarrow> 's \<Rightarrow> ('o, 'a) server) \<Rightarrow> ('o, 'a) server"
  where
  "newAuthStreamInterceptor E J secret fullMethod md ctx ss handler =
     (if fullMethod \<in> set publicMethods then handler ctx ss
      else case bearerTokenFromMetadata md of
        Inl _ \<Rightarrow> throw (status Unauthenticated ''missing or invalid authorization metadata'')
      | Inr token \<Rightarrow>
          andthen (time_Now E) (\<lambda>now.
          case parseAccessToken J now token (string_bytes secret) of
            Inl _ \<Rightarrow> throw (status Unauthenticated ''invalid access token'')
          | Inr claims \<Rightarrow> handler (WithAuthContext ctx (at_UserID claims) (at_DeviceID claims)) ss))"

subsection \<open>The server's own wiring\<close>

text \<open>\<open>run.go\<close>: the service on PostgreSQL, bcrypt at the default cost, one secret for signing and checking.\<close>

definition AuthService_of :: "'o Service \<Rightarrow> 'o AuthService" where
  "AuthService_of s =
     \<lparr>as_Register = Service_Register s, as_Login = Service_Login s, as_Refresh = Service_Refresh s,
      as_Logout = Service_Logout s, as_Limits = Service_Limits s\<rparr>"

definition seconds_duration :: "int \<Rightarrow> int" where
  "seconds_duration n = sint (word_of_int n * 1000000000 :: u64) div 1000"

text \<open>The packages outside the repository, together.\<close>

record auth_libs =
  al_rand :: "nat \<Rightarrow> go_error + bytes"
  al_sha256 :: "bytes \<Rightarrow> bytes"
  al_bcrypt :: bcrypt_lib
  al_jwt :: jwt_lib

definition pg_auth_service :: "env \<Rightarrow> auth_libs \<Rightarrow> Config \<Rightarrow> 'o Service" where
  "pg_auth_service E L cfg =
     NewService E (al_rand L) (al_sha256 L) (AuthRepositories_users E) (sessionRepoAdapter E)
       (AuthRepositories_authTx E) (BcryptHasher (al_bcrypt L) 0)
       \<lparr>ti_IssueAccessToken = IssueAccessToken (al_jwt L) (NewJWTIssuer E (cf_JWTSecret cfg) (Some (time_Now E)))\<rparr>
       (Some (time_Now E)) (seconds_duration (cf_AccessTTLSec cfg)) (seconds_duration (cf_RefreshTTLSec cfg))
       (cf_InlineThresholdBytes cfg) (cf_MaxBlobSizeBytes cfg) (cf_MaxChunkSizeBytes cfg)"

definition pg_auth :: "env \<Rightarrow> auth_libs \<Rightarrow> Config \<Rightarrow> 'o AuthService" where
  "pg_auth E L cfg = AuthService_of (pg_auth_service E L cfg)"

lemma pg_auth_sel [simp]:
  "sv_env (pg_auth_service E L cfg) = E" "sv_rand (pg_auth_service E L cfg) = al_rand L"
  "sv_sha256 (pg_auth_service E L cfg) = al_sha256 L" "sv_now (pg_auth_service E L cfg) = time_Now E"
  "ure_GetByLogin (sv_users (pg_auth_service E L cfg)) = GetByLogin E"
  "sre_RevokeByHash (sv_sessions (pg_auth_service E L cfg)) = RevokeByHash E"
  "sre_RotateRefresh (sv_sessions (pg_auth_service E L cfg)) = RotateRefresh E"
  "atx_RegisterWithSession (sv_authTx (pg_auth_service E L cfg)) = RegisterWithSession E"
  "atx_LoginWithDeviceAndSession (sv_authTx (pg_auth_service E L cfg)) = LoginWithDeviceAndSession E"
  "ph_Hash (sv_hasher (pg_auth_service E L cfg)) = BcryptHasher_Hash (al_bcrypt L) 0"
  "ph_Compare (sv_hasher (pg_auth_service E L cfg)) = BcryptHasher_Compare (al_bcrypt L)"
  "ti_IssueAccessToken (sv_tokenIssuer (pg_auth_service E L cfg)) =
     IssueAccessToken (al_jwt L) \<lparr>ji_secret = string_bytes (cf_JWTSecret cfg), ji_now = time_Now E\<rparr>"
  "sv_accessTTL (pg_auth_service E L cfg) = seconds_duration (cf_AccessTTLSec cfg)"
  "sv_refreshTTL (pg_auth_service E L cfg) = seconds_duration (cf_RefreshTTLSec cfg)"
  by (simp_all add: pg_auth_service_def NewService_def AuthRepositories_users_def sessionRepoAdapter_def
      AuthRepositories_authTx_def BcryptHasher_def NewJWTIssuer_def)

lemma pg_auth_rpc [simp]:
  "as_Register (pg_auth E L cfg) = Service_Register (pg_auth_service E L cfg)"
  "as_Login (pg_auth E L cfg) = Service_Login (pg_auth_service E L cfg)"
  "as_Refresh (pg_auth E L cfg) = Service_Refresh (pg_auth_service E L cfg)"
  "as_Logout (pg_auth E L cfg) = Service_Logout (pg_auth_service E L cfg)"
  by (simp_all add: pg_auth_def AuthService_of_def)

end
