(* ===== verification/RpcErrors.thy ===== *)
theory RpcErrors
  imports VaultHandlerProps AuthHandler
begin

section \<open>Errors that leave the server\<close>

text \<open>
  Which errors a unary RPC can answer with. Errors of the database driver, of the object store and of
  the domain packages stay inside: a client sees gRPC statuses only.
\<close>

named_theorems status_intros \<open>programs whose errors are gRPC statuses\<close>

definition is_status :: "go_error \<Rightarrow> bool" where
  "is_status e = (case e of Status _ _ _ \<Rightarrow> True | _ \<Rightarrow> False)"

definition only_status :: "('w, go_error, 'a) prog \<Rightarrow> bool" where
  "only_status m \<longleftrightarrow> (\<forall>w e w'. m w = (Inl e, w') \<longrightarrow> is_status e)"

lemma is_status_intros [simp]: "is_status (status c m)" "is_status (statusf c m as)" "is_status (toVaultStatusError e)"
  "is_status (mapPushEngineError oid e)" "is_status (commit_error e)" "is_status (toStatusError e)"
  by (simp_all add: toStatusError_def is_status_def status_def statusf_def toVaultStatusError_def mapPushEngineError_def commit_error_def)

lemma only_status_ret [status_intros]: "only_status (ret x)"
  by (simp add: only_status_def ret_def)

lemma only_status_throw [status_intros]: "is_status e \<Longrightarrow> only_status (throw e)"
  by (simp add: only_status_def throw_def)

lemma only_status_handle [status_intros]:
  "(\<And>e. only_status (h e)) \<Longrightarrow> (\<And>x. only_status (k x)) \<Longrightarrow> only_status (handle m h k)"
  by (auto simp: only_status_def handle_def split: prod.splits sum.splits)

lemma only_status_andthen [status_intros]:
  "only_status m \<Longrightarrow> (\<And>x. only_status (k x)) \<Longrightarrow> only_status (andthen m k)"
  by (auto simp: only_status_def andthen_def handle_def throw_def split: prod.splits sum.splits)

lemma only_status_guard [status_intros]: "is_status e \<Longrightarrow> only_status m \<Longrightarrow> only_status (guard b e m)"
  by (simp add: guard_def only_status_throw)

lemma only_status_ignore [status_intros]: "only_status (ignore m)"
  by (auto simp: ignore_def intro!: status_intros)

lemma only_status_if [status_intros]: "only_status m \<Longrightarrow> only_status n \<Longrightarrow> only_status (if b then m else n)"
  by simp

lemma only_status_option [status_intros]:
  "only_status m \<Longrightarrow> (\<And>x. only_status (k x)) \<Longrightarrow> only_status (case a of None \<Rightarrow> m | Some x \<Rightarrow> k x)"
  by (cases a) simp_all

lemma only_status_sum [status_intros]:
  "(\<And>x. only_status (m x)) \<Longrightarrow> (\<And>x. only_status (k x)) \<Longrightarrow> only_status (case a of Inl x \<Rightarrow> m x | Inr x \<Rightarrow> k x)"
  by (cases a) simp_all

lemma only_status_prod [status_intros]: "(\<And>x y. only_status (k x y)) \<Longrightarrow> only_status (case a of (x, y) \<Rightarrow> k x y)"
  by (cases a) simp

lemma only_status_env [status_intros]: "only_status (time_Now E)" "only_status (uuid_NewString E)"
  by (simp_all add: only_status_def time_Now_def uuid_NewString_def)

lemma only_status_with_user [status_intros]: "(\<And>u. only_status (k u)) \<Longrightarrow> only_status (with_user ctx k)"
  by (auto simp: with_user_def intro!: status_intros)

lemma only_status_resolve [status_intros]:
  "only_status (resolveVaultPayload E sha cfg repo storage (Some (time_Now E)) u p b)"
  unfolding resolveVaultPayload_def spill_blob_def referenced_blob_def Let_def
  by (auto intro!: status_intros split: option.splits)

lemma only_status_summaries: "summaries its = Inl e \<Longrightarrow> is_status e"
  by (induction its) (auto split: if_splits sum.splits)

lemma only_status_push [status_intros]: "only_status (push_loop (pg_sync_handler E sha cfg c bucket) u (Some (time_Now E)) ops acc confl)"
proof -
  have conflict: "only_status (report_conflict h u oid i ev e)" for h :: "'o syncHandler" and oid i ev e
    unfolding report_conflict_def versionConflict_def Let_def by (auto intro!: status_intros split: option.splits)
  have snap: "only_status (snapshot_payload (pg_sync_handler E sha cfg c bucket) u sn)" for sn
    unfolding snapshot_payload_def pg_sync_handler_def by (simp add: only_status_resolve)
  have check: "(\<And>sn ty. only_status (k sn ty)) \<Longrightarrow> only_status (check_snapshot oid m sn k)" for k :: "_ \<Rightarrow> _ \<Rightarrow> ('o, 'b) server" and oid m sn
    unfolding check_snapshot_def by (auto intro!: status_intros split: option.splits)
  have "only_status (applyPendingOperation (pg_sync_handler E sha cfg c bucket) u op (Some (time_Now E)))" for op
    unfolding applyPendingOperation_def pushCreate_def pushUpdate_def pushDelete_def Let_def
    by (auto intro!: status_intros conflict snap check split: PendingOperationType.splits)
  then show ?thesis
    by (induction ops arbitrary: acc confl) (auto intro!: status_intros split: option.splits push_result.splits)
qed

text \<open>
  C33. Only statuses reach clients. Every error answer of the unary RPCs of the vault, the
  synchronisation, the blob, the authentication and the device service, for every request and every
  failure inside, is a gRPC status: no error of the database, the object store or the domain packages
  leaks through.
\<close>

theorem rpc_errors_are_statuses:
  "only_status (CreateItem (pg_vault_handler E sha cfg c bucket) ctx r1) \<and>
   only_status (GetItem (pg_vault_handler E sha cfg c bucket) ctx r2) \<and>
   only_status (ListItems (pg_vault_handler E sha cfg c bucket) ctx r3) \<and>
   only_status (UpdateItem (pg_vault_handler E sha cfg c bucket) ctx r4) \<and>
   only_status (DeleteItem (pg_vault_handler E sha cfg c bucket) ctx r5) \<and>
   only_status (Sync (pg_sync_handler E sha cfg c bucket) ctx r6) \<and>
   only_status (PullChanges (pg_sync_handler E sha cfg c bucket) ctx r7) \<and>
   only_status (PushChanges (pg_sync_handler E sha cfg c bucket) ctx r8) \<and>
   only_status (StartBlobUpload (pg_blob_handler E sha cfg c bucket) ctx r9) \<and>
   only_status (CommitBlobUpload (pg_blob_handler E sha cfg c bucket) ctx r10) \<and>
   only_status (authHandler_Register svc r11) \<and> only_status (authHandler_Login svc r12) \<and>
   only_status (authHandler_Refresh svc r13) \<and> only_status (authHandler_Logout svc r14) \<and>
   only_status (ListDevices devs ctx) \<and> only_status (RevokeDevice devs ctx r15)"
proof (intro conjI)
  show "only_status (CreateItem (pg_vault_handler E sha cfg c bucket) ctx r1)"
    unfolding CreateItem_def by (auto intro!: status_intros split: option.splits)
  show "only_status (GetItem (pg_vault_handler E sha cfg c bucket) ctx r2)"
    unfolding GetItem_def by (auto intro!: status_intros split: option.splits)
  show "only_status (ListItems (pg_vault_handler E sha cfg c bucket) ctx r3)"
    unfolding ListItems_def
    by (auto intro!: only_status_with_user only_status_throw only_status_handle only_status_ret split: option.splits sum.splits)
       (rule only_status_summaries)
  show "only_status (UpdateItem (pg_vault_handler E sha cfg c bucket) ctx r4)"
    unfolding UpdateItem_def by (auto intro!: status_intros split: option.splits)
  show "only_status (DeleteItem (pg_vault_handler E sha cfg c bucket) ctx r5)"
    unfolding DeleteItem_def by (auto intro!: status_intros split: option.splits)
  show "only_status (Sync (pg_sync_handler E sha cfg c bucket) ctx r6)"
    unfolding Sync_def runPushOperations_def by (auto intro!: status_intros split: option.splits)
  show "only_status (PullChanges (pg_sync_handler E sha cfg c bucket) ctx r7)"
    unfolding PullChanges_def Let_def by (auto intro!: status_intros split: option.splits sum.splits)
  show "only_status (PushChanges (pg_sync_handler E sha cfg c bucket) ctx r8)"
    unfolding PushChanges_def runPushOperations_def by (auto intro!: status_intros split: option.splits)
  show "only_status (StartBlobUpload (pg_blob_handler E sha cfg c bucket) ctx r9)"
    unfolding StartBlobUpload_def Let_def by (auto intro!: status_intros split: option.splits)
  show "only_status (CommitBlobUpload (pg_blob_handler E sha cfg c bucket) ctx r10)"
    unfolding CommitBlobUpload_def load_session_def load_blob_def Let_def by (auto intro!: status_intros split: option.splits)
  show "only_status (authHandler_Register svc r11)" "only_status (authHandler_Login svc r12)"
    "only_status (authHandler_Refresh svc r13)" "only_status (authHandler_Logout svc r14)"
    unfolding authHandler_Register_def authHandler_Login_def authHandler_Refresh_def authHandler_Logout_def
    by (intro status_intros is_status_intros)+
  show "only_status (ListDevices devs ctx)" "only_status (RevokeDevice devs ctx r15)"
    unfolding ListDevices_def RevokeDevice_def Let_def by (intro status_intros is_status_intros)+
qed

end
