(* ===== verification/AuthSessions.thy ===== *)
theory AuthSessions
  imports AuthHandler
begin

section \<open>The life of accounts, devices and refresh tokens\<close>

text \<open>
  The PostgreSQL repositories meet the contract \<open>auth_stores\<close> of the service for the invariant
  \<open>auth_from d0\<close>: the tables satisfy \<open>auth_ok\<close> and have moved from \<open>d0\<close> along \<open>auth_later\<close>. Both hold
  under every pattern of database failures. \<open>auth_call\<close> is one call of an authentication or device RPC
  (or of any other part of the server, which leaves the three tables alone); its closure
  \<open>auth_call\<^sup>*\<^sup>*\<close> is everything that can happen to the tables. A hash that is \<open>dead\<close>, i.e. whose token
  has been revoked, stays dead, and the rotation refuses it.
\<close>

definition auth_from :: "database \<Rightarrow> database \<Rightarrow> bool" where
  "auth_from d0 d \<longleftrightarrow> auth_ok d \<and> auth_later d0 d"

lemma auth_from_move: "auth_from d0 d \<Longrightarrow> auth_move d d' \<Longrightarrow> auth_from d0 d'"
  unfolding auth_from_def auth_move_def using auth_later_trans by blast

lemma auth_from_tables: "tables d' = tables d \<Longrightarrow> auth_from d0 d' = auth_from d0 d"
  using auth_tables [of d' d] tables_eqD [of d' d] by (simp add: auth_from_def)

lemma keeps_auth_stmt:
  assumes "\<And>t d. auth_move d (snd (f t d))"
  shows "keeps (\<lambda>w. auth_from d0 (db w)) (stmt E f)"
  using assms auth_from_move by (intro keeps_stmt) (metis snd_conv)

lemma keeps_auth_tx:
  fixes body :: "('o, 'a) server"
  assumes "\<And>w x w'. auth_from d0 (db w) \<Longrightarrow> body w = (Inr x, w') \<Longrightarrow> auth_from d0 (db w')"
  shows "keeps (\<lambda>w. auth_from d0 (db w)) (in_tx E body)"
  unfolding keeps_def
proof (intro allI impI)
  fix w :: "'o world" assume w: "auth_from d0 (db w)"
  obtain r and w' :: "'o world" where run: "in_tx E body w = (r, w')" by fastforce
  then have "auth_from d0 (db w')"
  proof (cases rule: in_tx_cases)
    case (rolled_back e)
    with w show ?thesis using auth_from_tables [of "db w'" "db w" d0] by blast
  next
    case (committed x w1 w2)
    with w assms [of w1 x w2] show ?thesis by simp
  qed
  with run show "auth_from d0 (db (snd (in_tx E body w)))" by simp
qed

subsection \<open>Successful store calls\<close>

lemma insertUser_ok:
  assumes "insertUser E u w = (Inr x, w')"
  shows "users (db w') = users (db w) @ [u]" "devices (db w') = devices (db w)"
    "refresh_tokens (db w') = refresh_tokens (db w)" "auth_move (db w) (db w')"
proof -
  from assms have "stmt E (sql_insert_user u) w = (Inr x, w')"
    unfolding insertUser_def by (auto simp: handle_def ret_def throw_def split: prod.splits sum.splits if_splits)
  note d = stmt_ok_db [OF this]
  from d(1) show "users (db w') = users (db w) @ [u]" "devices (db w') = devices (db w)"
    "refresh_tokens (db w') = refresh_tokens (db w)"
    by (auto simp: d(2) sql_insert_user_def split: if_splits)
  show "auth_move (db w) (db w')"
    using auth_move_insert_user by (simp add: d(2))
qed

lemma upsertDevice_ok:
  assumes "upsertDevice E v w = (Inr x, w')"
  shows "list_ex (device_key (dv_UserID v) (dv_DeviceID v)) (devices (db w'))" "users (db w') = users (db w)"
    "refresh_tokens (db w') = refresh_tokens (db w)" "auth_move (db w) (db w')"
    "has_device (db w) (dv_DeviceID v) \<Longrightarrow> list_ex (device_key (dv_UserID v) (dv_DeviceID v)) (devices (db w))"
    "\<exists>r \<in> set (devices (db w')). device_key (dv_UserID v) (dv_DeviceID v) r \<and> dr_RevokedAt r = None"
proof -
  from assms obtain n where "stmt E (sql_upsert_device v) w = (Inr n, w')" and n: "n \<noteq> 0"
    unfolding upsertDevice_def by (elim andthen_okE guard_okE) (auto simp: ret_def)
  note d = stmt_ok_db [OF this(1)]
  let ?P = "device_key (dv_UserID v) (dv_DeviceID v)"
  have seen: "?P (seen_device v t r) = ?P r" for t r by (simp add: device_key_def seen_device_def)
  have ex: "list_ex ?P (upd_where ?P (seen_device v t) ds) = list_ex ?P ds" for t ds
    by (rule list_ex_upd_where) (rule seen)
  from d(1) n show *: "has_device (db w) (dv_DeviceID v) \<Longrightarrow> list_ex ?P (devices (db w))"
    by (auto simp: d(2) sql_upsert_device_def Let_def list_ex_iff split: if_splits)
  from d(1) * show "list_ex ?P (devices (db w'))"
    by (auto simp: d(2) sql_upsert_device_def Let_def ex new_device_def device_key_def split: if_splits)
  from d(1) show "users (db w') = users (db w)" "refresh_tokens (db w') = refresh_tokens (db w)"
    by (auto simp: d(2) sql_upsert_device_def Let_def split: if_splits)
  show "\<exists>r \<in> set (devices (db w')). ?P r \<and> dr_RevokedAt r = None"
  proof (cases "has_device (db w) (dv_DeviceID v)")
    case True
    with * obtain r where r: "r \<in> set (devices (db w))" "?P r" by (auto simp: list_ex_iff)
    then have "seen_device v (env_db_clock E (tick w)) r \<in> set (devices (db w'))"
      using True by (force simp: d(2) sql_upsert_device_def Let_def set_upd_where)
    with r show ?thesis by (intro bexI) (simp_all add: seen, simp add: seen_device_def)
  next
    case False
    with d(1) show ?thesis
      by (auto simp: d(2) sql_upsert_device_def new_device_def device_key_def split: if_splits)
  qed
  show "auth_move (db w) (db w')"
    using auth_move_upsert_device by (simp add: d(2))
qed

lemma insertSession_ok:
  assumes "stmt E (sql_insert_token s) w = (Inr x, w')"
  shows "refresh_tokens (db w') = refresh_tokens (db w) @ [new_token s]" "users (db w') = users (db w)"
    "devices (db w') = devices (db w)" "ss_TokenHash s \<notin> rt_TokenHash ` set (refresh_tokens (db w))"
    "list_ex (device_key (ss_UserID s) (ss_DeviceID s)) (devices (db w)) \<Longrightarrow> auth_move (db w) (db w')"
proof -
  note d = stmt_ok_db [OF assms]
  from d(1) show "refresh_tokens (db w') = refresh_tokens (db w) @ [new_token s]" "users (db w') = users (db w)"
    "devices (db w') = devices (db w)" "ss_TokenHash s \<notin> rt_TokenHash ` set (refresh_tokens (db w))"
    by (auto simp: d(2) sql_insert_token_def list_ex_iff split: if_splits)
  show "list_ex (device_key (ss_UserID s) (ss_DeviceID s)) (devices (db w)) \<Longrightarrow> auth_move (db w) (db w')"
    using auth_move_insert_token by (simp add: d(2))
qed

lemma persists_revoked:
  "persists (\<lambda>a b. P a \<longrightarrow> rt_TokenHash b = rt_TokenHash a \<and> rt_RevokedAt b \<noteq> None) rs
     (upd_where (\<lambda>r. P r \<and> rt_RevokedAt r = None) (\<lambda>r. r\<lparr>rt_RevokedAt := Some t\<rparr>) rs)"
  unfolding persists_def set_upd_where
proof (intro ballI)
  fix x assume "x \<in> set rs"
  then have "(if P x \<and> rt_RevokedAt x = None then x\<lparr>rt_RevokedAt := Some t\<rparr> else x) \<in>
      (\<lambda>r. if P r \<and> rt_RevokedAt r = None then r\<lparr>rt_RevokedAt := Some t\<rparr> else r) ` set rs" (is "?y \<in> ?ys")
    by (rule imageI)
  then show "\<exists>y \<in> ?ys. P x \<longrightarrow> rt_TokenHash y = rt_TokenHash x \<and> rt_RevokedAt y \<noteq> None"
    by (rule bexI [rotated]) simp
qed

lemma revoke_tokens_ok:
  assumes "stmt E (sql_revoke_tokens P) w = (Inr n, w')"
  shows "auth_move (db w) (db w')" "devices (db w') = devices (db w)" "users (db w') = users (db w)"
    "\<forall>r \<in> set (refresh_tokens (db w)). P r \<longrightarrow>
       (\<exists>r' \<in> set (refresh_tokens (db w')). rt_TokenHash r' = rt_TokenHash r \<and> rt_RevokedAt r' \<noteq> None)"
    "n = count_where (\<lambda>r. P r \<and> rt_RevokedAt r = None) (refresh_tokens (db w))"
proof -
  note d = stmt_ok_db [OF assms]
  show "auth_move (db w) (db w')"
    using auth_move_revoke_tokens by (simp add: d(2))
  from d(1) show "devices (db w') = devices (db w)" "users (db w') = users (db w)"
    "n = count_where (\<lambda>r. P r \<and> rt_RevokedAt r = None) (refresh_tokens (db w))"
    by (auto simp: d(2) sql_revoke_tokens_def Let_def)
  from d(1) have t: "refresh_tokens (db w') = upd_where (\<lambda>r. P r \<and> rt_RevokedAt r = None)
      (\<lambda>r. r\<lparr>rt_RevokedAt := Some (env_db_clock E (tick w))\<rparr>) (refresh_tokens (db w))"
    by (auto simp: d(2) sql_revoke_tokens_def Let_def)
  have "persists (\<lambda>a b. P a \<longrightarrow> rt_TokenHash b = rt_TokenHash a \<and> rt_RevokedAt b \<noteq> None) (refresh_tokens (db w)) (refresh_tokens (db w'))"
    unfolding t by (rule persists_revoked)
  then show "\<forall>r \<in> set (refresh_tokens (db w)). P r \<longrightarrow>
       (\<exists>r' \<in> set (refresh_tokens (db w')). rt_TokenHash r' = rt_TokenHash r \<and> rt_RevokedAt r' \<noteq> None)"
    by (fastforce simp: persists_def)
qed

subsection \<open>The repositories meet the contract\<close>

lemma keeps_auth_register:
  assumes "issued_to v s"
  shows "keeps (\<lambda>w. auth_from d0 (db w)) (RegisterWithSession E u v s)"
  unfolding RegisterWithSession_def insertSession_def
proof (rule keeps_auth_tx)
  fix w w' :: "'o world" and x
  assume w: "auth_from d0 (db w)"
    and run: "andthen (insertUser E u) (\<lambda>_. andthen (upsertDevice E v) (\<lambda>_. stmt E (sql_insert_token s))) w = (Inr x, w')"
  from run obtain a b w1 w2 where 1: "insertUser E u w = (Inr a, w1)" and 2: "upsertDevice E v w1 = (Inr b, w2)"
    and 3: "stmt E (sql_insert_token s) w2 = (Inr x, w')" by (elim andthen_okE)
  from w insertUser_ok(4) [OF 1] have "auth_from d0 (db w1)" by (rule auth_from_move)
  then have "auth_from d0 (db w2)" using upsertDevice_ok(4) [OF 2] by (rule auth_from_move)
  then show "auth_from d0 (db w')"
    using insertSession_ok(5) [OF 3] upsertDevice_ok(1) [OF 2] assms by (auto simp: issued_to_def intro: auth_from_move)
qed

lemma keeps_auth_login:
  assumes "issued_to v s"
  shows "keeps (\<lambda>w. auth_from d0 (db w)) (LoginWithDeviceAndSession E v s)"
  unfolding LoginWithDeviceAndSession_def insertSession_def
proof (rule keeps_auth_tx)
  fix w w' :: "'o world" and x
  assume w: "auth_from d0 (db w)"
    and run: "andthen (upsertDevice E v) (\<lambda>_. stmt E (sql_insert_token s)) w = (Inr x, w')"
  from run obtain b w2 where 2: "upsertDevice E v w = (Inr b, w2)"
    and 3: "stmt E (sql_insert_token s) w2 = (Inr x, w')" by (elim andthen_okE)
  from w upsertDevice_ok(4) [OF 2] have "auth_from d0 (db w2)" by (rule auth_from_move)
  then show "auth_from d0 (db w')"
    using insertSession_ok(5) [OF 3] upsertDevice_ok(1) [OF 2] assms by (auto simp: issued_to_def intro: auth_from_move)
qed

text \<open>A rotation that commits: the old token was live and acceptable, it is revoked now, the new one
  belongs to its owner and device.\<close>

lemma rotate_body_ok:
  fixes w w' :: "'o world"
  assumes "rotate_body E h i now s w = (Inr s', w')"
  obtains r and w1 w2 :: "'o world" where "r \<in> set (refresh_tokens (db w))" and "rotatable h i now (db w) r"
    and "s' = s\<lparr>ss_UserID := rt_UserID r, ss_DeviceID := rt_DeviceID r\<rparr>" and "db w1 = db w"
    and "stmt E (sql_revoke_tokens (token_hash h)) w1 = (Inr 1, w2)"
    and "stmt E (sql_insert_token s') w2 = (Inr (), w')"
proof -
  from assms obtain p w1 where 1: "stmt E (sql_select_rotatable h i now) w = (Inr p, w1)"
    and rest: "(case p of (userID, devID) \<Rightarrow> andthen (stmt E (sql_revoke_tokens (token_hash h))) (\<lambda>revoked.
       guard (revoked \<noteq> 1) AuthErrUnauthorized
      (let s = s\<lparr>ss_UserID := userID, ss_DeviceID := devID\<rparr> in
       andthen (stmt E (sql_insert_token s)) (\<lambda>_. ret s)))) w1 = (Inr s', w')"
    unfolding rotate_body_def by (elim handle_okE) auto
  note sel = stmt_ok_db [OF 1]
  from sel obtain r where r: "find (rotatable h i now (db w)) (refresh_tokens (db w)) = Some r"
    and p: "p = (rt_UserID r, rt_DeviceID r)" and db: "db w1 = db w"
    by (auto simp: sql_select_rotatable_def split: option.splits)
  from rest obtain n u w2 w3 where 2: "stmt E (sql_revoke_tokens (token_hash h)) w1 = (Inr n, w2)" and n: "\<not> n \<noteq> 1"
    and 3: "stmt E (sql_insert_token (s\<lparr>ss_UserID := rt_UserID r, ss_DeviceID := rt_DeviceID r\<rparr>)) w2 = (Inr u, w3)"
    and "ret (s\<lparr>ss_UserID := rt_UserID r, ss_DeviceID := rt_DeviceID r\<rparr>) w3 = (Inr s' :: go_error + Session, w')"
    unfolding p Let_def prod.case by (elim andthen_okE guard_okE)
  then have "s' = s\<lparr>ss_UserID := rt_UserID r, ss_DeviceID := rt_DeviceID r\<rparr>" and "w3 = w'"
    by (simp_all add: ret_def)
  with that [of r w1 w2] find_SomeD [OF r] db 2 3 n show ?thesis by simp
qed

lemma keeps_auth_rotate: "keeps (\<lambda>w. auth_from d0 (db w)) (RotateRefresh E h i now s)"
  unfolding RotateRefresh_def
proof (rule keeps_auth_tx)
  fix w w' :: "'o world" and s'
  assume w: "auth_from d0 (db w)" and run: "rotate_body E h i now s w = (Inr s', w')"
  from run obtain r and w1 w2 :: "'o world" where r: "rotatable h i now (db w) r"
    and s': "s' = s\<lparr>ss_UserID := rt_UserID r, ss_DeviceID := rt_DeviceID r\<rparr>" and db: "db w1 = db w"
    and 1: "stmt E (sql_revoke_tokens (token_hash h)) w1 = (Inr 1, w2)"
    and 2: "stmt E (sql_insert_token s') w2 = (Inr (), w')" by (rule rotate_body_ok)
  from r have "list_ex (device_key (rt_UserID r) (rt_DeviceID r)) (devices (db w))"
    by (auto simp: rotatable_def list_ex_iff)
  then have own: "list_ex (device_key (ss_UserID s') (ss_DeviceID s')) (devices (db w2))"
    using revoke_tokens_ok(2) [OF 1] by (simp add: s' db)
  have "auth_from d0 (db w2)" using w revoke_tokens_ok(1) [OF 1] by (simp add: db auth_from_move)
  then show "auth_from d0 (db w')" using insertSession_ok(5) [OF 2 own] by (rule auth_from_move)
qed

lemma keeps_auth_read:
  "keeps (\<lambda>w. auth_from d0 (db w)) (GetByLogin E l)" "keeps (\<lambda>w. auth_from d0 (db w)) (ListDevicesByUser E u)"
  unfolding GetByLogin_def ListDevicesByUser_def
  by (intro keeps_intros keeps_auth_stmt; simp add: sql_select_user_def sql_list_devices_def split: option.splits)+

lemma keeps_auth_revoke: "keeps (\<lambda>w. auth_from d0 (db w)) (RevokeByHash E h)"
  unfolding RevokeByHash_def by (intro keeps_intros keeps_auth_stmt auth_move_revoke_tokens)

lemma keeps_auth_revoke_device: "keeps (\<lambda>w. auth_from d0 (db w)) (RevokeDeviceForUser E u i)"
proof -
  have "keeps (\<lambda>w. auth_from d0 (db w)) (revoke_body E u i :: ('o, unit) server)"
    unfolding revoke_body_def
    by (intro keeps_intros keeps_auth_stmt auth_move_revoke_tokens auth_move_revoke_device)
       (simp add: sql_device_exists_def)
  from keepsD [OF this] show ?thesis
    unfolding RevokeDeviceForUser_def by (rule keeps_auth_tx)
qed

lemma keeps_auth_externals [keeps_intros]:
  "keeps (\<lambda>w. I (db w)) (NewRefreshToken rand)" "keeps (\<lambda>w. I (db w)) (BcryptHasher_Hash B c p)"
  "keeps (\<lambda>w. I (db w)) (IssueAccessToken J \<lparr>ji_secret = k, ji_now = time_Now E\<rparr> claims ttl)"
  by (auto simp: keeps_def NewRefreshToken_def BcryptHasher_Hash_def Let_def IssueAccessToken_def andthen_def
      handle_def time_Now_def)

interpretation pg_auth: auth_stores "pg_auth_service E L cfg" "\<lambda>w. auth_from d0 (db w)" for E L cfg d0
  by unfold_locales (simp_all add: keeps_uuid keeps_time_Now keeps_auth_externals keeps_auth_read
      keeps_auth_register keeps_auth_login keeps_auth_revoke keeps_auth_rotate)

subsection \<open>Calls\<close>

inductive auth_call :: "env \<Rightarrow> auth_libs \<Rightarrow> Config \<Rightarrow> 'o world \<Rightarrow> 'o world \<Rightarrow> bool" for E L cfg where
  register: "authHandler_Register (pg_auth E L cfg) req w = (r, w') \<Longrightarrow> auth_call E L cfg w w'"
| login: "authHandler_Login (pg_auth E L cfg) req w = (r, w') \<Longrightarrow> auth_call E L cfg w w'"
| refresh: "authHandler_Refresh (pg_auth E L cfg) req w = (r, w') \<Longrightarrow> auth_call E L cfg w w'"
| logout: "authHandler_Logout (pg_auth E L cfg) t w = (r, w') \<Longrightarrow> auth_call E L cfg w w'"
| list_devices: "ListDevices (AuthRepositories_devices E) ctx w = (r, w') \<Longrightarrow> auth_call E L cfg w w'"
| revoke_device: "RevokeDevice (AuthRepositories_devices E) ctx dev w = (r, w') \<Longrightarrow> auth_call E L cfg w w'"
| elsewhere: "users (db w') = users (db w) \<Longrightarrow> devices (db w') = devices (db w) \<Longrightarrow>
    refresh_tokens (db w') = refresh_tokens (db w) \<Longrightarrow> auth_call E L cfg w w'"

lemma keeps_auth_rpcs:
  "keeps (\<lambda>w. auth_from d0 (db w)) (authHandler_Register (pg_auth E L cfg) r1)"
  "keeps (\<lambda>w. auth_from d0 (db w)) (authHandler_Login (pg_auth E L cfg) r2)"
  "keeps (\<lambda>w. auth_from d0 (db w)) (authHandler_Refresh (pg_auth E L cfg) r3)"
  "keeps (\<lambda>w. auth_from d0 (db w)) (authHandler_Logout (pg_auth E L cfg) r4)"
  "keeps (\<lambda>w. auth_from d0 (db w)) (ListDevices (AuthRepositories_devices E) ctx)"
  "keeps (\<lambda>w. auth_from d0 (db w)) (RevokeDevice (AuthRepositories_devices E) ctx dev)"
  unfolding authHandler_Register_def authHandler_Login_def authHandler_Refresh_def authHandler_Logout_def
    ListDevices_def RevokeDevice_def with_user_def AuthRepositories_devices_def pg_auth_rpc DeviceAdmin.select_convs
  by (intro keeps_handle keeps_throw keeps_ret keeps_if keeps_guard keeps_Let keeps_case_option
      pg_auth.keeps_service keeps_auth_read keeps_auth_revoke_device)+

lemma auth_call_from:
  assumes call: "auth_call E L cfg w w'" and from0: "auth_from d0 (db w)"
  shows "auth_from d0 (db w')"
  using call
proof (cases rule: auth_call.cases)
  case register
  then show ?thesis by (rule keepsD [OF keeps_auth_rpcs(1) from0])
next
  case login
  then show ?thesis by (rule keepsD [OF keeps_auth_rpcs(2) from0])
next
  case refresh
  then show ?thesis by (rule keepsD [OF keeps_auth_rpcs(3) from0])
next
  case logout
  then show ?thesis by (rule keepsD [OF keeps_auth_rpcs(4) from0])
next
  case list_devices
  then show ?thesis by (rule keepsD [OF keeps_auth_rpcs(5) from0])
next
  case revoke_device
  then show ?thesis by (rule keepsD [OF keeps_auth_rpcs(6) from0])
next
  case elsewhere
  then show ?thesis using from0 auth_tables [of "db w'" "db w"] by (simp add: auth_from_def)
qed

lemma auth_calls_from:
  assumes "(auth_call E L cfg)\<^sup>*\<^sup>* w w'" and "auth_ok (db w)"
  shows "auth_from (db w) (db w')"
  using assms(1)
proof (induction rule: rtranclp_induct)
  case base
  with assms(2) show ?case by (simp add: auth_from_def)
next
  case (step y z)
  then show ?case using auth_call_from by blast
qed

subsection \<open>Dead hashes\<close>

definition dead :: "bytes \<Rightarrow> database \<Rightarrow> bool" where
  "dead h d \<longleftrightarrow> (\<exists>r \<in> set (refresh_tokens d). rt_TokenHash r = Some h \<and> rt_RevokedAt r \<noteq> None)"

lemma dead_later: "auth_later d d' \<Longrightarrow> dead h d \<Longrightarrow> dead h d'"
  unfolding auth_later_def persists_def dead_def same_token_def by fastforce

lemma dead_not_rotatable:
  assumes "auth_ok d" and "dead h d" and "r \<in> set (refresh_tokens d)"
  shows "\<not> rotatable h i now d r"
proof
  assume r: "rotatable h i now d r"
  from assms(2) obtain q where q: "q \<in> set (refresh_tokens d)" "rt_TokenHash q = Some h" "rt_RevokedAt q \<noteq> None"
    by (auto simp: dead_def)
  from assms(1) have "distinct (map rt_TokenHash (refresh_tokens d))" by (simp add: auth_ok_def)
  with q r assms(3) have "q = r" by (auto simp: distinct_map rotatable_def token_hash_def inj_on_def)
  with q r show False by (simp add: rotatable_def)
qed

text \<open>The rotation of a dead hash changes nothing and reports an error.\<close>

lemma dead_refused:
  assumes "auth_ok (db w)" and "dead h (db w)" and "RotateRefresh E h i now s w = (r, w')"
  shows "isl r \<and> tables (db w') = tables (db w)"
  using assms(3) unfolding RotateRefresh_def
proof (cases rule: in_tx_cases)
  case (committed s' w1 w2)
  then show ?thesis using assms(1,2) dead_not_rotatable by (metis rotate_body_ok)
qed simp

end
