(* ===== verification/AuthProps.thy ===== *)
theory AuthProps
  imports AuthSessions BlobProps
begin

section \<open>Properties of authentication\<close>

text \<open>
  The properties of accounts, devices, refresh tokens and access tokens, as seen by the callers of the
  RPCs, and a concrete server on which they are instantiated.
\<close>

subsection \<open>Refresh, logout and device revocation\<close>

lemma wp_NewRefreshToken [wp_simps]:
  "wp (NewRefreshToken rand) Q R w =
     (case rand (tick w) of Inl e \<Rightarrow> R e (w\<lparr>tick := Suc (tick w)\<rparr>)
      | Inr b \<Rightarrow> Q (RawURLEncoding b) (w\<lparr>tick := Suc (tick w)\<rparr>))"
  by (simp add: wp_def NewRefreshToken_def split: sum.splits)

lemma wp_Hash [wp_simps]:
  "wp (BcryptHasher_Hash B c p) Q R w =
     (case bc_GenerateFromPassword B (tick w) (string_bytes p) (if c = 0 then bc_DefaultCost B else c) of
        Inl e \<Rightarrow> R e (w\<lparr>tick := Suc (tick w)\<rparr>) | Inr b \<Rightarrow> Q b (w\<lparr>tick := Suc (tick w)\<rparr>))"
  by (simp add: wp_def BcryptHasher_Hash_def Let_def split: sum.splits)

lemma wp_Issue [wp_simps]:
  "wp (IssueAccessToken J \<lparr>ji_secret = k, ji_now = time_Now E\<rparr> claims ttl) Q R w =
     (case jwt_SignedString J ''HS256'' (access_claims claims (env_clock E (tick w)) ttl) k of
        Inl e \<Rightarrow> R e (w\<lparr>tick := Suc (tick w)\<rparr>) | Inr t \<Rightarrow> Q t (w\<lparr>tick := Suc (tick w)\<rparr>))"
  by (simp add: wp_def IssueAccessToken_def andthen_def handle_def time_Now_def split: sum.splits)

lemma wp_dead:
  assumes "auth_ok (db w)" and "dead h (db w)" and "\<And>e w'. tables (db w') = tables (db w) \<Longrightarrow> R e w'"
  shows "wp (RotateRefresh E h i now s) Q R w"
  using dead_refused [OF assms(1,2)] assms(3) by (intro wpI) fastforce+

lemma refresh_dead:
  fixes w :: "'o world"
  assumes "auth_ok (db w)" and "dead (HashToken (al_sha256 L) (fq_RefreshToken req)) (db w)"
  shows "wp (authHandler_Refresh (pg_auth E L cfg) req) (\<lambda>_ _. False) (\<lambda>_ w'. tables (db w') = tables (db w)) w"
  unfolding authHandler_Refresh_def pg_auth_rpc Service_Refresh_def Let_def
  using assms
  by (auto simp: wp_handle wp_guard wp_andthen wp_throw wp_uuid wp_time_Now wp_NewRefreshToken
      split: sum.splits intro!: wp_dead)

lemma wp_RotateRefresh:
  fixes w :: "'o world"
  assumes "\<And>s' (w1 :: 'o world) w2 w3. rotate_body E h i now s w1 = (Inr s', w2) \<Longrightarrow> db w1 = db w \<Longrightarrow> db w3 = db w2 \<Longrightarrow> Q s' w3"
    and "\<And>e w'. R e w'"
  shows "wp (RotateRefresh E h i now s) Q R w"
proof (rule wpI)
  fix x and w3 :: "'o world" assume "RotateRefresh E h i now s w = (Inr x, w3)"
  then show "Q x w3"
    unfolding RotateRefresh_def by (rule in_tx_ok) (rule assms(1), assumption+)
qed (rule assms(2))

lemma refresh_ok:
  fixes w w' :: "'o world"
  assumes "authHandler_Refresh (pg_auth E L cfg) req w = (Inr out, w')"
  obtains s s' and w1 w2 w3 :: "'o world"
  where "rotate_body E (HashToken (al_sha256 L) (fq_RefreshToken req)) (TrimSpace (fq_DeviceId req))
           (env_clock E (tick w)) s w1 = (Inr s', w2)"
    and "db w1 = db w" and "db w' = db w2"
    and "ss_TokenHash s = Some (HashToken (al_sha256 L) (fr_RefreshToken out))"
    and "ss_ExpiresAt s = env_clock E (tick w) + seconds_duration (cf_RefreshTTLSec cfg)"
    and "jwt_SignedString (al_jwt L) ''HS256''
           (access_claims \<lparr>at_UserID = ss_UserID s', at_DeviceID = ss_DeviceID s'\<rparr> (env_clock E (tick w3))
             (seconds_duration (cf_AccessTTLSec cfg))) (string_bytes (cf_JWTSecret cfg)) = Inr (fr_AccessToken out)"
proof -
  let ?h = "HashToken (al_sha256 L) (fq_RefreshToken req)"
  let ?Q = "\<lambda>out w'. \<exists>s s' (w1 :: 'o world) w2 (w3 :: 'o world).
      rotate_body E ?h (TrimSpace (fq_DeviceId req)) (env_clock E (tick w)) s w1 = (Inr s', w2) \<and>
      db w1 = db w \<and> db w' = db w2 \<and> ss_TokenHash s = Some (HashToken (al_sha256 L) (fr_RefreshToken out)) \<and>
      ss_ExpiresAt s = env_clock E (tick w) + seconds_duration (cf_RefreshTTLSec cfg) \<and>
      jwt_SignedString (al_jwt L) ''HS256''
           (access_claims \<lparr>at_UserID = ss_UserID s', at_DeviceID = ss_DeviceID s'\<rparr> (env_clock E (tick w3))
             (seconds_duration (cf_AccessTTLSec cfg))) (string_bytes (cf_JWTSecret cfg)) = Inr (fr_AccessToken out)"
  have "wp (authHandler_Refresh (pg_auth E L cfg) req) ?Q (\<lambda>_ _. True) w"
    unfolding authHandler_Refresh_def pg_auth_rpc Service_Refresh_def Let_def
    by (auto simp: wp_handle wp_guard wp_andthen wp_throw wp_ret wp_uuid wp_time_Now wp_NewRefreshToken
        split: sum.splits intro!: wp_RotateRefresh, simp add: wp_Issue wp_throw wp_ret split: sum.splits) force
  from wp_okD [OF this assms] that show ?thesis by blast
qed

lemma dead_append: "dead h d \<Longrightarrow> refresh_tokens d' = refresh_tokens d @ ts \<Longrightarrow> dead h d'"
  by (auto simp: dead_def)

lemma wp_fails: "wp m (\<lambda>_ _. False) (\<lambda>_. P) w \<Longrightarrow> isl (fst (m w)) \<and> P (snd (m w))"
  by (auto simp: wp_def split: prod.splits sum.splits)

lemma revoke_kills:
  assumes "stmt E (sql_revoke_tokens P) w = (Inr n, w')" and "r \<in> set (refresh_tokens (db w))" and "P r"
    and "rt_TokenHash r = Some h"
  shows "dead h (db w')"
proof -
  from revoke_tokens_ok(4) [OF assms(1)] assms(2,3)
  obtain r' where "r' \<in> set (refresh_tokens (db w'))" "rt_TokenHash r' = rt_TokenHash r" "rt_RevokedAt r' \<noteq> None" by blast
  with assms(4) show ?thesis by (auto simp: dead_def)
qed

lemma refresh_kills:
  assumes "authHandler_Refresh (pg_auth E L cfg) req w = (Inr out, w')"
  shows "dead (HashToken (al_sha256 L) (fq_RefreshToken req)) (db w')"
  using assms
proof (rule refresh_ok)
  let ?h = "HashToken (al_sha256 L) (fq_RefreshToken req)"
  fix s s' and w1 w2 :: "'a world"
  assume run: "rotate_body E ?h (TrimSpace (fq_DeviceId req)) (env_clock E (tick w)) s w1 = (Inr s', w2)"
    and db: "db w' = db w2"
  from run obtain r and w3 w4 :: "'a world" where r: "r \<in> set (refresh_tokens (db w1))"
    and "rotatable ?h (TrimSpace (fq_DeviceId req)) (env_clock E (tick w)) (db w1) r" and w3: "db w3 = db w1"
    and 1: "stmt E (sql_revoke_tokens (token_hash ?h)) w3 = (Inr 1, w4)"
    and 2: "stmt E (sql_insert_token s') w4 = (Inr (), w2)" by (rule rotate_body_ok)
  then have "token_hash ?h r" by (simp add: rotatable_def)
  with r have "dead ?h (db w4)" by (intro revoke_kills [OF 1]) (simp_all add: w3, simp add: token_hash_def)
  then show ?thesis unfolding db using insertSession_ok(1) [OF 2] by (rule dead_append)
qed

lemma logout_kills:
  assumes "authHandler_Logout (pg_auth E L cfg) t w = (Inr x, w')" and "r \<in> set (refresh_tokens (db w))"
    and "rt_TokenHash r = Some (HashToken (al_sha256 L) t)"
  shows "dead (HashToken (al_sha256 L) t) (db w')"
proof -
  let ?h = "HashToken (al_sha256 L) t"
  obtain n where "stmt E (sql_revoke_tokens (token_hash ?h)) w = (Inr n, w')"
    using assms(1)
    by (auto simp: authHandler_Logout_def Service_Logout_def RevokeByHash_def prog_defs stmt_def sql_revoke_tokens_def
        Let_def split: prod.splits sum.splits if_splits fault.splits)
  from revoke_kills [OF this assms(2) _ assms(3)] assms(3) show ?thesis by (simp add: token_hash_def)
qed

lemma revoke_device_ok:
  fixes w w' :: "'o world"
  assumes "RevokeDevice (AuthRepositories_devices E) ctx (Some i) w = (Inr x, w')" and "UserIDFromContext ctx = Some u"
  obtains w1 w2 :: "'o world" where "revoke_body E u (TrimSpace i) w1 = (Inr (), w2)" and "db w1 = db w" and "db w' = db w2"
proof -
  from assms have "RevokeDeviceForUser E u (TrimSpace i) w = (Inr (), w')"
    by (auto simp: RevokeDevice_def with_user_def AuthRepositories_devices_def prog_defs Let_def
        split: prod.splits sum.splits if_splits)
  then show ?thesis unfolding RevokeDeviceForUser_def by (rule in_tx_ok) (rule that, assumption+)
qed

lemma revoke_body_kills:
  assumes "revoke_body E u i w = (Inr (), w')" and "r \<in> set (refresh_tokens (db w))" and "token_device u i r"
    and "rt_TokenHash r = Some h"
  shows "dead h (db w')"
proof -
  from assms(1) obtain n w1 w2 m w3 y where 1: "stmt E (sql_revoke_device u i) w = (Inr n, w1)"
    and 2: "(if n = 0 then handle (stmt E (sql_device_exists u i))
           (\<lambda>e. if e = ErrNoRows then throw AuthErrDeviceNotFound else throw e) ret else ret ()) w1 = (Inr y, w2)"
    and 3: "stmt E (sql_revoke_tokens (token_device u i)) w2 = (Inr m, w3)" and "ret () w3 = (Inr () :: go_error + unit, w')"
    unfolding revoke_body_def by (elim andthen_okE)
  then have w': "w' = w3" by (simp add: ret_def)
  from stmt_ok_db [OF 1] have "refresh_tokens (db w1) = refresh_tokens (db w)"
    by (simp add: sql_revoke_device_def Let_def)
  moreover have "db w2 = db w1"
    using 2 by (auto simp: prog_defs stmt_def sql_device_exists_def Let_def
        split: if_splits prod.splits sum.splits fault.splits)
  ultimately show ?thesis
    using revoke_kills [OF 3 _ assms(3,4)] assms(2) by (simp add: w')
qed

subsection \<open>A concrete server\<close>

text \<open>
  A toy JWT package on which the hypotheses about the real one are satisfied: subject, device, issue
  and expiry time and the key, separated by colons; claims of another shape are refused.
\<close>

definition key_text :: "bytes \<Rightarrow> string" where
  "key_text k = map (\<lambda>b. char_of (unat b)) k"

definition toy_sign :: "string \<Rightarrow> map_claims \<Rightarrow> bytes \<Rightarrow> go_error + string" where
  "toy_sign alg cs key =
     (case cs of
        [(n1, ClaimString u), (n2, ClaimString d), (n3, ClaimNumber a), (n4, ClaimNumber e)] \<Rightarrow>
          if alg = ''HS256'' \<and> [n1, n2, n3, n4] = [''sub'', ''device_id'', ''iat'', ''exp''] \<and>
             CHR '':'' \<notin> set (u @ d) \<and> list_all is_graphic (u @ d @ key_text key) \<and>
             0 \<le> a \<and> 0 \<le> e
          then Inr (u @ '':'' @ d @ '':'' @ show_nat (nat a) @ '':'' @ show_nat (nat e) @ '':'' @ key_text key)
          else Inl (ErrOther ''unsupported'')
      | _ \<Rightarrow> Inl (ErrOther ''unsupported''))"

definition field :: "string \<Rightarrow> (string \<times> string) option" where
  "field s = split_first (CHR '':'') s"

definition toy_parse :: "time \<Rightarrow> string \<Rightarrow> (string \<Rightarrow> go_error + bytes) \<Rightarrow> go_error + jwt_token" where
  "toy_parse now tok keyFunc =
     (case Option.bind (field tok) (\<lambda>(u, s1). Option.bind (field s1) (\<lambda>(d, s2). Option.bind (field s2) (\<lambda>(a, s3).
           Option.bind (field s3) (\<lambda>(e, k). Option.bind (parse_digits 0 a) (\<lambda>ai. Option.bind (parse_digits 0 e) (\<lambda>ei.
           Some (u, d, int ai, int ei, k))))))) of
        None \<Rightarrow> Inl (ErrOther ''malformed'')
      | Some (u, d, a, e, k) \<Rightarrow>
          (case keyFunc ''HS256'' of
             Inl err \<Rightarrow> Inl err
           | Inr key \<Rightarrow>
               if k = key_text key \<and> now < e * 1000000
               then Inr \<lparr>jt_Valid = True, jt_Claims = MapClaims [(''sub'', ClaimString u), (''device_id'', ClaimString d),
                 (''iat'', ClaimNumber a), (''exp'', ClaimNumber e)]\<rparr>
               else Inl (ErrOther ''invalid'')))"

definition toy_jwt :: jwt_lib where
  "toy_jwt = \<lparr>jwt_SignedString = toy_sign, jwt_Parse = toy_parse\<rparr>"

text \<open>
  What the code relies on of the JWT package. A signed token is a non-empty string without spaces. For the
  claims this server signs, the four of \<open>access_claims\<close> with ASCII strings (which JSON carries unchanged)
  and instants that a float64 holds exactly, parsing the token with the key it was signed with, before
  the instant of \<open>exp\<close>, accepts it and gives the subject and the device that were signed. There is no
  \<open>nbf\<close> among these claims, and the package does not check \<open>iat\<close> unless asked to.
\<close>

definition ascii :: "string \<Rightarrow> bool" where
  "ascii s \<longleftrightarrow> list_all (\<lambda>c. of_char c < (128 :: nat)) s"

definition float_exact :: "int \<Rightarrow> bool" where
  "float_exact n \<longleftrightarrow> 0 \<le> n \<and> n \<le> 2 ^ 53"

definition jwt_ok :: "jwt_lib \<Rightarrow> bool" where
  "jwt_ok J \<longleftrightarrow>
     (\<forall>alg cs key tok. jwt_SignedString J alg cs key = Inr tok \<longrightarrow> tok \<noteq> [] \<and> list_all is_graphic tok) \<and>
     (\<forall>u d a e key tok now.
        jwt_SignedString J ''HS256'' [(''sub'', ClaimString u), (''device_id'', ClaimString d), (''iat'', ClaimNumber a),
          (''exp'', ClaimNumber e)] key = Inr tok \<longrightarrow>
        ascii u \<longrightarrow> ascii d \<longrightarrow> float_exact a \<longrightarrow> float_exact e \<longrightarrow> now < e * 1000000 \<longrightarrow>
        (\<exists>p cs. jwt_Parse J now tok (key_for key) = Inr p \<and> jt_Valid p \<and> jt_Claims p = MapClaims cs \<and>
           map_of cs ''sub'' = Some (ClaimString u) \<and> map_of cs ''device_id'' = Some (ClaimString d)))"

lemma jwt_okD:
  assumes "jwt_ok J" and "jwt_SignedString J ''HS256'' [(''sub'', ClaimString u), (''device_id'', ClaimString d),
      (''iat'', ClaimNumber a), (''exp'', ClaimNumber e)] key = Inr tok"
    and "ascii u" and "ascii d" and "float_exact a" and "float_exact e" and "now < e * 1000000"
  obtains p cs where "jwt_Parse J now tok (key_for key) = Inr p" and "jt_Valid p" and "jt_Claims p = MapClaims cs"
    and "map_of cs ''sub'' = Some (ClaimString u)" and "map_of cs ''device_id'' = Some (ClaimString d)"
  using assms unfolding jwt_ok_def by blast

lemma toy_sign_ok:
  assumes "toy_sign alg cs key = Inr tok"
  obtains u d a e where "alg = ''HS256''"
    "cs = [(''sub'', ClaimString u), (''device_id'', ClaimString d), (''iat'', ClaimNumber a), (''exp'', ClaimNumber e)]"
    "CHR '':'' \<notin> set u" "CHR '':'' \<notin> set d" "list_all is_graphic (u @ d @ key_text key)"
    "0 \<le> a" "0 \<le> e"
    "tok = u @ '':'' @ d @ '':'' @ show_nat (nat a) @ '':'' @ show_nat (nat e) @ '':'' @ key_text key"
  using assms by (auto simp: toy_sign_def split: list.splits prod.splits claim.splits if_splits)

lemma field_append: "CHR '':'' \<notin> set xs \<Longrightarrow> field (xs @ '':'' @ ys) = Some (xs, ys)"
  by (simp add: field_def split_first_append)

lemma show_nat_graphic: "list_all is_graphic (show_nat n)"
  by (auto simp: list_all_iff is_digit_def is_graphic_def dest: show_nat_digits)

lemma show_nat_no_colon: "CHR '':'' \<notin> set (show_nat n)"
  by (auto simp: is_digit_def dest!: show_nat_digits)

lemma toy_jwt_ok: "jwt_ok toy_jwt"
  unfolding jwt_ok_def
proof (intro conjI allI impI)
  fix alg cs key tok assume "jwt_SignedString toy_jwt alg cs key = Inr tok"
  then have "toy_sign alg cs key = Inr tok" by (simp add: toy_jwt_def)
  then show "tok \<noteq> []" and "list_all is_graphic tok"
    by (auto elim!: toy_sign_ok simp: show_nat_graphic is_graphic_def)
next
  fix u d a e key tok now
  assume "jwt_SignedString toy_jwt ''HS256'' [(''sub'', ClaimString u), (''device_id'', ClaimString d), (''iat'', ClaimNumber a),
      (''exp'', ClaimNumber e)] key = Inr tok" and e: "now < e * 1000000"
  then have "toy_sign ''HS256'' [(''sub'', ClaimString u), (''device_id'', ClaimString d), (''iat'', ClaimNumber a),
      (''exp'', ClaimNumber e)] key = Inr tok" by (simp add: toy_jwt_def)
  then have "toy_parse now tok (key_for key) = Inr \<lparr>jt_Valid = True, jt_Claims = MapClaims [(''sub'', ClaimString u),
      (''device_id'', ClaimString d), (''iat'', ClaimNumber a), (''exp'', ClaimNumber e)]\<rparr>"
    using e by (elim toy_sign_ok) (auto simp: toy_parse_def field_append show_nat_no_colon key_for_def simp del: append_Cons append_Nil)
  then show "\<exists>p cs. jwt_Parse toy_jwt now tok (key_for key) = Inr p \<and> jt_Valid p \<and> jt_Claims p = MapClaims cs \<and>
      map_of cs ''sub'' = Some (ClaimString u) \<and> map_of cs ''device_id'' = Some (ClaimString d)"
    by (simp add: toy_jwt_def)
qed

definition demo_libs :: auth_libs where
  "demo_libs = \<lparr>al_rand = (\<lambda>n. Inr [word_of_nat n]), al_sha256 = (\<lambda>b. b),
     al_bcrypt = \<lparr>bc_GenerateFromPassword = (\<lambda>_ p _. Inr p),
       bc_CompareHashAndPassword = (\<lambda>h p. if h = p then None else Some (ErrOther ''mismatch'')), bc_DefaultCost = 10\<rparr>,
     al_jwt = toy_jwt\<rparr>"

definition demo_auth_cfg :: Config where
  "demo_auth_cfg = demo_blob_config\<lparr>cf_JWTSecret := ''s3cret''\<rparr>"

definition demo_device :: DeviceRecord where
  "demo_device = \<lparr>dr_DeviceID = ''d1'', dr_UserID = ''u1'', dr_DeviceName = ''laptop'', dr_Platform = 1,
     dr_ClientVersion = ''1.0'', dr_CreatedAt = 0, dr_LastSeenAt = 0, dr_RevokedAt = None\<rparr>"

definition demo_token :: RefreshToken where
  "demo_token = \<lparr>rt_TokenID = ''t1'', rt_UserID = ''u1'', rt_DeviceID = ''d1'',
     rt_TokenHash = Some (string_bytes ''tok''), rt_ExpiresAt = 1000000, rt_RevokedAt = None\<rparr>"

definition demo_auth_world :: "unit world" where
  "demo_auth_world = demo_world\<lparr>db := demo_db\<lparr>users := [(demo_user ''u1'')\<lparr>ur_PasswordHash := Some (string_bytes ''pw'')\<rparr>,
       (demo_user ''u2'')\<lparr>ur_PasswordHash := Some (string_bytes ''pw'')\<rparr>],
     devices := [demo_device], refresh_tokens := [demo_token]\<rparr>\<rparr>"

definition demo_refresh :: RefreshRequest where
  "demo_refresh = \<lparr>fq_RefreshToken = ''tok'', fq_DeviceId = ''d1''\<rparr>"

lemmas auth_demo_defs = demo_libs_def demo_auth_cfg_def demo_device_def demo_token_def demo_auth_world_def demo_refresh_def
  demo_world_def demo_db_def demo_user_def demo_blob_config_def

lemmas auth_eval = prog_defs Let_def stmt_def in_tx_def commit_def rollback_def TrimSpace_graphic is_graphic_def
  authHandler_Refresh_def Service_Refresh_def RotateRefresh_def rotate_body_def sql_select_rotatable_def rotatable_def
  token_hash_def device_key_def sql_revoke_tokens_def upd_where_def count_where_def sql_insert_token_def new_token_def
  has_user_def has_device_def NewRefreshToken_def HashToken_def string_bytes_def time_Now_def uuid_NewString_def
  IssueAccessToken_def access_claims_def toy_jwt_def toy_sign_def key_text_def Unix_def seconds_duration_def b64_char_def
  b64_alphabet_def

lemma demo_auth_ok: "auth_ok (db demo_auth_world)"
  by (simp add: auth_ok_def auth_demo_defs has_user_def device_key_def)

lemma demo_refresh_ok:
  "\<exists>out. fst (authHandler_Refresh (pg_auth demo_env demo_libs demo_auth_cfg) demo_refresh demo_auth_world) = Inr out"
  by (simp add: auth_eval auth_demo_defs show_nat.simps)

subsection \<open>Properties\<close>

text \<open>
  C18. Whatever calls of the authentication and device RPCs are made and whatever fails inside them,
  logins, device ids and token hashes stay unique, every device belongs to an account and every refresh
  token to the owner of its device; accounts are never changed or removed, a device never changes its
  owner, a token never changes its holder, hash or expiry, and a revoked token stays revoked.
\<close>

theorem auth_invariant:
  assumes "auth_ok (db w)" and "(auth_call E L cfg)\<^sup>*\<^sup>* w w'"
  shows "auth_ok (db w') \<and> auth_later (db w) (db w')"
  using auth_calls_from [OF assms(2,1)] by (simp add: auth_from_def)

theorem auth_invariant_witness:
  "auth_ok (db (snd (authHandler_Refresh (pg_auth demo_env demo_libs demo_auth_cfg) demo_refresh demo_auth_world)))"
proof -
  let ?w = "snd (authHandler_Refresh (pg_auth demo_env demo_libs demo_auth_cfg) demo_refresh demo_auth_world)"
  have "auth_call demo_env demo_libs demo_auth_cfg demo_auth_world ?w"
    by (rule auth_call.refresh) (rule prod.collapse [symmetric])
  then have "(auth_call demo_env demo_libs demo_auth_cfg)\<^sup>*\<^sup>* demo_auth_world ?w" by blast
  from auth_invariant [OF demo_auth_ok this] show ?thesis by blast
qed

text \<open>
  C6. A refresh token works once. When Refresh has answered a token with new ones, then after any
  further calls a second Refresh with the same token, from any device, is refused and changes no table.
\<close>

theorem refresh_single_use:
  fixes w w1 w2 w3 :: "'o world"
  assumes "auth_ok (db w)" and "authHandler_Refresh (pg_auth E L cfg) req w = (Inr out, w1)"
    and "(auth_call E L cfg)\<^sup>*\<^sup>* w1 w2" and "fq_RefreshToken req' = fq_RefreshToken req"
    and "authHandler_Refresh (pg_auth E L cfg) req' w2 = (r, w3)"
  shows "isl r \<and> tables (db w3) = tables (db w2)"
proof -
  have "auth_ok (db w1)"
    using auth_call_from [OF auth_call.refresh [OF assms(2)], of "db w"] assms(1) by (simp add: auth_from_def)
  with assms(3) have "auth_from (db w1) (db w2)" by (rule auth_calls_from)
  moreover from this have "dead (HashToken (al_sha256 L) (fq_RefreshToken req')) (db w2)"
    using refresh_kills [OF assms(2)] dead_later assms(4) by (auto simp: auth_from_def)
  ultimately show ?thesis
    using refresh_dead [of w2 L req' E cfg] assms(5) by (auto simp: auth_from_def wp_def split: sum.splits)
qed

theorem refresh_single_use_witness:
  "\<exists>out (w1 :: unit world). authHandler_Refresh (pg_auth demo_env demo_libs demo_auth_cfg) demo_refresh demo_auth_world = (Inr out, w1) \<and>
     isl (fst (authHandler_Refresh (pg_auth demo_env demo_libs demo_auth_cfg) demo_refresh w1))"
proof -
  obtain out and w1 :: "unit world" where
    1: "authHandler_Refresh (pg_auth demo_env demo_libs demo_auth_cfg) demo_refresh demo_auth_world = (Inr out, w1)"
    using demo_refresh_ok by (metis prod.collapse)
  from refresh_single_use [OF demo_auth_ok 1 rtranclp.rtrancl_refl refl prod.collapse [symmetric]] 1
  show ?thesis by blast
qed

text \<open>
  C19. Revocation is final. When the user has logged a token out, or has revoked the device a token was
  issued to, then after any further calls, a new sign-in on the same device included, Refresh with that
  token is refused and changes no table.
\<close>

theorem revocation_final:
  fixes w w1 w2 w3 :: "'o world"
  assumes "auth_ok (db w)" and "row \<in> set (refresh_tokens (db w))"
    and "rt_TokenHash row = Some (HashToken (al_sha256 L) (fq_RefreshToken req))"
    and "authHandler_Logout (pg_auth E L cfg) (fq_RefreshToken req) w = (Inr x, w1) \<or>
         UserIDFromContext ctx = Some (rt_UserID row) \<and> TrimSpace dev = rt_DeviceID row \<and>
         RevokeDevice (AuthRepositories_devices E) ctx (Some dev) w = (Inr x, w1)"
    and "(auth_call E L cfg)\<^sup>*\<^sup>* w1 w2" and "authHandler_Refresh (pg_auth E L cfg) req w2 = (r, w3)"
  shows "isl r \<and> tables (db w3) = tables (db w2)"
proof -
  let ?h = "HashToken (al_sha256 L) (fq_RefreshToken req)"
  have "auth_call E L cfg w w1" using assms(4) auth_call.logout auth_call.revoke_device by blast
  with assms(1) have "auth_ok (db w1)" using auth_call_from [of E L cfg w w1 "db w"] by (simp add: auth_from_def)
  with assms(5) have later: "auth_from (db w1) (db w2)" by (rule auth_calls_from)
  have "dead ?h (db w1)"
    using assms(4)
  proof (elim disjE conjE)
    assume "authHandler_Logout (pg_auth E L cfg) (fq_RefreshToken req) w = (Inr x, w1)"
    then show ?thesis using assms(2,3) by (rule logout_kills)
  next
    assume u: "UserIDFromContext ctx = Some (rt_UserID row)" and d: "TrimSpace dev = rt_DeviceID row"
      and "RevokeDevice (AuthRepositories_devices E) ctx (Some dev) w = (Inr x, w1)"
    from this(3) u obtain w4 w5 :: "'o world" where "revoke_body E (rt_UserID row) (TrimSpace dev) w4 = (Inr (), w5)"
      and "db w4 = db w" and "db w1 = db w5" by (rule revoke_device_ok)
    then show ?thesis using revoke_body_kills [of E _ _ w4 w5 row ?h] assms(2,3) d by (simp add: token_device_def)
  qed
  with later have "dead ?h (db w2)" using dead_later by (auto simp: auth_from_def)
  with later show ?thesis
    using refresh_dead [of w2 L req E cfg] assms(6) by (auto simp: auth_from_def wp_def split: sum.splits)
qed

theorem revocation_final_witness:
  "\<exists>(w1 :: unit world). RevokeDevice (AuthRepositories_devices demo_env) demo_ctx (Some ''d1'') demo_auth_world = (Inr True, w1) \<and>
     isl (fst (authHandler_Refresh (pg_auth demo_env demo_libs demo_auth_cfg) demo_refresh w1))"
proof -
  have "fst (RevokeDevice (AuthRepositories_devices demo_env) demo_ctx (Some ''d1'') demo_auth_world) = Inr True"
    by (simp add: RevokeDevice_def AuthRepositories_devices_def RevokeDeviceForUser_def revoke_body_def with_user_def
        UserIDFromContext_def demo_ctx_def sql_revoke_device_def token_device_def auth_eval auth_demo_defs)
  then obtain w1 where 1: "RevokeDevice (AuthRepositories_devices demo_env) demo_ctx (Some ''d1'') demo_auth_world = (Inr True, w1)"
    by (metis prod.collapse)
  have "isl (fst (authHandler_Refresh (pg_auth demo_env demo_libs demo_auth_cfg) demo_refresh w1))"
    using revocation_final [OF demo_auth_ok, of demo_token demo_libs demo_refresh demo_env demo_auth_cfg True w1 demo_ctx "''d1''" w1, OF _ _ _ _ prod.collapse [symmetric]] 1
    by (simp add: auth_demo_defs HashToken_def UserIDFromContext_def demo_ctx_def TrimSpace_graphic is_graphic_def)
  with 1 show ?thesis by blast
qed

subsection \<open>Sign-in on somebody else's device\<close>

lemma upsert_foreign:
  assumes "auth_ok d" and "v \<in> set (devices d)" and "dr_DeviceID v = i" and "dr_UserID v \<noteq> u"
  shows "has_device d i \<and> \<not> list_ex (device_key u i) (devices d)"
proof -
  have "\<not> device_key u i v'" if "v' \<in> set (devices d)" for v'
  proof
    assume "device_key u i v'"
    moreover have "distinct (map dr_DeviceID (devices d))" using assms(1) by (simp add: auth_ok_def)
    ultimately have "v' = v" using assms(2,3) that by (auto simp: distinct_map inj_on_def device_key_def)
    with \<open>device_key u i v'\<close> assms(4) show False by (simp add: device_key_def)
  qed
  with assms(2,3) show ?thesis by (auto simp: has_device_def list_ex_iff)
qed

lemma foreign_not_upserted:
  assumes "auth_ok (db w)" and "v \<in> set (devices (db w))" and "dr_DeviceID v = dv_DeviceID x" and "dr_UserID v \<noteq> dv_UserID x"
  shows "upsertDevice E x w \<noteq> (Inr y, w')"
  using upsert_foreign [OF assms] upsertDevice_ok(5) by metis

text \<open>A transaction whose body cannot succeed leaves the tables as they were.\<close>

lemma wp_in_tx_fails:
  fixes body :: "('o, 'a) server"
  assumes "\<And>w1 x w2. db w1 = db w \<Longrightarrow> body w1 \<noteq> (Inr x, w2)" and "\<And>e w'. tables (db w') = tables (db w) \<Longrightarrow> R e w'"
  shows "wp (in_tx E body) Q R w"
proof (rule wpI)
  fix x w' assume run: "in_tx E body w = (Inr x, w')"
  then show "Q x w'" using assms(1) by (auto elim: in_tx_ok)
next
  fix e w' assume "in_tx E body w = (Inl e, w')"
  then show "R e w'" using assms by (cases rule: in_tx_cases) auto
qed

lemma wp_login_foreign:
  assumes "auth_ok (db w)" and "v \<in> set (devices (db w))" and "dr_DeviceID v = dv_DeviceID x" and "dr_UserID v \<noteq> dv_UserID x"
    and "\<And>e w'. tables (db w') = tables (db w) \<Longrightarrow> R e w'"
  shows "wp (LoginWithDeviceAndSession E x s) Q R w"
  unfolding LoginWithDeviceAndSession_def
proof (intro wp_in_tx_fails notI)
  fix w1 w3 :: "'a world" and y
  assume db: "db w1 = db w" and "andthen (upsertDevice E x) (\<lambda>_. insertSession E s) w1 = (Inr y, w3)"
  then obtain b w4 where "upsertDevice E x w1 = (Inr b, w4)" by (elim andthen_okE)
  then show False using foreign_not_upserted [of w1 v x] assms(1-4) by (simp add: db)
qed (rule assms(5))

lemma wp_register_foreign:
  assumes "auth_ok (db w)" and "v \<in> set (devices (db w))" and "dr_DeviceID v = dv_DeviceID x" and "ur_UserID u = dv_UserID x"
    and "\<And>e w'. tables (db w') = tables (db w) \<Longrightarrow> R e w'"
  shows "wp (RegisterWithSession E u x s) Q R w"
  unfolding RegisterWithSession_def
proof (intro wp_in_tx_fails notI)
  fix w1 w3 :: "'a world" and y
  assume db: "db w1 = db w"
    and "andthen (insertUser E u) (\<lambda>_. andthen (upsertDevice E x) (\<lambda>_. insertSession E s)) w1 = (Inr y, w3)"
  then obtain a b w2 w4 where 1: "insertUser E u w1 = (Inr a, w2)" and 2: "upsertDevice E x w2 = (Inr b, w4)"
    by (elim andthen_okE)
  have ok: "auth_ok (db w2)" and v: "v \<in> set (devices (db w2))"
    using insertUser_ok [OF 1] assms(1,2) by (simp_all add: db auth_move_def)
  have "has_user (db w1) (dr_UserID v)" using assms(1,2) by (simp add: db auth_ok_def)
  moreover have "distinct (map ur_UserID (users (db w2)))" using ok by (simp add: auth_ok_def)
  ultimately have "dr_UserID v \<noteq> dv_UserID x"
    using insertUser_ok(1) [OF 1] assms(4) by (force simp: has_user_def list_ex_iff)
  with foreign_not_upserted [OF ok v assms(3)] 2 show False by blast
qed (rule assms(5))

lemma wp_GetByLogin:
  assumes "\<And>u w'. find (\<lambda>r. ur_Login r = l) (users (db w)) = Some u \<Longrightarrow> db w' = db w \<Longrightarrow> Q u w'"
    and "\<And>e w'. db w' = db w \<Longrightarrow> R e w'"
  shows "wp (GetByLogin E l) Q R w"
  unfolding GetByLogin_def
  using assms by (auto simp: wp_handle wp_throw wp_ret wp_stmt Let_def sql_select_user_def split: option.splits fault.splits sum.splits)

text \<open>
  A device id cannot be taken over. Register and Login of another account that name a device which
  belongs to somebody else are refused and change no table.
\<close>

theorem device_takeover_refused:
  fixes w :: "'o world"
  assumes "auth_ok (db w)" and "v \<in> set (devices (db w))" and "TrimSpace (di_DeviceId info) = dr_DeviceID v"
    and "dr_DeviceID v \<noteq> []" and "rq_Device rreq = Some info" and "lq_Device lreq = Some info"
    and "\<forall>u \<in> set (users (db w)). ur_Login u = TrimSpace (lq_Login lreq) \<longrightarrow> ur_UserID u \<noteq> dr_UserID v"
  shows "isl (fst (authHandler_Register (pg_auth E L cfg) rreq w)) \<and>
      tables (db (snd (authHandler_Register (pg_auth E L cfg) rreq w))) = tables (db w) \<and>
      isl (fst (authHandler_Login (pg_auth E L cfg) lreq w)) \<and>
      tables (db (snd (authHandler_Login (pg_auth E L cfg) lreq w))) = tables (db w)"
proof -
  let ?R = "\<lambda>e :: go_error. \<lambda>w' :: 'o world. tables (db w') = tables (db w)"
  have reg: "wp (authHandler_Register (pg_auth E L cfg) rreq) (\<lambda>_ _. False) ?R w"
    using assms(1-5) unfolding authHandler_Register_def pg_auth_rpc Service_Register_def device_or_new_def
    by (auto simp: Let_def register_input_def device_of_def wp_handle wp_guard wp_andthen wp_throw wp_uuid wp_time_Now wp_ret
        wp_NewRefreshToken wp_Hash split: sum.splits intro!: wp_register_foreign [where v = v])
  have other: "dr_UserID v \<noteq> ur_UserID u"
    if "find (\<lambda>r. ur_Login r = TrimSpace (lq_Login lreq)) (users (db w)) = Some u" for u
    using assms(7) find_SomeD [OF that] by metis
  have "wp (authHandler_Login (pg_auth E L cfg) lreq) (\<lambda>_ _. False) ?R w"
    using assms(1-4,6) unfolding authHandler_Login_def pg_auth_rpc Service_Login_def device_or_new_def
    by (auto simp: Let_def login_input_def device_of_def wp_handle wp_guard wp_andthen wp_throw wp_uuid wp_time_Now wp_ret
        wp_NewRefreshToken split: sum.splits intro!: wp_GetByLogin wp_login_foreign [where v = v]) (use other in blast)
  from wp_fails [OF reg] wp_fails [OF this] show ?thesis by blast
qed

theorem device_takeover_refused_witness:
  "isl (fst (authHandler_Login (pg_auth demo_env demo_libs demo_auth_cfg)
     \<lparr>lq_Login = ''u2'', lq_Password = ''pw'', lq_Device = Some \<lparr>di_DeviceId = ''d1'', di_DeviceName = ''x'', di_Platform = 1,
       di_ClientVersion = []\<rparr>\<rparr> demo_auth_world))"
  using device_takeover_refused [OF demo_auth_ok, of demo_device "\<lparr>di_DeviceId = ''d1'', di_DeviceName = ''x'', di_Platform = 1,
       di_ClientVersion = []\<rparr>" "\<lparr>rq_Login = [], rq_Password = [], rq_PasswordSalt = None, rq_KdfParams = None,
       rq_EncryptedVaultKey = None, rq_EncryptedVaultKeyNonce = None, rq_Device = Some \<lparr>di_DeviceId = ''d1'', di_DeviceName = ''x'',
       di_Platform = 1, di_ClientVersion = []\<rparr>\<rparr>" "\<lparr>lq_Login = ''u2'', lq_Password = ''pw'', lq_Device = Some
       \<lparr>di_DeviceId = ''d1'', di_DeviceName = ''x'', di_Platform = 1, di_ClientVersion = []\<rparr>\<rparr>" demo_env demo_libs demo_auth_cfg]
  by (simp add: auth_demo_defs TrimSpace_graphic is_graphic_def)

subsection \<open>What a refresh grants\<close>

text \<open>
  C35. Refresh grants access to the holder of a live token only: when it answers, the token presented was
  stored, issued to the device of the request, neither revoked nor expired at the time of the call, and
  its device was not revoked; the new refresh token is stored for the same user and device with the
  configured lifetime, and the access token is signed for exactly that user and device.
\<close>

theorem refresh_grants:
  fixes w w' :: "'o world"
  assumes "auth_ok (db w)" and "authHandler_Refresh (pg_auth E L cfg) req w = (Inr out, w')"
  shows "\<exists>row \<in> set (refresh_tokens (db w)). \<exists>new \<in> set (refresh_tokens (db w')). \<exists>dev \<in> set (devices (db w)). \<exists>n.
      rt_TokenHash row = Some (HashToken (al_sha256 L) (fq_RefreshToken req)) \<and> rt_RevokedAt row = None \<and>
      env_clock E (tick w) < rt_ExpiresAt row \<and> rt_DeviceID row = TrimSpace (fq_DeviceId req) \<and>
      device_key (rt_UserID row) (rt_DeviceID row) dev \<and> dr_RevokedAt dev = None \<and>
      rt_UserID new = rt_UserID row \<and> rt_DeviceID new = rt_DeviceID row \<and> rt_RevokedAt new = None \<and>
      rt_TokenHash new = Some (HashToken (al_sha256 L) (fr_RefreshToken out)) \<and>
      rt_ExpiresAt new = env_clock E (tick w) + seconds_duration (cf_RefreshTTLSec cfg) \<and>
      jwt_SignedString (al_jwt L) ''HS256''
        (access_claims \<lparr>at_UserID = rt_UserID row, at_DeviceID = rt_DeviceID row\<rparr> (env_clock E n)
          (seconds_duration (cf_AccessTTLSec cfg))) (string_bytes (cf_JWTSecret cfg)) = Inr (fr_AccessToken out)"
  using assms(2)
proof (rule refresh_ok)
  let ?h = "HashToken (al_sha256 L) (fq_RefreshToken req)"
  fix s s' and w1 w2 w3 :: "'o world"
  assume run: "rotate_body E ?h (TrimSpace (fq_DeviceId req)) (env_clock E (tick w)) s w1 = (Inr s', w2)"
    and db: "db w1 = db w" "db w' = db w2"
    and s: "ss_TokenHash s = Some (HashToken (al_sha256 L) (fr_RefreshToken out))"
      "ss_ExpiresAt s = env_clock E (tick w) + seconds_duration (cf_RefreshTTLSec cfg)"
    and jwt: "jwt_SignedString (al_jwt L) ''HS256''
       (access_claims \<lparr>at_UserID = ss_UserID s', at_DeviceID = ss_DeviceID s'\<rparr> (env_clock E (tick w3))
         (seconds_duration (cf_AccessTTLSec cfg))) (string_bytes (cf_JWTSecret cfg)) = Inr (fr_AccessToken out)"
  from run obtain r and w4 w5 :: "'o world" where r: "r \<in> set (refresh_tokens (db w))"
    and rot: "rotatable ?h (TrimSpace (fq_DeviceId req)) (env_clock E (tick w)) (db w) r"
    and s': "s' = s\<lparr>ss_UserID := rt_UserID r, ss_DeviceID := rt_DeviceID r\<rparr>"
    and ins: "stmt E (sql_insert_token s') w5 = (Inr (), w2)" unfolding db(1) [symmetric] by (rule rotate_body_ok)
  from rot obtain dev where dev: "dev \<in> set (devices (db w))" "device_key (rt_UserID r) (rt_DeviceID r) dev" "dr_RevokedAt dev = None"
    by (auto simp: rotatable_def list_ex_iff)
  have new: "new_token s' \<in> set (refresh_tokens (db w'))" using insertSession_ok(1) [OF ins] by (simp add: db)
  from rot s jwt dev(2,3) show ?thesis
    by (intro bexI [OF _ r] bexI [OF _ new] bexI [OF _ dev(1)] exI [of _ "tick w3"])
       (simp add: s' new_token_def rotatable_def token_hash_def)
qed

theorem refresh_grants_witness:
  "\<exists>out (w' :: unit world). authHandler_Refresh (pg_auth demo_env demo_libs demo_auth_cfg) demo_refresh demo_auth_world = (Inr out, w') \<and>
    (\<exists>new \<in> set (refresh_tokens (db w')). rt_UserID new = ''u1'' \<and> rt_RevokedAt new = None)"
proof -
  obtain out and w1 :: "unit world" where
    1: "authHandler_Refresh (pg_auth demo_env demo_libs demo_auth_cfg) demo_refresh demo_auth_world = (Inr out, w1)"
    using demo_refresh_ok by (metis prod.collapse)
  from refresh_grants [OF demo_auth_ok 1] 1 show ?thesis by (auto simp: auth_demo_defs)
qed

subsection \<open>The access token check\<close>

lemma parseAccessToken_ok:
  assumes "parseAccessToken J now token key = Inr claims"
  obtains p cs where "jwt_Parse J now token (key_for key) = Inr p" and "jt_Valid p" and "jt_Claims p = MapClaims cs"
    and "claim_string cs ''sub'' = at_UserID claims" and "claim_string cs ''device_id'' = at_DeviceID claims"
    and "TrimSpace (at_UserID claims) \<noteq> []" and "TrimSpace (at_DeviceID claims) \<noteq> []"
  using assms by (auto simp: parseAccessToken_def Let_def split: sum.splits if_splits parsed_claims.splits)

text \<open>
  C13. No RPC outside the public list runs unauthenticated: the interceptors either answer with the
  status Unauthenticated and leave the world's tables and objects alone, or run the handler with the
  user and device named by the claims of a token that the JWT package has accepted under the server's
  HS256 key at the time of the call; neither name is blank, so the handler finds a user in its context.
\<close>

theorem access_token_checked:
  fixes handler :: "auth_context \<Rightarrow> ('o, 'a) server"
  assumes "method \<notin> set publicMethods" and "newAuthUnaryInterceptor E J secret method md ctx handler w = (r, w')"
  shows "(\<exists>msg. r = Inl (status Unauthenticated msg) \<and> db w' = db w \<and> objs w' = objs w) \<or>
    (\<exists>token p cs u d w1. bearerTokenFromMetadata md = Inr token \<and>
       jwt_Parse J (env_clock E (tick w)) token (key_for (string_bytes secret)) = Inr p \<and> jt_Valid p \<and>
       jt_Claims p = MapClaims cs \<and> claim_string cs ''sub'' = u \<and> claim_string cs ''device_id'' = d \<and>
       UserIDFromContext (WithAuthContext ctx u d) = Some u \<and> DeviceIDFromContext (WithAuthContext ctx u d) = Some d \<and>
       db w1 = db w \<and> objs w1 = objs w \<and> handler (WithAuthContext ctx u d) w1 = (r, w'))"
proof (cases "bearerTokenFromMetadata md")
  case (Inl e)
  with assms show ?thesis by (auto simp: newAuthUnaryInterceptor_def throw_def)
next
  case (Inr token)
  let ?w1 = "w\<lparr>tick := Suc (tick w)\<rparr>" and ?p = "parseAccessToken J (env_clock E (tick w)) token (string_bytes secret)"
  have run: "(case ?p of Inl _ \<Rightarrow> throw (status Unauthenticated ''invalid access token'')
       | Inr claims \<Rightarrow> handler (WithAuthContext ctx (at_UserID claims) (at_DeviceID claims))) ?w1 = (r, w')"
    using assms Inr by (simp add: newAuthUnaryInterceptor_def andthen_def handle_def time_Now_def)
  show ?thesis
  proof (cases ?p)
    case (Inl e)
    with run show ?thesis by (auto simp: throw_def)
  next
    case claims: (Inr claims)
    from claims obtain p cs where p: "jwt_Parse J (env_clock E (tick w)) token (key_for (string_bytes secret)) = Inr p"
      "jt_Valid p" "jt_Claims p = MapClaims cs" "claim_string cs ''sub'' = at_UserID claims"
      "claim_string cs ''device_id'' = at_DeviceID claims" "TrimSpace (at_UserID claims) \<noteq> []" "TrimSpace (at_DeviceID claims) \<noteq> []"
      by (rule parseAccessToken_ok)
    then have "at_UserID claims \<noteq> []" "at_DeviceID claims \<noteq> []" by auto
    moreover have "handler (WithAuthContext ctx (at_UserID claims) (at_DeviceID claims)) ?w1 = (r, w')"
      using run claims by simp
    ultimately show ?thesis
      using Inr p by (intro disjI2 exI [of _ token] exI [of _ p] exI [of _ cs] exI [of _ "at_UserID claims"]
          exI [of _ "at_DeviceID claims"] exI [of _ ?w1])
        (simp add: UserIDFromContext_def DeviceIDFromContext_def WithAuthContext_def)
  qed
qed

lemma go_space_ends: "p \<in> set go_spaces \<Longrightarrow> \<not> is_graphic (hd p) \<and> \<not> is_graphic (last p)"
  by (auto simp: go_spaces_def is_graphic_def)

lemma TrimSpace_ends:
  assumes "s \<noteq> []" and "is_graphic (hd s)" and "is_graphic (last s)"
  shows "TrimSpace s = s"
proof (rule TrimSpace_no_space)
  show "lead_space s = 0"
    unfolding lead_space_0_iff
  proof (intro ballI notI)
    fix p assume p: "p \<in> set go_spaces" and eq: "take (length p) s = p"
    then have "hd p = hd s" using go_spaces_nonempty by (metis hd_take length_greater_0_conv)
    with assms(2) go_space_ends [OF p] show False by simp
  qed
  have "\<not> (length p \<le> length s \<and> drop (length s - length p) s = p)" if p: "p \<in> set go_spaces" for p
  proof
    assume eq: "length p \<le> length s \<and> drop (length s - length p) s = p"
    then have "last p = last s" using go_spaces_nonempty [OF p] by (metis last_drop drop_eq_Nil leI)
    with assms(3) go_space_ends [OF p] show False by simp
  qed
  then have "find (\<lambda>p. length p \<le> length s \<and> drop (length s - length p) s = p) go_spaces = None"
    unfolding find_None_iff by blast
  then show "trail_space s = 0" by (simp add: trail_space_def)
qed

text \<open>The metadata a client sends with an access token.\<close>

definition bearer_md :: "string \<Rightarrow> metadata" where
  "bearer_md token = Some [(''authorization'', [''Bearer '' @ token])]"

lemma bearer_accepted:
  assumes "token \<noteq> []" and "list_all is_graphic token"
  shows "bearerTokenFromMetadata (bearer_md token) = Inr token"
proof -
  have "is_graphic (last token)" using assms by (simp add: list_all_iff)
  then have "TrimSpace (''Bearer '' @ token) = ''Bearer '' @ token"
    using assms(1) by (intro TrimSpace_ends) (simp_all add: is_graphic_def)
  moreover have "take 7 (ToLower (''Bearer '' @ token)) = ''bearer ''" by (simp add: char_of_def bit_iff_odd)
  ultimately show ?thesis
    using assms by (simp add: bearerTokenFromMetadata_def bearer_md_def md_Get_def Let_def TrimSpace_graphic)
qed

lemma demo_parse:
  "now < 900000000 \<Longrightarrow> parseAccessToken toy_jwt now ''u1:d1:0:900:s3cret'' (string_bytes ''s3cret'') = Inr \<lparr>at_UserID = ''u1'', at_DeviceID = ''d1''\<rparr>"
  by (simp add: parseAccessToken_def toy_jwt_def toy_parse_def field_def key_for_def key_text_def string_bytes_def claim_string_def
      TrimSpace_graphic is_graphic_def is_digit_def char_of_def bit_iff_odd)

theorem access_token_checked_witness:
  "\<exists>token p. jwt_Parse toy_jwt 0 token (key_for (string_bytes ''s3cret'')) = Inr p \<and> jt_Valid p \<and>
     fst (newAuthUnaryInterceptor demo_env toy_jwt ''s3cret'' ''/gophkeeper.v1.VaultService/GetItem''
      (bearer_md ''u1:d1:0:900:s3cret'') \<lparr>ac_UserID = None, ac_DeviceID = None\<rparr> (\<lambda>ctx. with_user ctx ret) demo_world) = Inr ''u1''"
proof -
  let ?r = "newAuthUnaryInterceptor demo_env toy_jwt ''s3cret'' ''/gophkeeper.v1.VaultService/GetItem''
      (bearer_md ''u1:d1:0:900:s3cret'') \<lparr>ac_UserID = None, ac_DeviceID = None\<rparr> (\<lambda>ctx. with_user ctx ret) demo_world"
  have fst: "fst ?r = Inr ''u1''"
    by (simp add: newAuthUnaryInterceptor_def publicMethods_def bearer_accepted is_graphic_def prog_defs time_Now_def demo_parse
        demo_world_def with_user_def UserIDFromContext_def WithAuthContext_def)
  show ?thesis
    using access_token_checked [of "''/gophkeeper.v1.VaultService/GetItem''" demo_env toy_jwt "''s3cret''"
        "bearer_md ''u1:d1:0:900:s3cret''" "\<lparr>ac_UserID = None, ac_DeviceID = None\<rparr>" "\<lambda>ctx. with_user ctx ret" demo_world,
        OF _ prod.collapse [symmetric]] fst
    by (auto simp: publicMethods_def demo_world_def)
qed

end
