(* ===== verification/AuthLogin.thy ===== *)
theory AuthLogin
  imports AuthProps
begin

section \<open>Registration and sign-in\<close>

text \<open>
  What Register and Login have done when they answer (\<open>Register_ok\<close>, \<open>Login_ok\<close>), that Login answers
  when its externals do (\<open>Login_reliable\<close>), and the properties that span the two and the access token
  check.
\<close>

lemma wp_LoginWithDeviceAndSession:
  fixes w :: "'o world"
  assumes "\<And>(w1 :: 'o world) w2 w3 w'. upsertDevice E v w1 = (Inr (), w2) \<Longrightarrow> db w1 = db w \<Longrightarrow>
      stmt E (sql_insert_token s) w2 = (Inr (), w3) \<Longrightarrow> db w' = db w3 \<Longrightarrow> Q () w'"
    and "\<And>e w'. R e w'"
  shows "wp (LoginWithDeviceAndSession E v s) Q R w"
proof (rule wpI)
  fix x and w' :: "'o world" assume "LoginWithDeviceAndSession E v s w = (Inr x, w')"
  then obtain w1 w3 :: "'o world" where run: "andthen (upsertDevice E v) (\<lambda>_. stmt E (sql_insert_token s)) w1 = (Inr x, w3)"
    and db: "db w1 = db w" "db w' = db w3"
    unfolding LoginWithDeviceAndSession_def insertSession_def by (rule in_tx_ok)
  from run obtain y and w2 :: "'o world" where "upsertDevice E v w1 = (Inr y, w2)"
    and "stmt E (sql_insert_token s) w2 = (Inr x, w3)" by (rule andthen_okE)
  with db assms(1) show "Q x w'" by simp
qed (rule assms(2))

lemma wp_RegisterWithSession:
  fixes w :: "'o world"
  assumes "\<And>w'. users (db w') = users (db w) @ [u] \<Longrightarrow>
      list_ex (device_key (dv_UserID v) (dv_DeviceID v)) (devices (db w')) \<Longrightarrow> Q () w'"
    and "\<And>e w'. R e w'"
  shows "wp (RegisterWithSession E u v s) Q R w"
proof (rule wpI)
  fix x and w' :: "'o world" assume "RegisterWithSession E u v s w = (Inr x, w')"
  then obtain w1 w4 :: "'o world" where
    run: "andthen (insertUser E u) (\<lambda>_. andthen (upsertDevice E v) (\<lambda>_. stmt E (sql_insert_token s))) w1 = (Inr x, w4)"
    and db: "db w1 = db w" "db w' = db w4"
    unfolding RegisterWithSession_def insertSession_def by (rule in_tx_ok)
  from run obtain y z and w2 w3 :: "'o world" where 1: "insertUser E u w1 = (Inr y, w2)" and 2: "upsertDevice E v w2 = (Inr z, w3)"
    and 3: "stmt E (sql_insert_token s) w3 = (Inr x, w4)" by (elim andthen_okE)
  from insertUser_ok(1) [OF 1] upsertDevice_ok(1,2) [OF 2] insertSession_ok(2,3) [OF 3] db assms(1)
  show "Q x w'" by simp
qed (rule assms(2))

text \<open>The account of a login answer.\<close>

definition answers_for :: "User \<Rightarrow> LoginResponse \<Rightarrow> bool" where
  "answers_for user out \<longleftrightarrow>
     ui_UserId (the (lr_User out)) = ur_UserID user \<and> ui_Login (the (lr_User out)) = ur_Login user \<and>
     lr_PasswordSalt out = ur_PasswordSalt user \<and> lr_EncryptedVaultKey out = ur_EncryptedVaultKey user \<and>
     lr_EncryptedVaultKeyNonce out = ur_EncryptedVaultKeyNonce user \<and>
     lr_KdfParams out = \<lparr>kp_Algorithm = ur_KDFAlgorithm user, kp_MemoryKib = uint32 (ur_KDFMemoryKiB user),
       kp_Iterations = uint32 (ur_KDFIterations user), kp_Parallelism = uint32 (ur_KDFParallelism user),
       kp_KeyLength = uint32 (ur_KDFKeyLength user)\<rparr>"

definition signed_for :: "env \<Rightarrow> auth_libs \<Rightarrow> Config \<Rightarrow> string \<Rightarrow> string \<Rightarrow> nat \<Rightarrow> string \<Rightarrow> bool" where
  "signed_for E L cfg u d n token \<longleftrightarrow>
     jwt_SignedString (al_jwt L) ''HS256''
       (access_claims \<lparr>at_UserID = u, at_DeviceID = d\<rparr> (env_clock E n) (seconds_duration (cf_AccessTTLSec cfg)))
       (string_bytes (cf_JWTSecret cfg)) = Inr token"

definition login_done :: "env \<Rightarrow> auth_libs \<Rightarrow> Config \<Rightarrow> LoginRequest \<Rightarrow> database \<Rightarrow> LoginResponse \<Rightarrow> database \<Rightarrow> nat \<Rightarrow> bool" where
  "login_done E L cfg req d out d' n \<longleftrightarrow> (\<exists>user. find (\<lambda>r. ur_Login r = TrimSpace (lq_Login req)) (users d) = Some user \<and>
    bc_CompareHashAndPassword (al_bcrypt L) (bytes_of (ur_PasswordHash user)) (string_bytes (lq_Password req)) = None \<and>
    answers_for user out \<and> signed_for E L cfg (ur_UserID user) (lr_DeviceId out) n (lr_AccessToken out) \<and>
    list_ex (device_key (ur_UserID user) (lr_DeviceId out)) (devices d'))"

lemma Login_ok:
  fixes w w' :: "'o world"
  assumes "authHandler_Login (pg_auth E L cfg) req w = (Inr out, w')"
  shows "\<exists>n. tick w' = Suc n \<and> login_done E L cfg req (db w) out (db w') n"
proof -
  let ?Q = "\<lambda>out (w' :: 'o world). \<exists>n. tick w' = Suc n \<and> login_done E L cfg req (db w) out (db w') n"
  have issue: "wp (IssueAccessToken (al_jwt L) \<lparr>ji_secret = string_bytes (cf_JWTSecret cfg), ji_now = time_Now E\<rparr>
      \<lparr>at_UserID = ur_UserID user, at_DeviceID = dev\<rparr> (seconds_duration (cf_AccessTTLSec cfg))) Q R w3"
    if "\<And>t w4. signed_for E L cfg (ur_UserID user) dev (tick w3) t \<Longrightarrow> db w4 = db w3 \<Longrightarrow> tick w4 = Suc (tick w3) \<Longrightarrow> Q t w4" "\<And>e w4. R e w4"
    for user dev Q R and w3 :: "'o world"
    using that by (auto simp: wp_Issue signed_for_def split: sum.splits)
  have "wp (authHandler_Login (pg_auth E L cfg) req) ?Q (\<lambda>_ _. True) w"
    unfolding authHandler_Login_def pg_auth_rpc Service_Login_def device_or_new_def Let_def login_input_def
    by (auto simp: wp_handle wp_guard wp_andthen wp_throw wp_ret wp_uuid wp_time_Now wp_NewRefreshToken
        split: sum.splits intro!: wp_GetByLogin wp_LoginWithDeviceAndSession issue)
       (auto simp: login_done_def answers_for_def BcryptHasher_Compare_def dest!: upsertDevice_ok(1) insertSession_ok(3))
  from wp_okD [OF this assms] show ?thesis .
qed

definition register_done :: "auth_libs \<Rightarrow> RegisterRequest \<Rightarrow> database \<Rightarrow> RegisterResponse \<Rightarrow> database \<Rightarrow> bool" where
  "register_done L req d out d' \<longleftrightarrow>
     (let inp = register_input req in
      \<exists>n hash. bc_GenerateFromPassword (al_bcrypt L) n (string_bytes (rq_Password req)) (bc_DefaultCost (al_bcrypt L)) = Inr hash \<and>
       users d' = users d @
         [\<lparr>ur_UserID = ui_UserId (the (rr_User out)), ur_Login = TrimSpace (rq_Login req), ur_PasswordHash = Some hash,
           ur_PasswordSalt = rq_PasswordSalt req, ur_KDFAlgorithm = ri_KDFAlgorithm inp, ur_KDFMemoryKiB = ri_KDFMemoryKiB inp,
           ur_KDFIterations = ri_KDFIterations inp, ur_KDFParallelism = ri_KDFParallelism inp,
           ur_KDFKeyLength = ri_KDFKeyLength inp, ur_EncryptedVaultKey = rq_EncryptedVaultKey req,
           ur_EncryptedVaultKeyNonce = rq_EncryptedVaultKeyNonce req\<rparr>] \<and>
       list_ex (device_key (ui_UserId (the (rr_User out))) (rr_DeviceId out)) (devices d') \<and>
       TrimSpace (rq_Login req) \<noteq> [] \<and> rq_Password req \<noteq> [])"

lemma Register_ok:
  fixes w w' :: "'o world"
  assumes "authHandler_Register (pg_auth E L cfg) req w = (Inr out, w')"
  shows "register_done L req (db w) out (db w') \<and>
    (rr_DeviceId out = TrimSpace (di_DeviceId (device_of (rq_Device req))) \<and> rr_DeviceId out \<noteq> [] \<or> rr_DeviceId out \<in> range (env_uuid E))"
proof -
  let ?Q = "\<lambda>out (w' :: 'o world). register_done L req (db w) out (db w') \<and>
    (rr_DeviceId out = TrimSpace (di_DeviceId (device_of (rq_Device req))) \<and> rr_DeviceId out \<noteq> [] \<or> rr_DeviceId out \<in> range (env_uuid E))"
  have issue: "wp (IssueAccessToken (al_jwt L) \<lparr>ji_secret = string_bytes (cf_JWTSecret cfg), ji_now = time_Now E\<rparr> claims ttl) Q R w3"
    if "\<And>t w4. db w4 = db w3 \<Longrightarrow> Q t w4" "\<And>e w4. R e w4" for claims ttl Q R and w3 :: "'o world"
    using that by (auto simp: wp_Issue split: sum.splits)
  have "wp (authHandler_Register (pg_auth E L cfg) req) ?Q (\<lambda>_ _. True) w"
    unfolding authHandler_Register_def pg_auth_rpc Service_Register_def device_or_new_def Let_def
    by (auto simp: wp_handle wp_guard wp_andthen wp_throw wp_ret wp_uuid wp_time_Now wp_NewRefreshToken wp_Hash
        split: sum.splits intro!: wp_RegisterWithSession issue)
       (auto simp: register_done_def Let_def register_input_def)
  from wp_okD [OF this assms] show ?thesis .
qed

subsection \<open>Sign-in answers\<close>

lemma GetByLogin_reliable:
  assumes "reliable E" and "find (\<lambda>r. ur_Login r = l) (users (db w)) = Some user"
  shows "GetByLogin E l w = (Inr user, w\<lparr>tick := Suc (tick w)\<rparr>)"
  using assms by (simp add: GetByLogin_def handle_def stmt_def sql_select_user_def ret_def)

lemma LoginWithDevice_reliable:
  fixes w :: "'o world"
  assumes rel: "reliable E" and own: "list_ex (device_key (dv_UserID v) (dv_DeviceID v)) (devices (db w))"
    and user: "has_user (db w) (ss_UserID s)" and dev: "ss_DeviceID s = dv_DeviceID v"
    and new: "ss_TokenHash s \<noteq> None" "ss_TokenHash s \<notin> rt_TokenHash ` set (refresh_tokens (db w))"
      "ss_TokenID s \<notin> rt_TokenID ` set (refresh_tokens (db w))"
  shows "\<exists>w'. LoginWithDeviceAndSession E v s w = (Inr (), w')"
proof -
  let ?P = "device_key (dv_UserID v) (dv_DeviceID v)" and ?w1 = "w\<lparr>tick := Suc (tick w)\<rparr>"
  let ?d = "(db w)\<lparr>devices := upd_where ?P (seen_device v (env_db_clock E (Suc (tick w)))) (devices (db w))\<rparr>"
  have has: "has_device (db w) (dv_DeviceID v)" and count: "count_where ?P (devices (db w)) \<noteq> 0"
    using own by (auto simp: has_device_def list_ex_iff device_key_def)
  then have up: "upsertDevice E v ?w1 = (Inr (), w\<lparr>tick := Suc (Suc (tick w)), db := ?d\<rparr>)"
    using rel by (auto simp: upsertDevice_def andthen_def handle_def guard_def ret_def stmt_def sql_upsert_device_def Let_def)
  have "has_device ?d (dv_DeviceID v)" using has
    by (simp add: has_device_def list_ex_upd_where seen_device_def)
  moreover have "has_user ?d (ss_UserID s)" using user by (simp add: has_user_def)
  moreover have unused: "\<not> list_ex (\<lambda>r. rt_TokenID r = ss_TokenID s \<or> rt_TokenHash r = ss_TokenHash s) (refresh_tokens (db w))"
    using new by (force simp: list_ex_iff)
  ultimately have ins: "insertSession E s (w\<lparr>tick := Suc (Suc (tick w)), db := ?d\<rparr>) =
      (Inr (), w\<lparr>tick := Suc (Suc (Suc (tick w))), db := ?d\<lparr>refresh_tokens := refresh_tokens ?d @ [new_token s]\<rparr>\<rparr>)"
    using rel new dev unused by (simp add: insertSession_def stmt_def sql_insert_token_def)
  have "\<exists>w2. andthen (upsertDevice E v) (\<lambda>_. insertSession E s) ?w1 = (Inr (), w2)"
    by (simp add: andthen_def handle_def up ins)
  then obtain w2 where "andthen (upsertDevice E v) (\<lambda>_. insertSession E s) ?w1 = (Inr (), w2)" ..
  from in_tx_reliable [where body = "andthen (upsertDevice E v) (\<lambda>_. insertSession E s)", OF rel this]
  show ?thesis by (simp add: LoginWithDeviceAndSession_def)
qed

text \<open>The draws of a sign-in that starts at a given point: random bytes for a token whose hash is not
  stored yet, and an unused token id.\<close>

definition fresh_draw :: "env \<Rightarrow> auth_libs \<Rightarrow> 'o world \<Rightarrow> bool" where
  "fresh_draw E L w \<longleftrightarrow>
     (case al_rand L (Suc (tick w)) of
        Inl _ \<Rightarrow> False
      | Inr b \<Rightarrow> Some (HashToken (al_sha256 L) (RawURLEncoding b)) \<notin> rt_TokenHash ` set (refresh_tokens (db w))) \<and>
     env_uuid E (Suc (Suc (tick w))) \<notin> rt_TokenID ` set (refresh_tokens (db w))"

lemma Login_reliable:
  fixes w :: "'o world"
  assumes rel: "reliable E" and user: "find (\<lambda>r. ur_Login r = TrimSpace (lq_Login req)) (users (db w)) = Some user"
    and guards: "TrimSpace (lq_Login req) \<noteq> []" "lq_Password req \<noteq> []"
    and pw: "bc_CompareHashAndPassword (al_bcrypt L) (bytes_of (ur_PasswordHash user)) (string_bytes (lq_Password req)) = None"
    and dev: "lq_Device req = Some info" "TrimSpace (di_DeviceId info) \<noteq> []"
      "list_ex (device_key (ur_UserID user) (TrimSpace (di_DeviceId info))) (devices (db w))"
    and fresh: "fresh_draw E L w"
    and sign: "\<And>n. \<exists>t. signed_for E L cfg (ur_UserID user) (TrimSpace (di_DeviceId info)) n t"
  shows "\<exists>out w'. authHandler_Login (pg_auth E L cfg) req w = (Inr out, w')"
proof -
  let ?d = "TrimSpace (di_DeviceId info)" and ?t = "Suc (Suc (tick w))"
  obtain b where b: "al_rand L (Suc (tick w)) = Inr b"
    and hash: "Some (HashToken (al_sha256 L) (RawURLEncoding b)) \<notin> rt_TokenHash ` set (refresh_tokens (db w))"
    and id: "env_uuid E ?t \<notin> rt_TokenID ` set (refresh_tokens (db w))"
    using fresh by (auto simp: fresh_draw_def split: sum.splits)
  have has: "has_user (db w) (ur_UserID user)" using find_SomeD [OF user] by (auto simp: has_user_def list_ex_iff)
  have store: "\<exists>w'. LoginWithDeviceAndSession E \<lparr>dv_DeviceID = ?d, dv_UserID = ur_UserID user, dv_DeviceName = nm,
       dv_Platform = pl, dv_ClientVersion = cv\<rparr> \<lparr>ss_TokenID = env_uuid E ?t, ss_UserID = ur_UserID user, ss_DeviceID = ?d,
       ss_TokenHash = Some (HashToken (al_sha256 L) (RawURLEncoding b)), ss_ExpiresAt = ex\<rparr> (w\<lparr>tick := k\<rparr>) = (Inr (), w')"
    for nm pl cv ex k
    by (rule LoginWithDevice_reliable) (use rel has dev(3) hash id in simp_all)
  obtain w2 where w2: "LoginWithDeviceAndSession E \<lparr>dv_DeviceID = ?d, dv_UserID = ur_UserID user,
       dv_DeviceName = di_DeviceName info, dv_Platform = int16 (di_Platform info), dv_ClientVersion = di_ClientVersion info\<rparr>
       \<lparr>ss_TokenID = env_uuid E ?t, ss_UserID = ur_UserID user, ss_DeviceID = ?d,
        ss_TokenHash = Some (HashToken (al_sha256 L) (RawURLEncoding b)),
        ss_ExpiresAt = env_clock E (Suc ?t) + seconds_duration (cf_RefreshTTLSec cfg)\<rparr> (w\<lparr>tick := Suc (Suc ?t)\<rparr>) = (Inr (), w2)"
    using store by blast
  obtain t where "signed_for E L cfg (ur_UserID user) ?d (tick w2) t" using sign by blast
  then show ?thesis
    using guards pw dev w2
    by (simp add: authHandler_Login_def Service_Login_def login_input_def device_of_def device_or_new_def Let_def andthen_def
        handle_def guard_def ret_def GetByLogin_reliable [OF rel user] BcryptHasher_Compare_def NewRefreshToken_def b
        uuid_NewString_def time_Now_def IssueAccessToken_def signed_for_def)
qed

subsection \<open>A concrete account\<close>

definition demo_info :: DeviceInfo where
  "demo_info = \<lparr>di_DeviceId = ''d7'', di_DeviceName = ''phone'', di_Platform = 2, di_ClientVersion = ''1.0''\<rparr>"

definition demo_register :: RegisterRequest where
  "demo_register = \<lparr>rq_Login = ''carol'', rq_Password = ''pw'', rq_PasswordSalt = Some [1], rq_KdfParams =
     Some \<lparr>kp_Algorithm = ''argon2id'', kp_MemoryKib = 0xFFFFFFFF, kp_Iterations = 3, kp_Parallelism = 2, kp_KeyLength = 32\<rparr>,
     rq_EncryptedVaultKey = Some [2], rq_EncryptedVaultKeyNonce = Some [3], rq_Device = Some demo_info\<rparr>"

definition demo_login :: LoginRequest where
  "demo_login = \<lparr>lq_Login = '' carol'', lq_Password = ''pw'', lq_Device = Some demo_info\<rparr>"

lemma trim_carol [simp]: "TrimSpace '' carol'' = ''carol''"
  by (simp add: TrimSpace_def trim_left.simps [of "CHR '' '' # _"] trim_left.simps [of "''carol''"] trim_right.simps
      lead_space_def trail_space_def go_spaces_def)

lemma demo_register_ok:
  "\<exists>out w1. authHandler_Register (pg_auth demo_env demo_libs demo_auth_cfg) demo_register demo_auth_world = (Inr out, w1) \<and>
     ui_UserId (the (rr_User out)) = ''id-1'' \<and> rr_DeviceId out = ''d7'' \<and> tick w1 = 11 \<and>
     rt_TokenHash ` set (refresh_tokens (db w1)) = {Some (string_bytes ''tok''), Some (string_bytes ''Ag'')} \<and>
     rt_TokenID ` set (refresh_tokens (db w1)) = {''t1'', ''id-3''}"
  by (simp add: authHandler_Register_def Service_Register_def register_input_def kdf_of_def device_of_def device_or_new_def
      BcryptHasher_Hash_def RegisterWithSession_def insertUser_def upsertDevice_def insertSession_def sql_insert_user_def
      user_not_null_def sql_upsert_device_def new_device_def demo_register_def demo_info_def auth_eval auth_demo_defs show_nat.simps)

subsection \<open>The account a registration leaves\<close>

definition account_of :: "RegisterRequest \<Rightarrow> string \<Rightarrow> bytes \<Rightarrow> User" where
  "account_of req u hash =
     (let kdf = kdf_of (rq_KdfParams req) in
      \<lparr>ur_UserID = u, ur_Login = TrimSpace (rq_Login req), ur_PasswordHash = Some hash, ur_PasswordSalt = rq_PasswordSalt req,
       ur_KDFAlgorithm = kp_Algorithm kdf, ur_KDFMemoryKiB = int32 (kp_MemoryKib kdf),
       ur_KDFIterations = int32 (kp_Iterations kdf), ur_KDFParallelism = int32 (kp_Parallelism kdf),
       ur_KDFKeyLength = int32 (kp_KeyLength kdf), ur_EncryptedVaultKey = rq_EncryptedVaultKey req,
       ur_EncryptedVaultKeyNonce = rq_EncryptedVaultKeyNonce req\<rparr>)"

lemma registered_account:
  fixes w w1 w2 :: "'o world"
  assumes ok: "auth_ok (db w)" and reg: "authHandler_Register (pg_auth E L cfg) req w = (Inr out, w1)"
    and later: "(auth_call E L cfg)\<^sup>*\<^sup>* w1 w2"
  obtains n hash where
    "bc_GenerateFromPassword (al_bcrypt L) n (string_bytes (rq_Password req)) (bc_DefaultCost (al_bcrypt L)) = Inr hash"
    and "find (\<lambda>r. ur_Login r = TrimSpace (rq_Login req)) (users (db w2)) = Some (account_of req (ui_UserId (the (rr_User out))) hash)"
    and "list_ex (device_key (ui_UserId (the (rr_User out))) (rr_DeviceId out)) (devices (db w2))"
    and "TrimSpace (rq_Login req) \<noteq> []" and "rq_Password req \<noteq> []"
proof -
  let ?u = "ui_UserId (the (rr_User out))"
  from Register_ok [OF reg] obtain n hash where
    gen: "bc_GenerateFromPassword (al_bcrypt L) n (string_bytes (rq_Password req)) (bc_DefaultCost (al_bcrypt L)) = Inr hash"
    and users: "users (db w1) = users (db w) @ [account_of req ?u hash]"
    and dev: "list_ex (device_key ?u (rr_DeviceId out)) (devices (db w1))"
    and guards: "TrimSpace (rq_Login req) \<noteq> []" "rq_Password req \<noteq> []"
    by (auto simp: register_done_def Let_def register_input_def account_of_def)
  have "auth_ok (db w1)"
    using auth_call_from [OF auth_call.register [OF reg], of "db w"] ok by (simp add: auth_from_def)
  with later have from1: "auth_from (db w1) (db w2)" by (rule auth_calls_from)
  have in2: "account_of req ?u hash \<in> set (users (db w2))" using from1 users by (auto simp: auth_from_def auth_later_def)
  have "distinct (map ur_Login (users (db w2)))" using from1 by (simp add: auth_from_def auth_ok_def)
  then have found: "find (\<lambda>r. ur_Login r = TrimSpace (rq_Login req)) (users (db w2)) = Some (account_of req ?u hash)"
    by (rule find_distinct_key) (use in2 in \<open>simp_all add: account_of_def Let_def\<close>)
  have "list_ex (device_key ?u (rr_DeviceId out)) (devices (db w2))"
    using dev from1 by (fastforce simp: auth_from_def auth_later_def persists_def list_ex_iff device_key_def same_device_def)
  with gen found guards show ?thesis by (intro that)
qed

subsection \<open>Properties\<close>

text \<open>
  What was registered is what every later sign-in returns. After a successful Register and any
  further calls, Login from the registered device with the same login and password answers (the database
  works, the drawn token is fresh and the token can be signed), and the answer carries the account id,
  the salt, the KDF parameters, bit for bit through the signed columns of the database, and the encrypted
  vault key that Register was given.
\<close>

theorem register_login_roundtrip:
  fixes w w1 w2 :: "'o world"
  assumes ok: "auth_ok (db w)" and reg: "authHandler_Register (pg_auth E L cfg) rreq w = (Inr out1, w1)"
    and later: "(auth_call E L cfg)\<^sup>*\<^sup>* w1 w2"
    and req: "TrimSpace (lq_Login lreq) = TrimSpace (rq_Login rreq)" "lq_Password lreq = rq_Password rreq"
      "lq_Device lreq = Some info" "TrimSpace (di_DeviceId info) = rr_DeviceId out1"
    and uuid: "\<And>n. env_uuid E n \<noteq> []" and rel: "reliable E" and fresh: "fresh_draw E L w2"
    and bcrypt: "\<And>n p c h. bc_GenerateFromPassword (al_bcrypt L) n p c = Inr h \<Longrightarrow> bc_CompareHashAndPassword (al_bcrypt L) h p = None"
    and sign: "\<And>n. \<exists>t. signed_for E L cfg (ui_UserId (the (rr_User out1))) (rr_DeviceId out1) n t"
  shows "\<exists>out2 w3. authHandler_Login (pg_auth E L cfg) lreq w2 = (Inr out2, w3) \<and>
    ui_UserId (the (lr_User out2)) = ui_UserId (the (rr_User out1)) \<and> lr_PasswordSalt out2 = rq_PasswordSalt rreq \<and>
    lr_KdfParams out2 = kdf_of (rq_KdfParams rreq) \<and> lr_EncryptedVaultKey out2 = rq_EncryptedVaultKey rreq \<and>
    lr_EncryptedVaultKeyNonce out2 = rq_EncryptedVaultKeyNonce rreq"
proof -
  let ?u = "ui_UserId (the (rr_User out1))"
  obtain n hash where
    gen: "bc_GenerateFromPassword (al_bcrypt L) n (string_bytes (rq_Password rreq)) (bc_DefaultCost (al_bcrypt L)) = Inr hash"
    and found: "find (\<lambda>r. ur_Login r = TrimSpace (rq_Login rreq)) (users (db w2)) = Some (account_of rreq ?u hash)"
    and dev2: "list_ex (device_key ?u (rr_DeviceId out1)) (devices (db w2))"
    and guards: "TrimSpace (rq_Login rreq) \<noteq> []" "rq_Password rreq \<noteq> []"
    using registered_account [OF ok reg later] .
  have "rr_DeviceId out1 \<noteq> []" using Register_ok [OF reg] uuid by auto
  then have "\<exists>out2 w3. authHandler_Login (pg_auth E L cfg) lreq w2 = (Inr out2, w3)"
    by (intro Login_reliable [OF rel, of _ _ "account_of rreq ?u hash", OF _ _ _ _ req(3) _ _ fresh])
       (use found guards bcrypt [OF gen] sign req dev2 in \<open>simp_all add: account_of_def Let_def bytes_of_def\<close>)
  then obtain out2 w3 where login: "authHandler_Login (pg_auth E L cfg) lreq w2 = (Inr out2, w3)" by blast
  from Login_ok [OF this] found req(1) have "answers_for (account_of rreq ?u hash) out2" by (auto simp: login_done_def)
  with login show ?thesis by (auto simp: answers_for_def account_of_def Let_def)
qed

lemma demo_signs: "\<exists>t. signed_for demo_env demo_libs demo_auth_cfg ''id-1'' ''d7'' n t"
  by (simp add: signed_for_def access_claims_def toy_jwt_def toy_sign_def key_text_def string_bytes_def Unix_def
      seconds_duration_def is_graphic_def auth_demo_defs pos_imp_zdiv_nonneg_iff)

theorem register_login_roundtrip_witness:
  "\<exists>out1 (w1 :: unit world) out2 w3.
     authHandler_Register (pg_auth demo_env demo_libs demo_auth_cfg) demo_register demo_auth_world = (Inr out1, w1) \<and>
     authHandler_Login (pg_auth demo_env demo_libs demo_auth_cfg) demo_login w1 = (Inr out2, w3) \<and>
     kp_MemoryKib (lr_KdfParams out2) = 0xFFFFFFFF \<and> lr_EncryptedVaultKey out2 = Some [2]"
proof -
  obtain out1 and w1 :: "unit world" where
    reg: "authHandler_Register (pg_auth demo_env demo_libs demo_auth_cfg) demo_register demo_auth_world = (Inr out1, w1)"
    and out1: "ui_UserId (the (rr_User out1)) = ''id-1''" "rr_DeviceId out1 = ''d7''" "tick w1 = 11"
      "rt_TokenHash ` set (refresh_tokens (db w1)) = {Some (string_bytes ''tok''), Some (string_bytes ''Ag'')}"
      "rt_TokenID ` set (refresh_tokens (db w1)) = {''t1'', ''id-3''}"
    using demo_register_ok by (elim exE conjE)
  have "HashToken (al_sha256 demo_libs) (RawURLEncoding [12]) = string_bytes ''DA''"
    by (simp add: demo_libs_def HashToken_def b64_char_def b64_alphabet_def)
  moreover have "env_uuid demo_env 13 = ''id-13''" by (simp add: show_nat.simps)
  moreover have "al_rand demo_libs 12 = Inr [12]" by (simp add: demo_libs_def)
  ultimately have "fresh_draw demo_env demo_libs w1"
    by (simp add: fresh_draw_def out1 string_bytes_def del: demo_env_sel)
  then have "\<exists>out2 w3. authHandler_Login (pg_auth demo_env demo_libs demo_auth_cfg) demo_login w1 = (Inr out2, w3) \<and>
    ui_UserId (the (lr_User out2)) = ui_UserId (the (rr_User out1)) \<and> lr_PasswordSalt out2 = rq_PasswordSalt demo_register \<and>
    lr_KdfParams out2 = kdf_of (rq_KdfParams demo_register) \<and> lr_EncryptedVaultKey out2 = rq_EncryptedVaultKey demo_register \<and>
    lr_EncryptedVaultKeyNonce out2 = rq_EncryptedVaultKeyNonce demo_register"
    by (intro register_login_roundtrip [OF demo_auth_ok reg, where info = demo_info])
       (use out1 demo_signs in \<open>auto simp: demo_login_def demo_register_def demo_info_def demo_libs_def TrimSpace_graphic is_graphic_def\<close>)
  with reg show ?thesis by (auto simp: demo_register_def kdf_of_def)
qed

text \<open>
  C36. A token is good for its holder. The access token of a successful Login, sent as a bearer token
  before the instant it expires (the configured lifetime after its issue, in whole seconds), makes the
  interceptor run every RPC handler in the context of the account and the device that signed in. The ids
  are ASCII and not blank, and the instants lie between 1970 and 2 ** 53 seconds after it, as for the
  JSON numbers of a token they must.
\<close>

theorem login_token_accepted:
  fixes w w1 w2 :: "'o world" and handler :: "auth_context \<Rightarrow> ('o, 'a) server"
  assumes jwt: "jwt_ok (al_jwt L)" and login: "authHandler_Login (pg_auth E L cfg) req w = (Inr out, w1)"
    and names: "TrimSpace (ui_UserId (the (lr_User out))) \<noteq> []" "TrimSpace (lr_DeviceId out) \<noteq> []"
      "ascii (ui_UserId (the (lr_User out)))" "ascii (lr_DeviceId out)"
    and instants: "float_exact (Unix (env_clock E (tick w1 - 1)))"
      "float_exact (Unix (env_clock E (tick w1 - 1) + seconds_duration (cf_AccessTTLSec cfg)))"
    and alive: "env_clock E (tick w2) < Unix (env_clock E (tick w1 - 1) + seconds_duration (cf_AccessTTLSec cfg)) * 1000000"
    and guarded: "method \<notin> set publicMethods"
  shows "newAuthUnaryInterceptor E (al_jwt L) (cf_JWTSecret cfg) method (bearer_md (lr_AccessToken out)) ctx handler w2 =
    handler (WithAuthContext ctx (ui_UserId (the (lr_User out))) (lr_DeviceId out)) (w2\<lparr>tick := Suc (tick w2)\<rparr>)"
proof -
  let ?u = "ui_UserId (the (lr_User out))" and ?k = "string_bytes (cf_JWTSecret cfg)"
  let ?cs = "access_claims \<lparr>at_UserID = ?u, at_DeviceID = lr_DeviceId out\<rparr> (env_clock E (tick w1 - 1))
       (seconds_duration (cf_AccessTTLSec cfg))"
  have signed: "jwt_SignedString (al_jwt L) ''HS256'' ?cs ?k = Inr (lr_AccessToken out)"
    using Login_ok [OF login] by (auto simp: login_done_def signed_for_def answers_for_def)
  with jwt have "bearerTokenFromMetadata (bearer_md (lr_AccessToken out)) = Inr (lr_AccessToken out)"
    by (intro bearer_accepted) (auto simp: jwt_ok_def)
  moreover obtain p cs where "jwt_Parse (al_jwt L) (env_clock E (tick w2)) (lr_AccessToken out) (key_for ?k) = Inr p"
    and "jt_Valid p" and "jt_Claims p = MapClaims cs" and "map_of cs ''sub'' = Some (ClaimString ?u)"
    and "map_of cs ''device_id'' = Some (ClaimString (lr_DeviceId out))"
    using jwt_okD [OF jwt signed [unfolded access_claims_def AccessTokenClaims.simps] names(3,4) instants alive] .
  ultimately show ?thesis
    using guarded names
    by (simp add: newAuthUnaryInterceptor_def andthen_def handle_def time_Now_def parseAccessToken_def Let_def claim_string_def)
qed

definition demo_login1 :: LoginRequest where
  "demo_login1 = \<lparr>lq_Login = ''u1'', lq_Password = ''pw'', lq_Device = Some (demo_info\<lparr>di_DeviceId := ''d1''\<rparr>)\<rparr>"

lemma demo_login1_ok:
  "\<exists>out w1. authHandler_Login (pg_auth demo_env demo_libs demo_auth_cfg) demo_login1 demo_auth_world = (Inr out, w1) \<and>
     ui_UserId (the (lr_User out)) = ''u1'' \<and> lr_DeviceId out = ''d1'' \<and> tick w1 = 9"
  by (simp add: authHandler_Login_def Service_Login_def login_input_def device_of_def device_or_new_def GetByLogin_def
      sql_select_user_def BcryptHasher_Compare_def bytes_of_def LoginWithDeviceAndSession_def upsertDevice_def insertSession_def
      sql_upsert_device_def seen_device_def demo_login1_def demo_info_def auth_eval auth_demo_defs show_nat.simps)

theorem login_token_accepted_witness:
  "\<exists>out (w1 :: unit world). authHandler_Login (pg_auth demo_env demo_libs demo_auth_cfg) demo_login1 demo_auth_world = (Inr out, w1) \<and>
     fst (newAuthUnaryInterceptor demo_env toy_jwt ''s3cret'' ''/gophkeeper.v1.SyncService/Sync'' (bearer_md (lr_AccessToken out))
       \<lparr>ac_UserID = None, ac_DeviceID = None\<rparr> (\<lambda>ctx. with_user ctx ret) w1) = Inr ''u1''"
proof -
  obtain out and w1 :: "unit world" where
    login: "authHandler_Login (pg_auth demo_env demo_libs demo_auth_cfg) demo_login1 demo_auth_world = (Inr out, w1)"
    and out: "ui_UserId (the (lr_User out)) = ''u1''" "lr_DeviceId out = ''d1''" "tick w1 = 9"
    using demo_login1_ok by (elim exE conjE)
  have jwt: "jwt_ok (al_jwt demo_libs)" by (simp add: demo_libs_def toy_jwt_ok)
  have "newAuthUnaryInterceptor demo_env (al_jwt demo_libs) (cf_JWTSecret demo_auth_cfg) ''/gophkeeper.v1.SyncService/Sync''
      (bearer_md (lr_AccessToken out)) \<lparr>ac_UserID = None, ac_DeviceID = None\<rparr> (\<lambda>ctx. with_user ctx ret) w1 =
    with_user (WithAuthContext \<lparr>ac_UserID = None, ac_DeviceID = None\<rparr> (ui_UserId (the (lr_User out))) (lr_DeviceId out)) ret (w1\<lparr>tick := Suc (tick w1)\<rparr>)"
    by (rule login_token_accepted [OF jwt login])
       (use out in \<open>simp_all add: TrimSpace_graphic is_graphic_def publicMethods_def ascii_def float_exact_def Unix_def
         seconds_duration_def auth_demo_defs\<close>)
  then show ?thesis
    using login by (simp add: out demo_libs_def demo_auth_cfg_def with_user_def UserIDFromContext_def WithAuthContext_def ret_def)
qed

end
