(* ===== verification/Server.thy ===== *)
theory Server
  imports RpcErrors AuthLogin
begin

section \<open>Start-up and the gRPC server (\<open>internal/server/app\<close>, \<open>grpcserver/server.go\<close>)\<close>

text \<open>
  \<open>RunContext\<close> up to the point where the server listens: configuration, logger, TLS material,
  PostgreSQL, migrations, MinIO, the dependencies and \<open>grpcserver.New\<close>, which registers every RPC
  behind the interceptors. The libraries these steps call are a parameter (\<open>boot\<close>: their results).
  An error carries the labels \<open>fmt.Errorf("label: %w", err)\<close> puts in front of it.

  A server is its RPCs, each a function of the metadata of the call and the request, behind the access
  check. Theory \<open>Interceptors\<close> adds the logging and recovery interceptors and shows that they leave
  the answers as they are. The goroutines of Serve and of the cleanup job (\<open>Cleanup\<close>) run beside it;
  \<open>Run\<close> adds how the process ends.
\<close>

subsection \<open>Results of the libraries\<close>

datatype up_result = UpOk | UpNoChange | UpDirty int | UpFailed go_error
datatype version_result = NilVersion | VersionFailed go_error | Version nat bool

text \<open>
  A zap logger has a level, under which it drops entries, and the sampler of the production configuration,
  which drops repeated entries within a second. Which ones is left open: \<open>zl_sampled i\<close> says
  whether entry \<open>i\<close> of the run passes.
\<close>

datatype zap_level = DebugLevel | InfoLevel | WarnLevel | ErrorLevel | DPanicLevel | PanicLevel | FatalLevel

fun level_int8 :: "zap_level \<Rightarrow> int" where
  "level_int8 DebugLevel = - 1"
| "level_int8 InfoLevel = 0"
| "level_int8 WarnLevel = 1"
| "level_int8 ErrorLevel = 2"
| "level_int8 DPanicLevel = 3"
| "level_int8 PanicLevel = 4"
| "level_int8 FatalLevel = 5"

instantiation zap_level :: linorder
begin

definition less_eq_zap_level :: "zap_level \<Rightarrow> zap_level \<Rightarrow> bool" where
  "less_eq_zap_level a b \<longleftrightarrow> level_int8 a \<le> level_int8 b"

definition less_zap_level :: "zap_level \<Rightarrow> zap_level \<Rightarrow> bool" where
  "less_zap_level a b \<longleftrightarrow> level_int8 a < level_int8 b"

instance
proof
  fix a b :: zap_level
  show "a \<le> b \<Longrightarrow> b \<le> a \<Longrightarrow> a = b"
    by (cases a; cases b; simp add: less_eq_zap_level_def)
qed (auto simp: less_eq_zap_level_def less_zap_level_def)

end

record zap_logger =
  zl_level :: zap_level
  zl_sampled :: "nat \<Rightarrow> bool"

record boot =
  bo_Getenv :: "string \<Rightarrow> string"
  bo_UnmarshalLevel :: "string \<Rightarrow> go_error + zap_level"
  bo_BuildLogger :: "go_error + (nat \<Rightarrow> bool)"
  bo_NewServerTLSFromFile :: "string \<Rightarrow> string \<Rightarrow> go_error option"
  bo_sql_Open :: "string \<Rightarrow> go_error option"
  bo_Ping :: "go_error option"
  bo_iofs_New :: "go_error option"
  bo_migrate_New :: "string \<Rightarrow> go_error option"
  bo_Up :: up_result
  bo_Version :: version_result
  bo_minio_New :: "string \<Rightarrow> string \<Rightarrow> string \<Rightarrow> bool \<Rightarrow> go_error option"
  bo_ListBuckets :: "go_error option"
  bo_BucketExists :: "string \<Rightarrow> go_error + bool"
  bo_MakeBucket :: "string \<Rightarrow> go_error option"
  bo_Listen :: "string \<Rightarrow> go_error option"

type_synonym boot_error = "string list \<times> go_error"

definition errorf :: "string \<Rightarrow> boot_error + 'a \<Rightarrow> boot_error + 'a" where
  "errorf label r = (case r of Inl (ls, e) \<Rightarrow> Inl (label # ls, e) | Inr x \<Rightarrow> Inr x)"

definition check :: "go_error option \<Rightarrow> boot_error + unit" where
  "check r = (case r of None \<Rightarrow> Inr () | Some e \<Rightarrow> Inl ([], e))"

subsection \<open>Steps of the start-up\<close>

definition checked_value :: "go_error + 'a \<Rightarrow> boot_error + 'a" where
  "checked_value r = (case r of Inl e \<Rightarrow> Inl ([], e) | Inr x \<Rightarrow> Inr x)"

definition logging_New :: "boot \<Rightarrow> string \<Rightarrow> boot_error + zap_logger" where
  "logging_New B level =
     bind (errorf ''parse log level'' (checked_value (bo_UnmarshalLevel B level))) (\<lambda>lvl.
     bind (checked_value (bo_BuildLogger B)) (\<lambda>sampled. Inr \<lparr>zl_level = lvl, zl_sampled = sampled\<rparr>))"

definition LoadServerTransportCredentials :: "boot \<Rightarrow> Config option \<Rightarrow> boot_error + unit" where
  "LoadServerTransportCredentials B cfg =
     (case cfg of
        None \<Rightarrow> Inl ([], ErrOther ''config is nil'')
      | Some cfg \<Rightarrow> check (bo_NewServerTLSFromFile B (cf_GRPCTLSCertPath cfg) (cf_GRPCTLSKeyPath cfg)))"

definition OpenPing :: "boot \<Rightarrow> string \<Rightarrow> boot_error + unit" where
  "OpenPing B databaseURL =
     bind (errorf ''sql open'' (check (bo_sql_Open B databaseURL))) (\<lambda>_. errorf ''ping'' (check (bo_Ping B)))"

text \<open>Whether there was nothing to do.\<close>

definition handleUpResult :: "up_result \<Rightarrow> boot_error + bool" where
  "handleUpResult r =
     (case r of
        UpOk \<Rightarrow> Inr False
      | UpNoChange \<Rightarrow> Inr True
      | UpDirty v \<Rightarrow> Inl ([''migrate dirty state at version %d''], ErrOther ''dirty database version'')
      | UpFailed e \<Rightarrow> Inl ([''migrate up''], e))"

definition migrations_Run :: "boot \<Rightarrow> string \<Rightarrow> boot_error + unit" where
  "migrations_Run B databaseURL =
     bind (errorf ''migrate source'' (check (bo_iofs_New B))) (\<lambda>_.
     bind (errorf ''migrate init'' (check (bo_migrate_New B databaseURL))) (\<lambda>_.
     bind (handleUpResult (bo_Up B)) (\<lambda>noChange.
     if noChange then Inr ()
     else (case bo_Version B of
         NilVersion \<Rightarrow> Inr ()
       | VersionFailed e \<Rightarrow> Inl ([''migrate version''], e)
       | Version v dirty \<Rightarrow>
           if dirty then Inl ([], ErrOther ''migrate completed but database is dirty at version %d'') else Inr ()))))"

definition Connect :: "boot \<Rightarrow> string \<Rightarrow> string \<Rightarrow> string \<Rightarrow> string \<Rightarrow> bool \<Rightarrow> boot_error + unit" where
  "Connect B endpoint accessKey secretKey bucket useSSL =
     bind (errorf ''minio client'' (check (bo_minio_New B endpoint accessKey secretKey useSSL))) (\<lambda>_.
     bind (errorf ''minio list buckets'' (check (bo_ListBuckets B))) (\<lambda>_.
     case bo_BucketExists B bucket of
       Inl e \<Rightarrow> Inl ([''minio bucket exists''], e)
     | Inr present \<Rightarrow> if \<not> present then errorf ''minio make bucket'' (check (bo_MakeBucket B bucket)) else Inr ()))"

subsection \<open>The server\<close>

record 'o Deps =
  dp_Logger :: "zap_logger option"
  dp_Cfg :: "Config option"
  dp_AuthService :: "'o AuthService option"
  dp_DeviceAdmin :: "'o world DeviceAdmin option"
  dp_VaultEngine :: "'o world Engine option"
  dp_PostgresPool :: "env option"
  dp_Now :: "('o, time) server option"
  dp_BlobRepo :: "'o world BlobRepo option"
  dp_BlobStorage :: "'o world ObjectStorage option"
  dp_UploadStore :: "'o world UploadSessionStore option"

record 'o GRPCServer =
  rp_Check :: "metadata \<Rightarrow> ('o, string) server"
  rp_Register :: "metadata \<Rightarrow> RegisterRequest \<Rightarrow> ('o, RegisterResponse) server"
  rp_Login :: "metadata \<Rightarrow> LoginRequest \<Rightarrow> ('o, LoginResponse) server"
  rp_Refresh :: "metadata \<Rightarrow> RefreshRequest \<Rightarrow> ('o, RefreshResponse) server"
  rp_Logout :: "metadata \<Rightarrow> string \<Rightarrow> ('o, bool) server"
  rp_ListDevices :: "metadata \<Rightarrow> ('o, ProtoDevice list) server"
  rp_RevokeDevice :: "metadata \<Rightarrow> string option \<Rightarrow> ('o, bool) server"
  rp_CreateItem :: "metadata \<Rightarrow> CreateItemRequest option \<Rightarrow> ('o, CreateOutput) server"
  rp_GetItem :: "metadata \<Rightarrow> string option \<Rightarrow> ('o, VaultItem option) server"
  rp_ListItems :: "metadata \<Rightarrow> ListItemsRequest option \<Rightarrow> ('o, ItemSummary option list \<times> string) server"
  rp_UpdateItem :: "metadata \<Rightarrow> UpdateItemRequest option \<Rightarrow> ('o, UpdateOutput) server"
  rp_DeleteItem :: "metadata \<Rightarrow> DeleteItemRequest option \<Rightarrow> ('o, DeleteOutput) server"
  rp_StartBlobUpload :: "metadata \<Rightarrow> StartBlobUploadRequest option \<Rightarrow> ('o, StartBlobUploadResponse) server"
  rp_UploadBlob :: "metadata \<Rightarrow> UploadStream \<Rightarrow> ('o, UploadBlobResponse) server"
  rp_CommitBlobUpload :: "metadata \<Rightarrow> string option \<Rightarrow> ('o, BlobInfo) server"
  rp_DownloadBlob :: "metadata \<Rightarrow> string option \<Rightarrow> (nat \<Rightarrow> go_error option) \<Rightarrow> ('o, DownloadBlobResponse list \<times> go_error option) server"
  rp_Sync :: "metadata \<Rightarrow> SyncRequest option \<Rightarrow> ('o, SyncResponse) server"
  rp_PullChanges :: "metadata \<Rightarrow> PullChangesRequest option \<Rightarrow> ('o, PullChangesResponse) server"
  rp_PushChanges :: "metadata \<Rightarrow> PendingOperation option list option \<Rightarrow> ('o, PushChangesResponse) server"

definition background :: auth_context where
  "background = \<lparr>ac_UserID = None, ac_DeviceID = None\<rparr>"

definition healthService_Check :: "('o, string) server" where
  "healthService_Check = ret ''SERVING''"

text \<open>The messages a server stream has sent, and the status it ends with.\<close>

definition stream_out :: "'o download \<Rightarrow> ('o, DownloadBlobResponse list \<times> go_error option) server" where
  "stream_out m w = (case m w of (Inl (e, ms), w') \<Rightarrow> (Inr (ms, Some e), w') | (Inr ms, w') \<Rightarrow> (Inr (ms, None), w'))"

text \<open>Registration: each method of the generated service descriptions with its handler.\<close>

definition registered ::
  "env \<Rightarrow> jwt_lib \<Rightarrow> string \<Rightarrow> 'o AuthService \<Rightarrow> 'o world DeviceAdmin \<Rightarrow> 'o vaultHandler \<Rightarrow> 'o blobHandler \<Rightarrow> 'o syncHandler \<Rightarrow>
   'o GRPCServer" where
  "registered E J secret svc devs vh bh sh =
     \<lparr>rp_Check = (\<lambda>md. newAuthUnaryInterceptor E J secret ''/gophkeeper.v1.HealthService/Check'' md background (\<lambda>_. healthService_Check)),
      rp_Register = (\<lambda>md req. newAuthUnaryInterceptor E J secret ''/gophkeeper.v1.AuthService/Register'' md background (\<lambda>_. authHandler_Register svc req)),
      rp_Login = (\<lambda>md req. newAuthUnaryInterceptor E J secret ''/gophkeeper.v1.AuthService/Login'' md background (\<lambda>_. authHandler_Login svc req)),
      rp_Refresh = (\<lambda>md req. newAuthUnaryInterceptor E J secret ''/gophkeeper.v1.AuthService/Refresh'' md background (\<lambda>_. authHandler_Refresh svc req)),
      rp_Logout = (\<lambda>md req. newAuthUnaryInterceptor E J secret ''/gophkeeper.v1.AuthService/Logout'' md background (\<lambda>_. authHandler_Logout svc req)),
      rp_ListDevices = (\<lambda>md. newAuthUnaryInterceptor E J secret ''/gophkeeper.v1.DeviceService/ListDevices'' md background (\<lambda>ctx. ListDevices devs ctx)),
      rp_RevokeDevice = (\<lambda>md req. newAuthUnaryInterceptor E J secret ''/gophkeeper.v1.DeviceService/RevokeDevice'' md background (\<lambda>ctx. RevokeDevice devs ctx req)),
      rp_CreateItem = (\<lambda>md req. newAuthUnaryInterceptor E J secret ''/gophkeeper.v1.VaultService/CreateItem'' md background (\<lambda>ctx. CreateItem vh ctx req)),
      rp_GetItem = (\<lambda>md req. newAuthUnaryInterceptor E J secret ''/gophkeeper.v1.VaultService/GetItem'' md background (\<lambda>ctx. GetItem vh ctx req)),
      rp_ListItems = (\<lambda>md req. newAuthUnaryInterceptor E J secret ''/gophkeeper.v1.VaultService/ListItems'' md background (\<lambda>ctx. ListItems vh ctx req)),
      rp_UpdateItem = (\<lambda>md req. newAuthUnaryInterceptor E J secret ''/gophkeeper.v1.VaultService/UpdateItem'' md background (\<lambda>ctx. UpdateItem vh ctx req)),
      rp_DeleteItem = (\<lambda>md req. newAuthUnaryInterceptor E J secret ''/gophkeeper.v1.VaultService/DeleteItem'' md background (\<lambda>ctx. DeleteItem vh ctx req)),
      rp_StartBlobUpload = (\<lambda>md req. newAuthUnaryInterceptor E J secret ''/gophkeeper.v1.BlobService/StartBlobUpload'' md background (\<lambda>ctx. StartBlobUpload bh ctx req)),
      rp_UploadBlob = (\<lambda>md ss. newAuthStreamInterceptor E J secret ''/gophkeeper.v1.BlobService/UploadBlob'' md background ss (UploadBlob bh)),
      rp_CommitBlobUpload = (\<lambda>md req. newAuthUnaryInterceptor E J secret ''/gophkeeper.v1.BlobService/CommitBlobUpload'' md background (\<lambda>ctx. CommitBlobUpload bh ctx req)),
      rp_DownloadBlob = (\<lambda>md req sendErr. newAuthStreamInterceptor E J secret ''/gophkeeper.v1.BlobService/DownloadBlob'' md background sendErr
         (\<lambda>ctx sendErr. stream_out (DownloadBlob bh ctx req sendErr))),
      rp_Sync = (\<lambda>md req. newAuthUnaryInterceptor E J secret ''/gophkeeper.v1.SyncService/Sync'' md background (\<lambda>ctx. Sync sh ctx req)),
      rp_PullChanges = (\<lambda>md req. newAuthUnaryInterceptor E J secret ''/gophkeeper.v1.SyncService/PullChanges'' md background (\<lambda>ctx. PullChanges sh ctx req)),
      rp_PushChanges = (\<lambda>md req. newAuthUnaryInterceptor E J secret ''/gophkeeper.v1.SyncService/PushChanges'' md background (\<lambda>ctx. PushChanges sh ctx req))\<rparr>"

definition required :: "'a option \<Rightarrow> string \<Rightarrow> ('a \<Rightarrow> boot_error + 'b) \<Rightarrow> boot_error + 'b" where
  "required x msg k = (case x of None \<Rightarrow> Inl ([], ErrOther msg) | Some v \<Rightarrow> k v)"

definition grpcserver_New ::
  "env \<Rightarrow> jwt_lib \<Rightarrow> (bytes \<Rightarrow> bytes) \<Rightarrow> 'o Deps option \<Rightarrow> unit option \<Rightarrow> boot_error + 'o GRPCServer" where
  "grpcserver_New E J sha deps tlsCreds =
     required deps ''grpcserver: deps is nil'' (\<lambda>deps.
     required (dp_Logger deps) ''grpcserver: deps.Logger is nil'' (\<lambda>_.
     required (dp_Cfg deps) ''grpcserver: deps.Cfg is nil'' (\<lambda>cfg.
     required (dp_AuthService deps) ''grpcserver: deps.AuthService is nil'' (\<lambda>svc.
     required (dp_DeviceAdmin deps) ''grpcserver: deps.DeviceAdmin is nil'' (\<lambda>devs.
     required (dp_VaultEngine deps) ''grpcserver: deps.VaultEngine is nil'' (\<lambda>engine.
     required (dp_PostgresPool deps) ''grpcserver: deps.PostgresPool is nil'' (\<lambda>pool.
     required (dp_Now deps) ''grpcserver: deps.Now is nil'' (\<lambda>now.
     required (dp_BlobRepo deps) ''grpcserver: deps.BlobRepo is nil'' (\<lambda>repo.
     required (dp_BlobStorage deps) ''grpcserver: deps.BlobStorage is nil'' (\<lambda>storage.
     required (dp_UploadStore deps) ''grpcserver: deps.UploadStore is nil'' (\<lambda>uploads.
     required tlsCreds ''grpcserver: tlsCreds is nil'' (\<lambda>_.
     Inr (registered E J (cf_JWTSecret cfg) svc devs
       \<lparr>vh_env = E, vh_sha256 = sha, vh_engine = engine, vh_cfg = Some cfg, vh_now = Some now, vh_blobRepo = Some repo,
        vh_blobStorage = Some storage\<rparr>
       \<lparr>bh_env = E, bh_sha256 = sha, bh_cfg = Some cfg, bh_uploadLocks = Some (), bh_uploads = Some uploads,
        bh_blobRepo = Some repo, bh_blobStorage = Some storage\<rparr>
       \<lparr>sh_env = E, sh_sha256 = sha, sh_cfg = Some cfg, sh_pool = Some pool, sh_now = Some now, sh_blobRepo = Some repo,
        sh_blobStorage = Some storage\<rparr>)))))))))))))"

subsection \<open>RunContext\<close>

text \<open>The repositories of the vault, each made at its first use and kept.\<close>

record 'o VaultRepositories =
  vrs_db :: env
  vrs_vault :: "'o world Repository option"
  vrs_revisions :: "'o world RevisionLog option"
  vrs_processed :: "'o world ProcessedOps option"

definition NewVaultRepositories :: "env \<Rightarrow> 'o VaultRepositories" where
  "NewVaultRepositories pool = \<lparr>vrs_db = pool, vrs_vault = None, vrs_revisions = None, vrs_processed = None\<rparr>"

definition VaultRepositories_Vault :: "'o VaultRepositories \<Rightarrow> 'o world Repository \<times> 'o VaultRepositories" where
  "VaultRepositories_Vault v = (case vrs_vault v of
     None \<Rightarrow> let r = NewVaultRepository (vrs_db v) in (r, v\<lparr>vrs_vault := Some r\<rparr>) | Some r \<Rightarrow> (r, v))"

definition VaultRepositories_Revisions :: "'o VaultRepositories \<Rightarrow> 'o world RevisionLog \<times> 'o VaultRepositories" where
  "VaultRepositories_Revisions v = (case vrs_revisions v of
     None \<Rightarrow> let r = NewRevisionLogRepository (vrs_db v) in (r, v\<lparr>vrs_revisions := Some r\<rparr>) | Some r \<Rightarrow> (r, v))"

definition VaultRepositories_ProcessedOperations :: "'o VaultRepositories \<Rightarrow> 'o world ProcessedOps \<times> 'o VaultRepositories" where
  "VaultRepositories_ProcessedOperations v = (case vrs_processed v of
     None \<Rightarrow> let r = NewProcessedOperationsRepository (vrs_db v) in (r, v\<lparr>vrs_processed := Some r\<rparr>) | Some r \<Rightarrow> (r, v))"

definition run_engine :: "env \<Rightarrow> 'o world EngineService" where
  "run_engine E =
     (let (vault, v) = VaultRepositories_Vault (NewVaultRepositories E);
          (revisions, v) = VaultRepositories_Revisions v;
          (processed, v) = VaultRepositories_ProcessedOperations v
      in NewEngine E vault revisions processed (Some (time_Now E)))"

lemma run_engine_pg: "run_engine E = pg_engine E"
  by (simp add: run_engine_def VaultRepositories_Vault_def VaultRepositories_Revisions_def
      VaultRepositories_ProcessedOperations_def NewVaultRepositories_def pg_engine_def NewEngine_def Let_def)

text \<open>The dependencies RunContext builds from the configuration, the pool and the MinIO client.\<close>

definition run_deps :: "zap_logger \<Rightarrow> env \<Rightarrow> auth_libs \<Rightarrow> Config \<Rightarrow> 'o minio_client \<Rightarrow> 'o Deps" where
  "run_deps logger E L cfg c =
     \<lparr>dp_Logger = Some logger, dp_Cfg = Some cfg, dp_AuthService = Some (pg_auth E L cfg),
      dp_DeviceAdmin = Some (AuthRepositories_devices E), dp_VaultEngine = Some (engine_iface (run_engine E)),
      dp_PostgresPool = Some E, dp_Now = Some (time_Now E), dp_BlobRepo = Some (NewBlobRepository E),
      dp_BlobStorage = Some (NewObjectStorage c (cf_MinioBucket cfg)), dp_UploadStore = Some (NewUploadStore E)\<rparr>"

definition RunContext ::
  "boot \<Rightarrow> env \<Rightarrow> auth_libs \<Rightarrow> 'o minio_client \<Rightarrow> boot_error + Config \<times> 'o GRPCServer" where
  "RunContext B E L c =
     bind (errorf ''config'' (case Config.Load (bo_Getenv B) of Inl e \<Rightarrow> Inl ([], e) | Inr cfg \<Rightarrow> Inr cfg)) (\<lambda>cfg.
     bind (errorf ''logger'' (logging_New B (cf_LogLevel cfg))) (\<lambda>logger.
     bind (errorf ''tls'' (LoadServerTransportCredentials B (Some cfg))) (\<lambda>_.
     bind (errorf ''postgres'' (OpenPing B (cf_DatabaseURL cfg))) (\<lambda>_.
     bind (errorf ''migrations'' (migrations_Run B (cf_DatabaseURL cfg))) (\<lambda>_.
     bind (errorf ''minio'' (Connect B (cf_MinioEndpoint cfg) (cf_MinioAccessKey cfg) (cf_MinioSecretKey cfg)
        (cf_MinioBucket cfg) (cf_MinioUseSSL cfg))) (\<lambda>_.
     bind (errorf ''listen %s'' (check (bo_Listen B (cf_GRPCAddr cfg)))) (\<lambda>_.
     bind (errorf ''grpc server'' (grpcserver_New E (al_jwt L) (al_sha256 L) (Some (run_deps logger E L cfg c)) (Some ()))) (\<lambda>srv.
     Inr (cfg, srv)))))))))"

text \<open>How the process ends: the signal, after which the graceful stop may time out, or the return of Serve.\<close>

datatype run_event = CtxDone bool | ServeReturned "go_error option"

definition ErrServerStopped :: go_error where
  "ErrServerStopped = ErrOther ''grpc: the server has been stopped''"

definition serve_end :: "run_event \<Rightarrow> boot_error + unit" where
  "serve_end ev =
     (case ev of
        CtxDone graceful \<Rightarrow> Inr ()
      | ServeReturned r \<Rightarrow>
          (case r of
             None \<Rightarrow> Inr ()
           | Some e \<Rightarrow> if e \<noteq> ErrServerStopped then Inl ([''serve''], e) else Inr ()))"

definition Run :: "boot \<Rightarrow> env \<Rightarrow> auth_libs \<Rightarrow> 'o minio_client \<Rightarrow> run_event \<Rightarrow> boot_error + unit" where
  "Run B E L c ev = bind (RunContext B E L c) (\<lambda>_. serve_end ev)"

subsection \<open>The running server\<close>

definition gophkeeper :: "env \<Rightarrow> auth_libs \<Rightarrow> Config \<Rightarrow> 'o minio_client \<Rightarrow> 'o GRPCServer" where
  "gophkeeper E L cfg c =
     registered E (al_jwt L) (cf_JWTSecret cfg) (pg_auth E L cfg) (AuthRepositories_devices E)
       (pg_vault_handler E (al_sha256 L) cfg c (cf_MinioBucket cfg))
       (pg_blob_handler E (al_sha256 L) cfg c (cf_MinioBucket cfg))
       (pg_sync_handler E (al_sha256 L) cfg c (cf_MinioBucket cfg))"

lemma grpcserver_New_run: "grpcserver_New E (al_jwt L) (al_sha256 L) (Some (run_deps logger E L cfg c)) (Some ()) = Inr (gophkeeper E L cfg c)"
  by (simp add: grpcserver_New_def required_def run_deps_def run_engine_pg gophkeeper_def pg_vault_handler_def pg_blob_handler_def
      pg_sync_handler_def)

lemma errorf_InrE: "bind (errorf l r) k = Inr y \<Longrightarrow> (\<And>x. r = Inr x \<Longrightarrow> k x = Inr y \<Longrightarrow> P) \<Longrightarrow> P"
  by (auto simp: bind_def errorf_def split: sum.splits)

lemma RunContext_ok:
  assumes "RunContext B E L c = Inr (cfg, srv)"
  shows "Config.Load (bo_Getenv B) = Inr cfg" "srv = gophkeeper E L cfg c"
  using assms unfolding RunContext_def grpcserver_New_run
  by (auto elim!: errorf_InrE split: sum.splits)

subsection \<open>Calls without a valid token\<close>

text \<open>No bearer token in the metadata, or one the JWT package or the claims check rejects now.\<close>

definition unauthenticated :: "env \<Rightarrow> jwt_lib \<Rightarrow> string \<Rightarrow> metadata \<Rightarrow> 'o world \<Rightarrow> bool" where
  "unauthenticated E J secret md w \<longleftrightarrow>
     (case bearerTokenFromMetadata md of
        Inl _ \<Rightarrow> True
      | Inr token \<Rightarrow> isl (parseAccessToken J (env_clock E (tick w)) token (string_bytes secret)))"

text \<open>The call answers Unauthenticated and touches neither the database nor the object store.\<close>

definition refused :: "('o, 'a) server \<Rightarrow> 'o world \<Rightarrow> bool" where
  "refused m w \<longleftrightarrow> (\<exists>msg t. m w = (Inl (status Unauthenticated msg), w\<lparr>tick := t\<rparr>))"

lemma interceptors_refuse:
  assumes "unauthenticated E J secret md w" and "method \<notin> set publicMethods"
  shows "refused (newAuthUnaryInterceptor E J secret method md ctx h) w"
    and "refused (newAuthStreamInterceptor E J secret method md ctx ss g) w"
proof -
  have tick: "w = w\<lparr>tick := tick w\<rparr>" by simp
  show "refused (newAuthUnaryInterceptor E J secret method md ctx h) w"
    "refused (newAuthStreamInterceptor E J secret method md ctx ss g) w"
    using assms unfolding refused_def newAuthUnaryInterceptor_def newAuthStreamInterceptor_def unauthenticated_def
    by (auto simp: throw_def andthen_def handle_def time_Now_def isl_def split: sum.splits intro: exI [of _ "tick w"])
qed

text \<open>
  C12. Nothing but the public methods works without a token. Once RunContext has started a server,
  every RPC of the vault, blob, synchronisation and device services and Logout, called without a
  bearer token or with one that is not valid now, answers Unauthenticated and leaves the database and
  the object store as they are.
\<close>

theorem server_requires_token:
  assumes "RunContext B E L c = Inr (cfg, srv)" and "unauthenticated E (al_jwt L) (cf_JWTSecret cfg) md w"
  shows "refused (rp_Logout srv md q1) w \<and> refused (rp_ListDevices srv md) w \<and> refused (rp_RevokeDevice srv md q2) w \<and>
    refused (rp_CreateItem srv md q3) w \<and> refused (rp_GetItem srv md q4) w \<and> refused (rp_ListItems srv md q5) w \<and>
    refused (rp_UpdateItem srv md q6) w \<and> refused (rp_DeleteItem srv md q7) w \<and>
    refused (rp_StartBlobUpload srv md q8) w \<and> refused (rp_UploadBlob srv md q9) w \<and>
    refused (rp_CommitBlobUpload srv md q10) w \<and> refused (rp_DownloadBlob srv md q11 sendErr) w \<and>
    refused (rp_Sync srv md q12) w \<and> refused (rp_PullChanges srv md q13) w \<and> refused (rp_PushChanges srv md q14) w"
  unfolding RunContext_ok(2) [OF assms(1)] gophkeeper_def registered_def
  by (simp add: interceptors_refuse [OF assms(2)] publicMethods_def)

definition demo_boot :: boot where
  "demo_boot = \<lparr>bo_Getenv = demo_getenv, bo_UnmarshalLevel = (\<lambda>_. Inr InfoLevel), bo_BuildLogger = Inr (\<lambda>_. True),
     bo_NewServerTLSFromFile = (\<lambda>_ _. None), bo_sql_Open = (\<lambda>_. None), bo_Ping = None, bo_iofs_New = None,
     bo_migrate_New = (\<lambda>_. None), bo_Up = UpOk, bo_Version = Version 1 False, bo_minio_New = (\<lambda>_ _ _ _. None),
     bo_ListBuckets = None, bo_BucketExists = (\<lambda>_. Inr False), bo_MakeBucket = (\<lambda>_. None), bo_Listen = (\<lambda>_. None)\<rparr>"

lemma demo_boot_starts: "\<exists>cfg. RunContext demo_boot E L c = Inr (cfg, gophkeeper E L cfg c)"
proof -
  obtain cfg where cfg: "Config.Load demo_getenv = Inr cfg"
    by (simp add: Config.Load_def bind_def require_def env_int_def env_uint_def getEnv_def parseBool_def demo_getenv_def
        TrimSpace_graphic is_graphic_def config_constants Let_def)
  show ?thesis
    by (simp add: RunContext_def grpcserver_New_run demo_boot_def cfg bind_def errorf_def check_def checked_value_def logging_New_def
        LoadServerTransportCredentials_def OpenPing_def migrations_Run_def handleUpResult_def Connect_def)
qed

theorem server_requires_token_witness:
  "\<exists>cfg srv. RunContext demo_boot demo_env demo_libs mem_client = Inr (cfg, srv) \<and>
     refused (rp_Sync srv None None) (demo_blob_world [] [] [] 0)"
proof -
  obtain cfg where run: "RunContext demo_boot demo_env demo_libs mem_client = Inr (cfg, gophkeeper demo_env demo_libs cfg mem_client)"
    using demo_boot_starts by blast
  have "unauthenticated demo_env (al_jwt demo_libs) (cf_JWTSecret cfg) None (demo_blob_world [] [] [] 0)"
    by (simp add: unauthenticated_def bearerTokenFromMetadata_def)
  from server_requires_token [OF run this] run show ?thesis by blast
qed

end
