(* ===== verification/Interceptors.thy ===== *)
theory Interceptors
  imports Server
begin

section \<open>Logging and recovery (\<open>interceptor_logging.go\<close>, \<open>interceptor_recovery.go\<close>)\<close>

text \<open>
  The two outer interceptors of the chain that \<open>New\<close> installs around the access check. A handler may
  panic here, with some printed value: a panic is the outcome \<open>Panicked\<close>, which the access check passes
  on as it is and the recovery interceptor turns into a status. The state adds to the world of the
  server the lines of the log, the number of entries given to the logger so far and the readings of the
  clock that the logging interceptor makes; \<open>clock\<close> gives their results. The logger is the one
  \<open>logging_New\<close> builds: it drops the entries below its level and those its sampler does not pass.
\<close>

datatype 'a returned = Value 'a | Panicked string

datatype log_line =
    PanicRecovered (ln_message: string) (ln_method: string) (ln_panic: string)
  | GrpcRequest (ln_kind: string) (ln_method: string) (ln_duration: time) (ln_status_code: string)

record 'o served =
  sv_world :: "'o world"
  sv_log :: "(zap_level \<times> log_line) list"
  sv_entries :: nat
  sv_reads :: nat

type_synonym ('o, 'a) logged = "('o served, go_error, 'a) prog"

definition logger_Log :: "zap_logger \<Rightarrow> zap_level \<Rightarrow> log_line \<Rightarrow> 'o served \<Rightarrow> 'o served" where
  "logger_Log logger lvl line s = s\<lparr>sv_entries := Suc (sv_entries s),
     sv_log := (if zl_level logger \<le> lvl \<and> zl_sampled logger (sv_entries s) then sv_log s @ [(lvl, line)] else sv_log s)\<rparr>"

definition logger_Info :: "zap_logger \<Rightarrow> log_line \<Rightarrow> 'o served \<Rightarrow> 'o served" where
  "logger_Info logger = logger_Log logger InfoLevel"

definition logger_Error :: "zap_logger \<Rightarrow> log_line \<Rightarrow> 'o served \<Rightarrow> 'o served" where
  "logger_Error logger = logger_Log logger ErrorLevel"

text \<open>\<open>status.Code(err).String()\<close>: OK without an error, Unknown for an error that is no status.\<close>

definition code_String :: "code \<Rightarrow> string" where
  "code_String c = (case c of Internal \<Rightarrow> ''Internal'' | InvalidArgument \<Rightarrow> ''InvalidArgument'' | NotFound \<Rightarrow> ''NotFound''
     | Aborted \<Rightarrow> ''Aborted'' | Unauthenticated \<Rightarrow> ''Unauthenticated'' | FailedPrecondition \<Rightarrow> ''FailedPrecondition''
     | AlreadyExists \<Rightarrow> ''AlreadyExists'')"

definition status_Code :: "go_error + 'a \<Rightarrow> string" where
  "status_Code r = (case r of
     Inr _ \<Rightarrow> ''OK'' | Inl e \<Rightarrow> (case e of Status c _ _ \<Rightarrow> code_String c | _ \<Rightarrow> ''Unknown''))"

subsection \<open>The interceptors\<close>

definition newRecoveryUnaryInterceptor :: "zap_logger \<Rightarrow> string \<Rightarrow> ('o, 'a returned) server \<Rightarrow> ('o, 'a) logged" where
  "newRecoveryUnaryInterceptor logger fullMethod handler s =
     (case handler (sv_world s) of
        (Inl e, w) \<Rightarrow> (Inl e, s\<lparr>sv_world := w\<rparr>)
      | (Inr (Value x), w) \<Rightarrow> (Inr x, s\<lparr>sv_world := w\<rparr>)
      | (Inr (Panicked v), w) \<Rightarrow> (Inl (status Internal ''internal error''),
          logger_Error logger (PanicRecovered ''grpc unary panic recovered'' fullMethod v) (s\<lparr>sv_world := w\<rparr>)))"

definition newRecoveryStreamInterceptor :: "zap_logger \<Rightarrow> string \<Rightarrow> ('o, 'a returned) server \<Rightarrow> ('o, 'a) logged" where
  "newRecoveryStreamInterceptor logger fullMethod handler s =
     (case handler (sv_world s) of
        (Inl e, w) \<Rightarrow> (Inl e, s\<lparr>sv_world := w\<rparr>)
      | (Inr (Value x), w) \<Rightarrow> (Inr x, s\<lparr>sv_world := w\<rparr>)
      | (Inr (Panicked v), w) \<Rightarrow> (Inl (status Internal ''internal error''),
          logger_Error logger (PanicRecovered ''grpc stream panic recovered'' fullMethod v) (s\<lparr>sv_world := w\<rparr>)))"

definition newLoggingUnaryInterceptor :: "zap_logger \<Rightarrow> (nat \<Rightarrow> time) \<Rightarrow> string \<Rightarrow> ('o, 'a) logged \<Rightarrow> ('o, 'a) logged" where
  "newLoggingUnaryInterceptor logger clock fullMethod handler s =
     (let start = clock (sv_reads s) in
      case handler (s\<lparr>sv_reads := Suc (sv_reads s)\<rparr>) of (r, s1) \<Rightarrow>
      let code = status_Code r; duration = clock (sv_reads s1) - start in
      (r, logger_Info logger (GrpcRequest ''unary'' fullMethod duration code) (s1\<lparr>sv_reads := Suc (sv_reads s1)\<rparr>)))"

definition newLoggingStreamInterceptor :: "zap_logger \<Rightarrow> (nat \<Rightarrow> time) \<Rightarrow> string \<Rightarrow> ('o, 'a) logged \<Rightarrow> ('o, 'a) logged" where
  "newLoggingStreamInterceptor logger clock fullMethod handler s =
     (let start = clock (sv_reads s) in
      case handler (s\<lparr>sv_reads := Suc (sv_reads s)\<rparr>) of (r, s1) \<Rightarrow>
      let code = status_Code r; duration = clock (sv_reads s1) - start in
      (r, logger_Info logger (GrpcRequest ''stream'' fullMethod duration code) (s1\<lparr>sv_reads := Suc (sv_reads s1)\<rparr>)))"

text \<open>The chains of \<open>New\<close>: logging outermost, then recovery, then the access check.\<close>

definition ChainUnaryInterceptor ::
  "zap_logger \<Rightarrow> (nat \<Rightarrow> time) \<Rightarrow> env \<Rightarrow> jwt_lib \<Rightarrow> string \<Rightarrow> string \<Rightarrow> metadata \<Rightarrow> (auth_context \<Rightarrow> ('o, 'a returned) server) \<Rightarrow> ('o, 'a) logged"
  where
  "ChainUnaryInterceptor logger clock E J secret fullMethod md handler =
     newLoggingUnaryInterceptor logger clock fullMethod
       (newRecoveryUnaryInterceptor logger fullMethod
         (newAuthUnaryInterceptor E J secret fullMethod md background handler))"

definition ChainStreamInterceptor ::
  "zap_logger \<Rightarrow> (nat \<Rightarrow> time) \<Rightarrow> env \<Rightarrow> jwt_lib \<Rightarrow> string \<Rightarrow> string \<Rightarrow> metadata \<Rightarrow> 's \<Rightarrow> (auth_context \<Rightarrow> 's \<Rightarrow> ('o, 'a returned) server) \<Rightarrow>
   ('o, 'a) logged" where
  "ChainStreamInterceptor logger clock E J secret fullMethod md ss handler =
     newLoggingStreamInterceptor logger clock fullMethod
       (newRecoveryStreamInterceptor logger fullMethod
         (newAuthStreamInterceptor E J secret fullMethod md background ss handler))"

subsection \<open>A server under a sequence of calls\<close>

datatype ('o, 's, 'a) call =
    UnaryCall (ca_method: string) (ca_md: metadata) "auth_context \<Rightarrow> ('o, 'a returned) server"
  | StreamCall (ca_method: string) (ca_md: metadata) 's "auth_context \<Rightarrow> 's \<Rightarrow> ('o, 'a returned) server"

fun serve :: "zap_logger \<Rightarrow> (nat \<Rightarrow> time) \<Rightarrow> env \<Rightarrow> jwt_lib \<Rightarrow> string \<Rightarrow> ('o, 's, 'a) call \<Rightarrow> ('o, 'a) logged" where
  "serve logger clock E J secret (UnaryCall m md h) = ChainUnaryInterceptor logger clock E J secret m md h"
| "serve logger clock E J secret (StreamCall m md ss h) = ChainStreamInterceptor logger clock E J secret m md ss h"

fun serve_all ::
  "zap_logger \<Rightarrow> (nat \<Rightarrow> time) \<Rightarrow> env \<Rightarrow> jwt_lib \<Rightarrow> string \<Rightarrow> ('o, 's, 'a) call list \<Rightarrow> 'o served \<Rightarrow> (go_error + 'a) list \<times> 'o served" where
  "serve_all logger clock E J secret [] s = ([], s)"
| "serve_all logger clock E J secret (c # cs) s =
     (let (r, s1) = serve logger clock E J secret c s; (rs, s2) = serve_all logger clock E J secret cs s1 in (r # rs, s2))"

text \<open>The reference: the access check alone, a panic being the answer Internal.\<close>

fun checked :: "env \<Rightarrow> jwt_lib \<Rightarrow> string \<Rightarrow> ('o, 's, 'a) call \<Rightarrow> ('o, 'a returned) server" where
  "checked E J secret (UnaryCall m md h) = newAuthUnaryInterceptor E J secret m md background h"
| "checked E J secret (StreamCall m md ss h) = newAuthStreamInterceptor E J secret m md background ss h"

definition recovered :: "go_error + 'a returned \<Rightarrow> go_error + 'a" where
  "recovered r = (case r of Inl e \<Rightarrow> Inl e | Inr (Value x) \<Rightarrow> Inr x | Inr (Panicked _) \<Rightarrow> Inl (status Internal ''internal error''))"

fun outcomes ::
  "env \<Rightarrow> jwt_lib \<Rightarrow> string \<Rightarrow> ('o, 's, 'a) call list \<Rightarrow> 'o world \<Rightarrow> (go_error + 'a returned) list \<times> 'o world" where
  "outcomes E J secret [] w = ([], w)"
| "outcomes E J secret (c # cs) w =
     (let (r, w1) = checked E J secret c w; (rs, w2) = outcomes E J secret cs w1 in (r # rs, w2))"

text \<open>
  The entries a call gives the logger, with the duration left out: for a panic an error entry with the
  method and the panic value, then for every call an entry with the method and the code of the answer.
\<close>

fun panic_message :: "('o, 's, 'a) call \<Rightarrow> string" where
  "panic_message (UnaryCall _ _ _) = ''grpc unary panic recovered''"
| "panic_message (StreamCall _ _ _ _) = ''grpc stream panic recovered''"

fun call_kind :: "('o, 's, 'a) call \<Rightarrow> string" where
  "call_kind (UnaryCall _ _ _) = ''unary''"
| "call_kind (StreamCall _ _ _ _) = ''stream''"

definition entries_of :: "('o, 's, 'a) call \<times> (go_error + 'a returned) \<Rightarrow> (zap_level \<times> log_line) list" where
  "entries_of = (\<lambda>(c, r).
     (case r of Inr (Panicked v) \<Rightarrow> [(ErrorLevel, PanicRecovered (panic_message c) (ca_method c) v)] | _ \<Rightarrow> []) @
     [(InfoLevel, GrpcRequest (call_kind c) (ca_method c) 0 (status_Code (recovered r)))])"

definition untimed :: "zap_level \<times> log_line \<Rightarrow> zap_level \<times> log_line" where
  "untimed = (\<lambda>(lvl, l). (lvl, case l of GrpcRequest k m _ c \<Rightarrow> GrpcRequest k m 0 c | PanicRecovered _ _ _ \<Rightarrow> l))"

text \<open>The entries a logger writes, of those it is given from its entry \<open>n\<close> on.\<close>

fun written :: "zap_logger \<Rightarrow> nat \<Rightarrow> (zap_level \<times> log_line) list \<Rightarrow> (zap_level \<times> log_line) list" where
  "written logger n [] = []"
| "written logger n (x # xs) =
     (if zl_level logger \<le> fst x \<and> zl_sampled logger n then x # written logger (Suc n) xs else written logger (Suc n) xs)"

lemma written_append [simp]:
  "written logger n (xs @ ys) = written logger n xs @ written logger (n + length xs) ys"
  by (induction xs arbitrary: n) auto

lemma written_all: "(\<forall>x \<in> set xs. zl_level logger \<le> fst x) \<Longrightarrow> (\<forall>i. zl_sampled logger i) \<Longrightarrow> written logger n xs = xs"
  by (induction xs arbitrary: n) auto

lemma serve_one:
  "\<exists>given s'. serve logger clock E J secret c s = (recovered (fst (checked E J secret c (sv_world s))), s') \<and>
     sv_world s' = snd (checked E J secret c (sv_world s)) \<and>
     map untimed given = entries_of (c, fst (checked E J secret c (sv_world s))) \<and>
     sv_entries s' = sv_entries s + length given \<and>
     sv_log s' = sv_log s @ written logger (sv_entries s) given"
proof -
  obtain r w where r: "checked E J secret c (sv_world s) = (r, w)" by fastforce
  let ?d = "clock (Suc (sv_reads s)) - clock (sv_reads s)"
  let ?given = "(case r of Inr (Panicked v) \<Rightarrow> [(ErrorLevel, PanicRecovered (panic_message c) (ca_method c) v)] | _ \<Rightarrow> []) @
     [(InfoLevel, GrpcRequest (call_kind c) (ca_method c) ?d (status_Code (recovered r)))]"
  show ?thesis
    by (rule exI [of _ ?given], insert r, cases c; cases r rule: sum.exhaust)
      (auto simp: ChainUnaryInterceptor_def ChainStreamInterceptor_def newLoggingUnaryInterceptor_def
        newLoggingStreamInterceptor_def newRecoveryUnaryInterceptor_def newRecoveryStreamInterceptor_def logger_Info_def
        logger_Error_def logger_Log_def Let_def recovered_def entries_of_def untimed_def split: returned.splits)
qed

text \<open>
  C40. Logging and recovery change no answer, and every call is answered and offered to the log. Under
  any sequence of unary and stream calls, whatever their handlers do, panics included, and whatever the
  level and the sampling of the logger, the server behaves as the access check and the handlers alone
  do: it goes through the same worlds and gives the same answers, except that a panic is answered with
  Internal and the calls after it are served. The interceptors give the logger, in the order of the
  calls, exactly one entry per call at level Info, with the kind, the method and the status code of the
  answer, and before it for each call that panicked one entry at level Error with the method and the
  panic value; the log gains exactly those of them that the level and the sampler of the logger let
  through, in that order.
\<close>

theorem every_call_answered:
  "\<exists>given s'. serve_all logger clock E J secret calls s = (map recovered (fst (outcomes E J secret calls (sv_world s))), s') \<and>
     sv_world s' = snd (outcomes E J secret calls (sv_world s)) \<and>
     map untimed given = concat (map entries_of (zip calls (fst (outcomes E J secret calls (sv_world s))))) \<and>
     sv_entries s' = sv_entries s + length given \<and>
     sv_log s' = sv_log s @ written logger (sv_entries s) given"
proof (induction calls arbitrary: s)
  case Nil
  show ?case by simp
next
  case (Cons c cs)
  obtain r w where r: "checked E J secret c (sv_world s) = (r, w)" by fastforce
  obtain rs w2 where rs: "outcomes E J secret cs w = (rs, w2)" by fastforce
  obtain given1 s1 where 1: "serve logger clock E J secret c s = (recovered r, s1)" "sv_world s1 = w"
    "map untimed given1 = entries_of (c, r)" "sv_entries s1 = sv_entries s + length given1"
    "sv_log s1 = sv_log s @ written logger (sv_entries s) given1"
    using serve_one [of logger clock E J secret c s] unfolding r fst_conv snd_conv by (elim exE conjE)
  obtain given2 s2 where 2: "serve_all logger clock E J secret cs s1 = (map recovered rs, s2)" "sv_world s2 = w2"
    "map untimed given2 = concat (map entries_of (zip cs rs))" "sv_entries s2 = sv_entries s1 + length given2"
    "sv_log s2 = sv_log s1 @ written logger (sv_entries s1) given2"
    using Cons.IH [of s1] unfolding 1(2) rs fst_conv snd_conv by (elim exE conjE)
  show ?case
  proof (intro exI conjI)
    show "serve_all logger clock E J secret (c # cs) s =
        (map recovered (fst (outcomes E J secret (c # cs) (sv_world s))), s2)"
      by (simp add: r rs 1(1) 2(1))
    show "map untimed (given1 @ given2) = concat (map entries_of (zip (c # cs) (fst (outcomes E J secret (c # cs) (sv_world s)))))"
      by (simp add: r rs 1(3) 2(3))
  qed (use 1 2 in \<open>simp_all add: r rs\<close>)
qed

text \<open>
  A handler of the development has no panic of its own; behind the whole chain it gives what the server
  of theory \<open>Server\<close> gives, which has the access check only.
\<close>

definition no_panic :: "('o, 'a) server \<Rightarrow> ('o, 'a returned) server" where
  "no_panic m = handle m throw (\<lambda>x. ret (Value x))"

lemma served_as_registered:
  "fst (ChainUnaryInterceptor logger clock E J secret m md (\<lambda>ctx. no_panic (h ctx)) s) =
     fst (newAuthUnaryInterceptor E J secret m md background h (sv_world s))"
  "sv_world (snd (ChainUnaryInterceptor logger clock E J secret m md (\<lambda>ctx. no_panic (h ctx)) s)) =
     snd (newAuthUnaryInterceptor E J secret m md background h (sv_world s))"
  by (auto simp: ChainUnaryInterceptor_def newLoggingUnaryInterceptor_def newRecoveryUnaryInterceptor_def
      newAuthUnaryInterceptor_def no_panic_def logger_Info_def logger_Error_def logger_Log_def prog_defs time_Now_def Let_def split: prod.splits sum.splits)

end
