(* ===== verification/UploadLocks.thy ===== *)
theory UploadLocks
  imports Prelude
begin

section \<open>The locks of UploadBlob (\<open>grpcserver/upload_session_lock.go\<close>)\<close>

text \<open>
  \<open>uploadSessionLocks\<close> serialises the UploadBlob handlers of one process per user and session. The
  state is the \<open>sync.Map\<close> from keys to mutexes, the owner of every locked mutex and, for every
  goroutine, how far it is in \<open>acquire\<close> and its release. The atomic steps are those of the Go
  runtime: \<open>LoadOrStore\<close> (atomic by its contract), \<open>Lock\<close> (enabled when the mutex is free) and \<open>Unlock\<close>.
  Between them any other goroutine may run.
\<close>

definition uploadLockKey :: "string \<Rightarrow> string \<Rightarrow> string" where
  "uploadLockKey userID sessionID = userID @ [CHR 0x00] @ sessionID"

text \<open>Mutexes are numbered in the order they are allocated.\<close>

record uploadSessionLocks =
  lk_m :: "string \<Rightarrow> nat option"
  lk_allocated :: nat
  lk_owner :: "nat \<Rightarrow> nat option"

datatype pc = Idle | Wanting string nat | Holding string nat

text \<open>\<open>new(sync.Mutex)\<close> is evaluated in any case.\<close>

definition LoadOrStore :: "string \<Rightarrow> uploadSessionLocks \<Rightarrow> nat \<times> uploadSessionLocks" where
  "LoadOrStore key l =
     (let fresh = lk_allocated l; l1 = l\<lparr>lk_allocated := Suc fresh\<rparr> in
      case lk_m l key of
        Some mu \<Rightarrow> (mu, l1)
      | None \<Rightarrow> (fresh, l1\<lparr>lk_m := (lk_m l)(key \<mapsto> fresh)\<rparr>))"

inductive lock_step :: "uploadSessionLocks \<times> (nat \<Rightarrow> pc) \<Rightarrow> uploadSessionLocks \<times> (nat \<Rightarrow> pc) \<Rightarrow> bool" where
  load: "pcs t = Idle \<Longrightarrow> LoadOrStore key l = (mu, l') \<Longrightarrow> lock_step (l, pcs) (l', pcs(t := Wanting key mu))"
| lock: "pcs t = Wanting key mu \<Longrightarrow> lk_owner l mu = None \<Longrightarrow>
    lock_step (l, pcs) (l\<lparr>lk_owner := (lk_owner l)(mu \<mapsto> t)\<rparr>, pcs(t := Holding key mu))"
| unlock: "pcs t = Holding key mu \<Longrightarrow>
    lock_step (l, pcs) (l\<lparr>lk_owner := (lk_owner l)(mu := None)\<rparr>, pcs(t := Idle))"

inductive_cases lock_stepE: "lock_step (l, pcs) s"

text \<open>No lock has been used and no handler runs.\<close>

definition fresh_locks :: "uploadSessionLocks \<times> (nat \<Rightarrow> pc)" where
  "fresh_locks = (\<lparr>lk_m = (\<lambda>_. None), lk_allocated = 0, lk_owner = (\<lambda>_. None)\<rparr>, \<lambda>_. Idle)"

subsection \<open>Invariant\<close>

fun uses :: "pc \<Rightarrow> string \<Rightarrow> nat \<Rightarrow> bool" where
  "uses Idle key mu \<longleftrightarrow> False"
| "uses (Wanting k n) key mu \<longleftrightarrow> k = key \<and> n = mu"
| "uses (Holding k n) key mu \<longleftrightarrow> k = key \<and> n = mu"

definition locks_ok :: "uploadSessionLocks \<times> (nat \<Rightarrow> pc) \<Rightarrow> bool" where
  "locks_ok s \<longleftrightarrow> (case s of (l, pcs) \<Rightarrow>
     (\<forall>key mu. lk_m l key = Some mu \<longrightarrow> mu < lk_allocated l) \<and>
     (\<forall>key key' mu. lk_m l key = Some mu \<longrightarrow> lk_m l key' = Some mu \<longrightarrow> key = key') \<and>
     (\<forall>t key mu. uses (pcs t) key mu \<longrightarrow> lk_m l key = Some mu) \<and>
     (\<forall>mu t. lk_owner l mu = Some t \<longleftrightarrow> (\<exists>key. pcs t = Holding key mu)))"

lemma locks_okD:
  assumes "locks_ok (l, pcs)"
  shows "lk_m l key = Some mu \<Longrightarrow> mu < lk_allocated l"
    and "lk_m l key = Some mu \<Longrightarrow> lk_m l key' = Some mu \<Longrightarrow> key = key'"
    and "uses (pcs t) key mu \<Longrightarrow> lk_m l key = Some mu"
    and "lk_owner l mu = Some t \<longleftrightarrow> (\<exists>key. pcs t = Holding key mu)"
  using assms unfolding locks_ok_def by blast+

lemma LoadOrStore_ok:
  assumes "locks_ok (l, pcs)" and "LoadOrStore key l = (mu, l')"
  shows "lk_m l' key = Some mu" and "\<And>k n. lk_m l k = Some n \<Longrightarrow> lk_m l' k = Some n" and "lk_owner l' = lk_owner l"
    and "\<And>k n. lk_m l' k = Some n \<Longrightarrow> n < lk_allocated l'"
    and "\<And>k k' n. lk_m l' k = Some n \<Longrightarrow> lk_m l' k' = Some n \<Longrightarrow> k = k'"
proof -
  have fresh: "lk_m l k \<noteq> Some (lk_allocated l)" for k using locks_okD(1) [OF assms(1), of k "lk_allocated l"] by auto
  show "lk_m l' key = Some mu" and "\<And>k n. lk_m l k = Some n \<Longrightarrow> lk_m l' k = Some n" and "lk_owner l' = lk_owner l"
    and "\<And>k n. lk_m l' k = Some n \<Longrightarrow> n < lk_allocated l'"
    and "\<And>k k' n. lk_m l' k = Some n \<Longrightarrow> lk_m l' k' = Some n \<Longrightarrow> k = k'"
    using assms(2) locks_okD(1,2) [OF assms(1)] fresh
    by (auto simp: LoadOrStore_def Let_def less_Suc_eq split: option.splits if_splits)
qed

lemma lock_step_ok: "lock_step s s' \<Longrightarrow> locks_ok s \<Longrightarrow> locks_ok s'"
proof (induction rule: lock_step.induct)
  case (load pcs t key l mu l')
  note los = LoadOrStore_ok [OF load.prems load.hyps(2)]
  show ?case
    unfolding locks_ok_def prod.case
  proof (intro conjI)
    show "\<forall>k n. lk_m l' k = Some n \<longrightarrow> n < lk_allocated l'" using los(4) by blast
    show "\<forall>k k' n. lk_m l' k = Some n \<longrightarrow> lk_m l' k' = Some n \<longrightarrow> k = k'" using los(5) by blast
    show "\<forall>u k n. uses ((pcs(t := Wanting key mu)) u) k n \<longrightarrow> lk_m l' k = Some n"
      using los(1,2) locks_okD(3) [OF load.prems] by auto
    show "\<forall>n u. (lk_owner l' n = Some u) = (\<exists>k. (pcs(t := Wanting key mu)) u = Holding k n)"
      using los(3) locks_okD(4) [OF load.prems] load.hyps(1) by auto
  qed
next
  case (lock pcs t key mu l)
  note ok = locks_okD [OF lock.prems]
  let ?l = "l\<lparr>lk_owner := (lk_owner l)(mu \<mapsto> t)\<rparr>" and ?pcs = "pcs(t := Holding key mu)"
  have free: "pcs u \<noteq> Holding k mu" for u k using ok(4) [of mu u] lock.hyps(2) by auto
  have key: "lk_m l key = Some mu" using ok(3) [of t key mu] lock.hyps(1) by simp
  have not_t: "pcs t \<noteq> Holding k n" for k n using lock.hyps(1) by simp
  show ?case
    unfolding locks_ok_def prod.case
  proof (intro conjI allI)
    fix n u
    show "(lk_owner ?l n = Some u) = (\<exists>k. ?pcs u = Holding k n)"
      using ok(4) [of n u] free [of u] not_t by (cases "u = t"; cases "n = mu") auto
    fix k
    show "uses (?pcs u) k n \<longrightarrow> lk_m ?l k = Some n"
      using ok(3) [of u k n] key by (cases "u = t") auto
  qed (use ok(1) in simp, simp, use ok(2) in blast)
next
  case (unlock pcs t key mu l)
  note ok = locks_okD [OF unlock.prems]
  let ?l = "l\<lparr>lk_owner := (lk_owner l)(mu := None)\<rparr>" and ?pcs = "pcs(t := Idle)"
  have only: "u = t" if "pcs u = Holding k mu" for u k using ok(4) [of mu u] ok(4) [of mu t] unlock.hyps that by auto
  show ?case
    unfolding locks_ok_def prod.case
  proof (intro conjI allI)
    fix n u
    show "(lk_owner ?l n = Some u) = (\<exists>k. ?pcs u = Holding k n)"
    proof (cases "n = mu")
      case True
      have "\<not> (\<exists>k. ?pcs u = Holding k mu)" using only by (cases "u = t") auto
      with True show ?thesis by simp
    next
      case False
      have "(\<exists>k. ?pcs u = Holding k n) = (\<exists>k. pcs u = Holding k n)" using False unlock.hyps by (cases "u = t") simp_all
      with False ok(4) [of n u] show ?thesis by simp
    qed
    fix k
    show "uses (?pcs u) k n \<longrightarrow> lk_m ?l k = Some n"
      using ok(3) [of u k n] by (cases "u = t") auto
  qed (use ok(1) in simp, simp, use ok(2) in blast)
qed

lemma reachable_locks_ok:
  assumes "lock_step\<^sup>*\<^sup>* fresh_locks s"
  shows "locks_ok s"
  using assms
proof (induction rule: rtranclp_induct)
  case base
  show ?case by (simp add: locks_ok_def fresh_locks_def)
qed (rule lock_step_ok)

lemma uploadLockKey_inj:
  assumes "CHR 0x00 \<notin> set u" and "CHR 0x00 \<notin> set u'" and "uploadLockKey u s = uploadLockKey u' s'"
  shows "u = u' \<and> s = s'"
  using assms
proof (induction u arbitrary: u')
  case Nil
  then show ?case by (cases u') (auto simp: uploadLockKey_def)
next
  case (Cons c u)
  then show ?case by (cases u') (auto simp: uploadLockKey_def)
qed

subsection \<open>Serialisation of uploads\<close>

text \<open>
  C20. Uploads of one session are serialised. Whatever the interleaving of the handlers since the server
  started: two handlers that hold the lock of the same user and session are the same handler; a
  handler that waits for its session while no handler holds it can take the lock, whatever other
  sessions are locked; a handler that is not at work can always begin. For user ids without a NUL byte
  the locks of different users or sessions are different.
\<close>

theorem uploads_serialised:
  assumes reach: "lock_step\<^sup>*\<^sup>* fresh_locks (l, pcs)"
    and users: "CHR 0x00 \<notin> set u" "CHR 0x00 \<notin> set u'"
  shows "(pcs t = Holding (uploadLockKey u s) mu \<longrightarrow> pcs t' = Holding (uploadLockKey u s) mu' \<longrightarrow> t = t') \<and>
    (pcs t = Wanting (uploadLockKey u s) mu \<longrightarrow> (\<forall>t1 n. pcs t1 \<noteq> Holding (uploadLockKey u s) n) \<longrightarrow>
       (\<exists>l'. lock_step (l, pcs) (l', pcs(t := Holding (uploadLockKey u s) mu)))) \<and>
    (pcs t = Idle \<longrightarrow> (\<exists>l' mu1. lock_step (l, pcs) (l', pcs(t := Wanting (uploadLockKey u s) mu1)))) \<and>
    (uploadLockKey u s = uploadLockKey u' s' \<longleftrightarrow> u = u' \<and> s = s')"
proof (intro conjI impI)
  note ok = locks_okD [OF reachable_locks_ok [OF reach]]
  show "t = t'" if "pcs t = Holding (uploadLockKey u s) mu" "pcs t' = Holding (uploadLockKey u s) mu'"
  proof -
    have "mu = mu'" using ok(3) [of t "uploadLockKey u s" mu] ok(3) [of t' "uploadLockKey u s" mu'] that by simp
    then show ?thesis using ok(4) [of mu t] ok(4) [of mu t'] that by auto
  qed
  show "\<exists>l'. lock_step (l, pcs) (l', pcs(t := Holding (uploadLockKey u s) mu))"
    if want: "pcs t = Wanting (uploadLockKey u s) mu" and free: "\<forall>t1 n. pcs t1 \<noteq> Holding (uploadLockKey u s) n"
  proof -
    have "lk_owner l mu = None"
    proof (rule ccontr)
      assume "lk_owner l mu \<noteq> None"
      then obtain t1 key where "pcs t1 = Holding key mu" using ok(4) by blast
      moreover from this have "key = uploadLockKey u s"
        using ok(2) ok(3) [of t1 key mu] ok(3) [of t "uploadLockKey u s" mu] want by (metis uses.simps(2,3))
      ultimately show False using free by simp
    qed
    then have "lock_step (l, pcs) (l\<lparr>lk_owner := (lk_owner l)(mu \<mapsto> t)\<rparr>, pcs(t := Holding (uploadLockKey u s) mu))"
      using want by (intro lock_step.lock)
    then show ?thesis by blast
  qed
  show "\<exists>l' mu1. lock_step (l, pcs) (l', pcs(t := Wanting (uploadLockKey u s) mu1))" if "pcs t = Idle"
  proof -
    obtain mu1 l' where "LoadOrStore (uploadLockKey u s) l = (mu1, l')" by fastforce
    with that have "lock_step (l, pcs) (l', pcs(t := Wanting (uploadLockKey u s) mu1))" by (intro lock_step.load)
    then show ?thesis by blast
  qed
  show "uploadLockKey u s = uploadLockKey u' s' \<longleftrightarrow> u = u' \<and> s = s'" using uploadLockKey_inj [OF users] by auto
qed

text \<open>Two handlers of one session: the second waits until the first is done.\<close>

lemma demo_contention:
  "\<exists>l. lock_step\<^sup>*\<^sup>* fresh_locks (l, (\<lambda>_. Idle)(1 := Wanting (uploadLockKey ''u1'' ''s1'') 0, 2 := Wanting (uploadLockKey ''u1'' ''s1'') 0))"
proof -
  let ?k = "uploadLockKey ''u1'' ''s1''"
  let ?l1 = "\<lparr>lk_m = [?k \<mapsto> 0], lk_allocated = 1, lk_owner = (\<lambda>_. None)\<rparr>"
  have "lock_step fresh_locks (?l1, (\<lambda>_. Idle)(1 := Wanting ?k 0))"
    unfolding fresh_locks_def by (rule lock_step.load) (simp_all add: LoadOrStore_def Let_def)
  moreover have "lock_step (?l1, (\<lambda>_. Idle)(1 := Wanting ?k 0)) (?l1\<lparr>lk_allocated := 2\<rparr>, ((\<lambda>_. Idle)(1 := Wanting ?k 0))(2 := Wanting ?k 0))"
    by (rule lock_step.load) (simp_all add: LoadOrStore_def Let_def)
  ultimately have "lock_step\<^sup>*\<^sup>* fresh_locks (?l1\<lparr>lk_allocated := 2\<rparr>, ((\<lambda>_. Idle)(1 := Wanting ?k 0))(2 := Wanting ?k 0))" by (rule converse_rtranclp_into_rtranclp [OF _ r_into_rtranclp])
  then show ?thesis by blast
qed

theorem uploads_serialised_witness:
  "\<exists>l pcs l'. lock_step\<^sup>*\<^sup>* fresh_locks (l, pcs) \<and> pcs 1 = Wanting (uploadLockKey ''u1'' ''s1'') 0 \<and>
     lock_step (l, pcs) (l', pcs(1 := Holding (uploadLockKey ''u1'' ''s1'') 0))"
proof -
  define k :: string and pcs :: "nat \<Rightarrow> pc" where "k = uploadLockKey ''u1'' ''s1''" and "pcs = (\<lambda>_. Idle)(1 := Wanting k 0, 2 := Wanting k 0)"
  obtain l where reach: "lock_step\<^sup>*\<^sup>* fresh_locks (l, pcs)" using demo_contention unfolding k_def pcs_def by blast
  have "pcs 1 = Wanting k 0" "\<forall>t1 n. pcs t1 \<noteq> Holding k n" by (simp_all add: pcs_def)
  moreover from this obtain l' where "lock_step (l, pcs) (l', pcs(1 := Holding k 0))"
    using uploads_serialised [OF reach, of "''u1''" "''u2''" 1 "''s1''" 0 2 0 "''s1''"] by (auto simp: k_def)
  ultimately show ?thesis using reach unfolding k_def by blast
qed

end
