(* ===== verification/ClientModel.thy ===== *)
theory ClientModel
  imports SyncHandler AuthHandler
begin

section \<open>The client's data (\<open>internal/client/model\<close>, \<open>storage/interfaces.go\<close>, \<open>transport\<close>)\<close>

text \<open>
  The structs of \<open>internal/client/model\<close> field by field, the interfaces \<open>LocalStorage\<close> and
  \<open>transport.Client\<close>, the \<open>App\<close> and the world its methods act on: the rows of the local SQLite
  database, the fields of the App, the far side of the connection and a count of external calls.

  Outside the repository, hence parameters: the machine (\<open>cenv\<close>: failures of SQLite, also in the middle of a result (\<open>ce_cut\<close>), its clock, the
  random source, the file system, the host name and operating system), the cryptographic packages
  (\<open>crypto_lib\<close>) and whatever answers the RPCs. A call of the transport runs on the far side
  (\<open>'s\<close>); an error it reports may or may not have changed the far side. A stream is the list of its
  messages: opening, sending and closing an upload stream is one call, a download stream is its
  messages and how it ends.
\<close>

subsection \<open>Structs\<close>

record AuthState =
  au_UserID :: string
  au_AccessToken :: string
  au_RefreshToken :: string
  au_DeviceID :: string
  au_PasswordSalt :: "bytes option"
  au_EncryptedDEK :: "bytes option"
  au_EncryptedDEKNonce :: "bytes option"

record ModelItem =
  mi_ID :: string
  mi_Version :: u64
  mi_Type :: int
  mi_Title :: "EncryptedField option"
  mi_Metadata :: "EncryptedField option"
  mi_Payload :: "EncryptedField option"
  mi_BlobID :: string
  mi_Deleted :: bool

record ModelPendingOperation =
  mp_OperationID :: string
  mp_Type :: PendingOperationType
  mp_ItemID :: string
  mp_ExpectedVersion :: u64
  mp_Snapshot :: "VaultItemSnapshot option"

record SyncState =
  ys_LastRevision :: u64
  ys_PendingOperations :: "ModelPendingOperation list"

definition empty_auth :: AuthState where
  "empty_auth = \<lparr>au_UserID = [], au_AccessToken = [], au_RefreshToken = [], au_DeviceID = [], au_PasswordSalt = None,
     au_EncryptedDEK = None, au_EncryptedDEKNonce = None\<rparr>"

subsection \<open>Interfaces\<close>

record 'w LocalStorage =
  ls_Save :: "AuthState \<Rightarrow> ('w, go_error, unit) prog"
  ls_Load :: "('w, go_error, AuthState) prog"
  ls_SaveSync :: "SyncState \<Rightarrow> ('w, go_error, unit) prog"
  ls_LoadSync :: "('w, go_error, SyncState) prog"
  ls_Get :: "string \<Rightarrow> 'w \<Rightarrow> ModelItem option \<times> 'w"
  ls_List :: "('w, go_error, ModelItem list) prog"
  ls_Upsert :: "ModelItem \<Rightarrow> ('w, go_error, unit) prog"
  ls_Delete :: "string \<Rightarrow> ('w, go_error, unit) prog"

record 's Client =
  tc_Register :: "RegisterRequest \<Rightarrow> ('s, go_error, RegisterResponse) prog"
  tc_Login :: "LoginRequest \<Rightarrow> ('s, go_error, LoginResponse) prog"
  tc_Sync :: "SyncRequest \<Rightarrow> ('s, go_error, SyncResponse) prog"
  tc_StartBlobUpload :: "StartBlobUploadRequest \<Rightarrow> ('s, go_error, StartBlobUploadResponse) prog"
  tc_UploadBlob :: "UploadBlobRequest list \<Rightarrow> ('s, go_error, UploadBlobResponse) prog"
  tc_CommitBlobUpload :: "string \<Rightarrow> ('s, go_error, BlobInfo option) prog"
  tc_DownloadBlob :: "string \<Rightarrow> ('s, go_error, DownloadBlobResponse list \<times> go_error option) prog"

subsection \<open>The machine and the packages\<close>

record cenv =
  ce_fault :: "nat \<Rightarrow> fault"
  ce_cut :: "nat \<Rightarrow> nat option"
  ce_clock :: "nat \<Rightarrow> time"
  ce_rand :: "nat \<Rightarrow> nat \<Rightarrow> go_error + bytes"
  ce_ReadFile :: "string \<Rightarrow> go_error + bytes"
  ce_Hostname :: "go_error + string"
  ce_GOOS :: string
  ce_Version :: string

text \<open>XChaCha20-Poly1305 (\<open>NewX\<close>, \<open>Seal\<close>, \<open>Open\<close>), Argon2id (password, salt, iterations, memory,
  threads, key length) and sha256.\<close>

record crypto_lib =
  cr_NewX :: "bytes \<Rightarrow> go_error option"
  cr_Seal :: "bytes \<Rightarrow> bytes \<Rightarrow> bytes \<Rightarrow> bytes"
  cr_Open :: "bytes \<Rightarrow> bytes \<Rightarrow> bytes \<Rightarrow> go_error + bytes"
  cr_IDKey :: "bytes \<Rightarrow> bytes \<Rightarrow> nat \<Rightarrow> nat \<Rightarrow> nat \<Rightarrow> nat \<Rightarrow> bytes"
  cr_sha256 :: "bytes \<Rightarrow> bytes"

subsection \<open>The local database and the App\<close>

text \<open>Rows of the tables of \<open>migrations/client\<close>; \<open>pending_operations\<close> in the order of its key.\<close>

record pending_row =
  pw_operation_id :: string
  pw_operation_type :: PendingOperationType
  pw_item_id :: string
  pw_expected_version :: u64
  pw_snapshot_type :: int
  pw_title_cipher :: "bytes option"
  pw_title_nonce :: "bytes option"
  pw_metadata_cipher :: "bytes option"
  pw_metadata_nonce :: "bytes option"
  pw_payload_cipher :: "bytes option"
  pw_payload_nonce :: "bytes option"
  pw_blob_id :: string

record item_row =
  iw_id :: string
  iw_version :: u64
  iw_item_type :: int
  iw_title_cipher :: "bytes option"
  iw_title_nonce :: "bytes option"
  iw_metadata_cipher :: "bytes option"
  iw_metadata_nonce :: "bytes option"
  iw_payload_cipher :: "bytes option"
  iw_payload_nonce :: "bytes option"
  iw_blob_id :: string
  iw_deleted :: bool
  iw_updated_at :: time

record client_db =
  t_auth_state :: "AuthState option"
  t_sync_state :: "u64 option"
  t_pending_operations :: "pending_row list"
  t_vault_items :: "item_row list"

record App =
  ap_DEK :: bytes
  ap_AuthState :: AuthState
  ap_SyncState :: SyncState

record 's client =
  cl_db :: client_db
  cl_app :: App
  cl_remote :: 's
  cl_tick :: nat

type_synonym ('s, 'a) cprog = "('s client, go_error, 'a) prog"

definition remote :: "('s, go_error, 'a) prog \<Rightarrow> ('s, 'a) cprog" where
  "remote f w = (case f (cl_remote w) of (r, s) \<Rightarrow> (r, w\<lparr>cl_remote := s\<rparr>))"

text \<open>Reading and assigning a field of the App.\<close>

definition get_app :: "(App \<Rightarrow> 'a) \<Rightarrow> ('s, 'a) cprog" where
  "get_app f w = (Inr (f (cl_app w)), w)"

definition set_app :: "(App \<Rightarrow> App) \<Rightarrow> ('s, unit) cprog" where
  "set_app f w = (Inr (), w\<lparr>cl_app := f (cl_app w)\<rparr>)"

definition rand_Read :: "cenv \<Rightarrow> nat \<Rightarrow> ('s, bytes) cprog" where
  "rand_Read M n w = (ce_rand M (cl_tick w) n, w\<lparr>cl_tick := Suc (cl_tick w)\<rparr>)"

lemma wp_remote [wp_simps]:
  "wp (remote f) Q R w = wp f (\<lambda>x s. Q x (w\<lparr>cl_remote := s\<rparr>)) (\<lambda>e s. R e (w\<lparr>cl_remote := s\<rparr>)) (cl_remote w)"
  by (auto simp: wp_def remote_def split: prod.splits sum.splits)

lemma wp_get_app [wp_simps]: "wp (get_app f) Q R w = Q (f (cl_app w)) w"
  by (simp add: wp_def get_app_def)

lemma wp_set_app [wp_simps]: "wp (set_app f) Q R w = Q () (w\<lparr>cl_app := f (cl_app w)\<rparr>)"
  by (simp add: wp_def set_app_def)

lemma wp_rand [wp_simps]:
  "wp (rand_Read M n) Q R w =
     (case ce_rand M (cl_tick w) n of Inl e \<Rightarrow> R e (w\<lparr>cl_tick := Suc (cl_tick w)\<rparr>)
      | Inr b \<Rightarrow> Q b (w\<lparr>cl_tick := Suc (cl_tick w)\<rparr>))"
  by (simp add: wp_def rand_Read_def split: sum.splits)

end
