(* ===== verification/ClientTransport.thy ===== *)
theory ClientTransport
  imports ClientModel Server
begin

section \<open>The client's transport (\<open>internal/client/transport\<close>) and the wire\<close>

text \<open>
  \<open>interceptor.go\<close>, \<open>grpc.go\<close> and the connection of the two halves of the system. What gRPC, the file
  system and the certificate parser do is a parameter (\<open>dial_lib\<close>): dialling an address with
  credentials gives the stubs of a server as a function of the metadata a call is sent with. \<open>stubs\<close>
  is that function for the server of \<open>Server\<close>: a call of a client reaches the RPC of the same name
  with its metadata; an upload is the list of its messages and ends with EOF, and no send of the
  server fails.
\<close>

definition AppendToOutgoingContext :: "(string \<times> string list) list \<Rightarrow> string \<Rightarrow> string \<Rightarrow> (string \<times> string list) list" where
  "AppendToOutgoingContext md k v = (k, md_Get md k @ [v]) # md"

definition AuthInterceptor :: "string \<Rightarrow> (string \<times> string list) list \<Rightarrow> ((string \<times> string list) list \<Rightarrow> 'a) \<Rightarrow> 'a" where
  "AuthInterceptor token ctx invoker =
     invoker (if token \<noteq> [] then AppendToOutgoingContext ctx ''authorization'' (''Bearer '' @ token) else ctx)"

definition StreamAuthInterceptor :: "string \<Rightarrow> (string \<times> string list) list \<Rightarrow> ((string \<times> string list) list \<Rightarrow> 'a) \<Rightarrow> 'a" where
  "StreamAuthInterceptor token ctx streamer =
     streamer (if token \<noteq> [] then AppendToOutgoingContext ctx ''authorization'' (''Bearer '' @ token) else ctx)"

record DialOptions =
  do_Insecure :: bool
  do_CAPath :: string

datatype transport_creds = InsecureCreds | TLSCreds bytes

record 's dial_lib =
  dl_ReadFile :: "string \<Rightarrow> go_error + bytes"
  dl_AppendCertsFromPEM :: "bytes \<Rightarrow> bool"
  dl_NewClient :: "string \<Rightarrow> transport_creds \<Rightarrow> go_error + ((string \<times> string list) list \<Rightarrow> 's Client)"

text \<open>The service clients on a connection: unary calls through one interceptor, streams through the other.\<close>

definition GRPCClient :: "string \<Rightarrow> ((string \<times> string list) list \<Rightarrow> 's Client) \<Rightarrow> 's Client" where
  "GRPCClient token conn =
     \<lparr>tc_Register = (\<lambda>req. AuthInterceptor token [] (\<lambda>md. tc_Register (conn md) req)),
      tc_Login = (\<lambda>req. AuthInterceptor token [] (\<lambda>md. tc_Login (conn md) req)),
      tc_Sync = (\<lambda>req. AuthInterceptor token [] (\<lambda>md. tc_Sync (conn md) req)),
      tc_StartBlobUpload = (\<lambda>req. AuthInterceptor token [] (\<lambda>md. tc_StartBlobUpload (conn md) req)),
      tc_UploadBlob = (\<lambda>msgs. StreamAuthInterceptor token [] (\<lambda>md. tc_UploadBlob (conn md) msgs)),
      tc_CommitBlobUpload = (\<lambda>sid. AuthInterceptor token [] (\<lambda>md. tc_CommitBlobUpload (conn md) sid)),
      tc_DownloadBlob = (\<lambda>bid. StreamAuthInterceptor token [] (\<lambda>md. tc_DownloadBlob (conn md) bid))\<rparr>"

definition transport_New :: "'s dial_lib \<Rightarrow> string \<Rightarrow> string \<Rightarrow> DialOptions \<Rightarrow> go_error + 's Client" where
  "transport_New D addr token opts =
     bind
      (if do_Insecure opts then Inr InsecureCreds
       else bind (dl_ReadFile D (do_CAPath opts)) (\<lambda>ca.
         require (dl_AppendCertsFromPEM D ca) ''invalid CA cert'' (Inr (TLSCreds ca)))) (\<lambda>creds.
     bind (dl_NewClient D addr creds) (\<lambda>conn. Inr (GRPCClient token conn)))"

definition stubs :: "'o GRPCServer \<Rightarrow> (string \<times> string list) list \<Rightarrow> 'o world Client" where
  "stubs srv md =
     \<lparr>tc_Register = rp_Register srv (Some md), tc_Login = rp_Login srv (Some md),
      tc_Sync = (\<lambda>req. rp_Sync srv (Some md) (Some req)),
      tc_StartBlobUpload = (\<lambda>req. rp_StartBlobUpload srv (Some md) (Some req)),
      tc_UploadBlob = (\<lambda>msgs. rp_UploadBlob srv (Some md) \<lparr>st_msgs = msgs, st_end = None, st_close = None\<rparr>),
      tc_CommitBlobUpload = (\<lambda>sid. andthen (rp_CommitBlobUpload srv (Some md) (Some sid)) (\<lambda>b. ret (Some b))),
      tc_DownloadBlob = (\<lambda>bid. rp_DownloadBlob srv (Some md) (Some bid) (\<lambda>_. None))\<rparr>"

text \<open>A client with a token, connected to a server.\<close>

abbreviation client_of :: "env \<Rightarrow> auth_libs \<Rightarrow> Config \<Rightarrow> 'o minio_client \<Rightarrow> string \<Rightarrow> 'o world Client" where
  "client_of E L cfg c token \<equiv> GRPCClient token (stubs (gophkeeper E L cfg c))"

subsection \<open>A call of the client is a run of the handler\<close>

lemma public_calls:
  "tc_Register (client_of E L cfg c token) req = authHandler_Register (pg_auth E L cfg) req"
  "tc_Login (client_of E L cfg c token) lreq = authHandler_Login (pg_auth E L cfg) lreq"
  by (simp_all add: GRPCClient_def AuthInterceptor_def stubs_def gophkeeper_def registered_def newAuthUnaryInterceptor_def
      publicMethods_def)

text \<open>A protected call that gets through has run its handler in the context of one user.\<close>

lemma interceptor_okE:
  assumes "newAuthUnaryInterceptor E J secret method md ctx handler w = (Inr x, w')" and "method \<notin> set publicMethods"
  obtains u d where "handler (WithAuthContext ctx u d) (w\<lparr>tick := Suc (tick w)\<rparr>) = (Inr x, w')" and "u \<noteq> []"
    and "\<exists>token. bearerTokenFromMetadata md = Inr token \<and>
      parseAccessToken J (env_clock E (tick w)) token (string_bytes secret) = Inr \<lparr>at_UserID = u, at_DeviceID = d\<rparr>"
proof -
  from assms obtain token claims where tok: "bearerTokenFromMetadata md = Inr token"
    and cl: "parseAccessToken J (env_clock E (tick w)) token (string_bytes secret) = Inr claims"
    and h: "handler (WithAuthContext ctx (at_UserID claims) (at_DeviceID claims)) (w\<lparr>tick := Suc (tick w)\<rparr>) = (Inr x, w')"
    by (auto simp: newAuthUnaryInterceptor_def andthen_def handle_def throw_def time_Now_def split: sum.splits)
  have "at_UserID claims \<noteq> []"
    using cl by (auto simp: parseAccessToken_def Let_def split: sum.splits if_splits parsed_claims.splits)
  with that [OF h] tok cl show ?thesis by simp
qed

end
