(* ===== verification/ClientCrypto.thy ===== *)
theory ClientCrypto
  imports ClientModel
begin

section \<open>Client cryptography (\<open>internal/client/crypto\<close>)\<close>

text \<open>
  \<open>encryption.go\<close> and \<open>kdf.go\<close> over the cryptographic packages, and what is assumed of these
  packages where a property needs it (\<open>aead_ok\<close>, \<open>rand_ok\<close>).
\<close>

definition NonceSize :: nat where
  "NonceSize = 24"

definition saltSize :: nat where
  "saltSize = 16"

text \<open>A nonce and the ciphertext.\<close>

definition Encrypt :: "cenv \<Rightarrow> crypto_lib \<Rightarrow> bytes \<Rightarrow> bytes \<Rightarrow> ('s, bytes \<times> bytes) cprog" where
  "Encrypt M K key plaintext =
     (case cr_NewX K key of
        Some e \<Rightarrow> throw e
      | None \<Rightarrow> andthen (rand_Read M NonceSize) (\<lambda>nonce. ret (nonce, cr_Seal K key nonce plaintext)))"

definition Decrypt :: "crypto_lib \<Rightarrow> bytes \<Rightarrow> bytes \<Rightarrow> bytes \<Rightarrow> go_error + bytes" where
  "Decrypt K key nonce ciphertext =
     (case cr_NewX K key of
        Some e \<Rightarrow> Inl e
      | None \<Rightarrow>
          if length nonce \<noteq> NonceSize then Inl (ErrOther ''invalid nonce size'')
          else cr_Open K key nonce ciphertext)"

definition SHA256 :: "crypto_lib \<Rightarrow> bytes \<Rightarrow> bytes" where
  "SHA256 K data = cr_sha256 K data"

definition GenerateSalt :: "cenv \<Rightarrow> ('s, bytes) cprog" where
  "GenerateSalt M = rand_Read M saltSize"

definition DeriveKey :: "crypto_lib \<Rightarrow> bytes \<Rightarrow> bytes \<Rightarrow> bytes" where
  "DeriveKey K password salt = cr_IDKey K password salt 3 (64 * 1024) 4 32"

text \<open>Documented behaviour: keys have 32 bytes, Open inverts Seal, the ciphertext carries a 16 byte tag,
  Argon2id returns the requested number of bytes, and a successful read fills the buffer.\<close>

definition aead_ok :: "crypto_lib \<Rightarrow> bool" where
  "aead_ok K \<longleftrightarrow> (\<forall>k. cr_NewX K k = None \<longleftrightarrow> length k = 32) \<and>
     (\<forall>k n p. length k = 32 \<longrightarrow> length n = 24 \<longrightarrow>
        cr_Open K k n (cr_Seal K k n p) = Inr p \<and> length (cr_Seal K k n p) = length p + 16) \<and>
     (\<forall>p s i m t l. length (cr_IDKey K p s i m t l) = l)"

definition rand_ok :: "cenv \<Rightarrow> bool" where
  "rand_ok M \<longleftrightarrow> (\<forall>t n b. ce_rand M t n = Inr b \<longrightarrow> length b = n)"

text \<open>What Encrypt has produced when it succeeds.\<close>

definition sealed :: "crypto_lib \<Rightarrow> bytes \<Rightarrow> bytes \<Rightarrow> bytes \<Rightarrow> bytes \<Rightarrow> bool" where
  "sealed K key plaintext nonce ciphertext \<longleftrightarrow>
     cr_NewX K key = None \<and> length nonce = NonceSize \<and> ciphertext = cr_Seal K key nonce plaintext"

lemma sealed_decrypt:
  assumes "aead_ok K" and "sealed K key p n c"
  shows "Decrypt K key n c = Inr p" "length c = length p + 16"
  using assms by (auto simp: sealed_def aead_ok_def Decrypt_def NonceSize_def split: option.splits)

lemma wp_Encrypt:
  assumes "rand_ok M"
    and "\<And>n c. sealed K key p n c \<Longrightarrow> Q (n, c) (w\<lparr>cl_tick := Suc (cl_tick w)\<rparr>)" and "\<And>e w'. cl_db w' = cl_db w \<Longrightarrow>
      cl_app w' = cl_app w \<Longrightarrow> cl_remote w' = cl_remote w \<Longrightarrow> R e w'"
  shows "wp (Encrypt M K key p) Q R w"
  using assms by (auto simp: Encrypt_def wp_throw wp_andthen wp_rand wp_ret sealed_def rand_ok_def NonceSize_def
      split: option.splits sum.splits)

lemma Encrypt_ok:
  assumes "rand_ok M" and "Encrypt M K key p w = (Inr (n, c), w')"
  shows "sealed K key p n c" "w' = w\<lparr>cl_tick := Suc (cl_tick w)\<rparr>"
proof -
  have "wp (Encrypt M K key p) (\<lambda>(n, c) w'. sealed K key p n c \<and> w' = w\<lparr>cl_tick := Suc (cl_tick w)\<rparr>) (\<lambda>_ _. True) w"
    by (rule wp_Encrypt [OF assms(1)]) simp_all
  from wp_okD [OF this assms(2)] show "sealed K key p n c" "w' = w\<lparr>cl_tick := Suc (cl_tick w)\<rparr>" by simp_all
qed

end
