(* ===== verification/ClientStorage.thy ===== *)
theory ClientStorage
  imports ClientModel
begin

section \<open>The local database (\<open>internal/client/storage/sqlite_storage.go\<close>)\<close>

text \<open>
  The methods of \<open>SQLiteStorage\<close>, each with its statements on the tables of \<open>migrations/client\<close>. A
  statement may fail as in the server's model: before it does anything, or after it has done the work.
  An iteration over rows may fail after any number of them: \<open>rows.Next()\<close> is then false as at the end of
  the rows, and only \<open>rows.Err()\<close> tells the difference. \<open>LoadSync\<close> does not ask it.
  A nil \<open>[]byte\<close> is NULL. The driver refuses a \<open>uint64\<close> whose top bit is set. Enum values are stored
  as their number and read back as the same value. A field whose stored ciphertext is empty is read
  back as nil. Rows with equal \<open>updated_at\<close> are listed in table order.

  The locale \<open>local_storage\<close> states what the App relies on: the storage shows a map of items, a
  synchronisation state and an authentication state, and each operation that succeeds changes exactly
  the part it names, and what is read back once is read back unchanged for ever. Reading the
  synchronisation state may give a part of the queue, the whole queue when no iteration is cut
  (\<open>uncut\<close>); a refused save has changed nothing when no answer of a COMMIT is lost (\<open>reliable\<close>). It
  is interpreted on the SQLite methods.
\<close>

subsection \<open>Statements and transactions\<close>

definition exec :: "cenv \<Rightarrow> (time \<Rightarrow> client_db \<Rightarrow> (go_error + 'a) \<times> client_db) \<Rightarrow> ('s, 'a) cprog" where
  "exec M f w =
     (let n = cl_tick w; w1 = w\<lparr>cl_tick := Suc n\<rparr>; (r, d) = f (ce_clock M n) (cl_db w) in
      case ce_fault M n of
        FailBefore \<Rightarrow> (Inl (ErrSQL ConnectionFailure), w1)
      | FailAfter \<Rightarrow> (Inl (ErrSQL ConnectionFailure), w1\<lparr>cl_db := d\<rparr>)
      | NoFault \<Rightarrow> (r, w1\<lparr>cl_db := d\<rparr>))"

text \<open>The loop \<open>for rows.Next()\<close>: the rows it delivers and what \<open>rows.Err()\<close> reports after it.\<close>

definition rows_Next :: "cenv \<Rightarrow> 'r list \<Rightarrow> ('s, 'r list \<times> go_error option) cprog" where
  "rows_Next M rows w =
     (Inr (case ce_cut M (cl_tick w) of
        None \<Rightarrow> (rows, None) | Some n \<Rightarrow> (take n rows, Some (ErrSQL ConnectionFailure))), w)"

definition local_tx :: "cenv \<Rightarrow> ('s, 'a) cprog \<Rightarrow> ('s, 'a) cprog" where
  "local_tx M body w =
     (case exec M (\<lambda>_ d. (Inr (), d)) w of
        (Inl e, w1) \<Rightarrow> (Inl e, w1)
      | (Inr _, w1) \<Rightarrow>
          (case body w1 of
             (Inl e, w2) \<Rightarrow> (Inl e, w2\<lparr>cl_db := cl_db w1\<rparr>)
           | (Inr x, w2) \<Rightarrow>
               (let w3 = w2\<lparr>cl_tick := Suc (cl_tick w2)\<rparr> in
                case ce_fault M (cl_tick w2) of
                  FailBefore \<Rightarrow> (Inl (ErrSQL ConnectionFailure), w3\<lparr>cl_db := cl_db w1\<rparr>)
                | FailAfter \<Rightarrow> (Inl (ErrSQL ConnectionFailure), w3)
                | NoFault \<Rightarrow> (Inr x, w3))))"

subsection \<open>Authentication state\<close>

definition Save :: "cenv \<Rightarrow> AuthState \<Rightarrow> ('s, unit) cprog" where
  "Save M authState = exec M (\<lambda>_ d. (Inr (), d\<lparr>t_auth_state := Some authState\<rparr>))"

definition Load :: "cenv \<Rightarrow> ('s, AuthState) cprog" where
  "Load M =
     handle (exec M (\<lambda>_ d. (case t_auth_state d of None \<Rightarrow> Inl ErrNoRows | Some a \<Rightarrow> Inr a, d)))
       (\<lambda>e. if e = ErrNoRows then ret empty_auth else throw e)
       ret"

subsection \<open>Synchronisation state\<close>

definition pending_row_of :: "ModelPendingOperation \<Rightarrow> pending_row" where
  "pending_row_of op =
     (let cipher = (\<lambda>f. case mp_Snapshot op of None \<Rightarrow> None | Some s \<Rightarrow> GetCiphertext (f s));
          nonce = (\<lambda>f. case mp_Snapshot op of None \<Rightarrow> None | Some s \<Rightarrow> GetNonce (f s)) in
      \<lparr>pw_operation_id = mp_OperationID op, pw_operation_type = mp_Type op, pw_item_id = mp_ItemID op,
       pw_expected_version = mp_ExpectedVersion op,
       pw_snapshot_type = (case mp_Snapshot op of None \<Rightarrow> 0 | Some s \<Rightarrow> vs_ItemType s),
       pw_title_cipher = cipher vs_Title, pw_title_nonce = nonce vs_Title,
       pw_metadata_cipher = cipher vs_Metadata, pw_metadata_nonce = nonce vs_Metadata,
       pw_payload_cipher = cipher vs_Payload, pw_payload_nonce = nonce vs_Payload,
       pw_blob_id = (case mp_Snapshot op of None \<Rightarrow> [] | Some s \<Rightarrow> vs_BlobId s)\<rparr>)"

definition sql_insert_pending :: "pending_row \<Rightarrow> time \<Rightarrow> client_db \<Rightarrow> (go_error + unit) \<times> client_db" where
  "sql_insert_pending r t d =
     (if \<not> bigint_ok (pw_expected_version r) then (Inl (ErrSQL NumericOutOfRange), d)
      else if list_ex (\<lambda>q. pw_operation_id q = pw_operation_id r) (t_pending_operations d)
        then (Inl (ErrSQL UniqueViolation), d)
      else (Inr (), d\<lparr>t_pending_operations := t_pending_operations d @ [r]\<rparr>))"

fun insert_pending :: "cenv \<Rightarrow> ModelPendingOperation list \<Rightarrow> ('s, unit) cprog" where
  "insert_pending M [] = ret ()"
| "insert_pending M (op # ops) =
     andthen (exec M (sql_insert_pending (pending_row_of op))) (\<lambda>_. insert_pending M ops)"

definition sql_save_revision :: "u64 \<Rightarrow> time \<Rightarrow> client_db \<Rightarrow> (go_error + unit) \<times> client_db" where
  "sql_save_revision v t d =
     (if \<not> bigint_ok v then (Inl (ErrSQL NumericOutOfRange), d) else (Inr (), d\<lparr>t_sync_state := Some v\<rparr>))"

definition save_sync_body :: "cenv \<Rightarrow> SyncState \<Rightarrow> ('s, unit) cprog" where
  "save_sync_body M syncState =
     andthen (exec M (sql_save_revision (ys_LastRevision syncState))) (\<lambda>_.
     andthen (exec M (\<lambda>_ d. (Inr (), d\<lparr>t_pending_operations := []\<rparr>))) (\<lambda>_.
     insert_pending M (ys_PendingOperations syncState)))"

definition SaveSync :: "cenv \<Rightarrow> SyncState \<Rightarrow> ('s, unit) cprog" where
  "SaveSync M syncState = local_tx M (save_sync_body M syncState)"

text \<open>\<open>if len(cipher) > 0 { field = &EncryptedField{cipher, nonce} }\<close>.\<close>

definition read_field :: "bytes option \<Rightarrow> bytes option \<Rightarrow> EncryptedField option" where
  "read_field cipher nonce = (if 0 < blen cipher then Some \<lparr>ef_Ciphertext = cipher, ef_Nonce = nonce\<rparr> else None)"

definition pending_of_row :: "pending_row \<Rightarrow> ModelPendingOperation" where
  "pending_of_row r =
     \<lparr>mp_OperationID = pw_operation_id r, mp_Type = pw_operation_type r, mp_ItemID = pw_item_id r,
      mp_ExpectedVersion = pw_expected_version r,
      mp_Snapshot =
        (if pw_snapshot_type r \<noteq> 0
         then Some \<lparr>vs_ItemType = pw_snapshot_type r, vs_Title = read_field (pw_title_cipher r) (pw_title_nonce r),
           vs_Metadata = read_field (pw_metadata_cipher r) (pw_metadata_nonce r),
           vs_Payload = read_field (pw_payload_cipher r) (pw_payload_nonce r), vs_BlobId = pw_blob_id r\<rparr>
         else None)\<rparr>"

definition LoadSync :: "cenv \<Rightarrow> ('s, SyncState) cprog" where
  "LoadSync M =
     andthen
      (handle (exec M (\<lambda>_ d. (case t_sync_state d of None \<Rightarrow> Inl ErrNoRows | Some v \<Rightarrow> Inr v, d)))
        (\<lambda>e. if e \<noteq> ErrNoRows then throw e else ret 0) ret) (\<lambda>lastRevision.
     andthen (exec M (\<lambda>_ d. (Inr (t_pending_operations d), d))) (\<lambda>rows.
     andthen (rows_Next M rows) (\<lambda>(scanned, rowsErr).
     ret \<lparr>ys_LastRevision = lastRevision, ys_PendingOperations = map pending_of_row scanned\<rparr>)))"

subsection \<open>Items\<close>

definition item_row_of :: "ModelItem \<Rightarrow> time \<Rightarrow> item_row" where
  "item_row_of it t =
     \<lparr>iw_id = mi_ID it, iw_version = mi_Version it, iw_item_type = mi_Type it,
      iw_title_cipher = GetCiphertext (mi_Title it), iw_title_nonce = GetNonce (mi_Title it),
      iw_metadata_cipher = GetCiphertext (mi_Metadata it), iw_metadata_nonce = GetNonce (mi_Metadata it),
      iw_payload_cipher = GetCiphertext (mi_Payload it), iw_payload_nonce = GetNonce (mi_Payload it),
      iw_blob_id = mi_BlobID it, iw_deleted = mi_Deleted it, iw_updated_at = t\<rparr>"

text \<open>\<open>INSERT .. ON CONFLICT(id) DO UPDATE\<close>: the row with that id is replaced in place.\<close>

definition sql_upsert_item :: "ModelItem \<Rightarrow> time \<Rightarrow> client_db \<Rightarrow> (go_error + unit) \<times> client_db" where
  "sql_upsert_item it t d =
     (if \<not> bigint_ok (mi_Version it) then (Inl (ErrSQL NumericOutOfRange), d)
      else if list_ex (\<lambda>r. iw_id r = mi_ID it) (t_vault_items d)
        then (Inr (), d\<lparr>t_vault_items := upd_where (\<lambda>r. iw_id r = mi_ID it) (\<lambda>_. item_row_of it t) (t_vault_items d)\<rparr>)
      else (Inr (), d\<lparr>t_vault_items := t_vault_items d @ [item_row_of it t]\<rparr>))"

definition Upsert :: "cenv \<Rightarrow> ModelItem \<Rightarrow> ('s, unit) cprog" where
  "Upsert M it = exec M (sql_upsert_item it)"

definition item_of_row :: "item_row \<Rightarrow> ModelItem" where
  "item_of_row r =
     \<lparr>mi_ID = iw_id r, mi_Version = iw_version r, mi_Type = iw_item_type r,
      mi_Title = read_field (iw_title_cipher r) (iw_title_nonce r),
      mi_Metadata = read_field (iw_metadata_cipher r) (iw_metadata_nonce r),
      mi_Payload = read_field (iw_payload_cipher r) (iw_payload_nonce r),
      mi_BlobID = iw_blob_id r, mi_Deleted = iw_deleted r\<rparr>"

definition scanItems :: "cenv \<Rightarrow> item_row list \<Rightarrow> ('s, ModelItem list) cprog" where
  "scanItems M rows =
     andthen (rows_Next M rows) (\<lambda>(scanned, rowsErr).
     case rowsErr of Some e \<Rightarrow> throw e | None \<Rightarrow> ret (map item_of_row scanned))"

definition List :: "cenv \<Rightarrow> ('s, ModelItem list) cprog" where
  "List M =
     andthen (exec M (\<lambda>_ d. (Inr (sort_by (\<lambda>a b. iw_updated_at b \<le> iw_updated_at a) (t_vault_items d)), d)))
       (scanItems M)"

definition Get :: "cenv \<Rightarrow> string \<Rightarrow> 's client \<Rightarrow> ModelItem option \<times> 's client" where
  "Get M i w =
     (case andthen (exec M (\<lambda>_ d. (Inr (filter (\<lambda>r. iw_id r = i) (t_vault_items d)), d))) (scanItems M) w of
        (Inl _, w') \<Rightarrow> (None, w')
      | (Inr items, w') \<Rightarrow> (case items of [] \<Rightarrow> (None, w') | it # _ \<Rightarrow> (Some it, w')))"

definition Delete :: "cenv \<Rightarrow> string \<Rightarrow> ('s, unit) cprog" where
  "Delete M i = exec M (\<lambda>_ d. (Inr (), d\<lparr>t_vault_items := filter (\<lambda>r. iw_id r \<noteq> i) (t_vault_items d)\<rparr>))"

definition SQLiteStorage :: "cenv \<Rightarrow> 's client LocalStorage" where
  "SQLiteStorage M =
     \<lparr>ls_Save = Save M, ls_Load = Load M, ls_SaveSync = SaveSync M, ls_LoadSync = LoadSync M, ls_Get = Get M,
      ls_List = List M, ls_Upsert = Upsert M, ls_Delete = Delete M\<rparr>"

subsection \<open>What is read back\<close>

definition stored_field :: "EncryptedField option \<Rightarrow> EncryptedField option" where
  "stored_field f = read_field (GetCiphertext f) (GetNonce f)"

definition stored_item :: "ModelItem \<Rightarrow> ModelItem" where
  "stored_item it = it\<lparr>mi_Title := stored_field (mi_Title it), mi_Metadata := stored_field (mi_Metadata it),
     mi_Payload := stored_field (mi_Payload it)\<rparr>"

definition stored_snapshot :: "VaultItemSnapshot \<Rightarrow> VaultItemSnapshot option" where
  "stored_snapshot s = (if vs_ItemType s = 0 then None else
     Some (s\<lparr>vs_Title := stored_field (vs_Title s), vs_Metadata := stored_field (vs_Metadata s),
       vs_Payload := stored_field (vs_Payload s)\<rparr>))"

definition stored_op :: "ModelPendingOperation \<Rightarrow> ModelPendingOperation" where
  "stored_op op = op\<lparr>mp_Snapshot := Option.bind (mp_Snapshot op) stored_snapshot\<rparr>"

definition stored_sync :: "SyncState \<Rightarrow> SyncState" where
  "stored_sync s = s\<lparr>ys_PendingOperations := map stored_op (ys_PendingOperations s)\<rparr>"

lemma stored_field_sealed [simp]: "c \<noteq> [] \<Longrightarrow>
    stored_field (Some \<lparr>ef_Ciphertext = Some c, ef_Nonce = n\<rparr>) = Some \<lparr>ef_Ciphertext = Some c, ef_Nonce = n\<rparr>"
  by (simp add: stored_field_def read_field_def GetCiphertext_def GetNonce_def blen_def)

lemma item_of_row_of [simp]: "item_of_row (item_row_of it t) = stored_item it"
  by (simp add: item_of_row_def item_row_of_def stored_item_def stored_field_def)

lemma pending_of_row_of [simp]: "pending_of_row (pending_row_of op) = stored_op op"
  by (cases "mp_Snapshot op")
     (simp_all add: pending_of_row_def pending_row_of_def stored_op_def stored_snapshot_def stored_field_def Let_def)

subsection \<open>What the App relies on\<close>

text \<open>The App and the far side are not touched.\<close>

definition frame :: "'s client \<Rightarrow> 's client \<Rightarrow> bool" where
  "frame w w' \<longleftrightarrow> cl_app w' = cl_app w \<and> cl_remote w' = cl_remote w"

text \<open>An operation that succeeds has the effect it names; one that fails has it or none.\<close>

definition effect :: "(go_error + 'a) \<Rightarrow> 'v \<Rightarrow> 'v \<Rightarrow> 'v \<Rightarrow> bool" where
  "effect r v new v' \<longleftrightarrow> (if isl r then v' = v \<or> v' = new else v' = new)"

text \<open>A synchronisation state of which only the first operations have been read.\<close>

definition first_pending :: "nat \<Rightarrow> SyncState \<Rightarrow> SyncState" where
  "first_pending n st = st\<lparr>ys_PendingOperations := take n (ys_PendingOperations st)\<rparr>"

lemma first_pending_all [simp]: "length (ys_PendingOperations st) \<le> n \<Longrightarrow> first_pending n st = st"
  by (simp add: first_pending_def)

lemma first_pending_sel [simp]:
  "ys_LastRevision (first_pending n st) = ys_LastRevision st"
  "ys_PendingOperations (first_pending n st) = take n (ys_PendingOperations st)"
  by (simp_all add: first_pending_def)

locale local_storage =
  fixes S :: "'s client LocalStorage" and items :: "client_db \<Rightarrow> string \<Rightarrow> ModelItem option"
    and sync :: "client_db \<Rightarrow> SyncState" and auth :: "client_db \<Rightarrow> AuthState" and uncut reliable :: bool
  assumes save: "ls_Save S a w = (r, w') \<Longrightarrow> frame w w' \<and> effect r (auth (cl_db w)) a (auth (cl_db w')) \<and>
      items (cl_db w') = items (cl_db w) \<and> sync (cl_db w') = sync (cl_db w)"
    and load: "ls_Load S w = (r1, w') \<Longrightarrow> frame w w' \<and> cl_db w' = cl_db w \<and> (isl r1 \<or> r1 = Inr (auth (cl_db w)))"
    and save_sync: "ls_SaveSync S st w = (r, w') \<Longrightarrow> frame w w' \<and>
      effect r (sync (cl_db w)) (stored_sync st) (sync (cl_db w')) \<and> items (cl_db w') = items (cl_db w) \<and>
      auth (cl_db w') = auth (cl_db w) \<and> (reliable \<and> isl r \<longrightarrow> sync (cl_db w') = sync (cl_db w))"
    and load_sync: "ls_LoadSync S w = (r2, w') \<Longrightarrow> frame w w' \<and> cl_db w' = cl_db w \<and>
      (isl r2 \<or> (\<exists>n. r2 = Inr (first_pending n (sync (cl_db w))) \<and> (uncut \<longrightarrow> length (ys_PendingOperations (sync (cl_db w))) \<le> n)))"
    and upsert: "ls_Upsert S it w = (r, w') \<Longrightarrow> frame w w' \<and>
      effect r (items (cl_db w)) ((items (cl_db w))(mi_ID it \<mapsto> stored_item it)) (items (cl_db w')) \<and>
      sync (cl_db w') = sync (cl_db w) \<and> auth (cl_db w') = auth (cl_db w)"
    and delete: "ls_Delete S i w = (r, w') \<Longrightarrow> frame w w' \<and>
      effect r (items (cl_db w)) ((items (cl_db w))(i := None)) (items (cl_db w')) \<and>
      sync (cl_db w') = sync (cl_db w) \<and> auth (cl_db w') = auth (cl_db w)"
    and get: "ls_Get S i w = (q, w') \<Longrightarrow> frame w w' \<and> cl_db w' = cl_db w \<and> (q = None \<or> q = items (cl_db w) i)"
    and listing: "ls_List S w = (r3, w') \<Longrightarrow> frame w w' \<and> cl_db w' = cl_db w \<and>
      (isl r3 \<or> (\<forall>i it. items (cl_db w) i = Some it \<longrightarrow> it \<in> set (projr r3)))"
    and keyed: "items d i = Some it \<Longrightarrow> mi_ID it = i"
    and reread: "op \<in> set (ys_PendingOperations (sync d)) \<Longrightarrow> stored_op op = op"

subsection \<open>SQLite meets it\<close>

definition local_items :: "client_db \<Rightarrow> string \<Rightarrow> ModelItem option" where
  "local_items d i = map_option item_of_row (find (\<lambda>r. iw_id r = i) (t_vault_items d))"

definition local_sync :: "client_db \<Rightarrow> SyncState" where
  "local_sync d = \<lparr>ys_LastRevision = (case t_sync_state d of None \<Rightarrow> 0 | Some v \<Rightarrow> v),
     ys_PendingOperations = map pending_of_row (t_pending_operations d)\<rparr>"

definition local_auth :: "client_db \<Rightarrow> AuthState" where
  "local_auth d = (case t_auth_state d of None \<Rightarrow> empty_auth | Some a \<Rightarrow> a)"

lemma exec_frame: "exec M f w = (r, w') \<Longrightarrow> frame w w'"
  by (auto simp: exec_def frame_def Let_def split: prod.splits fault.splits)

lemma exec_ok: "exec M f w = (Inr x, w') \<Longrightarrow> f (ce_clock M (cl_tick w)) (cl_db w) = (Inr x, cl_db w')"
  by (auto simp: exec_def Let_def split: prod.splits fault.splits)

lemma exec_cases:
  assumes "exec M f w = (r, w')"
  obtains (refused) "isl r" "cl_db w' = cl_db w"
  | (ran) t r' where "f t (cl_db w) = (r', cl_db w')" "r = r' \<or> isl r"
  using assms by (auto simp: exec_def Let_def split: prod.splits fault.splits)

lemma exec_read:
  assumes "exec M (\<lambda>_ d. (g d, d)) w = (r, w')"
  shows "frame w w' \<and> cl_db w' = cl_db w \<and> (isl r \<or> r = g (cl_db w))"
  using exec_frame [OF assms] assms by (auto elim!: exec_cases)

lemma local_tx_cases:
  assumes "local_tx M body w = (r, w')"
  obtains (rolled_back) "isl r" "cl_db w' = cl_db w"
  | (committed) x w1 w2 where "body w1 = (Inr x, w2)" "cl_db w1 = cl_db w" "cl_db w' = cl_db w2" "r = Inr x \<or> isl r"
  using assms by (auto simp: local_tx_def exec_def Let_def split: prod.splits sum.splits fault.splits)

lemma local_tx_answered:
  assumes "local_tx M body w = (r, w')" and "\<forall>n. ce_fault M n \<noteq> FailAfter" and "isl r"
  shows "cl_db w' = cl_db w"
  using assms by (auto simp: local_tx_def exec_def Let_def split: prod.splits sum.splits fault.splits)

lemma rows_Next_run: "rows_Next M rows w =
    (Inr (case ce_cut M (cl_tick w) of None \<Rightarrow> (rows, None) | Some n \<Rightarrow> (take n rows, Some (ErrSQL ConnectionFailure))), w)"
  by (simp add: rows_Next_def)

lemma scanItems_cases:
  assumes "scanItems M rows w = (r, w')"
  shows "w' = w \<and> (isl r \<or> r = Inr (map item_of_row rows))"
  using assms by (auto simp: scanItems_def rows_Next_def andthen_def handle_def throw_def ret_def split: option.splits)

lemma frame_refl [simp]: "frame w w"
  by (simp add: frame_def)

lemma frame_trans: "frame w w1 \<Longrightarrow> frame w1 w2 \<Longrightarrow> frame w w2"
  by (simp add: frame_def)

definition framed :: "('s, 'a) cprog \<Rightarrow> bool" where
  "framed m \<longleftrightarrow> (\<forall>w r w'. m w = (r, w') \<longrightarrow> frame w w')"

lemma framedD: "framed m \<Longrightarrow> m w = (r, w') \<Longrightarrow> frame w w'"
  by (simp add: framed_def)

lemma framed_intros:
  "framed (exec M f)" "framed (ret x)" "framed (throw e)"
  by (simp_all add: framed_def exec_frame ret_def throw_def)

lemma framed_handle:
  assumes "framed m" and "\<And>e. framed (h e)" and "\<And>x. framed (k x)"
  shows "framed (handle m h k)"
  unfolding framed_def
proof (intro allI impI)
  fix w r w' assume run: "handle m h k w = (r, w')"
  obtain r1 w1 where 1: "m w = (r1, w1)" by fastforce
  have "frame w1 w'"
    using run 1 framedD [OF assms(2)] framedD [OF assms(3)] by (cases r1) (auto simp: handle_def)
  with framedD [OF assms(1) 1] show "frame w w'" by (rule frame_trans)
qed

lemma framed_andthen: "framed m \<Longrightarrow> (\<And>x. framed (k x)) \<Longrightarrow> framed (andthen m k)"
  unfolding andthen_def by (intro framed_handle framed_intros)

lemma framed_tx:
  assumes "framed body"
  shows "framed (local_tx M body)"
  unfolding framed_def
proof (intro allI impI)
  fix w r w' assume run: "local_tx M body w = (r, w')"
  obtain r1 w1 where 1: "exec M (\<lambda>_ d. (Inr (), d)) w = (r1, w1)" by fastforce
  obtain r2 w2 where 2: "body w1 = (r2, w2)" by fastforce
  have "frame w w1" "frame w w2" using exec_frame [OF 1] framedD [OF assms 2] frame_trans by blast+
  with run 1 2 show "frame w w'"
    by (cases r1; cases r2) (auto simp: local_tx_def frame_def Let_def split: fault.splits)
qed

lemma insert_pending_ok:
  "insert_pending M ops w = (Inr x, w') \<Longrightarrow>
     cl_db w' = (cl_db w)\<lparr>t_pending_operations := t_pending_operations (cl_db w) @ map pending_row_of ops\<rparr>"
proof (induction ops arbitrary: w)
  case (Cons op ops)
  from Cons.prems obtain w1 where "exec M (sql_insert_pending (pending_row_of op)) w = (Inr (), w1)"
    and 2: "insert_pending M ops w1 = (Inr x, w')" by (auto elim: andthen_okE)
  from exec_ok [OF this(1)] have "cl_db w1 = (cl_db w)\<lparr>t_pending_operations := t_pending_operations (cl_db w) @ [pending_row_of op]\<rparr>"
    by (auto simp: sql_insert_pending_def split: if_splits)
  with Cons.IH [OF 2] show ?case by simp
qed (simp add: ret_def)

lemma save_sync_body_ok:
  assumes "save_sync_body M st w = (Inr x, w')"
  shows "cl_db w' = (cl_db w)\<lparr>t_sync_state := Some (ys_LastRevision st),
    t_pending_operations := map pending_row_of (ys_PendingOperations st)\<rparr>"
proof -
  from assms obtain a b w1 w2 where 1: "exec M (sql_save_revision (ys_LastRevision st)) w = (Inr a, w1)"
    and 2: "exec M (\<lambda>_ d. (Inr (), d\<lparr>t_pending_operations := []\<rparr>)) w1 = (Inr b, w2)"
    and 3: "insert_pending M (ys_PendingOperations st) w2 = (Inr x, w')"
    unfolding save_sync_body_def by (elim andthen_okE)
  from exec_ok [OF 1] have "cl_db w1 = (cl_db w)\<lparr>t_sync_state := Some (ys_LastRevision st)\<rparr>"
    by (auto simp: sql_save_revision_def split: if_splits)
  moreover have "cl_db w2 = snd (Inr () :: go_error + unit, (cl_db w1)\<lparr>t_pending_operations := []\<rparr>)"
    using exec_ok [OF 2] by (metis snd_conv)
  ultimately show ?thesis using insert_pending_ok [OF 3] by simp
qed

lemma framed_save_sync: "framed (save_sync_body M st)"
proof -
  have "framed (insert_pending M ops)" for ops
    by (induction ops) (simp_all add: framed_intros framed_andthen)
  then show ?thesis unfolding save_sync_body_def by (intro framed_andthen framed_intros)
qed

lemma SaveSync_spec:
  assumes "SaveSync M st w = (r, w')"
  shows "frame w w' \<and> effect r (local_sync (cl_db w)) (stored_sync st) (local_sync (cl_db w')) \<and>
    local_items (cl_db w') = local_items (cl_db w) \<and> local_auth (cl_db w') = local_auth (cl_db w) \<and>
    ((\<forall>n. ce_fault M n \<noteq> FailAfter) \<and> isl r \<longrightarrow> local_sync (cl_db w') = local_sync (cl_db w))"
proof -
  have "frame w w'" using framedD [OF framed_tx [OF framed_save_sync] assms [unfolded SaveSync_def]] .
  from assms [unfolded SaveSync_def] show ?thesis
  proof (cases rule: local_tx_cases)
    case rolled_back
    with \<open>frame w w'\<close> show ?thesis by (simp add: effect_def)
  next
    case (committed x w1 w2)
    have "local_sync (cl_db w') = stored_sync st" "local_items (cl_db w') = local_items (cl_db w)"
      "local_auth (cl_db w') = local_auth (cl_db w)"
      using save_sync_body_ok [OF committed(1)] committed(2,3)
      by (simp_all add: local_sync_def local_items_def local_auth_def stored_sync_def comp_def fun_eq_iff)
    moreover have "cl_db w' = cl_db w" if "\<forall>n. ce_fault M n \<noteq> FailAfter" "isl r"
      using local_tx_answered [OF assms [unfolded SaveSync_def] that] .
    ultimately show ?thesis using \<open>frame w w'\<close> by (auto simp: effect_def)
  qed
qed

lemma find_upsert: "find (\<lambda>r. iw_id r = i) (upd_where (\<lambda>r. iw_id r = j) (\<lambda>_. row) rs) =
    (if list_ex (\<lambda>r. iw_id r = j) rs \<and> iw_id row = j \<and> i = j then Some row else find (\<lambda>r. iw_id r = i) rs)"
  if "iw_id row = j"
  using that by (induction rs) (auto simp: upd_where_def)

lemma upsert_items:
  assumes "sql_upsert_item it t d = (Inr x, d')"
  shows "local_items d' = (local_items d)(mi_ID it \<mapsto> stored_item it)" "local_sync d' = local_sync d" "local_auth d' = local_auth d"
proof -
  have id: "iw_id (item_row_of it t) = mi_ID it" by (simp add: item_row_of_def)
  have none: "\<not> list_ex (\<lambda>r. iw_id r = mi_ID it) rs \<Longrightarrow> find (\<lambda>r. iw_id r = mi_ID it) rs = None" for rs :: "item_row list"
    by (auto simp: find_None_iff list_ex_iff)
  from assms show "local_items d' = (local_items d)(mi_ID it \<mapsto> stored_item it)"
    by (auto simp: sql_upsert_item_def local_items_def fun_eq_iff find_upsert [OF id] find_append none id split: if_splits option.splits)
  from assms show "local_sync d' = local_sync d" "local_auth d' = local_auth d"
    by (auto simp: sql_upsert_item_def local_sync_def local_auth_def split: if_splits)
qed

lemma Upsert_spec:
  assumes "Upsert M it w = (r, w')"
  shows "frame w w' \<and> effect r (local_items (cl_db w)) ((local_items (cl_db w))(mi_ID it \<mapsto> stored_item it)) (local_items (cl_db w')) \<and>
    local_sync (cl_db w') = local_sync (cl_db w) \<and> local_auth (cl_db w') = local_auth (cl_db w)"
  using assms [unfolded Upsert_def] exec_frame [OF assms [unfolded Upsert_def]]
proof (cases rule: exec_cases)
  case (ran t r')
  show ?thesis
  proof (cases r')
    case (Inl e)
    with ran have "cl_db w' = cl_db w" by (auto simp: sql_upsert_item_def split: if_splits)
    with Inl ran exec_frame [OF assms [unfolded Upsert_def]] show ?thesis by (auto simp: effect_def)
  next
    case (Inr x)
    with ran upsert_items [of it t "cl_db w" x "cl_db w'"] exec_frame [OF assms [unfolded Upsert_def]]
    show ?thesis by (auto simp: effect_def)
  qed
qed (simp add: effect_def)

lemma find_filter: "find P xs = (case filter P xs of [] \<Rightarrow> None | x # _ \<Rightarrow> Some x)"
  by (induction xs) (auto split: list.splits)

lemma find_filter_neq: "find (\<lambda>r. iw_id r = j) (filter (\<lambda>r. iw_id r \<noteq> i) rs) = (if j = i then None else find (\<lambda>r. iw_id r = j) rs)"
  by (induction rs) auto

lemma Delete_spec:
  assumes "Delete M i w = (r, w')"
  shows "frame w w' \<and> effect r (local_items (cl_db w)) ((local_items (cl_db w))(i := None)) (local_items (cl_db w')) \<and>
    local_sync (cl_db w') = local_sync (cl_db w) \<and> local_auth (cl_db w') = local_auth (cl_db w)"
  using assms [unfolded Delete_def] exec_frame [OF assms [unfolded Delete_def]]
proof (cases rule: exec_cases)
  case (ran t r')
  then have db: "cl_db w' = (cl_db w)\<lparr>t_vault_items := filter (\<lambda>r. iw_id r \<noteq> i) (t_vault_items (cl_db w))\<rparr>" by simp
  show ?thesis
    using exec_frame [OF assms [unfolded Delete_def]]
    by (auto simp: db effect_def local_items_def local_sync_def local_auth_def fun_eq_iff find_filter_neq)
qed (simp add: effect_def)

lemma Get_spec:
  assumes "Get M i w = (q, w')"
  shows "frame w w' \<and> cl_db w' = cl_db w \<and> (q = None \<or> q = local_items (cl_db w) i)"
proof -
  let ?f = "\<lambda>_ d. (Inr (filter (\<lambda>r. iw_id r = i) (t_vault_items d)) :: go_error + item_row list, d)"
  obtain r w1 where run: "exec M ?f w = (r, w1)" by fastforce
  note read = exec_read [OF run]
  show ?thesis
  proof (cases r)
    case (Inl e)
    with read assms run show ?thesis by (auto simp: Get_def andthen_def handle_def throw_def)
  next
    case (Inr rows)
    obtain r2 w2 where scan: "scanItems M rows w1 = (r2, w2)" by fastforce
    from scanItems_cases [OF this] read assms run Inr scan show ?thesis
      by (auto simp: Get_def andthen_def handle_def local_items_def find_filter split: sum.splits list.splits)
  qed
qed

lemma List_spec:
  assumes "List M w = (r, w')"
  shows "frame w w' \<and> cl_db w' = cl_db w \<and>
    (isl r \<or> (\<forall>i it. local_items (cl_db w) i = Some it \<longrightarrow> it \<in> set (projr r)))"
proof -
  let ?f = "\<lambda>_ d. (Inr (sort_by (\<lambda>a b. iw_updated_at b \<le> iw_updated_at a) (t_vault_items d)) :: go_error + item_row list, d)"
  obtain r1 w1 where run: "exec M ?f w = (r1, w1)" by fastforce
  note read = exec_read [OF run]
  show ?thesis
  proof (cases r1)
    case (Inl e)
    with read assms run show ?thesis by (auto simp: List_def andthen_def handle_def throw_def)
  next
    case (Inr rows)
    with assms run have scan: "scanItems M rows w1 = (r, w')" by (simp add: List_def andthen_def handle_def)
    from scanItems_cases [OF this] read Inr show ?thesis by (auto simp: local_items_def find_Some_iff)
  qed
qed

lemma local_items_keyed: "local_items d i = Some it \<Longrightarrow> mi_ID it = i"
  by (auto simp: local_items_def item_of_row_def find_Some_iff)

lemma Load_spec:
  assumes "Load M w = (r, w')"
  shows "frame w w' \<and> cl_db w' = cl_db w \<and> (isl r \<or> r = Inr (local_auth (cl_db w)))"
proof -
  let ?f = "\<lambda>_ d. (case t_auth_state d of None \<Rightarrow> Inl ErrNoRows | Some a \<Rightarrow> Inr a, d)"
  obtain r1 w1 where run: "exec M ?f w = (r1, w1)" by fastforce
  have "r1 = Inl ErrNoRows \<Longrightarrow> t_auth_state (cl_db w) = None"
    using run by (auto simp: exec_def Let_def split: fault.splits option.splits)
  with exec_read [OF run] assms show ?thesis
    by (auto simp: Load_def run handle_def throw_def ret_def local_auth_def split: sum.splits if_splits option.splits)
qed

text \<open>What is read may be a part of the queue, without an error.\<close>

lemma LoadSync_spec:
  assumes "LoadSync M w = (r, w')"
  shows "frame w w' \<and> cl_db w' = cl_db w \<and>
    (isl r \<or> (\<exists>n. r = Inr (first_pending n (local_sync (cl_db w))) \<and>
      ((\<forall>t. ce_cut M t = None) \<longrightarrow> length (ys_PendingOperations (local_sync (cl_db w))) \<le> n)))"
proof -
  let ?f = "\<lambda>_ d. (case t_sync_state d of None \<Rightarrow> Inl ErrNoRows | Some v \<Rightarrow> Inr v, d)"
  let ?g = "\<lambda>_ d. (Inr (t_pending_operations d) :: go_error + pending_row list, d)"
  define last where "last = (case t_sync_state (cl_db w) of None \<Rightarrow> 0 | Some v \<Rightarrow> v)"
  obtain r1 w1 where run1: "exec M ?f w = (r1, w1)" by fastforce
  obtain r2 w2 where run2: "exec M ?g w1 = (r2, w2)" by fastforce
  have none: "r1 = Inl ErrNoRows \<Longrightarrow> last = 0"
    using run1 by (auto simp: last_def exec_def Let_def split: fault.splits option.splits)
  note read = exec_read [OF run1] exec_read [OF run2]
  show ?thesis
  proof (cases "r1 = Inl ErrNoRows \<or> \<not> isl r1")
    case True
    then have "r1 = Inl ErrNoRows \<or> r1 = Inr last" using read(1) by (auto simp: last_def split: option.splits)
    with none assms have rest: "andthen (exec M ?g) (\<lambda>rows. andthen (rows_Next M rows) (\<lambda>(scanned, rowsErr).
        ret \<lparr>ys_LastRevision = last, ys_PendingOperations = map pending_of_row scanned\<rparr>)) w1 = (r, w')"
      by (auto simp: LoadSync_def run1 andthen_def handle_def ret_def)
    show ?thesis
    proof (cases r2)
      case (Inl e)
      with rest read run2 show ?thesis by (auto simp: andthen_def handle_def throw_def elim: frame_trans)
    next
      case (Inr rows)
      then have rows: "rows = t_pending_operations (cl_db w)" and fr: "frame w w2" "cl_db w2 = cl_db w"
        using read by (auto elim: frame_trans)
      let ?n = "case ce_cut M (cl_tick w2) of None \<Rightarrow> length rows | Some n \<Rightarrow> n"
      have "r = Inr (first_pending ?n (local_sync (cl_db w)))" "w' = w2"
        using rest run2 Inr rows
        by (auto simp: andthen_def handle_def ret_def rows_Next_def local_sync_def first_pending_def last_def take_map split: option.splits)
      moreover have "length (ys_PendingOperations (local_sync (cl_db w))) \<le> ?n" if "\<forall>t. ce_cut M t = None"
        using that rows by (simp add: local_sync_def)
      ultimately show ?thesis using fr by blast
    qed
  next
    case False
    then obtain e where "r1 = Inl e" "e \<noteq> ErrNoRows" by (cases r1) auto
    with assms read(1) show ?thesis by (auto simp: LoadSync_def run1 andthen_def handle_def throw_def)
  qed
qed

lemma Save_spec:
  assumes "Save M a w = (r, w')"
  shows "frame w w' \<and> effect r (local_auth (cl_db w)) a (local_auth (cl_db w')) \<and>
    local_items (cl_db w') = local_items (cl_db w) \<and> local_sync (cl_db w') = local_sync (cl_db w)"
  using assms [unfolded Save_def] exec_frame [OF assms [unfolded Save_def]]
proof (cases rule: exec_cases)
  case (ran t r')
  then have db: "cl_db w' = (cl_db w)\<lparr>t_auth_state := Some a\<rparr>" by simp
  show ?thesis
    using exec_frame [OF assms [unfolded Save_def]]
    by (auto simp: db effect_def local_items_def local_sync_def local_auth_def)
qed (simp add: effect_def)

lemma stored_read_field [simp]: "stored_field (read_field c n) = read_field c n"
  by (simp add: stored_field_def read_field_def GetCiphertext_def GetNonce_def blen_def)

lemma local_sync_reread: "op \<in> set (ys_PendingOperations (local_sync d)) \<Longrightarrow> stored_op op = op"
  by (auto simp: local_sync_def pending_of_row_def stored_op_def stored_snapshot_def)

lemma SQLiteStorage_sel [simp]:
  "ls_Save (SQLiteStorage M) = Save M" "ls_Load (SQLiteStorage M) = Load M" "ls_SaveSync (SQLiteStorage M) = SaveSync M"
  "ls_LoadSync (SQLiteStorage M) = LoadSync M" "ls_Get (SQLiteStorage M) = Get M" "ls_List (SQLiteStorage M) = List M"
  "ls_Upsert (SQLiteStorage M) = Upsert M" "ls_Delete (SQLiteStorage M) = Delete M"
  by (simp_all add: SQLiteStorage_def)

interpretation sqlite: local_storage "SQLiteStorage M" local_items local_sync local_auth
  "\<forall>t. ce_cut M t = None" "\<forall>n. ce_fault M n \<noteq> FailAfter" for M
proof (rule local_storage.intro, unfold SQLiteStorage_sel)
qed (fact Save_spec Load_spec SaveSync_spec LoadSync_spec Upsert_spec Delete_spec Get_spec List_spec local_items_keyed
  local_sync_reread)+

end
