(* ===== verification/ClientApp.thy ===== *)
theory ClientApp
  imports ClientCrypto ClientStorage
begin

section \<open>The client application (\<open>internal/client/app\<close>)\<close>

text \<open>
  \<open>app.go\<close>, \<open>auth.go\<close>, \<open>vault.go\<close> and \<open>sync.go\<close>: every method of \<open>App\<close> over the storage, the
  transport and the cryptographic functions. Assignments to fields of the App happen where the source
  makes them, also when a later step fails. A nil dereference, a division by zero and a slice out of
  range are the error \<open>go_panic\<close>. Timeouts of contexts are errors of the calls they limit.

  A stream is sent as one list. With a chunk size of 0 or less the program panics after it has opened
  the stream and sent the header; the model reports the panic without the aborted call, which leaves no
  trace but a failed session. A download header always carries its blob.
\<close>

definition go_panic :: go_error where
  "go_panic = ErrOther ''panic''"

definition err :: "string \<Rightarrow> go_error" where
  "err m = ErrOther m"

definition lift :: "go_error + 'a \<Rightarrow> ('s, 'a) cprog" where
  "lift r = (case r of Inl e \<Rightarrow> throw e | Inr x \<Rightarrow> ret x)"

subsection \<open>Construction\<close>

text \<open>\<open>New\<close> replaces the App: no key, the states read from storage.\<close>

definition New :: "'s client LocalStorage \<Rightarrow> ('s, unit) cprog" where
  "New localStorage =
     andthen (ls_Load localStorage) (\<lambda>authState.
     andthen (ls_LoadSync localStorage) (\<lambda>syncState.
     set_app (\<lambda>_. \<lparr>ap_DEK = [], ap_AuthState = authState, ap_SyncState = syncState\<rparr>)))"

subsection \<open>Accounts\<close>

definition detectPlatform :: "cenv \<Rightarrow> int" where
  "detectPlatform M =
     (if ce_GOOS M = ''linux'' then 1 else if ce_GOOS M = ''windows'' then 2
      else if ce_GOOS M = ''darwin'' then 3 else 0)"

definition detectDeviceName :: "cenv \<Rightarrow> string" where
  "detectDeviceName M = (case ce_Hostname M of Inl _ \<Rightarrow> [] | Inr n \<Rightarrow> n)"

definition device_info :: "cenv \<Rightarrow> DeviceInfo" where
  "device_info M = \<lparr>di_DeviceId = [], di_DeviceName = detectDeviceName M, di_Platform = detectPlatform M,
     di_ClientVersion = ce_Version M\<rparr>"

definition App_Register ::
  "cenv \<Rightarrow> crypto_lib \<Rightarrow> 's client LocalStorage \<Rightarrow> 's Client \<Rightarrow> string \<Rightarrow> string \<Rightarrow> ('s, unit) cprog" where
  "App_Register M K LS C login password =
     andthen (GenerateSalt M) (\<lambda>salt.
     let masterKey = DeriveKey K (string_bytes password) salt in
     andthen (rand_Read M 32) (\<lambda>dek.
     andthen (Encrypt M K masterKey dek) (\<lambda>(nonce, encDEK).
     andthen (remote (tc_Register C
       \<lparr>rq_Login = login, rq_Password = password, rq_PasswordSalt = Some salt,
        rq_KdfParams = Some \<lparr>kp_Algorithm = ''argon2id'', kp_MemoryKib = 64 * 1024, kp_Iterations = 3,
          kp_Parallelism = 4, kp_KeyLength = 32\<rparr>,
        rq_EncryptedVaultKey = Some encDEK, rq_EncryptedVaultKeyNonce = Some nonce,
        rq_Device = Some (device_info M)\<rparr>)) (\<lambda>resp.
     case rr_User resp of
       None \<Rightarrow> throw (err ''invalid response: user is nil'')
     | Some user \<Rightarrow>
         let authState = \<lparr>au_UserID = ui_UserId user, au_AccessToken = rr_AccessToken resp,
               au_RefreshToken = rr_RefreshToken resp, au_DeviceID = rr_DeviceId resp, au_PasswordSalt = None,
               au_EncryptedDEK = None, au_EncryptedDEKNonce = None\<rparr> in
         andthen (set_app (\<lambda>a. a\<lparr>ap_DEK := dek, ap_AuthState := authState\<rparr>)) (\<lambda>_.
         ls_Save LS authState)))))"

definition App_Login ::
  "cenv \<Rightarrow> crypto_lib \<Rightarrow> 's client LocalStorage \<Rightarrow> 's Client \<Rightarrow> string \<Rightarrow> string \<Rightarrow> ('s, unit) cprog" where
  "App_Login M K LS C login password =
     andthen (remote (tc_Login C \<lparr>lq_Login = login, lq_Password = password, lq_Device = Some (device_info M)\<rparr>)) (\<lambda>resp.
     let masterKey = DeriveKey K (string_bytes password) (bytes_of (lr_PasswordSalt resp)) in
     case Decrypt K masterKey (bytes_of (lr_EncryptedVaultKeyNonce resp)) (bytes_of (lr_EncryptedVaultKey resp)) of
       Inl _ \<Rightarrow> throw (err ''invalid password'')
     | Inr dek \<Rightarrow>
         (case lr_User resp of
            None \<Rightarrow> throw (err ''invalid response: user is nil'')
          | Some user \<Rightarrow>
              let authState = \<lparr>au_UserID = ui_UserId user, au_AccessToken = lr_AccessToken resp,
                    au_RefreshToken = lr_RefreshToken resp, au_DeviceID = lr_DeviceId resp,
                    au_PasswordSalt = lr_PasswordSalt resp, au_EncryptedDEK = lr_EncryptedVaultKey resp,
                    au_EncryptedDEKNonce = lr_EncryptedVaultKeyNonce resp\<rparr> in
              andthen (set_app (\<lambda>a. a\<lparr>ap_DEK := dek, ap_AuthState := authState\<rparr>)) (\<lambda>_.
              ls_Save LS authState)))"

definition Unlock :: "crypto_lib \<Rightarrow> 's client LocalStorage \<Rightarrow> string \<Rightarrow> ('s, unit) cprog" where
  "Unlock K LS password =
     andthen (ls_Load LS) (\<lambda>authState.
     let masterKey = DeriveKey K (string_bytes password) (bytes_of (au_PasswordSalt authState)) in
     case Decrypt K masterKey (bytes_of (au_EncryptedDEKNonce authState)) (bytes_of (au_EncryptedDEK authState)) of
       Inl _ \<Rightarrow> throw (err ''invalid password'')
     | Inr dek \<Rightarrow> set_app (\<lambda>a. a\<lparr>ap_DEK := dek, ap_AuthState := authState\<rparr>))"

subsection \<open>Items\<close>

definition encryptField :: "cenv \<Rightarrow> crypto_lib \<Rightarrow> bytes \<Rightarrow> bytes \<Rightarrow> ('s, EncryptedField) cprog" where
  "encryptField M K dek data =
     andthen (Encrypt M K dek data) (\<lambda>(nonce, cipher). ret \<lparr>ef_Ciphertext = Some cipher, ef_Nonce = Some nonce\<rparr>)"

definition hex_digit :: "nat \<Rightarrow> char" where
  "hex_digit n = ''0123456789abcdef'' ! n"

definition hex :: "bytes \<Rightarrow> string" where
  "hex bs = concat (map (\<lambda>b. [hex_digit (unat b div 16), hex_digit (unat b mod 16)]) bs)"

text \<open>The error of the random source is ignored: the buffer then holds zeros.\<close>

definition generateID :: "cenv \<Rightarrow> string \<Rightarrow> ('s, string) cprog" where
  "generateID M prefix =
     handle (rand_Read M 4) (\<lambda>_. ret (prefix @ ''-'' @ hex [0, 0, 0, 0])) (\<lambda>b. ret (prefix @ ''-'' @ hex b))"

definition with_dek :: "(bytes \<Rightarrow> ('s, 'a) cprog) \<Rightarrow> ('s, 'a) cprog" where
  "with_dek k = andthen (get_app ap_DEK) (\<lambda>dek. guard (dek = []) (err ''login required (DEK missing)'') (k dek))"

text \<open>\<open>a.SyncState.PendingOperations = append(..); return a.LocalStorage.SaveSync(a.SyncState)\<close>.\<close>

definition enqueue :: "'s client LocalStorage \<Rightarrow> ModelPendingOperation \<Rightarrow> ('s, unit) cprog" where
  "enqueue LS op =
     andthen (set_app (\<lambda>a. a\<lparr>ap_SyncState := (ap_SyncState a)\<lparr>ys_PendingOperations :=
        ys_PendingOperations (ap_SyncState a) @ [op]\<rparr>\<rparr>)) (\<lambda>_.
     andthen (get_app ap_SyncState) (\<lambda>st. ls_SaveSync LS st))"

definition snapshot_of :: "ModelItem \<Rightarrow> VaultItemSnapshot" where
  "snapshot_of it = \<lparr>vs_ItemType = mi_Type it, vs_Title = mi_Title it, vs_Metadata = mi_Metadata it,
     vs_Payload = mi_Payload it, vs_BlobId = []\<rparr>"

definition AddItem ::
  "cenv \<Rightarrow> crypto_lib \<Rightarrow> 's client LocalStorage \<Rightarrow> int \<Rightarrow> bytes \<Rightarrow> bytes \<Rightarrow> bytes \<Rightarrow> string \<Rightarrow> ('s, unit) cprog" where
  "AddItem M K LS itemType title metadata payload blobId =
     with_dek (\<lambda>dek.
     andthen (encryptField M K dek title) (\<lambda>encTitle.
     andthen (encryptField M K dek metadata) (\<lambda>encMeta.
     andthen (encryptField M K dek payload) (\<lambda>encPayload.
     andthen (generateID M ''item'') (\<lambda>itemID.
     andthen (generateID M ''op'') (\<lambda>opID.
     let item = \<lparr>mi_ID = itemID, mi_Version = 1, mi_Type = itemType, mi_Title = Some encTitle,
           mi_Metadata = Some encMeta, mi_Payload = Some encPayload, mi_BlobID = blobId, mi_Deleted = False\<rparr> in
     andthen (ls_Upsert LS item) (\<lambda>_.
     enqueue LS \<lparr>mp_OperationID = opID, mp_Type = OpCreate, mp_ItemID = itemID, mp_ExpectedVersion = 0,
       mp_Snapshot = Some (snapshot_of item)\<rparr>)))))))"

definition App_ListItems :: "'s client LocalStorage \<Rightarrow> ('s, ModelItem list) cprog" where
  "App_ListItems LS = ls_List LS"

definition App_GetItem :: "'s client LocalStorage \<Rightarrow> string \<Rightarrow> 's client \<Rightarrow> ModelItem option \<times> 's client" where
  "App_GetItem LS itemID = ls_Get LS itemID"

text \<open>\<open>item, ok := a.LocalStorage.Get(itemID); if !ok { return "item not found" }\<close>.\<close>

definition existing_item :: "'s client LocalStorage \<Rightarrow> string \<Rightarrow> ('s, ModelItem) cprog" where
  "existing_item LS itemID w =
     (case ls_Get LS itemID w of
        (None, w') \<Rightarrow> (Inl (err ''item not found''), w')
      | (Some it, w') \<Rightarrow> (Inr it, w'))"

definition App_UpdateItem ::
  "cenv \<Rightarrow> crypto_lib \<Rightarrow> 's client LocalStorage \<Rightarrow> string \<Rightarrow> int \<Rightarrow> bytes \<Rightarrow> bytes \<Rightarrow> bytes \<Rightarrow> ('s, unit) cprog" where
  "App_UpdateItem M K LS itemID itemType title metadata payload =
     with_dek (\<lambda>dek.
     andthen (existing_item LS itemID) (\<lambda>item.
     andthen (encryptField M K dek title) (\<lambda>encTitle.
     andthen (encryptField M K dek metadata) (\<lambda>encMeta.
     andthen (encryptField M K dek payload) (\<lambda>encPayload.
     andthen (generateID M ''op'') (\<lambda>opID.
     let newVersion = mi_Version item + 1;
         item' = item\<lparr>mi_Type := itemType, mi_Title := Some encTitle, mi_Metadata := Some encMeta,
           mi_Payload := Some encPayload, mi_Version := newVersion\<rparr> in
     andthen (ls_Upsert LS item') (\<lambda>_.
     enqueue LS \<lparr>mp_OperationID = opID, mp_Type = OpUpdate, mp_ItemID = itemID,
       mp_ExpectedVersion = mi_Version item' - 1, mp_Snapshot = Some (snapshot_of item')\<rparr>)))))))"

definition App_DeleteItem :: "cenv \<Rightarrow> 's client LocalStorage \<Rightarrow> string \<Rightarrow> ('s, unit) cprog" where
  "App_DeleteItem M LS itemID =
     with_dek (\<lambda>dek.
     andthen (existing_item LS itemID) (\<lambda>item.
     andthen (generateID M ''op'') (\<lambda>opID.
     andthen (ls_Delete LS itemID) (\<lambda>_.
     enqueue LS \<lparr>mp_OperationID = opID, mp_Type = OpDelete, mp_ItemID = itemID,
       mp_ExpectedVersion = mi_Version item, mp_Snapshot = None\<rparr>))))"

text \<open>A field of the item is dereferenced: nil panics.\<close>

definition decrypt_field :: "crypto_lib \<Rightarrow> bytes \<Rightarrow> EncryptedField option \<Rightarrow> go_error + bytes" where
  "decrypt_field K dek f =
     (case f of None \<Rightarrow> Inl go_panic | Some x \<Rightarrow> Decrypt K dek (bytes_of (ef_Nonce x)) (bytes_of (ef_Ciphertext x)))"

definition DecryptItem :: "crypto_lib \<Rightarrow> ModelItem \<Rightarrow> ('s, bytes \<times> bytes \<times> bytes) cprog" where
  "DecryptItem K it =
     with_dek (\<lambda>dek.
     andthen (lift (decrypt_field K dek (mi_Title it))) (\<lambda>title.
     andthen (lift (decrypt_field K dek (mi_Metadata it))) (\<lambda>meta.
     andthen (lift (decrypt_field K dek (mi_Payload it))) (\<lambda>payload.
     ret (title, meta, payload)))))"

subsection \<open>Files\<close>

text \<open>The upload loop: \<open>for i := 0; i < len(blobData); i += maxChunkSize\<close>, for a positive chunk size.\<close>

function file_chunks :: "nat \<Rightarrow> bytes \<Rightarrow> nat \<Rightarrow> UploadBlobRequest list" where
  "file_chunks maxChunkSize blobData i =
     (if maxChunkSize = 0 \<or> length blobData \<le> i then []
      else UploadBlobChunk (word_of_nat (i div maxChunkSize))
             (Some (take (min (i + maxChunkSize) (length blobData) - i) (drop i blobData)))
           # file_chunks maxChunkSize blobData (i + maxChunkSize))"
  by pat_completeness auto
termination
  by (relation "measure (\<lambda>(_, d, i). length d - i)") auto

declare file_chunks.simps [simp del]

definition UploadFile ::
  "cenv \<Rightarrow> crypto_lib \<Rightarrow> 's Client \<Rightarrow> string \<Rightarrow> string \<Rightarrow> ('s, string) cprog" where
  "UploadFile M K C filePath fileName =
     with_dek (\<lambda>dek.
     andthen (lift (ce_ReadFile M filePath)) (\<lambda>data.
     andthen (Encrypt M K dek data) (\<lambda>(nonce, encryptedData).
     let blobData = nonce @ encryptedData; blobChecksum = SHA256 K blobData in
     andthen (remote (tc_StartBlobUpload C
       \<lparr>sbu_ExpectedSize = word_of_nat (length blobData), sbu_ExpectedChecksum = Some blobChecksum,
        sbu_ContentKind = ''application/octet-stream'', sbu_FileName = fileName,
        sbu_MimeType = ''application/octet-stream''\<rparr>)) (\<lambda>startResp.
     let maxChunkSize = sint (sbr_MaxChunkSize startResp) in
     guard (maxChunkSize \<le> 0 \<and> blobData \<noteq> []) go_panic
    (andthen (remote (tc_UploadBlob C
        (UploadBlobHeader (sbr_UploadSessionId startResp) # file_chunks (nat maxChunkSize) blobData 0))) (\<lambda>uploadResp.
     andthen
      (if ubr_Status uploadResp \<noteq> StatusCommitted
       then andthen (remote (tc_CommitBlobUpload C (sbr_UploadSessionId startResp))) (\<lambda>blob.
         guard (blob = None) (err ''commit failed: no blob info'') (ret ()))
       else ret ()) (\<lambda>_.
     ret (sbr_BlobId startResp))))))))"

definition chunk_data :: "DownloadBlobResponse list \<Rightarrow> bytes" where
  "chunk_data ms = concat (map (\<lambda>m. case m of DownloadBlobChunk _ d \<Rightarrow> d | _ \<Rightarrow> []) ms)"

definition DownloadFile :: "crypto_lib \<Rightarrow> 's Client \<Rightarrow> string \<Rightarrow> ('s, bytes) cprog" where
  "DownloadFile K C blobID =
     with_dek (\<lambda>dek.
     andthen (remote (tc_DownloadBlob C blobID)) (\<lambda>(msgs, fin).
     case msgs of
       [] \<Rightarrow> throw (case fin of None \<Rightarrow> err ''EOF'' | Some e \<Rightarrow> e)
     | headerMsg # chunks \<Rightarrow>
         (case headerMsg of
            DownloadBlobHeader _ \<Rightarrow>
              (case fin of
                 Some e \<Rightarrow> throw e
               | None \<Rightarrow>
                   let encryptedData = chunk_data chunks in
                   guard (length encryptedData < NonceSize) (err ''invalid blob data: too short'')
                  (lift (Decrypt K dek (take NonceSize encryptedData) (drop NonceSize encryptedData))))
          | _ \<Rightarrow> throw (err ''invalid download response: no header''))))"

subsection \<open>Synchronisation\<close>

text \<open>\<open>it := ev.Item\<close> is dereferenced in the three cases of the change type.\<close>

definition applyEvent :: "'s client LocalStorage \<Rightarrow> RevisionEvent \<Rightarrow> ('s, unit) cprog" where
  "applyEvent LS ev =
     (if ev_ChangeType ev = ChangeTypeCreated \<or> ev_ChangeType ev = ChangeTypeUpdated then
        (case ev_Item ev of
           None \<Rightarrow> throw go_panic
         | Some it \<Rightarrow> ls_Upsert LS \<lparr>mi_ID = vi_ItemId it, mi_Version = vi_Version it, mi_Type = vi_ItemType it,
             mi_Title = vi_Title it, mi_Metadata = vi_Metadata it, mi_Payload = vi_Payload it, mi_BlobID = [],
             mi_Deleted = False\<rparr>)
      else if ev_ChangeType ev = ChangeTypeDeleted then
        (case ev_Item ev of
           None \<Rightarrow> throw go_panic
         | Some it \<Rightarrow> ls_Upsert LS \<lparr>mi_ID = vi_ItemId it, mi_Version = vi_Version it, mi_Type = 0, mi_Title = None,
             mi_Metadata = None, mi_Payload = None, mi_BlobID = [], mi_Deleted = True\<rparr>)
      else ret ())"

fun applyEvents :: "'s client LocalStorage \<Rightarrow> RevisionEvent list \<Rightarrow> ('s, unit) cprog" where
  "applyEvents LS [] = ret ()"
| "applyEvents LS (ev # evs) = andthen (applyEvent LS ev) (\<lambda>_. applyEvents LS evs)"

definition wire_op :: "ModelPendingOperation \<Rightarrow> PendingOperation" where
  "wire_op op = \<lparr>pe_OperationId = mp_OperationID op, pe_OperationType = mp_Type op, pe_ItemId = mp_ItemID op,
     pe_ExpectedVersion = mp_ExpectedVersion op, pe_Snapshot = mp_Snapshot op\<rparr>"

definition App_Sync :: "'s client LocalStorage \<Rightarrow> 's Client \<Rightarrow> ('s, unit) cprog" where
  "App_Sync LS C =
     andthen (get_app ap_SyncState) (\<lambda>st.
     andthen (remote (tc_Sync C \<lparr>sr_ClientRevision = ys_LastRevision st,
       sr_PendingOperations = map (\<lambda>op. Some (wire_op op)) (ys_PendingOperations st)\<rparr>)) (\<lambda>resp.
     andthen (applyEvents LS (sp_RemoteChanges resp)) (\<lambda>_.
     andthen (set_app (\<lambda>a. a\<lparr>ap_SyncState := (ap_SyncState a)\<lparr>ys_LastRevision := sp_NewServerRevision resp\<rparr>\<rparr>)) (\<lambda>_.
     andthen (if sp_Conflicts resp = []
       then set_app (\<lambda>a. a\<lparr>ap_SyncState := (ap_SyncState a)\<lparr>ys_PendingOperations := []\<rparr>\<rparr>) else ret ()) (\<lambda>_.
     andthen (get_app ap_SyncState) (\<lambda>st'. ls_SaveSync LS st'))))))"

end
