(* ===== verification/ClientProps.thy ===== *)
theory ClientProps
  imports ClientApp
begin

section \<open>Correctness of the client\<close>

text \<open>
  What the App does to the local storage, proved in the locale \<open>local_storage\<close> from the contract
  alone and read off for SQLite through its interpretation: local edits and the queue of pending
  operations, what synchronisation stores, and the key of the vault.
\<close>

subsection \<open>Edits\<close>

text \<open>The three commands of the user that change items, and what they queue.\<close>

datatype edit =
  Add int bytes bytes bytes string
| Change string int bytes bytes bytes
| Remove string

fun run_edit :: "cenv \<Rightarrow> crypto_lib \<Rightarrow> 's client LocalStorage \<Rightarrow> edit \<Rightarrow> ('s, unit) cprog" where
  "run_edit M K LS (Add ty title metadata payload blobId) = AddItem M K LS ty title metadata payload blobId"
| "run_edit M K LS (Change i ty title metadata payload) = App_UpdateItem M K LS i ty title metadata payload"
| "run_edit M K LS (Remove i) = App_DeleteItem M LS i"

fun run_edits :: "cenv \<Rightarrow> crypto_lib \<Rightarrow> 's client LocalStorage \<Rightarrow> edit list \<Rightarrow> ('s, unit) cprog" where
  "run_edits M K LS [] = ret ()"
| "run_edits M K LS (e # es) = andthen (run_edit M K LS e) (\<lambda>_. run_edits M K LS es)"

fun edit_type :: "edit \<Rightarrow> PendingOperationType" where
  "edit_type (Add _ _ _ _ _) = OpCreate"
| "edit_type (Change _ _ _ _ _) = OpUpdate"
| "edit_type (Remove _) = OpDelete"

text \<open>The item type 0 is UNSPECIFIED.\<close>

fun typed :: "edit \<Rightarrow> bool" where
  "typed (Add ty _ _ _ _) \<longleftrightarrow> ty \<noteq> 0"
| "typed (Change _ ty _ _ _) \<longleftrightarrow> ty \<noteq> 0"
| "typed (Remove _) \<longleftrightarrow> True"

text \<open>A field that opens to a plaintext under a key; it is a tag longer than the plaintext.\<close>

definition opens :: "crypto_lib \<Rightarrow> bytes \<Rightarrow> EncryptedField option \<Rightarrow> bytes \<Rightarrow> bool" where
  "opens K dek f p \<longleftrightarrow> decrypt_field K dek f = Inr p \<and> stored_field f = f \<and> blen (GetCiphertext f) = length p + 16"

text \<open>The item, the operation and the items before and after an edit.\<close>

fun edited ::
  "crypto_lib \<Rightarrow> bytes \<Rightarrow> edit \<Rightarrow> (string \<Rightarrow> ModelItem option) \<Rightarrow> (string \<Rightarrow> ModelItem option) \<Rightarrow> ModelPendingOperation \<Rightarrow> bool"
  where
  "edited K dek (Add ty title metadata payload blobId) items items' op \<longleftrightarrow>
     (\<exists>it. items' = items(mi_ID it \<mapsto> it) \<and> mi_Version it = 1 \<and> mi_Type it = ty \<and> mi_BlobID it = blobId \<and>
        \<not> mi_Deleted it \<and> opens K dek (mi_Title it) title \<and> opens K dek (mi_Metadata it) metadata \<and>
        opens K dek (mi_Payload it) payload \<and> mp_Type op = OpCreate \<and> mp_ItemID op = mi_ID it \<and>
        mp_ExpectedVersion op = 0 \<and> mp_Snapshot op = Some (snapshot_of it))"
| "edited K dek (Change i ty title metadata payload) items items' op \<longleftrightarrow>
     (\<exists>old it. items i = Some old \<and> items' = items(i \<mapsto> it) \<and> mi_ID it = i \<and>
        mi_Version it = mi_Version old + 1 \<and> mi_Type it = ty \<and> mi_BlobID it = mi_BlobID old \<and>
        mi_Deleted it = mi_Deleted old \<and> opens K dek (mi_Title it) title \<and> opens K dek (mi_Metadata it) metadata \<and>
        opens K dek (mi_Payload it) payload \<and> mp_Type op = OpUpdate \<and> mp_ItemID op = i \<and>
        mp_ExpectedVersion op = mi_Version old \<and> mp_Snapshot op = Some (snapshot_of it))"
| "edited K dek (Remove i) items items' op \<longleftrightarrow>
     (\<exists>old. items i = Some old \<and> items' = items(i := None) \<and> mp_Type op = OpDelete \<and> mp_ItemID op = i \<and>
        mp_ExpectedVersion op = mi_Version old \<and> mp_Snapshot op = None)"

lemma edited_type: "edited K dek e m m' op \<Longrightarrow> mp_Type op = edit_type e"
  by (cases e) auto

text \<open>A typed edit queues an operation that reading back from storage does not change.\<close>

lemma snapshot_stored:
  assumes "vs_ItemType s \<noteq> 0" and "stored_field (vs_Title s) = vs_Title s" and "stored_field (vs_Metadata s) = vs_Metadata s"
    and "stored_field (vs_Payload s) = vs_Payload s"
  shows "stored_snapshot s = Some s"
  using assms by (simp add: stored_snapshot_def)

lemma edited_stored:
  assumes "edited K dek e m m' op" and "typed e"
  shows "stored_op op = op"
  using assms by (cases e) (auto simp: stored_op_def snapshot_of_def opens_def snapshot_stored)

fun plain :: "edit \<Rightarrow> (bytes \<times> bytes \<times> bytes) option" where
  "plain (Add _ title metadata payload _) = Some (title, metadata, payload)"
| "plain (Change _ _ title metadata payload) = Some (title, metadata, payload)"
| "plain (Remove _) = None"

lemma DecryptItem_opens:
  assumes "ap_DEK (cl_app w) \<noteq> []" and "opens K (ap_DEK (cl_app w)) (mi_Title it) t"
    and "opens K (ap_DEK (cl_app w)) (mi_Metadata it) m" and "opens K (ap_DEK (cl_app w)) (mi_Payload it) p"
  shows "DecryptItem K it w = (Inr (t, m, p), w)"
  using assms by (simp add: DecryptItem_def with_dek_def andthen_def handle_def get_app_def guard_def lift_def ret_def opens_def)

subsection \<open>Steps of the edits\<close>

lemma with_dek_okE:
  assumes "with_dek k w = (Inr x, w')"
  obtains "ap_DEK (cl_app w) \<noteq> []" and "k (ap_DEK (cl_app w)) w = (Inr x, w')"
  using assms by (auto simp: with_dek_def andthen_def handle_def get_app_def guard_def throw_def split: if_splits)

lemma encryptField_ok:
  assumes "rand_ok M" and "aead_ok K" and "encryptField M K dek p w = (Inr f, w')"
  shows "opens K dek (Some f) p" "cl_db w' = cl_db w" "cl_app w' = cl_app w"
proof -
  have op: "opens K dek (Some \<lparr>ef_Ciphertext = Some c, ef_Nonce = Some n\<rparr>) p" if "sealed K dek p n c" for n c
    using sealed_decrypt [OF assms(2) that] by (auto simp: opens_def decrypt_field_def bytes_of_def GetCiphertext_def blen_def intro!: stored_field_sealed)
  have "wp (encryptField M K dek p) (\<lambda>f w'. opens K dek (Some f) p \<and> cl_db w' = cl_db w \<and> cl_app w' = cl_app w) (\<lambda>_ _. True) w"
    unfolding encryptField_def wp_andthen by (rule wp_Encrypt [OF assms(1)]) (simp_all add: wp_ret op)
  from wp_okD [OF this assms(3)]
  show "opens K dek (Some f) p" "cl_db w' = cl_db w" "cl_app w' = cl_app w" by auto
qed

lemma generateID_ok: "generateID M p w = (Inr i, w') \<Longrightarrow> cl_db w' = cl_db w \<and> cl_app w' = cl_app w"
  by (auto simp: generateID_def handle_def rand_Read_def ret_def split: sum.splits)

subsection \<open>Events\<close>

text \<open>What a remote change does to the items.\<close>

definition after_event :: "(string \<Rightarrow> ModelItem option) \<Rightarrow> RevisionEvent \<Rightarrow> string \<Rightarrow> ModelItem option" where
  "after_event items ev =
     (case ev_Item ev of
        None \<Rightarrow> items
      | Some v \<Rightarrow>
          if ev_ChangeType ev = ChangeTypeDeleted
          then items(vi_ItemId v \<mapsto> \<lparr>mi_ID = vi_ItemId v, mi_Version = vi_Version v, mi_Type = 0, mi_Title = None,
             mi_Metadata = None, mi_Payload = None, mi_BlobID = [], mi_Deleted = True\<rparr>)
          else if ev_ChangeType ev \<noteq> ChangeTypeCreated \<and> ev_ChangeType ev \<noteq> ChangeTypeUpdated then items
          else items(vi_ItemId v \<mapsto> stored_item \<lparr>mi_ID = vi_ItemId v, mi_Version = vi_Version v, mi_Type = vi_ItemType v,
             mi_Title = vi_Title v, mi_Metadata = vi_Metadata v, mi_Payload = vi_Payload v, mi_BlobID = [], mi_Deleted = False\<rparr>))"

text \<open>The request a client sends and the state it keeps after the answer.\<close>

definition sync_request :: "SyncState \<Rightarrow> SyncRequest" where
  "sync_request st = \<lparr>sr_ClientRevision = ys_LastRevision st,
     sr_PendingOperations = map (\<lambda>op. Some (wire_op op)) (ys_PendingOperations st)\<rparr>"

definition synced :: "SyncResponse \<Rightarrow> SyncState \<Rightarrow> SyncState" where
  "synced resp st = \<lparr>ys_LastRevision = sp_NewServerRevision resp,
     ys_PendingOperations = (if sp_Conflicts resp = [] then [] else ys_PendingOperations st)\<rparr>"

context local_storage
begin

lemma enqueue_ok:
  assumes "enqueue S op w = (Inr x, w')"
  shows "cl_app w' = (cl_app w)\<lparr>ap_SyncState := (ap_SyncState (cl_app w))\<lparr>ys_PendingOperations :=
       ys_PendingOperations (ap_SyncState (cl_app w)) @ [op]\<rparr>\<rparr>"
    and "sync (cl_db w') = stored_sync (ap_SyncState (cl_app w'))" and "items (cl_db w') = items (cl_db w)"
  using assms unfolding enqueue_def
  by (auto elim!: andthen_okE simp: set_app_def get_app_def frame_def effect_def dest!: save_sync)

lemma existing_ok:
  assumes "existing_item S i w = (Inr it, w')"
  shows "items (cl_db w) i = Some it" "cl_db w' = cl_db w" "cl_app w' = cl_app w"
  using assms get [of i w] by (auto simp: existing_item_def frame_def split: prod.splits option.splits)

lemma upsert_ok:
  assumes "ls_Upsert S it w = (Inr x, w')"
  shows "items (cl_db w') = (items (cl_db w))(mi_ID it \<mapsto> stored_item it)" "cl_app w' = cl_app w"
  using upsert [OF assms] by (simp_all add: effect_def frame_def)

lemma delete_ok:
  assumes "ls_Delete S i w = (Inr x, w')"
  shows "items (cl_db w') = (items (cl_db w))(i := None)" "cl_app w' = cl_app w"
  using delete [OF assms] by (simp_all add: effect_def frame_def)

lemma AddItem_ok:
  assumes "rand_ok M" and "aead_ok K" and "AddItem M K S ty title metadata payload blobId w = (Inr x, w')"
  obtains op w1 where "edited K (ap_DEK (cl_app w)) (Add ty title metadata payload blobId) (items (cl_db w)) (items (cl_db w1)) op"
    and "cl_app w1 = cl_app w" and "enqueue S op w1 = (Inr x, w')"
proof -
  from assms(3) obtain f1 f2 f3 i j u w1 w2 w3 w4 w5 w6 where dek: "ap_DEK (cl_app w) \<noteq> []"
    and e1: "encryptField M K (ap_DEK (cl_app w)) title w = (Inr f1, w1)"
    and e2: "encryptField M K (ap_DEK (cl_app w)) metadata w1 = (Inr f2, w2)"
    and e3: "encryptField M K (ap_DEK (cl_app w)) payload w2 = (Inr f3, w3)"
    and g: "generateID M ''item'' w3 = (Inr i, w4)" "generateID M ''op'' w4 = (Inr j, w5)"
    and up: "ls_Upsert S \<lparr>mi_ID = i, mi_Version = 1, mi_Type = ty, mi_Title = Some f1,
           mi_Metadata = Some f2, mi_Payload = Some f3, mi_BlobID = blobId, mi_Deleted = False\<rparr> w5 = (Inr u, w6)"
    and q: "enqueue S \<lparr>mp_OperationID = j, mp_Type = OpCreate, mp_ItemID = i, mp_ExpectedVersion = 0,
       mp_Snapshot = Some (snapshot_of \<lparr>mi_ID = i, mi_Version = 1, mi_Type = ty, mi_Title = Some f1,
           mi_Metadata = Some f2, mi_Payload = Some f3, mi_BlobID = blobId, mi_Deleted = False\<rparr>)\<rparr> w6 = (Inr x, w')"
    unfolding AddItem_def Let_def by (elim with_dek_okE andthen_okE)
  note enc = encryptField_ok [OF assms(1,2) e1] encryptField_ok [OF assms(1,2) e2] encryptField_ok [OF assms(1,2) e3]
  note up' = upsert_ok [OF up] and ids = generateID_ok [OF g(1)] generateID_ok [OF g(2)]
  let ?it = "\<lparr>mi_ID = i, mi_Version = 1, mi_Type = ty, mi_Title = Some f1,
           mi_Metadata = Some f2, mi_Payload = Some f3, mi_BlobID = blobId, mi_Deleted = False\<rparr>"
  have "stored_item ?it = ?it" using enc(1,4,7) by (simp add: stored_item_def opens_def)
  then have "edited K (ap_DEK (cl_app w)) (Add ty title metadata payload blobId) (items (cl_db w)) (items (cl_db w6))
      \<lparr>mp_OperationID = j, mp_Type = OpCreate, mp_ItemID = i, mp_ExpectedVersion = 0, mp_Snapshot = Some (snapshot_of ?it)\<rparr>"
    using enc up'(1) ids unfolding edited.simps by (intro exI [of _ ?it]) simp
  then show ?thesis using q enc up'(2) ids by (intro that) auto
qed

lemma UpdateItem_ok:
  assumes "rand_ok M" and "aead_ok K" and "App_UpdateItem M K S i ty title metadata payload w = (Inr x, w')"
  obtains op w1 where "edited K (ap_DEK (cl_app w)) (Change i ty title metadata payload) (items (cl_db w)) (items (cl_db w1)) op"
    and "cl_app w1 = cl_app w" and "enqueue S op w1 = (Inr x, w')"
proof -
  from assms(3) obtain old f1 f2 f3 j u w0 w1 w2 w3 w5 w6 where dek: "ap_DEK (cl_app w) \<noteq> []"
    and old: "existing_item S i w = (Inr old, w0)"
    and e1: "encryptField M K (ap_DEK (cl_app w)) title w0 = (Inr f1, w1)"
    and e2: "encryptField M K (ap_DEK (cl_app w)) metadata w1 = (Inr f2, w2)"
    and e3: "encryptField M K (ap_DEK (cl_app w)) payload w2 = (Inr f3, w3)"
    and g: "generateID M ''op'' w3 = (Inr j, w5)"
    and up: "ls_Upsert S (old\<lparr>mi_Type := ty, mi_Title := Some f1, mi_Metadata := Some f2,
           mi_Payload := Some f3, mi_Version := mi_Version old + 1\<rparr>) w5 = (Inr u, w6)"
    and q: "enqueue S \<lparr>mp_OperationID = j, mp_Type = OpUpdate, mp_ItemID = i,
       mp_ExpectedVersion = mi_Version (old\<lparr>mi_Type := ty, mi_Title := Some f1, mi_Metadata := Some f2,
           mi_Payload := Some f3, mi_Version := mi_Version old + 1\<rparr>) - 1,
       mp_Snapshot = Some (snapshot_of (old\<lparr>mi_Type := ty, mi_Title := Some f1, mi_Metadata := Some f2,
           mi_Payload := Some f3, mi_Version := mi_Version old + 1\<rparr>))\<rparr> w6 = (Inr x, w')"
    unfolding App_UpdateItem_def Let_def by (elim with_dek_okE andthen_okE)
  note enc = encryptField_ok [OF assms(1,2) e1] encryptField_ok [OF assms(1,2) e2] encryptField_ok [OF assms(1,2) e3]
  note up' = upsert_ok [OF up] and old' = existing_ok [OF old] and ids = generateID_ok [OF g]
  let ?it = "old\<lparr>mi_Type := ty, mi_Title := Some f1, mi_Metadata := Some f2,
           mi_Payload := Some f3, mi_Version := mi_Version old + 1\<rparr>"
  have "stored_item ?it = ?it" using enc(1,4,7) by (simp add: stored_item_def opens_def)
  then have "edited K (ap_DEK (cl_app w)) (Change i ty title metadata payload) (items (cl_db w)) (items (cl_db w6))
      \<lparr>mp_OperationID = j, mp_Type = OpUpdate, mp_ItemID = i, mp_ExpectedVersion = mi_Version ?it - 1,
       mp_Snapshot = Some (snapshot_of ?it)\<rparr>"
    using enc up'(1) ids old' keyed [OF old'(1)] unfolding edited.simps by (intro exI [of _ old] exI [of _ ?it]) simp
  then show ?thesis using q enc up'(2) ids old' by (intro that) auto
qed

lemma DeleteItem_ok:
  assumes "App_DeleteItem M S i w = (Inr x, w')"
  obtains op w1 where "edited K (ap_DEK (cl_app w)) (Remove i) (items (cl_db w)) (items (cl_db w1)) op"
    and "cl_app w1 = cl_app w" and "enqueue S op w1 = (Inr x, w')"
proof -
  from assms obtain old j u w0 w1 w2 where old: "existing_item S i w = (Inr old, w0)"
    and g: "generateID M ''op'' w0 = (Inr j, w1)" and del: "ls_Delete S i w1 = (Inr u, w2)"
    and q: "enqueue S \<lparr>mp_OperationID = j, mp_Type = OpDelete, mp_ItemID = i,
       mp_ExpectedVersion = mi_Version old, mp_Snapshot = None\<rparr> w2 = (Inr x, w')"
    unfolding App_DeleteItem_def by (elim with_dek_okE andthen_okE)
  show ?thesis
    using existing_ok [OF old] generateID_ok [OF g] delete_ok [OF del] by (intro that [OF _ _ q]) auto
qed

lemma run_edit_ok:
  assumes "rand_ok M" and "aead_ok K" and "run_edit M K S e w = (Inr x, w')"
  obtains op where "edited K (ap_DEK (cl_app w)) e (items (cl_db w)) (items (cl_db w')) op"
    and "cl_app w' = (cl_app w)\<lparr>ap_SyncState := (ap_SyncState (cl_app w))\<lparr>ys_PendingOperations :=
       ys_PendingOperations (ap_SyncState (cl_app w)) @ [op]\<rparr>\<rparr>"
    and "sync (cl_db w') = stored_sync (ap_SyncState (cl_app w'))"
proof -
  have "\<exists>op w1. edited K (ap_DEK (cl_app w)) e (items (cl_db w)) (items (cl_db w1)) op \<and> cl_app w1 = cl_app w \<and>
    enqueue S op w1 = (Inr x, w')"
  proof (cases e)
    case (Add ty title metadata payload blobId)
    show ?thesis
      by (rule AddItem_ok [OF assms(1,2), of ty title metadata payload blobId w x w'])
         (use assms(3) Add in simp, use Add in blast)
  next
    case (Change i ty title metadata payload)
    show ?thesis
      by (rule UpdateItem_ok [OF assms(1,2), of i ty title metadata payload w x w'])
         (use assms(3) Change in simp, use Change in blast)
  next
    case (Remove i)
    show ?thesis
      by (rule DeleteItem_ok [of M i w x w' K]) (use assms(3) Remove in simp, use Remove in blast)
  qed
  then obtain op w1 where ed: "edited K (ap_DEK (cl_app w)) e (items (cl_db w)) (items (cl_db w1)) op"
    and app: "cl_app w1 = cl_app w" and q: "enqueue S op w1 = (Inr x, w')" by blast
  show ?thesis using enqueue_ok [OF q] ed app by (intro that [of op]) simp_all
qed

text \<open>The queue after a run of edits: what was there, then one operation per edit, all of it stored.\<close>

lemma run_edits_ok:
  assumes "rand_ok M" and "aead_ok K"
  shows "run_edits M K S es w = (Inr x, w') \<Longrightarrow> list_all typed es \<Longrightarrow> sync (cl_db w) = ap_SyncState (cl_app w) \<Longrightarrow>
    sync (cl_db w') = ap_SyncState (cl_app w') \<and>
    ys_LastRevision (ap_SyncState (cl_app w')) = ys_LastRevision (ap_SyncState (cl_app w)) \<and>
    (\<exists>ops. ys_PendingOperations (ap_SyncState (cl_app w')) = ys_PendingOperations (ap_SyncState (cl_app w)) @ ops \<and>
      map mp_Type ops = map edit_type es)"
proof (induction es arbitrary: w)
  case Nil
  then show ?case by (simp add: ret_def)
next
  case (Cons e es)
  from Cons.prems(1) obtain y w1 where 1: "run_edit M K S e w = (Inr y, w1)" and 2: "run_edits M K S es w1 = (Inr x, w')"
    by (auto elim: andthen_okE)
  from run_edit_ok [OF assms 1] obtain op where op: "edited K (ap_DEK (cl_app w)) e (items (cl_db w)) (items (cl_db w1)) op"
    and app: "cl_app w1 = (cl_app w)\<lparr>ap_SyncState := (ap_SyncState (cl_app w))\<lparr>ys_PendingOperations :=
       ys_PendingOperations (ap_SyncState (cl_app w)) @ [op]\<rparr>\<rparr>"
    and st: "sync (cl_db w1) = stored_sync (ap_SyncState (cl_app w1))" .
  have "sync (cl_db w1) = ap_SyncState (cl_app w1)"
    unfolding st using Cons.prems(2,3) edited_stored [OF op] reread [of _ "cl_db w"]
    by (auto simp: app stored_sync_def map_idI)
  with Cons.IH [OF 2] Cons.prems(2) edited_type [OF op] show ?case by (auto simp: app)
qed

lemma New_ok:
  assumes "New S w = (Inr x, w')"
  shows "cl_db w' = cl_db w" "cl_remote w' = cl_remote w" "ap_DEK (cl_app w') = []" "ap_AuthState (cl_app w') = auth (cl_db w)"
    "\<exists>n. ap_SyncState (cl_app w') = first_pending n (sync (cl_db w))"
    "uncut \<Longrightarrow> ap_SyncState (cl_app w') = sync (cl_db w)"
proof -
  from assms obtain a st w1 w2 where 1: "ls_Load S w = (Inr a, w1)" and 2: "ls_LoadSync S w1 = (Inr st, w2)"
    and w': "w' = w2\<lparr>cl_app := \<lparr>ap_DEK = [], ap_AuthState = a, ap_SyncState = st\<rparr>\<rparr>"
    unfolding New_def by (auto elim!: andthen_okE simp: set_app_def)
  note l = load [OF 1] load_sync [OF 2]
  show "cl_db w' = cl_db w" "cl_remote w' = cl_remote w" "ap_DEK (cl_app w') = []" "ap_AuthState (cl_app w') = auth (cl_db w)"
    using l by (auto simp: w' frame_def)
  show "\<exists>n. ap_SyncState (cl_app w') = first_pending n (sync (cl_db w))"
    using l by (simp add: w') blast
  show "ap_SyncState (cl_app w') = sync (cl_db w)" if uncut
    using l that by (auto simp: w')
qed

subsection \<open>Synchronisation\<close>

lemma stored_item_deleted [simp]:
  "stored_item \<lparr>mi_ID = i, mi_Version = v, mi_Type = t, mi_Title = None, mi_Metadata = None, mi_Payload = None, mi_BlobID = b,
     mi_Deleted = del\<rparr> = \<lparr>mi_ID = i, mi_Version = v, mi_Type = t, mi_Title = None, mi_Metadata = None, mi_Payload = None,
     mi_BlobID = b, mi_Deleted = del\<rparr>"
  by (simp add: stored_item_def stored_field_def read_field_def GetCiphertext_def GetNonce_def blen_def)

lemma applyEvent_spec:
  assumes "applyEvent S ev w = (r, w')"
  shows "frame w w' \<and> sync (cl_db w') = sync (cl_db w) \<and> auth (cl_db w') = auth (cl_db w) \<and>
    (isl r \<or> items (cl_db w') = after_event (items (cl_db w)) ev)"
  using assms
  by (auto simp: applyEvent_def after_event_def throw_def ret_def effect_def dest!: upsert split: if_splits option.splits)

lemma applyEvents_spec:
  "applyEvents S evs w = (r, w') \<Longrightarrow> frame w w' \<and> sync (cl_db w') = sync (cl_db w) \<and> auth (cl_db w') = auth (cl_db w) \<and>
    (isl r \<or> items (cl_db w') = foldl after_event (items (cl_db w)) evs)"
proof (induction evs arbitrary: w)
  case (Cons ev evs)
  obtain r1 w1 where 1: "applyEvent S ev w = (r1, w1)" by fastforce
  note ev = applyEvent_spec [OF 1]
  show ?case
  proof (cases r1)
    case (Inl e)
    with Cons.prems 1 ev show ?thesis by (auto simp add: andthen_err)
  next
    case (Inr x)
    with Cons.prems 1 have "applyEvents S evs w1 = (r, w')" by (simp add: andthen_ok)
    from Cons.IH [OF this] ev Inr show ?thesis by (auto intro: frame_trans)
  qed
qed (simp add: ret_def)

lemma Sync_refused:
  assumes "App_Sync S C w = (r, w')" and "tc_Sync C (sync_request (ap_SyncState (cl_app w))) (cl_remote w) = (Inl e, s)"
  shows "r = Inl e \<and> w' = w\<lparr>cl_remote := s\<rparr>"
  using assms by (simp add: App_Sync_def sync_request_def andthen_def handle_def get_app_def remote_def throw_def)

lemma Sync_answered:
  assumes run: "App_Sync S C w = (r, w')" and ans: "tc_Sync C (sync_request (ap_SyncState (cl_app w))) (cl_remote w) = (Inr resp, s)"
  defines "new \<equiv> synced resp (ap_SyncState (cl_app w))"
  shows "cl_remote w' = s \<and> auth (cl_db w') = auth (cl_db w) \<and>
    (sync (cl_db w') = sync (cl_db w) \<and> isl r \<or>
     sync (cl_db w') = stored_sync new \<and> items (cl_db w') = foldl after_event (items (cl_db w)) (sp_RemoteChanges resp) \<and>
     cl_app w' = (cl_app w)\<lparr>ap_SyncState := new\<rparr>) \<and>
    (reliable \<and> isl r \<longrightarrow> sync (cl_db w') = sync (cl_db w))"
proof -
  obtain r1 w1 where 1: "applyEvents S (sp_RemoteChanges resp) (w\<lparr>cl_remote := s\<rparr>) = (r1, w1)" by fastforce
  note ev = applyEvents_spec [OF 1]
  show ?thesis
  proof (cases r1)
    case (Inl e)
    with run ans 1 ev show ?thesis
      by (auto simp: App_Sync_def sync_request_def andthen_def handle_def get_app_def remote_def throw_def frame_def)
  next
    case (Inr x)
    let ?w2 = "w1\<lparr>cl_app := (cl_app w1)\<lparr>ap_SyncState := new\<rparr>\<rparr>"
    have "ls_SaveSync S new ?w2 = (r, w')"
      using run ans 1 ev Inr
      by (cases "ap_SyncState (cl_app w)")
         (auto simp: App_Sync_def sync_request_def andthen_def handle_def get_app_def set_app_def remote_def ret_def frame_def
          new_def synced_def split: if_splits)
    from save_sync [OF this] ev Inr show ?thesis by (auto simp: frame_def effect_def split: if_splits)
  qed
qed

subsection \<open>The key of the vault\<close>

text \<open>A salt, a nonce and a ciphertext from which a password recovers a key.\<close>

lemma App_Login_answered:
  assumes run: "App_Login M K S C login password w = (r, w')"
    and ans: "tc_Login C \<lparr>lq_Login = login, lq_Password = password, lq_Device = Some (device_info M)\<rparr> (cl_remote w) = (Inr resp, s)"
    and user: "lr_User resp = Some user"
    and dek: "Decrypt K (DeriveKey K (string_bytes password) (bytes_of (lr_PasswordSalt resp)))
      (bytes_of (lr_EncryptedVaultKeyNonce resp)) (bytes_of (lr_EncryptedVaultKey resp)) = Inr dek"
  defines "a \<equiv> \<lparr>au_UserID = ui_UserId user, au_AccessToken = lr_AccessToken resp, au_RefreshToken = lr_RefreshToken resp,
    au_DeviceID = lr_DeviceId resp, au_PasswordSalt = lr_PasswordSalt resp, au_EncryptedDEK = lr_EncryptedVaultKey resp,
    au_EncryptedDEKNonce = lr_EncryptedVaultKeyNonce resp\<rparr>"
  shows "cl_app w' = (cl_app w)\<lparr>ap_DEK := dek, ap_AuthState := a\<rparr> \<and> cl_remote w' = s \<and> (\<not> isl r \<longrightarrow> auth (cl_db w') = a)"
proof -
  let ?w1 = "w\<lparr>cl_remote := s, cl_app := (cl_app w)\<lparr>ap_DEK := dek, ap_AuthState := a\<rparr>\<rparr>"
  have "ls_Save S a ?w1 = (r, w')"
    using run ans user dek by (simp add: App_Login_def andthen_def handle_def remote_def set_app_def a_def Let_def)
  from save [OF this] show ?thesis by (auto simp: frame_def effect_def)
qed

lemma App_Login_ok:
  assumes "App_Login M K S C login password w = (Inr x, w')"
  shows "auth (cl_db w') = ap_AuthState (cl_app w')"
    and "Decrypt K (DeriveKey K (string_bytes password) (bytes_of (au_PasswordSalt (ap_AuthState (cl_app w')))))
      (bytes_of (au_EncryptedDEKNonce (ap_AuthState (cl_app w')))) (bytes_of (au_EncryptedDEK (ap_AuthState (cl_app w')))) =
      Inr (ap_DEK (cl_app w'))"
proof -
  obtain resp s where ans: "tc_Login C \<lparr>lq_Login = login, lq_Password = password, lq_Device = Some (device_info M)\<rparr> (cl_remote w) = (Inr resp, s)"
    using assms by (auto simp: App_Login_def remote_def elim!: andthen_okE split: prod.splits)
  with assms obtain user dek where "lr_User resp = Some user"
    and "Decrypt K (DeriveKey K (string_bytes password) (bytes_of (lr_PasswordSalt resp)))
      (bytes_of (lr_EncryptedVaultKeyNonce resp)) (bytes_of (lr_EncryptedVaultKey resp)) = Inr dek"
    by (auto simp: App_Login_def andthen_def handle_def remote_def throw_def Let_def split: sum.splits option.splits)
  with App_Login_answered [OF assms ans] show
    "auth (cl_db w') = ap_AuthState (cl_app w')"
    "Decrypt K (DeriveKey K (string_bytes password) (bytes_of (au_PasswordSalt (ap_AuthState (cl_app w')))))
      (bytes_of (au_EncryptedDEKNonce (ap_AuthState (cl_app w')))) (bytes_of (au_EncryptedDEK (ap_AuthState (cl_app w')))) =
      Inr (ap_DEK (cl_app w'))" by simp_all
qed

lemma Unlock_loaded:
  assumes run: "Unlock K S password w = (r, w')" and loads: "\<not> isl (fst (ls_Load S w))"
  shows "cl_db w' = cl_db w \<and> (let a = auth (cl_db w) in
    case Decrypt K (DeriveKey K (string_bytes password) (bytes_of (au_PasswordSalt a)))
        (bytes_of (au_EncryptedDEKNonce a)) (bytes_of (au_EncryptedDEK a)) of
      Inl _ \<Rightarrow> r = Inl (err ''invalid password'') \<and> cl_app w' = cl_app w
    | Inr dek \<Rightarrow> r = Inr () \<and> cl_app w' = (cl_app w)\<lparr>ap_DEK := dek, ap_AuthState := a\<rparr>)"
proof -
  obtain r1 w1 where ld: "ls_Load S w = (r1, w1)" by fastforce
  with loads load [OF ld] have "r1 = Inr (auth (cl_db w))" "cl_db w1 = cl_db w" "cl_app w1 = cl_app w"
    by (auto simp: frame_def)
  with run ld show ?thesis
    by (auto simp: Unlock_def andthen_def handle_def Let_def throw_def set_app_def split: sum.splits)
qed

lemma unlock_after_login:
  assumes login: "App_Login M K S C login password w = (Inr (), w1)" and new: "New S w1 = (Inr (), w2)"
    and loads: "\<not> isl (fst (ls_Load S w2))"
    and run: "Unlock K S password w2 = (r, w3)"
  shows "r = Inr () \<and> ap_DEK (cl_app w3) = ap_DEK (cl_app w1) \<and> ap_AuthState (cl_app w3) = ap_AuthState (cl_app w1)"
  using Unlock_loaded [OF run loads] New_ok [OF new] App_Login_ok [OF login] by (simp add: Let_def)

text \<open>What a registration has sent, and the key it leaves.\<close>

lemma App_Register_ok:
  assumes rand: "rand_ok M" and run: "App_Register M K S C login password w = (Inr (), w')"
  obtains salt nonce enc resp user req where "sealed K (DeriveKey K (string_bytes password) salt) (ap_DEK (cl_app w')) nonce enc"
    and "tc_Register C req (cl_remote w) = (Inr resp, cl_remote w')" and "rr_User resp = Some user"
    and "rq_Login req = login" and "rq_PasswordSalt req = Some salt" and "rq_EncryptedVaultKey req = Some enc"
    and "rq_EncryptedVaultKeyNonce req = Some nonce" and "au_UserID (ap_AuthState (cl_app w')) = ui_UserId user"
    and "length (ap_DEK (cl_app w')) = 32"
proof -
  from run obtain salt dek p resp w1 w2 w3 w4 where
    g: "GenerateSalt M w = (Inr salt, w1)" and d: "rand_Read M 32 w1 = (Inr dek, w2)"
    and e: "Encrypt M K (DeriveKey K (string_bytes password) salt) dek w2 = (Inr p, w3)"
    and rest: "(case p of (nonce, encDEK) \<Rightarrow> andthen (remote (tc_Register C
       \<lparr>rq_Login = login, rq_Password = password, rq_PasswordSalt = Some salt,
        rq_KdfParams = Some \<lparr>kp_Algorithm = ''argon2id'', kp_MemoryKib = 64 * 1024, kp_Iterations = 3,
          kp_Parallelism = 4, kp_KeyLength = 32\<rparr>,
        rq_EncryptedVaultKey = Some encDEK, rq_EncryptedVaultKeyNonce = Some nonce,
        rq_Device = Some (device_info M)\<rparr>)) (\<lambda>resp.
     case rr_User resp of
       None \<Rightarrow> throw (err ''invalid response: user is nil'')
     | Some user \<Rightarrow>
         let authState = \<lparr>au_UserID = ui_UserId user, au_AccessToken = rr_AccessToken resp,
               au_RefreshToken = rr_RefreshToken resp, au_DeviceID = rr_DeviceId resp, au_PasswordSalt = None,
               au_EncryptedDEK = None, au_EncryptedDEKNonce = None\<rparr> in
         andthen (set_app (\<lambda>a. a\<lparr>ap_DEK := dek, ap_AuthState := authState\<rparr>)) (\<lambda>_.
         ls_Save S authState))) w3 = (Inr (), w')"
    unfolding App_Register_def Let_def by (elim andthen_okE)
  obtain nonce enc where p: "p = (nonce, enc)" by fastforce
  note enc = Encrypt_ok [OF rand e [unfolded p]]
  have w: "cl_remote w3 = cl_remote w" "length dek = 32"
    using g d enc(2) rand by (auto simp: GenerateSalt_def rand_Read_def rand_ok_def)
  let ?req = "\<lparr>rq_Login = login, rq_Password = password, rq_PasswordSalt = Some salt,
        rq_KdfParams = Some \<lparr>kp_Algorithm = ''argon2id'', kp_MemoryKib = 64 * 1024, kp_Iterations = 3,
          kp_Parallelism = 4, kp_KeyLength = 32\<rparr>,
        rq_EncryptedVaultKey = Some enc, rq_EncryptedVaultKeyNonce = Some nonce, rq_Device = Some (device_info M)\<rparr>"
  obtain resp s user where ans: "tc_Register C ?req (cl_remote w3) = (Inr resp, s)" "rr_User resp = Some user"
    and sav: "ls_Save S \<lparr>au_UserID = ui_UserId user, au_AccessToken = rr_AccessToken resp,
               au_RefreshToken = rr_RefreshToken resp, au_DeviceID = rr_DeviceId resp, au_PasswordSalt = None,
               au_EncryptedDEK = None, au_EncryptedDEKNonce = None\<rparr>
      (w3\<lparr>cl_remote := s, cl_app := (cl_app w3)\<lparr>ap_DEK := dek, ap_AuthState := \<lparr>au_UserID = ui_UserId user, au_AccessToken = rr_AccessToken resp,
               au_RefreshToken = rr_RefreshToken resp, au_DeviceID = rr_DeviceId resp, au_PasswordSalt = None,
               au_EncryptedDEK = None, au_EncryptedDEKNonce = None\<rparr>\<rparr>\<rparr>) = (Inr (), w')"
    using rest by (auto simp: p remote_def set_app_def throw_def Let_def elim!: andthen_okE split: prod.splits option.splits)
  from save [OF sav] have fin: "cl_remote w' = s" "ap_DEK (cl_app w') = dek" "au_UserID (ap_AuthState (cl_app w')) = ui_UserId user"
    by (auto simp: frame_def)
  show ?thesis by (rule that [of salt nonce enc ?req resp user]) (use enc(1) ans fin w in simp_all)
qed

text \<open>Register stores no salt, no nonce and no encrypted key, and Decrypt refuses the empty nonce.\<close>

lemma Register_unlock:
  assumes reg: "App_Register M K S C login password w = (Inr (), w1)" and new: "New S w1 = (Inr (), w2)"
    and loads: "\<not> isl (fst (ls_Load S w2))" and run: "Unlock K S password2 w2 = (r, w3)"
  shows "r = Inl (err ''invalid password'')"
proof -
  from reg have "au_EncryptedDEKNonce (auth (cl_db w1)) = None"
    by (auto simp: App_Register_def Let_def throw_def effect_def elim!: andthen_okE dest!: save split: option.splits prod.splits)
  then have "isl (Decrypt K k (bytes_of (au_EncryptedDEKNonce (auth (cl_db w2)))) c)" for k c
    using New_ok [OF new] by (simp add: Decrypt_def bytes_of_def NonceSize_def split: option.splits)
  with Unlock_loaded [OF run loads] show ?thesis by (auto simp: Let_def split: sum.splits) (metis sum.disc(2))
qed

end

lemma Load_reliable: "ce_fault M (cl_tick w) = NoFault \<Longrightarrow> \<not> isl (fst (Load M w))"
  by (auto simp: Load_def handle_def exec_def Let_def ret_def split: option.splits)

subsection \<open>A concrete client\<close>

text \<open>A machine without failures, random bytes that repeat a counter, and a cipher that prefixes the
  plaintext with half of the key.\<close>

definition demo_cenv :: cenv where
  "demo_cenv = \<lparr>ce_fault = (\<lambda>_. NoFault), ce_cut = (\<lambda>_. None), ce_clock = int, ce_rand = (\<lambda>t n. Inr (replicate n (word_of_nat t))),
     ce_ReadFile = (\<lambda>_. Inr [7, 8, 9]), ce_Hostname = Inr ''host'', ce_GOOS = ''linux'', ce_Version = ''1.0''\<rparr>"

definition toy_crypto :: crypto_lib where
  "toy_crypto = \<lparr>cr_NewX = (\<lambda>k. if length k = 32 then None else Some (ErrOther ''bad key length'')),
     cr_Seal = (\<lambda>k n p. take 16 k @ p),
     cr_Open = (\<lambda>k n c. if take 16 c = take 16 k then Inr (drop 16 c) else Inl (ErrOther ''message authentication failed'')),
     cr_IDKey = (\<lambda>p s i m t l. take l (p @ s @ replicate l 0)), cr_sha256 = rev\<rparr>"

definition demo_client :: "'s \<Rightarrow> 's client" where
  "demo_client s = \<lparr>cl_db = \<lparr>t_auth_state = None, t_sync_state = None, t_pending_operations = [], t_vault_items = []\<rparr>,
     cl_app = \<lparr>ap_DEK = replicate 32 1, ap_AuthState = empty_auth, ap_SyncState = \<lparr>ys_LastRevision = 0, ys_PendingOperations = []\<rparr>\<rparr>,
     cl_remote = s, cl_tick = 0\<rparr>"

lemma toy_crypto_ok: "aead_ok toy_crypto"
  by (auto simp: aead_ok_def toy_crypto_def)

lemma demo_cenv_ok: "rand_ok demo_cenv"
  by (simp add: rand_ok_def demo_cenv_def)

lemma replicate_4 [simp]: "replicate 4 x = [x, x, x, x]"
  by (simp add: eval_nat_numeral)

lemmas client_eval = prog_defs Let_def with_dek_def get_app_def set_app_def remote_def rand_Read_def lift_def
  AddItem_def App_UpdateItem_def App_DeleteItem_def existing_item_def encryptField_def Encrypt_def generateID_def hex_def hex_digit_def enqueue_def
  New_def snapshot_of_def exec_def local_tx_def Save_def Load_def SaveSync_def LoadSync_def save_sync_body_def sql_save_revision_def
  sql_insert_pending_def Upsert_def sql_upsert_item_def Get_def Delete_def scanItems_def rows_Next_def bigint_ok_def NonceSize_def
  demo_cenv_def toy_crypto_def demo_client_def

definition demo_edits :: "edit list" where
  "demo_edits = [Add 1 [10] [11] [12] [], Remove ''item-03030303'']"

lemma demo_edits_run:
  "\<exists>w1 w2. run_edits demo_cenv toy_crypto (SQLiteStorage demo_cenv) demo_edits (demo_client ()) = (Inr (), w1) \<and>
     New (SQLiteStorage demo_cenv) w1 = (Inr (), w2)"
  by (simp add: demo_edits_def client_eval item_row_of_def item_of_row_def upd_where_def read_field_def
      GetCiphertext_def GetNonce_def blen_def pending_row_of_def)

subsection \<open>Properties of the client on SQLite\<close>

text \<open>
  C21. Edits survive a restart. A client whose state agrees with its local database runs any sequence
  of successful edits (AddItem, UpdateItem, DeleteItem) and is then started again. The database holds,
  before and after the restart, exactly the synchronisation state the old App had: the same last
  revision and the queue, the operations that were pending before followed by one operation per edit,
  in order and of the matching type, with snapshots and expected versions as they were queued. The new
  App has this revision, and of the queue the first operations, in order; it has the whole queue when no
  iteration over rows is cut short, which LoadSync would not notice (see \<open>cut_load_loses_operations\<close>).
\<close>

theorem edits_survive_restart:
  assumes "rand_ok M" and "aead_ok K" and "run_edits M K (SQLiteStorage M) es w = (Inr (), w1)" and "list_all typed es"
    and "local_sync (cl_db w) = ap_SyncState (cl_app w)" and "New (SQLiteStorage M) w1 = (Inr (), w2)"
  shows "local_sync (cl_db w2) = ap_SyncState (cl_app w1) \<and> local_sync (cl_db w1) = ap_SyncState (cl_app w1) \<and>
    ys_LastRevision (ap_SyncState (cl_app w1)) = ys_LastRevision (ap_SyncState (cl_app w)) \<and>
    (\<exists>ops. ys_PendingOperations (ap_SyncState (cl_app w1)) = ys_PendingOperations (ap_SyncState (cl_app w)) @ ops \<and>
      map mp_Type ops = map edit_type es) \<and>
    ys_LastRevision (ap_SyncState (cl_app w2)) = ys_LastRevision (ap_SyncState (cl_app w1)) \<and>
    (\<exists>n. ys_PendingOperations (ap_SyncState (cl_app w2)) = take n (ys_PendingOperations (ap_SyncState (cl_app w1)))) \<and>
    ((\<forall>t. ce_cut M t = None) \<longrightarrow> ap_SyncState (cl_app w2) = ap_SyncState (cl_app w1))"
  using sqlite.run_edits_ok [OF assms(1-5)] sqlite.New_ok(1,5,6) [OF assms(6)] by auto

theorem edits_survive_restart_witness:
  "\<exists>w1 w2. run_edits demo_cenv toy_crypto (SQLiteStorage demo_cenv) demo_edits (demo_client ()) = (Inr (), w1) \<and>
     New (SQLiteStorage demo_cenv) w1 = (Inr (), w2) \<and>
     map mp_Type (ys_PendingOperations (ap_SyncState (cl_app w2))) = [OpCreate, OpDelete]"
proof -
  obtain w1 w2 where run: "run_edits demo_cenv toy_crypto (SQLiteStorage demo_cenv) demo_edits (demo_client ()) = (Inr (), w1)"
    "New (SQLiteStorage demo_cenv) w1 = (Inr (), w2)" using demo_edits_run by (elim exE conjE)
  have "list_all typed demo_edits" by (simp add: demo_edits_def)
  moreover have "local_sync (cl_db (demo_client ())) = ap_SyncState (cl_app (demo_client ()))"
    by (simp add: local_sync_def demo_client_def)
  moreover note edits_survive_restart [OF demo_cenv_ok toy_crypto_ok run(1) _ _ run(2)]
  moreover have "\<forall>t. ce_cut demo_cenv t = None" by (simp add: demo_cenv_def)
  ultimately show ?thesis using run by (auto simp: demo_edits_def demo_client_def)
qed

text \<open>
  A failure in the middle of the rows of the queue. \<open>LoadSync\<close> reports success with the operations read
  so far, and the next edit, whose \<open>SaveSync\<close> replaces the stored queue by the one in memory, removes all
  others for good: they are never sent.
\<close>

lemma LoadSync_cut:
  assumes "\<And>t. ce_fault M t = NoFault" and "\<And>t. ce_cut M t = Some n"
  shows "fst (LoadSync M w) = Inr (first_pending n (local_sync (cl_db w)))"
  using assms by (auto simp: LoadSync_def rows_Next_def andthen_def handle_def exec_def Let_def ret_def local_sync_def first_pending_def
      take_map split: option.splits)

lemma cut_load_loses_operations:
  assumes "rand_ok M" and "aead_ok K" and "run_edit M K (SQLiteStorage M) e w = (Inr (), w1)"
    and "ap_SyncState (cl_app w) = first_pending n (local_sync (cl_db w))"
  shows "\<exists>op. ys_PendingOperations (local_sync (cl_db w1)) = take n (ys_PendingOperations (local_sync (cl_db w))) @ [op]"
proof -
  obtain op where app: "cl_app w1 = (cl_app w)\<lparr>ap_SyncState := (ap_SyncState (cl_app w))\<lparr>ys_PendingOperations :=
       ys_PendingOperations (ap_SyncState (cl_app w)) @ [op]\<rparr>\<rparr>"
    and st: "local_sync (cl_db w1) = stored_sync (ap_SyncState (cl_app w1))"
    using sqlite.run_edit_ok [OF assms(1-3)] .
  have "map stored_op (take n (ys_PendingOperations (local_sync (cl_db w)))) = take n (ys_PendingOperations (local_sync (cl_db w)))"
    by (rule map_idI) (meson in_set_takeD local_sync_reread)
  then show ?thesis by (auto simp: st app assms(4) stored_sync_def)
qed

text \<open>
  C22. What an edit does. A successful edit of an unlocked client changes the one item it names and
  queues exactly one operation: AddItem stores version 1 of a new item, UpdateItem the next version of
  an existing one, DeleteItem removes it; the queued snapshot carries the ciphertexts of the stored
  item and the expected version is the version that was stored before (0 for a new item). The stored
  item decrypts, under the client's key, to the title, metadata and payload that were given.
\<close>

theorem edit_effect:
  assumes "rand_ok M" and "aead_ok K" and "run_edit M K (SQLiteStorage M) e w = (Inr (), w1)"
  shows "\<exists>op. edited K (ap_DEK (cl_app w)) e (local_items (cl_db w)) (local_items (cl_db w1)) op \<and>
    ys_PendingOperations (ap_SyncState (cl_app w1)) = ys_PendingOperations (ap_SyncState (cl_app w)) @ [op] \<and>
    local_sync (cl_db w1) = stored_sync (ap_SyncState (cl_app w1)) \<and>
    (\<forall>t m p. plain e = Some (t, m, p) \<longrightarrow>
      (\<exists>it. local_items (cl_db w1) (mp_ItemID op) = Some it \<and> DecryptItem K it w1 = (Inr (t, m, p), w1)))"
proof -
  obtain op where op: "edited K (ap_DEK (cl_app w)) e (local_items (cl_db w)) (local_items (cl_db w1)) op"
    and app: "cl_app w1 = (cl_app w)\<lparr>ap_SyncState := (ap_SyncState (cl_app w))\<lparr>ys_PendingOperations :=
       ys_PendingOperations (ap_SyncState (cl_app w)) @ [op]\<rparr>\<rparr>"
    and st: "local_sync (cl_db w1) = stored_sync (ap_SyncState (cl_app w1))"
    using sqlite.run_edit_ok [OF assms] .
  moreover have "ap_DEK (cl_app w1) \<noteq> []"
    using assms(3) by (cases e) (auto simp: app AddItem_def App_UpdateItem_def App_DeleteItem_def elim: with_dek_okE)
  then have "\<exists>it. local_items (cl_db w1) (mp_ItemID op) = Some it \<and> DecryptItem K it w1 = (Inr (t, m, p), w1)"
    if "plain e = Some (t, m, p)" for t m p
    using op that by (cases e) (auto intro!: DecryptItem_opens simp: app)
  ultimately show ?thesis by auto
qed


lemma demo_add_run:
  "\<exists>w1. run_edit demo_cenv toy_crypto (SQLiteStorage demo_cenv) (Add 1 [10] [11] [12] []) (demo_client ()) = (Inr (), w1)"
  by (simp add: client_eval item_row_of_def pending_row_of_def)

theorem edit_effect_witness:
  "\<exists>w1 it. run_edit demo_cenv toy_crypto (SQLiteStorage demo_cenv) (Add 1 [10] [11] [12] []) (demo_client ()) = (Inr (), w1) \<and>
     DecryptItem toy_crypto it w1 = (Inr ([10], [11], [12]), w1) \<and> local_items (cl_db w1) (mi_ID it) = Some it"
proof -
  obtain w1 where run: "run_edit demo_cenv toy_crypto (SQLiteStorage demo_cenv) (Add 1 [10] [11] [12] []) (demo_client ()) = (Inr (), w1)"
    using demo_add_run by (elim exE)
  from edit_effect [OF demo_cenv_ok toy_crypto_ok run] run show ?thesis using local_items_keyed by fastforce
qed

text \<open>
  C26. What synchronisation does to the client. When the RPC fails nothing but the far side may have
  changed. When it answers, either the stored state (revision and queue) is untouched and the call
  reports an error, or every remote change has been applied to the items in order, the stored revision
  is the one the server announced, the queue has been emptied exactly when the server reported no
  conflict, and the App holds the same state; success means the second case. So the stored revision
  moves only together with all the remote changes. A call that reports an error leaves the stored state
  as it was whenever no answer of the local database is lost; when the answer of the COMMIT is lost,
  the state may have moved, and the changes are then all applied.
\<close>

theorem client_sync:
  assumes run: "App_Sync (SQLiteStorage M) C w = (r, w')"
  defines "answer \<equiv> tc_Sync C (sync_request (ap_SyncState (cl_app w))) (cl_remote w)"
  shows "case answer of
      (Inl e, s) \<Rightarrow> r = Inl e \<and> w' = w\<lparr>cl_remote := s\<rparr>
    | (Inr resp, s) \<Rightarrow> cl_remote w' = s \<and> local_auth (cl_db w') = local_auth (cl_db w) \<and>
        (isl r \<and> local_sync (cl_db w') = local_sync (cl_db w) \<or>
         local_sync (cl_db w') = stored_sync (synced resp (ap_SyncState (cl_app w))) \<and>
         local_items (cl_db w') = foldl after_event (local_items (cl_db w)) (sp_RemoteChanges resp) \<and>
         ap_SyncState (cl_app w') = synced resp (ap_SyncState (cl_app w))) \<and>
        ((\<forall>n. ce_fault M n \<noteq> FailAfter) \<and> isl r \<longrightarrow> local_sync (cl_db w') = local_sync (cl_db w))"
proof -
  obtain a s where ans: "tc_Sync C (sync_request (ap_SyncState (cl_app w))) (cl_remote w) = (a, s)" by fastforce
  show ?thesis
  proof (cases a)
    case (Inl e)
    with sqlite.Sync_refused [OF run, of e s] ans show ?thesis by (simp add: answer_def)
  next
    case (Inr resp)
    with sqlite.Sync_answered [OF run, of resp s] ans show ?thesis by (auto simp: answer_def)
  qed
qed

text \<open>
  Unlock recovers the key. After a successful Login the process ends; a new App on the same local
  database that reads it, unlocked with the same password, holds the same vault key and the same
  tokens, without talking to the server.
\<close>

theorem unlock_recovers_key:
  assumes "App_Login M K (SQLiteStorage M) C login password w = (Inr (), w1)" and "New (SQLiteStorage M) w1 = (Inr (), w2)"
    and "ce_fault M (cl_tick w2) = NoFault" and "Unlock K (SQLiteStorage M) password w2 = (r, w3)"
  shows "r = Inr () \<and> ap_DEK (cl_app w3) = ap_DEK (cl_app w1) \<and> ap_AuthState (cl_app w3) = ap_AuthState (cl_app w1)"
  by (rule sqlite.unlock_after_login [OF assms(1,2) _ assms(4)]) (simp add: Load_reliable [OF assms(3)])

text \<open>After Register the same attempt is always refused: the salt, the nonce and the encrypted key are
  not stored.\<close>

lemma register_cannot_unlock:
  assumes "App_Register M K (SQLiteStorage M) C login password w = (Inr (), w1)" and "New (SQLiteStorage M) w1 = (Inr (), w2)"
    and "ce_fault M (cl_tick w2) = NoFault"
  shows "fst (Unlock K (SQLiteStorage M) password w2) = Inl (err ''invalid password'')"
  by (rule sqlite.Register_unlock [OF assms(1,2) _ prod.collapse [symmetric]]) (simp add: Load_reliable [OF assms(3)])


end
