(* ===== verification/ClientServer.thy ===== *)
theory ClientServer
  imports ClientTransport ClientProps
begin

section \<open>The client against the server\<close>

text \<open>
  Properties of the whole system: the App of \<open>ClientApp\<close> on SQLite, its transport, the interceptors,
  the RPC handlers and the stores behind them.
\<close>

subsection \<open>A concrete system\<close>

definition demo_server :: "mem_store world" where
  "demo_server = \<lparr>db = db demo_auth_world, objs = [], tick = 0\<rparr>"

abbreviation demo_conn :: "string \<Rightarrow> mem_store world Client" where
  "demo_conn tok \<equiv> client_of demo_env demo_libs demo_auth_cfg mem_client tok"

lemmas account_eval = App_Register_def App_Login_def GenerateSalt_def DeriveKey_def saltSize_def Decrypt_def device_info_def
  detectPlatform_def detectDeviceName_def public_calls client_eval
  authHandler_Register_def Service_Register_def register_input_def kdf_of_def device_of_def device_or_new_def
  BcryptHasher_Hash_def RegisterWithSession_def insertUser_def upsertDevice_def insertSession_def sql_insert_user_def
  user_not_null_def sql_upsert_device_def new_device_def authHandler_Login_def Service_Login_def login_input_def GetByLogin_def
  sql_select_user_def BcryptHasher_Compare_def bytes_of_def LoginWithDeviceAndSession_def seen_device_def
  auth_eval auth_demo_defs show_nat.simps demo_server_def

lemma demo_accounts:
  "\<exists>w1 resp s w3.
     App_Register demo_cenv toy_crypto (SQLiteStorage demo_cenv) (demo_conn []) ''carol'' ''pw'' (demo_client demo_server) = (Inr (), w1) \<and>
     tc_Login (demo_conn []) \<lparr>lq_Login = ''carol'', lq_Password = ''pw'', lq_Device = Some (device_info demo_cenv)\<rparr> (cl_remote w1) = (Inr resp, s) \<and>
     App_Login demo_cenv toy_crypto (SQLiteStorage demo_cenv) (demo_conn []) ''carol'' ''pw'' (demo_client (cl_remote w1)) = (Inr (), w3)"
  by (simp add: account_eval)

lemma New_reliable:
  assumes "\<And>n. ce_fault M n = NoFault"
  shows "\<exists>w'. New (SQLiteStorage M) w = (Inr (), w')"
  using assms by (auto simp: New_def Load_def LoadSync_def rows_Next_def andthen_def handle_def exec_def Let_def ret_def set_app_def split: option.splits)

lemma demo_cenv_reliable: "ce_fault demo_cenv n = NoFault"
  by (simp add: demo_cenv_def)

subsection \<open>The vault key through the server\<close>

text \<open>
  C10. One key for one account. A client registers; any other traffic of the authentication and device
  services, and any traffic that does not touch accounts, follows; then a client, on this or another
  machine, logs in with the same login and password. As soon as the server has answered the login, the
  second client holds the very key the first one drew, of 32 bytes, and the same account id, and the
  login succeeds unless the local database refuses to store it. No key and no password other than the
  login password is needed on the second machine.
\<close>

theorem same_key_on_every_device:
  fixes w w1 w2 w3 :: "'o world client"
  assumes aead: "aead_ok K" and rand: "rand_ok M" and ok: "auth_ok (db (cl_remote w))"
    and reg: "App_Register M K (SQLiteStorage M) (client_of E L cfg c tok1) login password w = (Inr (), w1)"
    and later: "(auth_call E L cfg)\<^sup>*\<^sup>* (cl_remote w1) (cl_remote w2)"
    and login: "App_Login M' K (SQLiteStorage M') (client_of E L cfg c tok2) login password w2 = (r, w3)"
    and answered: "tc_Login (client_of E L cfg c tok2)
      \<lparr>lq_Login = login, lq_Password = password, lq_Device = Some (device_info M')\<rparr> (cl_remote w2) = (Inr resp, s)"
  shows "ap_DEK (cl_app w3) = ap_DEK (cl_app w1) \<and> length (ap_DEK (cl_app w3)) = 32 \<and>
    au_UserID (ap_AuthState (cl_app w3)) = au_UserID (ap_AuthState (cl_app w1)) \<and>
    (r = Inr () \<or> ce_fault M' (cl_tick w2) \<noteq> NoFault)"
proof -
  obtain salt nonce enc out user req where sealed: "sealed K (DeriveKey K (string_bytes password) salt) (ap_DEK (cl_app w1)) nonce enc"
    and rpc: "tc_Register (client_of E L cfg c tok1) req (cl_remote w) = (Inr out, cl_remote w1)"
    and user: "rr_User out = Some user" and req: "rq_Login req = login" "rq_PasswordSalt req = Some salt"
      "rq_EncryptedVaultKey req = Some enc" "rq_EncryptedVaultKeyNonce req = Some nonce"
    and id: "au_UserID (ap_AuthState (cl_app w1)) = ui_UserId user" and len: "length (ap_DEK (cl_app w1)) = 32"
    using sqlite.App_Register_ok [OF rand reg] .
  obtain hash where found: "find (\<lambda>r. ur_Login r = TrimSpace login) (users (db (cl_remote w2))) = Some (account_of req (ui_UserId user) hash)"
    using registered_account [OF ok rpc [unfolded public_calls] later] user req(1) by auto
  from Login_ok [OF answered [unfolded public_calls]] found have ans: "answers_for (account_of req (ui_UserId user) hash) resp"
    by (auto simp: login_done_def)
  obtain u where u: "lr_User resp = Some u"
    using answered [unfolded public_calls] by (auto simp: authHandler_Login_def handle_def throw_def ret_def split: prod.splits sum.splits)
  have dek: "Decrypt K (DeriveKey K (string_bytes password) (bytes_of (lr_PasswordSalt resp)))
      (bytes_of (lr_EncryptedVaultKeyNonce resp)) (bytes_of (lr_EncryptedVaultKey resp)) = Inr (ap_DEK (cl_app w1))"
    using sealed_decrypt(1) [OF aead sealed] ans req by (simp add: answers_for_def account_of_def Let_def bytes_of_def)
  have "r = Inr () \<or> ce_fault M' (cl_tick w2) \<noteq> NoFault"
    using login answered u dek
    by (auto simp: App_Login_def andthen_def handle_def remote_def set_app_def Let_def Save_def exec_def)
  with sqlite.App_Login_answered [OF login answered u dek] ans u len id show ?thesis
    by (simp add: answers_for_def account_of_def Let_def)
qed

theorem same_key_on_every_device_witness:
  "\<exists>w1 w3. App_Register demo_cenv toy_crypto (SQLiteStorage demo_cenv) (demo_conn []) ''carol'' ''pw'' (demo_client demo_server) = (Inr (), w1) \<and>
     App_Login demo_cenv toy_crypto (SQLiteStorage demo_cenv) (demo_conn []) ''carol'' ''pw'' (demo_client (cl_remote w1)) = (Inr (), w3) \<and>
     ap_DEK (cl_app w3) = ap_DEK (cl_app w1)"
proof -
  obtain w1 w3 resp s where
    reg: "App_Register demo_cenv toy_crypto (SQLiteStorage demo_cenv) (demo_conn []) ''carol'' ''pw'' (demo_client demo_server) = (Inr (), w1)"
    and rpc: "tc_Login (demo_conn []) \<lparr>lq_Login = ''carol'', lq_Password = ''pw'', lq_Device = Some (device_info demo_cenv)\<rparr> (cl_remote w1) = (Inr resp, s)"
    and login: "App_Login demo_cenv toy_crypto (SQLiteStorage demo_cenv) (demo_conn []) ''carol'' ''pw'' (demo_client (cl_remote w1)) = (Inr (), w3)"
    using demo_accounts by (elim exE conjE)
  have "auth_ok (db (cl_remote (demo_client demo_server)))" by (simp add: demo_client_def demo_server_def demo_auth_ok)
  moreover have rem: "cl_remote (demo_client (cl_remote w1)) = cl_remote w1" by (simp add: demo_client_def)
  ultimately show ?thesis
    using same_key_on_every_device [OF toy_crypto_ok demo_cenv_ok _ reg _ login, of resp s] rpc reg login by auto
qed

subsection \<open>Witness for the local key\<close>

theorem unlock_recovers_key_witness:
  "\<exists>w w1 w2. App_Login demo_cenv toy_crypto (SQLiteStorage demo_cenv) (demo_conn []) ''carol'' ''pw'' w = (Inr (), w1) \<and>
     New (SQLiteStorage demo_cenv) w1 = (Inr (), w2) \<and>
     ap_DEK (cl_app (snd (Unlock toy_crypto (SQLiteStorage demo_cenv) ''pw'' w2))) = ap_DEK (cl_app w1)"
proof -
  obtain w w1 where
    login: "App_Login demo_cenv toy_crypto (SQLiteStorage demo_cenv) (demo_conn []) ''carol'' ''pw'' w = (Inr (), w1)"
    using demo_accounts by (elim exE conjE)
  obtain w2 where new: "New (SQLiteStorage demo_cenv) w1 = (Inr (), w2)" using New_reliable [OF demo_cenv_reliable] by blast
  from unlock_recovers_key [OF login new demo_cenv_reliable prod.collapse [symmetric]] login new show ?thesis by blast
qed

end
