(* ===== verification/ClientFiles.thy ===== *)
theory ClientFiles
  imports ClientServer
begin

section \<open>Files through the blob service\<close>

text \<open>
  The upload and the download of a file by the client (\<open>UploadFile\<close>, \<open>DownloadFile\<close>), through the
  interceptors, the blob service, PostgreSQL and the object store.
\<close>

subsection \<open>The chunks of an upload\<close>

text \<open>The loop of the client and the numbered pieces the server's loop accepts are the same messages.\<close>

lemma file_chunks_chop:
  assumes "0 < n"
  shows "file_chunks n d (k * n) = chunk_msgs (word_of_nat k) (map Some (chop n (drop (k * n) d)))"
proof (induction "length d - k * n" arbitrary: k rule: less_induct)
  case less
  show ?case
  proof (cases "length d \<le> k * n")
    case True
    then show ?thesis by (simp add: file_chunks.simps chop.simps)
  next
    case False
    then have "length d - Suc k * n < length d - k * n" using assms by simp
    note IH = less [OF this]
    have "take (min (k * n + n) (length d) - k * n) (drop (k * n) d) = take n (drop (k * n) d)"
      by (simp add: min_def)
    moreover have "drop n (drop (k * n) d) = drop (Suc k * n) d" by (simp add: add.commute)
    moreover have "k * n + n = Suc k * n" by simp
    moreover have "drop (k * n) d \<noteq> []" using False by simp
    ultimately show ?thesis
      using False assms IH
      by (subst file_chunks.simps, subst chop.simps) (simp add: add.commute)
  qed
qed

lemma chunk_msgs_data: "UploadBlobChunk k x \<in> set (chunk_msgs j ds) \<Longrightarrow> x \<in> set ds"
  by (induction ds arbitrary: j) auto

lemma file_chunks_data:
  assumes "0 < n"
  shows "uploaded (UploadBlobHeader h # file_chunks n d 0) = d"
    and "UploadBlobChunk k x \<in> set (file_chunks n d 0) \<Longrightarrow> blen x \<le> length d"
proof -
  have eq: "file_chunks n d 0 = chunk_msgs 0 (map Some (chop n d))" using file_chunks_chop [OF assms, of d 0] by simp
  have "concat (map (bytes_of \<circ> Some) (chop n d)) = d"
    using chop_props [OF assms, of d] by (simp add: bytes_of_def comp_def)
  then show "uploaded (UploadBlobHeader h # file_chunks n d 0) = d" by (simp add: eq)
  assume "UploadBlobChunk k x \<in> set (file_chunks n d 0)"
  then obtain y where y: "y \<in> set (chop n d)" "x = Some y" using chunk_msgs_data by (fastforce simp: eq)
  then obtain us vs where "chop n d = us @ y # vs" by (meson split_list)
  with chop_props [OF assms, of d] have "length d = length (concat us) + (length y + length (concat vs))" by (metis concat.simps(2) concat_append length_append)
  with y(2) show "blen x \<le> length d" by (simp add: blen_def)
qed

text \<open>
  C39. The upload loop. For every positive chunk size the index arithmetic of the client's loop
  (\<open>end := min(i + maxChunkSize, len)\<close>, chunk number \<open>i / maxChunkSize\<close>) sends exactly the messages the
  server's loop accepts: the pieces of the data in order, numbered 0, 1, 2, .. without a gap, none
  longer than the limit, and together they are the data.
\<close>

theorem upload_chunks:
  assumes "0 < n"
  shows "file_chunks n d 0 = chunk_msgs 0 (map Some (chop n d)) \<and> uploaded (UploadBlobHeader h # file_chunks n d 0) = d \<and>
    (\<forall>x \<in> set (chop n d). length x \<le> n)"
proof (intro conjI)
  show "file_chunks n d 0 = chunk_msgs 0 (map Some (chop n d))" using file_chunks_chop [OF assms, of d 0] by simp
  show "uploaded (UploadBlobHeader h # file_chunks n d 0) = d" by (rule file_chunks_data(1) [OF assms])
  show "\<forall>x \<in> set (chop n d). length x \<le> n" using chop_props [OF assms] by blast
qed

theorem upload_chunks_witness:
  "file_chunks 2 [1, 2, 3] 0 = chunk_msgs 0 [Some [1, 2], Some [3]]"
  using upload_chunks [of 2 "[1, 2, 3]"] by (simp add: chop.simps)

subsection \<open>The calls\<close>

lemma StartBlobUpload_ok:
  fixes w w' :: "'o world"
  assumes "StartBlobUpload (pg_blob_handler E sha cfg c bucket) ctx (Some req) w = (Inr resp, w')"
  obtains s where "s \<in> set (upload_sessions (db w'))" and "us_UploadSessionID s = sbr_UploadSessionId resp"
    and "us_BlobID s = sbr_BlobId resp" and "sbr_UploadSessionId resp \<in> range (env_uuid E)" and "sbr_BlobId resp \<in> range (env_uuid E)"
proof -
  obtain x b s w1 and w2 :: "'o world" where run: "UploadStore_StartSession E b s w1 = (Inr x, w2)"
    and fin: "us_UploadSessionID s = sbr_UploadSessionId resp" "us_BlobID s = sbr_BlobId resp" "db w' = db w2"
      "sbr_UploadSessionId resp \<in> range (env_uuid E)" "sbr_BlobId resp \<in> range (env_uuid E)"
    using assms unfolding StartBlobUpload_def with_user_def Let_def
    by (auto simp: throw_def guard_def andthen_def handle_def uuid_NewString_def time_Now_def ret_def
        split: option.splits if_splits prod.splits sum.splits)
  from run obtain w3 w4 :: "'o world" where body: "andthen (execInsertBlob E b) (\<lambda>_. stmt E (sql_insert_session s)) w3 = (Inr x, w4)"
    and db: "db w2 = db w4" unfolding UploadStore_StartSession_def by (rule in_tx_ok)
  from body obtain w5 :: "'o world" where ins: "stmt E (sql_insert_session s) w5 = (Inr x, w4)" by (rule andthen_okE)
  have "s \<in> set (upload_sessions (db w4))"
    using stmt_ok_db [OF ins] by (auto simp: sql_insert_session_def split: if_splits)
  with fin db show ?thesis by (intro that) auto
qed

lemma send_chunks_prefix: "send_chunks sendErr ds fin sent idx out = Inr (sent', out') \<Longrightarrow> \<exists>more. out' = out @ more"
  by (induction sendErr ds fin sent idx out rule: send_chunks.induct) (force split: option.splits if_splits)+

lemma DownloadBlob_header:
  assumes "DownloadBlob h ctx req sendErr w = (Inr out, w')"
  obtains info rest where "out = DownloadBlobHeader info # rest"
proof -
  from assms obtain b sent ds fin where
    "send_chunks sendErr ds fin 0 0 [DownloadBlobHeader (toProtoBlobInfo b)] = Inr (sent, out)"
    unfolding DownloadBlob_def Let_def
    by (auto simp: throw_def guard_def ret_def elim!: andthen_okE handle_okE split: option.splits if_splits prod.splits sum.splits)
  from send_chunks_prefix [OF this] show ?thesis using that by auto
qed

text \<open>The protected calls of the client: each runs its handler for some user.\<close>

abbreviation files :: "env \<Rightarrow> auth_libs \<Rightarrow> Config \<Rightarrow> 'o minio_client \<Rightarrow> 'o blobHandler" where
  "files E L cfg c \<equiv> pg_blob_handler E (al_sha256 L) cfg c (cf_MinioBucket cfg)"

lemma stream_is_unary:
  "newAuthStreamInterceptor E J secret method md ctx ss handler = newAuthUnaryInterceptor E J secret method md ctx (\<lambda>ctx. handler ctx ss)"
  by (simp add: newAuthStreamInterceptor_def newAuthUnaryInterceptor_def)

lemma protected_calls:
  fixes w w' :: "'o world"
  shows "tc_StartBlobUpload (client_of E L cfg c tok) req w = (Inr sr, w') \<Longrightarrow>
      \<exists>ctx. StartBlobUpload (files E L cfg c) ctx (Some req) (w\<lparr>tick := Suc (tick w)\<rparr>) = (Inr sr, w')"
    and "tc_UploadBlob (client_of E L cfg c tok) msgs w = (Inr ur, w') \<Longrightarrow>
      \<exists>ctx. UploadBlob (files E L cfg c) ctx \<lparr>st_msgs = msgs, st_end = None, st_close = None\<rparr> (w\<lparr>tick := Suc (tick w)\<rparr>) = (Inr ur, w')"
    and "tc_CommitBlobUpload (client_of E L cfg c tok) sid w = (Inr cr, w') \<Longrightarrow>
      \<exists>ctx info. CommitBlobUpload (files E L cfg c) ctx (Some sid) (w\<lparr>tick := Suc (tick w)\<rparr>) = (Inr info, w')"
    and "tc_DownloadBlob (client_of E L cfg c tok) bid w = (Inr (out, None), w') \<Longrightarrow>
      \<exists>ctx. DownloadBlob (files E L cfg c) ctx (Some bid) (\<lambda>_. None) (w\<lparr>tick := Suc (tick w)\<rparr>) = (Inr out, w')"
  by (auto simp: GRPCClient_def AuthInterceptor_def StreamAuthInterceptor_def stubs_def gophkeeper_def registered_def
      stream_is_unary publicMethods_def stream_out_def ret_def split: prod.splits sum.splits elim!: interceptor_okE andthen_okE)

lemma UploadFile_ok:
  fixes w w' :: "'s client"
  assumes rand: "rand_ok M" and run: "UploadFile M K C path name w = (Inr bid, w')"
  obtains data nonce enc sr ur s1 s2 where "ce_ReadFile M path = Inr data" and "sealed K (ap_DEK (cl_app w)) data nonce enc"
    and "tc_StartBlobUpload C
       \<lparr>sbu_ExpectedSize = word_of_nat (length (nonce @ enc)), sbu_ExpectedChecksum = Some (SHA256 K (nonce @ enc)),
        sbu_ContentKind = ''application/octet-stream'', sbu_FileName = name, sbu_MimeType = ''application/octet-stream''\<rparr>
       (cl_remote w) = (Inr sr, s1)" and "bid = sbr_BlobId sr"
    and "nonce @ enc \<noteq> []" and "0 < sint (sbr_MaxChunkSize sr)"
    and "tc_UploadBlob C (UploadBlobHeader (sbr_UploadSessionId sr) # file_chunks (nat (sint (sbr_MaxChunkSize sr))) (nonce @ enc) 0) s1 = (Inr ur, s2)"
    and "ubr_Status ur = StatusCommitted \<and> cl_remote w' = s2 \<or>
      ubr_Status ur \<noteq> StatusCommitted \<and> (\<exists>info. tc_CommitBlobUpload C (sbr_UploadSessionId sr) s2 = (Inr info, cl_remote w'))"
    and "cl_app w' = cl_app w"
proof -
  let ?dek = "ap_DEK (cl_app w)"
  from run obtain data p w0 w1 where lf: "lift (ce_ReadFile M path) w = (Inr data, w0)" and e0: "Encrypt M K ?dek data w0 = (Inr p, w1)"
    and rest0: "(case p of (nonce, enc) \<Rightarrow> andthen (remote (tc_StartBlobUpload C
       \<lparr>sbu_ExpectedSize = word_of_nat (length (nonce @ enc)), sbu_ExpectedChecksum = Some (SHA256 K (nonce @ enc)),
        sbu_ContentKind = ''application/octet-stream'', sbu_FileName = name,
        sbu_MimeType = ''application/octet-stream''\<rparr>)) (\<lambda>startResp.
     guard (sint (sbr_MaxChunkSize startResp) \<le> 0 \<and> nonce @ enc \<noteq> []) go_panic
    (andthen (remote (tc_UploadBlob C
        (UploadBlobHeader (sbr_UploadSessionId startResp) # file_chunks (nat (sint (sbr_MaxChunkSize startResp))) (nonce @ enc) 0))) (\<lambda>uploadResp.
     andthen
      (if ubr_Status uploadResp \<noteq> StatusCommitted
       then andthen (remote (tc_CommitBlobUpload C (sbr_UploadSessionId startResp))) (\<lambda>blob.
         guard (blob = None) (err ''commit failed: no blob info'') (ret ()))
       else ret ()) (\<lambda>_.
     ret (sbr_BlobId startResp)))))) w1 = (Inr bid, w')"
    unfolding UploadFile_def Let_def by (elim with_dek_okE andthen_okE)
  from lf have rd: "ce_ReadFile M path = Inr data" and w0: "w0 = w"
    by (auto simp: lift_def throw_def ret_def split: sum.splits)
  obtain nonce enc where p: "p = (nonce, enc)" by fastforce
  note e = e0 [unfolded p w0] and rest = rest0 [unfolded p prod.case]
  note enc = Encrypt_ok [OF rand e]
  have ne: "nonce @ enc \<noteq> []" using enc(1) by (auto simp: sealed_def NonceSize_def)
  from rest obtain sr ur s1 s2 where
    "tc_StartBlobUpload C
       \<lparr>sbu_ExpectedSize = word_of_nat (length (nonce @ enc)), sbu_ExpectedChecksum = Some (SHA256 K (nonce @ enc)),
        sbu_ContentKind = ''application/octet-stream'', sbu_FileName = name, sbu_MimeType = ''application/octet-stream''\<rparr>
       (cl_remote w) = (Inr sr, s1)" "bid = sbr_BlobId sr" "0 < sint (sbr_MaxChunkSize sr)"
    "tc_UploadBlob C (UploadBlobHeader (sbr_UploadSessionId sr) # file_chunks (nat (sint (sbr_MaxChunkSize sr))) (nonce @ enc) 0) s1 = (Inr ur, s2)"
    "ubr_Status ur = StatusCommitted \<and> cl_remote w' = s2 \<or>
      ubr_Status ur \<noteq> StatusCommitted \<and> (\<exists>info. tc_CommitBlobUpload C (sbr_UploadSessionId sr) s2 = (Inr info, cl_remote w'))"
    "cl_app w' = cl_app w"
    using enc(2) ne
    by (auto simp: remote_def ret_def guard_def throw_def not_le elim!: andthen_okE split: prod.splits if_splits)
  then show ?thesis using rd enc(1) ne by (intro that)
qed

lemma blob_ok_calls:
  fixes w w' :: "'o world"
  assumes "blob_ok (db w)"
  shows "StartBlobUpload (files E L cfg c) ctx req w = (r1, w') \<Longrightarrow> blob_ok (db w')"
    and "UploadBlob (files E L cfg c) ctx stream w = (r2, w') \<Longrightarrow> blob_ok (db w')"
    and "CommitBlobUpload (files E L cfg c) ctx sid w = (r3, w') \<Longrightarrow> blob_ok (db w')"
proof -
  have fr: "frozen (demo_blob\<lparr>bl_Status := StatusPending\<rparr>) d \<longleftrightarrow> blob_ok d" for d by (simp add: frozen_def)
  note k = keepsD [of "\<lambda>w. frozen (demo_blob\<lparr>bl_Status := StatusPending\<rparr>) (db w)", unfolded fr, OF _ assms]
  show "StartBlobUpload (files E L cfg c) ctx req w = (r1, w') \<Longrightarrow> blob_ok (db w')"
    by (rule k [OF pgb.keeps_StartBlobUpload [where ?b0.0 = "demo_blob\<lparr>bl_Status := StatusPending\<rparr>", unfolded fr]]) simp_all
  show "UploadBlob (files E L cfg c) ctx stream w = (r2, w') \<Longrightarrow> blob_ok (db w')"
    by (rule k [OF pgb.keeps_UploadBlob [where ?b0.0 = "demo_blob\<lparr>bl_Status := StatusPending\<rparr>", unfolded fr]]) simp_all
  show "CommitBlobUpload (files E L cfg c) ctx sid w = (r3, w') \<Longrightarrow> blob_ok (db w')"
    by (rule k [OF pgb.keeps_CommitBlobUpload [where ?b0.0 = "demo_blob\<lparr>bl_Status := StatusPending\<rparr>", unfolded fr]]) simp_all
qed

text \<open>After the three calls of an upload the blob is committed and its object holds the bytes sent.\<close>

lemma upload_calls:
  fixes s0 s1 s2 s3 :: "'o world"
  assumes ok: "blob_ok (db s0)" and client: "minio_ok c view" and uuid: "\<And>n. TrimSpace (env_uuid E n) = env_uuid E n"
    and start: "StartBlobUpload (files E L cfg c) ctx1 (Some req) s0 = (Inr sr, s1)"
    and up: "UploadBlob (files E L cfg c) ctx2 \<lparr>st_msgs = UploadBlobHeader (sbr_UploadSessionId sr) # ms, st_end = None, st_close = None\<rparr>
      (s1\<lparr>tick := t1\<rparr>) = (Inr ur, s2)"
    and len: "\<And>k x. UploadBlobChunk k x \<in> set ms \<Longrightarrow> blen x < 2 ^ 63"
    and com: "CommitBlobUpload (files E L cfg c) ctx3 (Some (sbr_UploadSessionId sr)) (s2\<lparr>tick := t2\<rparr>) = (Inr info, s3)"
  shows "ubr_Status ur = StatusUploading \<and> blob_ok (db s3) \<and>
    (\<exists>b \<in> set (blobs (db s3)). bl_BlobID b = sbr_BlobId sr \<and>
       view (objs s3) (cf_MinioBucket cfg) (bl_ObjectKey b) = Some (uploaded (UploadBlobHeader (sbr_UploadSessionId sr) # ms)))"
proof -
  obtain s where s: "s \<in> set (upload_sessions (db s1))" "us_UploadSessionID s = sbr_UploadSessionId sr"
    "us_BlobID s = sbr_BlobId sr" and sid: "TrimSpace (sbr_UploadSessionId sr) = sbr_UploadSessionId sr"
    using StartBlobUpload_ok [OF start] uuid by (metis rangeE)
  note ok1 = blob_ok_calls(1) [OF ok start]
  have "\<forall>i d. UploadBlobChunk i d \<in> set (st_msgs \<lparr>st_msgs = UploadBlobHeader (sbr_UploadSessionId sr) # ms, st_end = None, st_close = None\<rparr>) \<longrightarrow> blen d < 2 ^ 63"
    using len by auto
  from UploadBlob_stores [OF _ client up this] ok1 obtain u ds s' b now where
    ms: "ms = chunk_msgs 0 ds" and s': "find (session_key u (sbr_UploadSessionId sr)) (upload_sessions (db s1)) = Some s'"
    and v: "view (objs s2) (cf_MinioBucket cfg) (bl_ObjectKey b) = Some (concat (map bytes_of ds))"
    and sess: "find (session_key u (sbr_UploadSessionId sr)) (upload_sessions (db s2)) = Some (set_awaiting (us_ExpectedSize s') now s')"
    and b: "find (blob_key u (us_BlobID s')) (blobs (db s2)) = Some (b\<lparr>bl_Status := StatusUploading\<rparr>)"
    and st: "ubr_Status ur = StatusUploading" by (auto simp: sid)
  have "s' = s" using session_unique [OF ok1, of s' s] find_SomeD [OF s'] s by (auto simp: session_key_def)
  have ok2: "blob_ok (db s2)" using blob_ok_calls(2) [OF _ up] ok1 by simp
  from com obtain u3 sid3 s3' b3 d at where c1: "Some (sbr_UploadSessionId sr) = Some sid3"
    and c2: "find (session_key u3 (TrimSpace sid3)) (upload_sessions (db (s2\<lparr>tick := t2\<rparr>))) = Some s3'"
    and c3: "find (blob_key u3 (us_BlobID s3')) (blobs (db (s2\<lparr>tick := t2\<rparr>))) = Some b3"
    and c4: "view (objs s3) = view (objs (s2\<lparr>tick := t2\<rparr>))"
    and c5: "find (blob_key u3 (us_BlobID s3')) (blobs (db s3)) = Some (set_committed at b3)"
    by (rule CommitBlobUpload_ok [OF client])
  have "s3' = set_awaiting (us_ExpectedSize s') now s'"
    using session_unique [OF ok2, of s3' "set_awaiting (us_ExpectedSize s') now s'"] find_SomeD [OF sess] find_SomeD [OF c2] c1 sid
    by (auto simp: session_key_def)
  then have id: "us_BlobID s3' = sbr_BlobId sr" using s(3) \<open>s' = s\<close> by (simp add: set_awaiting_def)
  have "b3 = b\<lparr>bl_Status := StatusUploading\<rparr>"
    using blob_ok_unique [OF ok2, of b3 "b\<lparr>bl_Status := StatusUploading\<rparr>"] find_SomeD [OF b] find_SomeD [OF c3] id s(3) \<open>s' = s\<close>
    by (auto simp: blob_key_def)
  moreover have "set_committed at b3 \<in> set (blobs (db s3))" "bl_BlobID (set_committed at b3) = sbr_BlobId sr"
    using find_SomeD [OF c5] id by (auto simp: blob_key_def)
  moreover have "blob_ok (db s3)" using blob_ok_calls(3) [OF _ com] ok2 by simp
  moreover have "bl_ObjectKey (set_committed at b3) = bl_ObjectKey b3" by (simp add: set_committed_def)
  ultimately show ?thesis using st v c4 ms by (intro conjI bexI [of _ "set_committed at b3"]) simp_all
qed

subsection \<open>Round trip\<close>

text \<open>What a successful UploadFile leaves: a committed blob whose object is the nonce and the sealed file.\<close>

lemma UploadFile_stores:
  fixes w w1 :: "'o world client"
  assumes aead: "aead_ok K" and rand: "rand_ok M" and client: "minio_ok c view"
    and uuid: "\<And>n. TrimSpace (env_uuid E n) = env_uuid E n" and ok: "blob_ok (db (cl_remote w))"
    and file_: "ce_ReadFile M path = Inr data" and size_: "length data + 40 < 2 ^ 63"
    and up: "UploadFile M K (client_of E L cfg c tok1) path name w = (Inr bid, w1)"
  obtains nonce enc b where "sealed K (ap_DEK (cl_app w)) data nonce enc" and "cl_app w1 = cl_app w" and "TrimSpace bid = bid"
    and "blob_ok (db (cl_remote w1))" and "b \<in> set (blobs (db (cl_remote w1)))" and "bl_BlobID b = bid"
    and "view (objs (cl_remote w1)) (cf_MinioBucket cfg) (bl_ObjectKey b) = Some (nonce @ enc)"
proof -
  let ?C = "client_of E L cfg c tok1" and ?dek = "ap_DEK (cl_app w)"
  obtain data' nonce enc sr ur s1 s2 where rd: "ce_ReadFile M path = Inr data'" and sealed: "sealed K ?dek data' nonce enc"
    and start: "tc_StartBlobUpload ?C
       \<lparr>sbu_ExpectedSize = word_of_nat (length (nonce @ enc)), sbu_ExpectedChecksum = Some (SHA256 K (nonce @ enc)),
        sbu_ContentKind = ''application/octet-stream'', sbu_FileName = name, sbu_MimeType = ''application/octet-stream''\<rparr>
       (cl_remote w) = (Inr sr, s1)" and bid: "bid = sbr_BlobId sr" and pos: "0 < sint (sbr_MaxChunkSize sr)"
    and upl: "tc_UploadBlob ?C (UploadBlobHeader (sbr_UploadSessionId sr) # file_chunks (nat (sint (sbr_MaxChunkSize sr))) (nonce @ enc) 0) s1 = (Inr ur, s2)"
    and com: "ubr_Status ur = StatusCommitted \<and> cl_remote w1 = s2 \<or>
      ubr_Status ur \<noteq> StatusCommitted \<and> (\<exists>info. tc_CommitBlobUpload ?C (sbr_UploadSessionId sr) s2 = (Inr info, cl_remote w1))"
    and app: "cl_app w1 = cl_app w"
    using UploadFile_ok [OF rand up] .
  have data: "data' = data" using rd file_ by simp
  have len: "length (nonce @ enc) < 2 ^ 63"
    using sealed_decrypt(2) [OF aead sealed] sealed size_ data by (simp add: sealed_def NonceSize_def)
  let ?n = "nat (sint (sbr_MaxChunkSize sr))"
  have n: "0 < ?n" using pos by simp
  obtain ctx1 where p1: "StartBlobUpload (files E L cfg c) ctx1 (Some \<lparr>sbu_ExpectedSize = word_of_nat (length (nonce @ enc)), sbu_ExpectedChecksum = Some (SHA256 K (nonce @ enc)),
        sbu_ContentKind = ''application/octet-stream'', sbu_FileName = name, sbu_MimeType = ''application/octet-stream''\<rparr>)
       ((cl_remote w)\<lparr>tick := Suc (tick (cl_remote w))\<rparr>) = (Inr sr, s1)" using protected_calls(1) [OF start] by blast
  obtain ctx2 where p2: "UploadBlob (files E L cfg c) ctx2 \<lparr>st_msgs = UploadBlobHeader (sbr_UploadSessionId sr) # file_chunks ?n (nonce @ enc) 0,
       st_end = None, st_close = None\<rparr> (s1\<lparr>tick := Suc (tick s1)\<rparr>) = (Inr ur, s2)" using protected_calls(2) [OF upl] by blast
  have small: "blen x < 2 ^ 63" if "UploadBlobChunk k x \<in> set (file_chunks ?n (nonce @ enc) 0)" for k x
    using file_chunks_data(2) [OF n that] len by simp
  have notyet: "ubr_Status ur = StatusUploading"
  proof -
    have "\<forall>i d. UploadBlobChunk i d \<in> set (st_msgs \<lparr>st_msgs = UploadBlobHeader (sbr_UploadSessionId sr) # file_chunks ?n (nonce @ enc) 0, st_end = None, st_close = None\<rparr>) \<longrightarrow> blen d < 2 ^ 63"
      using small by auto
    from UploadBlob_stores [OF _ client p2 this] blob_ok_calls(1) [OF _ p1] ok show ?thesis by auto
  qed
  then obtain info where "tc_CommitBlobUpload ?C (sbr_UploadSessionId sr) s2 = (Inr info, cl_remote w1)" using com by auto
  then obtain ctx3 info' where p3: "CommitBlobUpload (files E L cfg c) ctx3 (Some (sbr_UploadSessionId sr)) (s2\<lparr>tick := Suc (tick s2)\<rparr>) =
      (Inr info', cl_remote w1)" using protected_calls(3) by blast
  have ok0: "blob_ok (db ((cl_remote w)\<lparr>tick := Suc (tick (cl_remote w))\<rparr>))" using ok by simp
  have "ubr_Status ur = StatusUploading \<and> blob_ok (db (cl_remote w1)) \<and> (\<exists>b \<in> set (blobs (db (cl_remote w1))). bl_BlobID b = sbr_BlobId sr \<and>
       view (objs (cl_remote w1)) (cf_MinioBucket cfg) (bl_ObjectKey b) = Some (nonce @ enc))"
    by (rule upload_calls [OF ok0 client uuid p1 p2 _ p3, unfolded file_chunks_data(1) [OF n]]) (rule small)
  then obtain b where okf: "blob_ok (db (cl_remote w1))"
    and b: "b \<in> set (blobs (db (cl_remote w1)))" "bl_BlobID b = bid"
    and v: "view (objs (cl_remote w1)) (cf_MinioBucket cfg) (bl_ObjectKey b) = Some (nonce @ enc)"
    unfolding bid by blast
  have "TrimSpace bid = bid" using StartBlobUpload_ok [OF p1] uuid bid by (metis rangeE)
  then show ?thesis using that sealed app okf b v data by blast
qed

text \<open>
  C7. A file comes back as it was. A client uploads a file; a client that holds the same vault key
  (this one or another device of the account) then downloads the blob whose id the upload returned.
  When the server has sent the whole blob, the download succeeds and gives exactly the content the
  file had when it was read: through encryption, chunking, the upload session and its commit, the
  object store, the download stream and decryption. (Identifiers are uuids, which TrimSpace does not
  change; a file is shorter than 2^63 bytes.)
\<close>

theorem file_roundtrip:
  fixes w w1 w2 w3 :: "'o world client"
  assumes aead: "aead_ok K" and rand: "rand_ok M" and client: "minio_ok c view"
    and uuid: "\<And>n. TrimSpace (env_uuid E n) = env_uuid E n" and ok: "blob_ok (db (cl_remote w))"
    and file_: "ce_ReadFile M path = Inr data" and size_: "length data + 40 < 2 ^ 63"
    and up: "UploadFile M K (client_of E L cfg c tok1) path name w = (Inr bid, w1)"
    and same: "cl_remote w2 = cl_remote w1" "ap_DEK (cl_app w2) = ap_DEK (cl_app w1)"
    and down: "DownloadFile K (client_of E L cfg c tok2) bid w2 = (r, w3)"
    and sent: "tc_DownloadBlob (client_of E L cfg c tok2) bid (cl_remote w2) = (Inr (out, None), s)"
  shows "r = Inr data"
proof -
  obtain nonce enc b where sealed: "sealed K (ap_DEK (cl_app w)) data nonce enc" and app: "cl_app w1 = cl_app w"
    and trim: "TrimSpace bid = bid" and okf: "blob_ok (db (cl_remote w1))" and b: "b \<in> set (blobs (db (cl_remote w1)))" "bl_BlobID b = bid"
    and v: "view (objs (cl_remote w1)) (cf_MinioBucket cfg) (bl_ObjectKey b) = Some (nonce @ enc)"
    using UploadFile_stores [OF aead rand client uuid ok file_ size_ up] .
  obtain ctx4 where p4: "DownloadBlob (files E L cfg c) ctx4 (Some bid) (\<lambda>_. None) ((cl_remote w1)\<lparr>tick := Suc (tick (cl_remote w1))\<rparr>) = (Inr out, s)"
    using protected_calls(4) [OF sent] same(1) by auto
  from p4 obtain u4 bid4 b4 where d1: "Some bid = Some bid4"
    and d2: "find (blob_key u4 (TrimSpace bid4)) (blobs (db ((cl_remote w1)\<lparr>tick := Suc (tick (cl_remote w1))\<rparr>))) = Some b4"
    and d3: "view (objs ((cl_remote w1)\<lparr>tick := Suc (tick (cl_remote w1))\<rparr>)) (cf_MinioBucket cfg) (bl_ObjectKey b4) = Some (downloaded out)"
    by (rule DownloadBlob_ok [OF client])
  have "b4 = b" using blob_ok_unique [OF okf, of b4 b] b find_SomeD [OF d2] d1 trim by (auto simp: blob_key_def)
  then have got: "downloaded out = nonce @ enc" using d3 v by simp
  obtain hdr rest where out: "out = DownloadBlobHeader hdr # rest" using DownloadBlob_header [OF p4] .
  then have chunks: "chunk_data rest = nonce @ enc" using got by (simp add: chunk_data_def downloaded_def)
  have n24: "length nonce = NonceSize" using sealed by (simp add: sealed_def)
  have dek: "ap_DEK (cl_app w) \<noteq> []" using up by (auto simp: UploadFile_def elim: with_dek_okE)
  show ?thesis
    using down sent dek out chunks n24 sealed_decrypt(1) [OF aead sealed]
    by (simp add: DownloadFile_def with_dek_def get_app_def andthen_def handle_def guard_def remote_def lift_def ret_def Let_def same(2) app)
qed

subsection \<open>A concrete transfer\<close>

definition demo_files_cfg :: Config where
  "demo_files_cfg = demo_auth_cfg\<lparr>cf_MaxChunkSizeBytes := 32\<rparr>"

definition files_crypto :: crypto_lib where
  "files_crypto = toy_crypto\<lparr>cr_sha256 := (\<lambda>b. b)\<rparr>"

abbreviation demo_bearer :: string where
  "demo_bearer \<equiv> ''u1:d1:0:900:s3cret''"

definition demo_files :: "mem_store world Client" where
  "demo_files = client_of demo_env demo_libs demo_files_cfg mem_client demo_bearer"

lemma files_crypto_ok: "aead_ok files_crypto"
  using toy_crypto_ok by (simp add: aead_ok_def files_crypto_def)

lemma demo_call:
  assumes "tick w < 900000000" and "method \<notin> set publicMethods"
  shows "newAuthUnaryInterceptor demo_env toy_jwt ''s3cret'' method
     (Some (AppendToOutgoingContext [] ''authorization'' (''Bearer '' @ demo_bearer))) background h w =
     h demo_ctx (w\<lparr>tick := Suc (tick w)\<rparr>)"
proof -
  have md: "bearerTokenFromMetadata (Some (AppendToOutgoingContext [] ''authorization'' (''Bearer '' @ demo_bearer))) = Inr demo_bearer"
    using bearer_accepted [of demo_bearer] by (simp add: AppendToOutgoingContext_def bearer_md_def md_Get_def is_graphic_def)
  have "parseAccessToken toy_jwt (int (tick w)) demo_bearer (string_bytes ''s3cret'') = Inr \<lparr>at_UserID = ''u1'', at_DeviceID = ''d1''\<rparr>"
    using assms(1) by (intro demo_parse) simp
  with assms(2) show ?thesis
    unfolding newAuthUnaryInterceptor_def md
    by (simp add: andthen_def handle_def time_Now_def WithAuthContext_def demo_ctx_def background_def)
qed

lemma demo_calls:
  assumes "tick w < 900000000"
  shows "tc_StartBlobUpload demo_files req w = StartBlobUpload (files demo_env demo_libs demo_files_cfg mem_client) demo_ctx (Some req) (w\<lparr>tick := Suc (tick w)\<rparr>)"
    "tc_UploadBlob demo_files ms w = UploadBlob (files demo_env demo_libs demo_files_cfg mem_client) demo_ctx \<lparr>st_msgs = ms, st_end = None, st_close = None\<rparr> (w\<lparr>tick := Suc (tick w)\<rparr>)"
    "tc_CommitBlobUpload demo_files sid w = andthen (CommitBlobUpload (files demo_env demo_libs demo_files_cfg mem_client) demo_ctx (Some sid)) (\<lambda>b. ret (Some b)) (w\<lparr>tick := Suc (tick w)\<rparr>)"
    "tc_DownloadBlob demo_files bid w = stream_out (DownloadBlob (files demo_env demo_libs demo_files_cfg mem_client) demo_ctx (Some bid) (\<lambda>_. None)) (w\<lparr>tick := Suc (tick w)\<rparr>)"
proof -
  have cfg: "cf_JWTSecret demo_files_cfg = ''s3cret''" "al_jwt demo_libs = toy_jwt"
    by (simp_all add: demo_files_cfg_def demo_auth_cfg_def demo_libs_def)
  note call = demo_call [OF assms, unfolded append.simps]
  show "tc_StartBlobUpload demo_files req w = StartBlobUpload (files demo_env demo_libs demo_files_cfg mem_client) demo_ctx (Some req) (w\<lparr>tick := Suc (tick w)\<rparr>)"
    "tc_UploadBlob demo_files ms w = UploadBlob (files demo_env demo_libs demo_files_cfg mem_client) demo_ctx \<lparr>st_msgs = ms, st_end = None, st_close = None\<rparr> (w\<lparr>tick := Suc (tick w)\<rparr>)"
    "tc_CommitBlobUpload demo_files sid w = andthen (CommitBlobUpload (files demo_env demo_libs demo_files_cfg mem_client) demo_ctx (Some sid)) (\<lambda>b. ret (Some b)) (w\<lparr>tick := Suc (tick w)\<rparr>)"
    "tc_DownloadBlob demo_files bid w = stream_out (DownloadBlob (files demo_env demo_libs demo_files_cfg mem_client) demo_ctx (Some bid) (\<lambda>_. None)) (w\<lparr>tick := Suc (tick w)\<rparr>)"
    by (simp_all add: demo_files_def GRPCClient_def AuthInterceptor_def StreamAuthInterceptor_def stubs_def gophkeeper_def registered_def
        stream_is_unary cfg call publicMethods_def andthen_def handle_def)
qed

lemma replicate_literal:
  "replicate 24 x = [x, x, x, x, x, x, x, x, x, x, x, x, x, x, x, x, x, x, x, x, x, x, x, x]"
  "replicate 32 x = [x, x, x, x, x, x, x, x, x, x, x, x, x, x, x, x, x, x, x, x, x, x, x, x, x, x, x, x, x, x, x, x]"
  by (simp_all add: numeral_eq_Suc)

lemmas files_eval = replicate_literal client_eval UploadFile_def DownloadFile_def SHA256_def files_crypto_def demo_files_cfg_def demo_server_def
  StartBlobUpload_def UploadBlob_def finish_upload_def CommitBlobUpload_def DownloadBlob_def stream_out_def nothing_sent_def file_chunks.simps chop.simps
  UploadStore_StartSession_def execInsertBlob_def sql_insert_blob_def sql_insert_session_def hours_duration_def object_key_def trimmed_opt_def
  blob_eval blob_demo_defs auth_demo_defs show_nat.simps chunk_data_def Decrypt_def toProtoBlobInfo_def

lemma demo_transfer:
  "\<exists>w1 out s. UploadFile demo_cenv files_crypto demo_files ''f'' ''f'' (demo_client demo_server) = (Inr ''id-1'', w1) \<and>
     tc_DownloadBlob demo_files ''id-1'' (cl_remote w1) = (Inr (out, None), s)"
  by (simp add: demo_calls files_eval)

lemma demo_uuid_trimmed: "TrimSpace (env_uuid demo_env n) = env_uuid demo_env n"
proof (rule TrimSpace_graphic)
  show "list_all is_graphic (env_uuid demo_env n)" using show_nat_graphic by (simp add: is_graphic_def)
qed

theorem file_roundtrip_witness:
  "\<exists>w1. UploadFile demo_cenv files_crypto demo_files ''f'' ''f'' (demo_client demo_server) = (Inr ''id-1'', w1) \<and>
     fst (DownloadFile files_crypto demo_files ''id-1'' w1) = Inr [7, 8, 9]"
proof -
  obtain w1 out s where up: "UploadFile demo_cenv files_crypto demo_files ''f'' ''f'' (demo_client demo_server) = (Inr ''id-1'', w1)"
    and sent: "tc_DownloadBlob demo_files ''id-1'' (cl_remote w1) = (Inr (out, None), s)"
    using demo_transfer by (elim exE conjE)
  have ok: "blob_ok (db (cl_remote (demo_client demo_server)))"
    by (simp add: blob_ok_def demo_client_def demo_server_def auth_demo_defs)
  have rd: "ce_ReadFile demo_cenv ''f'' = Inr [7, 8, 9]" by (simp add: demo_cenv_def)
  have "fst (DownloadFile files_crypto demo_files ''id-1'' w1) = Inr [7, 8, 9]"
    unfolding demo_files_def
    by (rule file_roundtrip [OF files_crypto_ok demo_cenv_ok mem_client_ok demo_uuid_trimmed ok rd _
        up [unfolded demo_files_def] refl refl prod.collapse [symmetric] sent [unfolded demo_files_def]]) simp
  with up show ?thesis by blast
qed

end
