(* ===== verification/ClientSync.thy ===== *)
theory ClientSync
  imports ClientFiles
begin

section \<open>Synchronisation of a client with the server\<close>

text \<open>
  The App's \<open>Sync\<close> through the transport, the interceptor, the handler and the revision log of the
  server: what the events of the answer do to the local items, and that the client ends with the items
  the server holds.
\<close>

subsection \<open>The copy of an item on a client\<close>

text \<open>What a client stores for an item of the server: its fields, or a tombstone when it is deleted.\<close>

definition client_copy :: "Item \<Rightarrow> ModelItem" where
  "client_copy it =
     (if it_DeletedAt it = None
      then stored_item \<lparr>mi_ID = it_ItemID it, mi_Version = it_Version it, mi_Type = it_ItemType it,
        mi_Title = Some \<lparr>ef_Ciphertext = it_TitleCiphertext it, ef_Nonce = it_TitleNonce it\<rparr>,
        mi_Metadata = Some \<lparr>ef_Ciphertext = it_MetadataCiphertext it, ef_Nonce = it_MetadataNonce it\<rparr>,
        mi_Payload = Some \<lparr>ef_Ciphertext = it_PayloadCiphertext it, ef_Nonce = it_PayloadNonce it\<rparr>,
        mi_BlobID = [], mi_Deleted = False\<rparr>
      else \<lparr>mi_ID = it_ItemID it, mi_Version = it_Version it, mi_Type = 0, mi_Title = None, mi_Metadata = None,
        mi_Payload = None, mi_BlobID = [], mi_Deleted = True\<rparr>)"

lemma foldl_upd:
  "foldl (\<lambda>m r. m(k r \<mapsto> f r)) m rs i =
     (if \<exists>r \<in> set rs. k r = i then Some (f (last (filter (\<lambda>r. k r = i) rs))) else m i)"
  by (induction rs rule: rev_induct) auto

lemma last_filter_later:
  assumes "sorted_wrt (\<lambda>a b. (g a :: 'k :: linorder) < g b) xs" and "x \<in> set xs" and "n < g x"
  shows "last (filter (\<lambda>a. n < g a) xs) = last xs"
proof (cases xs rule: rev_cases)
  case (snoc ys y)
  with assms have "n < g y" by (auto simp: sorted_wrt_append)
  with snoc show ?thesis by simp
qed (use assms in simp)

lemma log_entry_item:
  assumes "vault_ok (abs_db d)" and "r \<in> set (revision_log d)"
  obtains it where "find (item_key (rl_UserID r) (rl_ItemID r)) (vault_items d) = Some it" and "it_ItemID it = rl_ItemID r"
    and "history_ok (abs_db d) (rl_ItemID r) it" and "rl_ChangeType r \<noteq> ChangeTypeUnspecified"
proof -
  from vault_okD(4) [OF assms(1), of r] assms(2) obtain it
    where it: "find (item_key (rl_UserID r) (rl_ItemID r)) (vault_items d) = Some it" by auto
  with vault_okD(1) [OF assms(1), of "rl_UserID r" "rl_ItemID r" it]
  have h: "it_ItemID it = rl_ItemID r" "history_ok (abs_db d) (rl_ItemID r) it" by auto
  have "r \<in> set (item_history (abs_db d) (rl_ItemID r))" using assms(2) by (simp add: item_history_def)
  with h(2) have "rl_ChangeType r \<noteq> ChangeTypeUnspecified" by (simp add: history_ok_def)
  with that it h show ?thesis by blast
qed

text \<open>The last entry of an item says whether the item is deleted.\<close>

lemma last_entry:
  assumes "history_ok s i it" and "item_history s i \<noteq> []"
  shows "rl_ChangeType (last (item_history s i)) = ChangeTypeDeleted \<longleftrightarrow> it_DeletedAt it \<noteq> None"
proof -
  have "item_history s i = butlast (item_history s i) @ [last (item_history s i)]" using assms(2) by simp
  then have "set (item_history s i) = insert (last (item_history s i)) (set (butlast (item_history s i)))"
    by (metis append.assoc list.simps(15) rotate1.simps(2) set_rotate1)
  with assms(1) show ?thesis unfolding history_ok_def by auto
qed

definition changed_since :: "string \<Rightarrow> u64 \<Rightarrow> database \<Rightarrow> string \<Rightarrow> bool" where
  "changed_since u r0 d i \<longleftrightarrow> (\<exists>r \<in> set (revision_log d). rl_UserID r = u \<and> rl_ItemID r = i \<and> r0 < rl_RevisionID r)"

text \<open>Applying the events after a revision brings every item that changed since up to date and leaves the others alone.\<close>

lemma events_converge:
  assumes schema: "schema_ok d" and vault: "vault_ok (abs_db d)"
  shows "foldl after_event m (revisionRowsToProto (events_after u r0 d)) i =
    (if changed_since u r0 d i then map_option client_copy (find (item_key u i) (vault_items d)) else m i)"
proof -
  define rs where "rs = filter (\<lambda>r. rl_UserID r = u \<and> r0 < rl_RevisionID r) (revision_log d)"
  define cur where "cur r = the (find (item_key (rl_UserID r) (rl_ItemID r)) (vault_items d))" for r :: RevisionLogEntry
  define copy where "copy r = client_copy ((cur r)\<lparr>it_DeletedAt := if rl_ChangeType r = ChangeTypeDeleted then Some 0 else None\<rparr>)" for r :: RevisionLogEntry
  have step: "after_event m (hd (revisionRowsToProto [event_row d r])) = m(rl_ItemID r \<mapsto> copy r)" if "r \<in> set rs" for m r
  proof -
    from that have "r \<in> set (revision_log d)" by (simp add: rs_def)
    with vault obtain it where it: "find (item_key (rl_UserID r) (rl_ItemID r)) (vault_items d) = Some it" "it_ItemID it = rl_ItemID r"
      and ct: "rl_ChangeType r \<noteq> ChangeTypeUnspecified" by (rule log_entry_item)
    with ct show ?thesis
      by (cases "rl_ChangeType r")
         (simp_all add: after_event_def revisionRowsToProto_def event_row_def toProtoItem_def vaultPayloadToProto_def copy_def
           cur_def client_copy_def)
  qed
  have "foldl after_event m (revisionRowsToProto (map (event_row d) xs)) = foldl (\<lambda>m r. m(rl_ItemID r \<mapsto> copy r)) m xs"
    if "set xs \<subseteq> set rs" for xs
    using that by (induction xs arbitrary: m) (use step in \<open>auto simp: revisionRowsToProto_def\<close>)
  from this [of rs] have fold: "foldl after_event m (revisionRowsToProto (events_after u r0 d)) i =
      (if \<exists>r \<in> set rs. rl_ItemID r = i then Some (copy (last (filter (\<lambda>r. rl_ItemID r = i) rs))) else m i)"
    unfolding events_after_def rs_def [symmetric] by (simp only: subset_refl foldl_upd)
  show ?thesis
  proof (cases "changed_since u r0 d i")
    case True
    then obtain r where r: "r \<in> set (revision_log d)" "rl_UserID r = u" "rl_ItemID r = i" "r0 < rl_RevisionID r"
      by (auto simp: changed_since_def)
    obtain it where it: "find (item_key u i) (vault_items d) = Some it" and hist: "history_ok (abs_db d) i it"
      using log_entry_item [OF vault r(1)] r(2,3) by blast
    have owner: "rl_UserID r' = u" if "r' \<in> set (revision_log d)" "rl_ItemID r' = i" for r'
      using vault_okD(2) [OF vault, of "rl_UserID r'" i u] vault_okD(4) [OF vault, of r'] that it by simp
    let ?h = "item_history (abs_db d) i"
    have "filter (\<lambda>r. rl_ItemID r = i) rs = filter (\<lambda>r. r0 < rl_RevisionID r) ?h"
      using owner by (auto simp: rs_def item_history_def intro!: filter_cong)
    moreover have "sorted_wrt (\<lambda>a b. rl_RevisionID a < rl_RevisionID b) ?h"
      unfolding item_history_def abs_db_sel by (rule sorted_wrt_filter [OF schema_ok_sorted [OF schema]])
    moreover have mem: "r \<in> set ?h" using r by (simp add: item_history_def)
    ultimately have last: "last (filter (\<lambda>r. rl_ItemID r = i) rs) = last ?h" using last_filter_later r(4) by metis
    have lmem: "last ?h \<in> set ?h" using mem by (intro last_in_set) auto
    then have "rl_ItemID (last ?h) = i" "rl_UserID (last ?h) = u" using owner by (auto simp: item_history_def)
    moreover have "?h \<noteq> []" using mem by auto
    ultimately have "copy (last ?h) = client_copy it"
      using last_entry [OF hist] it by (auto simp: copy_def cur_def client_copy_def)
    moreover have "\<exists>r \<in> set rs. rl_ItemID r = i" using r by (auto simp: rs_def)
    ultimately show ?thesis using True it last fold by simp
  next
    case False
    then have "\<not> (\<exists>r \<in> set rs. rl_ItemID r = i)" by (auto simp: changed_since_def rs_def)
    with False fold show ?thesis by simp
  qed
qed

subsection \<open>What the answer of the server holds\<close>

lemma Sync_call:
  fixes w w' :: "'o world"
  assumes "tc_Sync (client_of E L cfg c token) req w = (Inr resp, w')"
  obtains u dev t where "Sync (pg_sync_handler E (al_sha256 L) cfg c (cf_MinioBucket cfg)) (WithAuthContext background u dev) (Some req)
       (w\<lparr>tick := Suc (tick w)\<rparr>) = (Inr resp, w')"
    and "u \<noteq> []" and "bearerTokenFromMetadata (Some [(''authorization'', [''Bearer '' @ token])]) = Inr t"
    and "parseAccessToken (al_jwt L) (env_clock E (tick w)) t (string_bytes (cf_JWTSecret cfg)) = Inr \<lparr>at_UserID = u, at_DeviceID = dev\<rparr>"
proof -
  let ?md = "if token \<noteq> [] then [(''authorization'', [''Bearer '' @ token])] else []"
  have run: "newAuthUnaryInterceptor E (al_jwt L) (cf_JWTSecret cfg) ''/gophkeeper.v1.SyncService/Sync'' (Some ?md) background
      (\<lambda>ctx. Sync (pg_sync_handler E (al_sha256 L) cfg c (cf_MinioBucket cfg)) ctx (Some req)) w = (Inr resp, w')"
    using assms by (simp add: GRPCClient_def AuthInterceptor_def AppendToOutgoingContext_def md_Get_def stubs_def gophkeeper_def registered_def
        split: if_splits)
  obtain u dev t where *: "Sync (pg_sync_handler E (al_sha256 L) cfg c (cf_MinioBucket cfg)) (WithAuthContext background u dev) (Some req)
       (w\<lparr>tick := Suc (tick w)\<rparr>) = (Inr resp, w')" "u \<noteq> []" "bearerTokenFromMetadata (Some ?md) = Inr t"
      "parseAccessToken (al_jwt L) (env_clock E (tick w)) t (string_bytes (cf_JWTSecret cfg)) = Inr \<lparr>at_UserID = u, at_DeviceID = dev\<rparr>"
    by (rule interceptor_okE [OF run]) (auto simp: publicMethods_def)
  moreover have "token \<noteq> []" using *(3) by (auto simp: bearerTokenFromMetadata_def md_Get_def)
  ultimately show ?thesis using that by simp
qed

text \<open>The user a call with a token is made for, when it is made now.\<close>

definition token_user :: "env \<Rightarrow> auth_libs \<Rightarrow> Config \<Rightarrow> string \<Rightarrow> 'o world \<Rightarrow> string option" where
  "token_user E L cfg token w =
     (case bearerTokenFromMetadata (Some [(''authorization'', [''Bearer '' @ token])]) of
        Inl _ \<Rightarrow> None
      | Inr t \<Rightarrow> (case parseAccessToken (al_jwt L) (env_clock E (tick w)) t (string_bytes (cf_JWTSecret cfg)) of
          Inl _ \<Rightarrow> None | Inr claims \<Rightarrow> Some (at_UserID claims)))"

text \<open>A Sync of the App that succeeds: the run of the handler, and what it leaves on both sides.\<close>

lemma App_Sync_run:
  fixes w w' :: "'o world client"
  assumes ok: "schema_ok (db (cl_remote w))" "vault_ok (abs_db (db (cl_remote w)))"
    and run: "App_Sync (SQLiteStorage M) (client_of E L cfg c token) w = (Inr (), w')"
  obtains u ctx resp where "token_user E L cfg token (cl_remote w) = Some u" and "UserIDFromContext ctx = Some u"
    and "Sync (pg_sync_handler E (al_sha256 L) cfg c (cf_MinioBucket cfg)) ctx (Some (sync_request (ap_SyncState (cl_app w))))
       ((cl_remote w)\<lparr>tick := Suc (tick (cl_remote w))\<rparr>) = (Inr resp, cl_remote w')"
    and "sp_RemoteChanges resp = revisionRowsToProto (take 500 (events_after u (ys_LastRevision (ap_SyncState (cl_app w))) (db (cl_remote w'))))"
    and "schema_ok (db (cl_remote w'))" and "vault_ok (abs_db (db (cl_remote w')))"
    and "ys_LastRevision (local_sync (cl_db w')) = max_revision u (db (cl_remote w'))"
    and "ys_LastRevision (ap_SyncState (cl_app w')) = max_revision u (db (cl_remote w'))" and "ap_DEK (cl_app w') = ap_DEK (cl_app w)"
    and "local_items (cl_db w') = foldl after_event (local_items (cl_db w)) (sp_RemoteChanges resp)"
proof -
  let ?C = "client_of E L cfg c token" and ?req = "sync_request (ap_SyncState (cl_app w))"
  obtain resp s where ans: "tc_Sync ?C ?req (cl_remote w) = (Inr resp, s)" 
    using sqlite.Sync_refused [OF run] by (cases "tc_Sync ?C ?req (cl_remote w)", cases "fst (tc_Sync ?C ?req (cl_remote w))") auto
  have fin: "cl_remote w' = s" "local_sync (cl_db w') = stored_sync (synced resp (ap_SyncState (cl_app w)))"
    "cl_app w' = (cl_app w)\<lparr>ap_SyncState := synced resp (ap_SyncState (cl_app w))\<rparr>"
    "local_items (cl_db w') = foldl after_event (local_items (cl_db w)) (sp_RemoteChanges resp)"
    using sqlite.Sync_answered [OF run ans] by auto
  obtain u dev t where call: "Sync (pg_sync_handler E (al_sha256 L) cfg c (cf_MinioBucket cfg)) (WithAuthContext background u dev) (Some ?req)
       ((cl_remote w)\<lparr>tick := Suc (tick (cl_remote w))\<rparr>) = (Inr resp, s)"
    and u: "u \<noteq> []" and tok: "bearerTokenFromMetadata (Some [(''authorization'', [''Bearer '' @ token])]) = Inr t"
      "parseAccessToken (al_jwt L) (env_clock E (tick (cl_remote w))) t (string_bytes (cf_JWTSecret cfg)) =
        Inr \<lparr>at_UserID = u, at_DeviceID = dev\<rparr>"
    using Sync_call [OF ans] .
  have ctx: "UserIDFromContext (WithAuthContext background u dev) = Some u"
    using u by (simp add: UserIDFromContext_def WithAuthContext_def)
  have ok1: "schema_ok (db ((cl_remote w)\<lparr>tick := Suc (tick (cl_remote w))\<rparr>))" "vault_ok (abs_db (db ((cl_remote w)\<lparr>tick := Suc (tick (cl_remote w))\<rparr>)))"
    using ok by simp_all
  note sent = Sync_ok [OF ok1 call ctx]
  have tu: "token_user E L cfg token (cl_remote w) = Some u" using tok by (simp add: token_user_def)
  show ?thesis
    using that [OF tu ctx, of resp] call sent fin by (simp add: sync_request_def synced_def stored_sync_def)
qed

subsection \<open>Convergence\<close>

text \<open>
  C4. A replica converges. When Sync of a client succeeds and at most 500 events of its user follow the
  revision the client named, the local copy of every item that changed since that revision is the
  item the server holds at the end of the call, deleted items as tombstones; every other local item
  is as before; the revision the client keeps is the highest of the user. The user is the one the
  token of the client names. This holds from every state of the server that satisfies its invariants
  and whatever the client had queued, conflicts included.
\<close>

theorem replica_converges:
  fixes w w' :: "'o world client"
  assumes ok: "schema_ok (db (cl_remote w))" "vault_ok (abs_db (db (cl_remote w)))"
    and run: "App_Sync (SQLiteStorage M) (client_of E L cfg c token) w = (Inr (), w')"
  defines "r0 \<equiv> ys_LastRevision (ap_SyncState (cl_app w))" and "d \<equiv> db (cl_remote w')"
  shows "\<exists>u. token_user E L cfg token (cl_remote w) = Some u \<and>
      (length (events_after u r0 d) \<le> 500 \<longrightarrow>
        ys_LastRevision (local_sync (cl_db w')) = max_revision u d \<and>
        (\<forall>i. local_items (cl_db w') i =
           (if changed_since u r0 d i then map_option client_copy (va_items (abs_db d) (u, i)) else local_items (cl_db w) i)))"
proof -
  obtain u ctx resp where "token_user E L cfg token (cl_remote w) = Some u"
    and "sp_RemoteChanges (resp :: SyncResponse) = revisionRowsToProto (take 500 (events_after u r0 d))" and ok': "schema_ok d" "vault_ok (abs_db d)"
    and "ys_LastRevision (local_sync (cl_db w')) = max_revision u d"
    and "local_items (cl_db w') = foldl after_event (local_items (cl_db w)) (sp_RemoteChanges resp)"
    unfolding r0_def d_def by (rule App_Sync_run [OF ok run])
  then show ?thesis using events_converge [OF ok'] by simp
qed

subsection \<open>A concrete synchronisation\<close>

definition demo_sync_cfg :: Config where
  "demo_sync_cfg = demo_auth_cfg\<lparr>cf_GRPCMaxMessageBytes := 1048576, cf_InlineThresholdBytes := 64\<rparr>"

definition demo_syncer :: "mem_store world Client" where
  "demo_syncer = client_of demo_env demo_libs demo_sync_cfg mem_client demo_bearer"

definition demo_queue :: "mem_store world client" where
  "demo_queue = (demo_client demo_server)\<lparr>cl_app := (cl_app (demo_client demo_server))\<lparr>ap_SyncState := \<lparr>ys_LastRevision = 0,
     ys_PendingOperations = [\<lparr>mp_OperationID = ''op-1'', mp_Type = OpCreate, mp_ItemID = ''item-1'', mp_ExpectedVersion = 0,
       mp_Snapshot = Some demo_snapshot\<rparr>]\<rparr>\<rparr>\<rparr>"

lemma demo_sync_call:
  assumes "tick w < 900000000"
  shows "tc_Sync demo_syncer req w = Sync (pg_sync_handler demo_env (al_sha256 demo_libs) demo_sync_cfg mem_client (cf_MinioBucket demo_sync_cfg)) demo_ctx (Some req) (w\<lparr>tick := Suc (tick w)\<rparr>)"
proof -
  have cfg: "cf_JWTSecret demo_sync_cfg = ''s3cret''" "al_jwt demo_libs = toy_jwt"
    by (simp_all add: demo_sync_cfg_def demo_auth_cfg_def demo_libs_def)
  show ?thesis
    by (simp add: demo_syncer_def GRPCClient_def AuthInterceptor_def stubs_def gophkeeper_def registered_def
        cfg demo_call [OF assms, unfolded append.simps] publicMethods_def)
qed

lemmas app_sync_eval = App_Sync_def demo_sync_call demo_queue_def sync_request_def wire_op_def demo_server_def demo_sync_cfg_def demo_libs_def
  Sync_def read_revisions_def ListRevisionEventsAfter_def sql_events_after_def event_row_def revisionRowsToProto_def toProtoItem_def
  MaxSyncBundleRevisionEvents_def applyEvents.simps applyEvent_def sort_by_def client_eval sync_eval Engine_Create_def vault_eval blob_eval
  blob_demo_defs auth_demo_defs

lemma demo_app_sync:
  "\<exists>resp s w1. tc_Sync demo_syncer (sync_request (ap_SyncState (cl_app demo_queue))) (cl_remote demo_queue) = (Inr resp, s) \<and>
     sp_Conflicts resp = [] \<and> sp_NewServerRevision resp = 1 \<and>
     App_Sync (SQLiteStorage demo_cenv) demo_syncer demo_queue = (Inr (), w1) \<and> length (revision_log (db (cl_remote w1))) = 1"
  by (simp add: app_sync_eval)

theorem client_sync_witness:
  "\<exists>w1. App_Sync (SQLiteStorage demo_cenv) demo_syncer demo_queue = (Inr (), w1) \<and>
     local_sync (cl_db w1) = \<lparr>ys_LastRevision = 1, ys_PendingOperations = []\<rparr>"
proof -
  obtain resp s w1 where ans: "tc_Sync demo_syncer (sync_request (ap_SyncState (cl_app demo_queue))) (cl_remote demo_queue) = (Inr resp, s)"
    and resp: "sp_Conflicts resp = []" "sp_NewServerRevision resp = 1"
    and run: "App_Sync (SQLiteStorage demo_cenv) demo_syncer demo_queue = (Inr (), w1)"
    using demo_app_sync by (elim exE conjE)
  from client_sync [OF run] ans resp run show ?thesis by (simp add: synced_def stored_sync_def)
qed

lemma demo_queue_ok:
  "schema_ok (db (cl_remote demo_queue))" "vault_ok (abs_db (db (cl_remote demo_queue)))"
  by (simp_all add: demo_queue_def demo_client_def demo_server_def auth_demo_defs schema_ok_def vault_ok_def abs_db_def)

theorem replica_converges_witness:
  "\<exists>w1 u. App_Sync (SQLiteStorage demo_cenv) demo_syncer demo_queue = (Inr (), w1) \<and>
     (\<forall>i. changed_since u 0 (db (cl_remote w1)) i \<longrightarrow>
        local_items (cl_db w1) i = map_option client_copy (va_items (abs_db (db (cl_remote w1))) (u, i)))"
proof -
  obtain w1 where run: "App_Sync (SQLiteStorage demo_cenv) demo_syncer demo_queue = (Inr (), w1)"
    and n: "length (revision_log (db (cl_remote w1))) = 1"
    using demo_app_sync by (elim exE conjE)
  have "length (events_after u 0 (db (cl_remote w1))) \<le> 500" for u
    unfolding events_after_def length_map using n by (intro le_trans [OF length_filter_le]) simp
  moreover have "ys_LastRevision (ap_SyncState (cl_app demo_queue)) = 0" by (simp add: demo_queue_def)
  ultimately show ?thesis
    using replica_converges [OF demo_queue_ok run [unfolded demo_syncer_def]] run by auto
qed

end
