(* ===== verification/ClientDevices.thy ===== *)
theory ClientDevices
  imports ClientSync
begin

section \<open>A secret on several devices\<close>

text \<open>
  From the moment a user adds a secret on one device to the moment another device shows it: the edit
  and the queue of the first App, its Sync through the transport, the interceptor and the push of the
  server, the revision log, the Sync of the second App and its decryption.
\<close>

subsection \<open>The log only grows\<close>

lemma vault_step_log: "vault_step s t \<Longrightarrow> r \<in> set (va_log s) \<Longrightarrow> r \<in> set (va_log t)"
  by (induction rule: vault_step.induct) (auto simp: recorded_def)

lemma vault_steps_log: "vault_step\<^sup>*\<^sup>* s t \<Longrightarrow> r \<in> set (va_log s) \<Longrightarrow> r \<in> set (va_log t)"
  by (induction rule: rtranclp_induct) (auto dest: vault_step_log)

lemma max_revision_le:
  assumes "\<forall>r \<in> set (revision_log d). rl_RevisionID r \<le> n"
  shows "max_revision u d \<le> n"
proof -
  have "foldr max xs 0 \<le> n" if "\<forall>x \<in> set xs. x \<le> n" for xs :: "u64 list"
    using that by (induction xs) auto
  then show ?thesis unfolding max_revision_def using assms by auto
qed

subsection \<open>Pushing a new item\<close>

text \<open>A payload that stays inline is stored as it was sent.\<close>

lemma snapshot_inline:
  assumes "snapshot_payload (pg_sync_handler E sha cfg c bucket) u sn w = (Inr p, w1)" and "TrimSpace (vs_BlobId sn) = []"
    and "word_of_nat (blen (GetCiphertext (vs_Payload sn))) \<le> cf_InlineThresholdBytes cfg"
  shows "p = (GetCiphertext (vs_Payload sn), GetNonce (vs_Payload sn), None, None)"
  using assms
  by (auto simp: snapshot_payload_def pg_sync_handler_def resolveVaultPayload_def Let_def throw_def guard_def ret_def split: option.splits if_splits)

text \<open>The item a snapshot becomes.\<close>

definition item_of_snapshot :: "string \<Rightarrow> string \<Rightarrow> VaultItemSnapshot \<Rightarrow> int \<Rightarrow> time \<Rightarrow> Item" where
  "item_of_snapshot i u sn ty now = new_item i u (create_input ty (vs_Title sn) (vs_Metadata sn)
     (GetCiphertext (vs_Payload sn), GetNonce (vs_Payload sn), None, None)) now"

lemma apply_create:
  fixes w :: "'o world"
  assumes ok: "schema_ok (db w)" and op: "pe_OperationType op = OpCreate" "pe_Snapshot op = Some sn"
    and inline: "TrimSpace (vs_BlobId sn) = []" "word_of_nat (blen (GetCiphertext (vs_Payload sn))) \<le> cf_InlineThresholdBytes cfg"
    and new: "va_ops (abs_db (db w)) (u, TrimSpace (pe_OperationId op)) = None"
    and run: "applyPendingOperation (pg_sync_handler E sha cfg c bucket) u op (Some (time_Now E)) w = (Inr r, w')"
  obtains i ty now en where "va_items (abs_db (db w')) (u, i) = Some (item_of_snapshot i u sn ty now)"
    and "en \<in> set (revision_log (db w'))" and "rl_UserID en = u" and "rl_ItemID en = i"
    and "\<forall>x \<in> set (revision_log (db w')). rl_RevisionID x \<le> rl_RevisionID en" and "\<exists>a. r = Accepted a"
proof -
  let ?h = "pg_sync_handler E sha cfg c bucket" and ?oid = "TrimSpace (pe_OperationId op)"
  have "pushCreate ?h u ?oid op (Some (time_Now E)) w = (Inr r, w')"
    using run op by (auto simp: applyPendingOperation_def Let_def elim: guard_okE)
  then obtain ty where "andthen (snapshot_payload ?h u sn) (\<lambda>p.
     handle (in_tx E (Engine_Create (pg_engine E) u ?oid (create_input ty (vs_Title sn) (vs_Metadata sn) p)))
       (\<lambda>e. throw (mapPushEngineError ?oid e))
       (\<lambda>out. ret (accepted ?oid (co_ItemID out) (co_Version out) (co_ServerRevision out)))) w = (Inr r, w')"
    unfolding pushCreate_def pg_sync_handler_sel WithVaultEngineTx_time_Now op(2)
    by (auto simp: check_snapshot_def guard_def throw_def split: option.splits if_splits)
  then obtain p out and w1 w2 :: "'o world" where p: "snapshot_payload ?h u sn w = (Inr p, w1)"
    and tx: "in_tx E (Engine_Create (pg_engine E) u ?oid (create_input ty (vs_Title sn) (vs_Metadata sn) p)) w1 = (Inr out, w2)"
    and r: "r = accepted ?oid (co_ItemID out) (co_Version out) (co_ServerRevision out)" "w' = w2"
    by (auto elim!: andthen_okE handle_okE simp: ret_def)
  note p' = snapshot_inline [OF p inline]
  have w1: "schema_ok (db w1)" "abs_db (db w1) = abs_db (db w)"
    using keepsD [OF keeps_snapshot_payload(1) _ p, of "abs_db (db w)"] ok by (simp_all add: still_def)
  from tx obtain w3 w4 :: "'o world" where en: "Engine_Create (pg_engine E) u ?oid (create_input ty (vs_Title sn) (vs_Metadata sn) p) w3 = (Inr out, w4)"
    and dbs: "db w3 = db w1" "db w2 = db w4" by (rule in_tx_ok) (rule that)
  have w3: "schema_ok (db w3)" "va_ops (abs_db (db w3)) (u, ?oid) = None" using dbs w1 new by simp_all
  obtain i now e where fin: "abs_db (db w4) = recorded u ?oid (item_of_snapshot i u sn ty now) e (abs_db (db w3))"
    and e: "entry_for u ?oid (item_of_snapshot i u sn ty now) ChangeTypeCreated (abs_db (db w3)) e"
    using wp_okD [OF pg.Create_ok [OF w3(1)] en] w3(2)
    by (auto simp: pg.replayed_def pg.performed_def item_of_snapshot_def p' simp del: abs_db_sel)
  have id: "it_ItemID (item_of_snapshot i u sn ty now) = i" by (simp add: item_of_snapshot_def new_item_def)
  have d: "abs_db (db w') = recorded u ?oid (item_of_snapshot i u sn ty now) e (abs_db (db w3))" using fin dbs(2) r(2) by simp
  have log: "revision_log (db w') = revision_log (db w3) @ [e]"
    using arg_cong [OF d, of va_log] by (simp add: recorded_def)
  show ?thesis
  proof (rule that)
    show "va_items (abs_db (db w')) (u, i) = Some (item_of_snapshot i u sn ty now)" unfolding d by (simp add: recorded_def id)
    show "e \<in> set (revision_log (db w'))" "\<forall>x \<in> set (revision_log (db w')). rl_RevisionID x \<le> rl_RevisionID e"
      using e by (auto simp: log entry_for_def less_imp_le)
    show "rl_UserID e = u" "rl_ItemID e = i" using e id by (simp_all add: entry_for_def)
    show "\<exists>a. r = Accepted a" using r(1) by (simp add: accepted_def)
  qed
qed

lemma Sync_create:
  fixes w :: "'o world"
  assumes ok: "schema_ok (db w)" and u: "UserIDFromContext ctx = Some u"
    and req: "sr_PendingOperations req = [Some op]" and op: "pe_OperationType op = OpCreate" "pe_Snapshot op = Some sn"
    and inline: "TrimSpace (vs_BlobId sn) = []" "word_of_nat (blen (GetCiphertext (vs_Payload sn))) \<le> cf_InlineThresholdBytes cfg"
    and new: "va_ops (abs_db (db w)) (u, TrimSpace (pe_OperationId op)) = None"
    and run: "Sync (pg_sync_handler E sha cfg c bucket) ctx (Some req) w = (Inr resp, w')"
  obtains i ty now en where "va_items (abs_db (db w')) (u, i) = Some (item_of_snapshot i u sn ty now)"
    and "en \<in> set (revision_log (db w'))" and "rl_UserID en = u" and "rl_ItemID en = i"
    and "max_revision u (db w') \<le> rl_RevisionID en"
proof -
  from run u obtain acc confl p and w1 :: "'o world" where push: "runPushOperations (pg_sync_handler E sha cfg c bucket) u (sr_PendingOperations req) w = (Inr (acc, confl), w1)"
    and rd: "WithRevisionSnapshotRead (Some E) (read_revisions u (sr_ClientRevision req) MaxSyncBundleRevisionEvents) w1 = (Inr p, w')"
    by (auto simp: Sync_def with_user_def ret_def elim!: andthen_okE handle_okE)
  from push obtain r where "applyPendingOperation (pg_sync_handler E sha cfg c bucket) u op (Some (time_Now E)) w = (Inr r, w1)"
    by (auto simp: runPushOperations_def req ret_def elim!: andthen_okE split: push_result.splits)
  then obtain i ty now en where "va_items (abs_db (db w1)) (u, i) = Some (item_of_snapshot i u sn ty now)"
    and "en \<in> set (revision_log (db w1))" and "rl_UserID en = u" and "rl_ItemID en = i"
    and "\<forall>x \<in> set (revision_log (db w1)). rl_RevisionID x \<le> rl_RevisionID en"
    by (rule apply_create [OF ok op inline new])
  moreover have "db w' = db w1" using keepsD [OF keeps_snapshot_read(1) _ rd, of "\<lambda>d. d = db w1"] by simp
  ultimately show ?thesis using that max_revision_le by metis
qed

subsection \<open>From the edit to the wire\<close>

text \<open>A field that decrypts still does in the client's copy of the item.\<close>

lemma opens_copy:
  assumes "opens K dek f p"
  shows "decrypt_field K dek (stored_field (Some \<lparr>ef_Ciphertext = GetCiphertext f, ef_Nonce = GetNonce f\<rparr>)) = Inr p"
proof -
  have "stored_field (Some \<lparr>ef_Ciphertext = GetCiphertext f, ef_Nonce = GetNonce f\<rparr>) = stored_field f"
    by (simp add: stored_field_def GetCiphertext_def GetNonce_def)
  with assms show ?thesis by (simp add: opens_def)
qed

lemma copy_decrypts:
  assumes "ap_DEK (cl_app w) \<noteq> []" and "opens K (ap_DEK (cl_app w)) (vs_Title sn) t"
    and "opens K (ap_DEK (cl_app w)) (vs_Metadata sn) m" and "opens K (ap_DEK (cl_app w)) (vs_Payload sn) p"
  shows "DecryptItem K (client_copy (item_of_snapshot i u sn ty now)) w = (Inr (t, m, p), w)"
  using assms opens_copy
  by (simp add: DecryptItem_def with_dek_def andthen_def handle_def get_app_def guard_def lift_def ret_def client_copy_def
      item_of_snapshot_def new_item_def create_input_def stored_item_def)

subsection \<open>A payload above the threshold\<close>

text \<open>
  The server moves a payload above the inline threshold to a blob and stores the item without its
  ciphertext and without its nonce; the client drops the blob id when it applies the event. No device
  that receives the item can decrypt it.
\<close>

lemma spill_blob_answer:
  fixes w :: "'o world"
  assumes "spill_blob E sha r s now u ct w = (Inr p, w1)"
  obtains blobId where "p = (None, None, Some blobId, Some (sha ct))"
proof -
  obtain x and v v' :: "'o world" where "ret (None, None, Some x, Some (sha ct)) v = (Inr p :: go_error + payload, v')"
    using assms [unfolded spill_blob_def]
    apply (elim andthen_okE)
    apply (erule handle_okE, simp)
    apply (elim andthen_okE)
    apply (erule handle_okE, simp)
    apply (rule that)
    apply assumption
    done
  then show ?thesis by (intro that [of x]) (simp add: ret_def)
qed

lemma snapshot_spilled:
  assumes "snapshot_payload (pg_sync_handler E sha cfg c bucket) u sn w = (Inr p, w1)" and "TrimSpace (vs_BlobId sn) = []"
    and "cf_InlineThresholdBytes cfg < word_of_nat (blen (GetCiphertext (vs_Payload sn)))"
  obtains blobId enc where "p = (None, None, Some blobId, enc)"
proof -
  have "spill_blob E sha (NewBlobRepository E) (NewObjectStorage c bucket) (time_Now E) u (bytes_of (GetCiphertext (vs_Payload sn))) w = (Inr p, w1)"
    using assms by (auto simp: snapshot_payload_def pg_sync_handler_def resolveVaultPayload_def Let_def throw_def guard_def
        split: option.splits if_splits)
  then show ?thesis by (rule spill_blob_answer) (rule that)
qed

lemma oversized_secret_lost:
  assumes "snapshot_payload (pg_sync_handler E sha cfg c bucket) u sn w = (Inr p, w1)" and "TrimSpace (vs_BlobId sn) = []"
    and "cf_InlineThresholdBytes cfg < word_of_nat (blen (GetCiphertext (vs_Payload sn)))"
  shows "mi_Payload (client_copy (new_item i u (create_input ty (vs_Title sn) (vs_Metadata sn) p) now)) = None \<and>
    mi_BlobID (client_copy (new_item i u (create_input ty (vs_Title sn) (vs_Metadata sn) p) now)) = [] \<and>
    isl (fst (DecryptItem K (client_copy (new_item i u (create_input ty (vs_Title sn) (vs_Metadata sn) p) now)) v))"
proof -
  from snapshot_spilled [OF assms] obtain blobId enc where "p = (None, None, Some blobId, enc)" .
  then have "mi_Payload (client_copy (new_item i u (create_input ty (vs_Title sn) (vs_Metadata sn) p) now)) = None"
    "mi_BlobID (client_copy (new_item i u (create_input ty (vs_Title sn) (vs_Metadata sn) p) now)) = []"
    by (simp_all add: client_copy_def new_item_def create_input_def stored_item_def stored_field_def read_field_def GetCiphertext_def
        GetNonce_def blen_def)
  then show ?thesis
    by (auto simp: DecryptItem_def decrypt_field_def with_dek_def andthen_def handle_def get_app_def guard_def lift_def throw_def
        ret_def split: sum.splits option.splits)
qed

subsection \<open>From one device to another\<close>

text \<open>
  C1. A small secret reaches every device of its owner. Device A, unlocked and with an empty queue, adds a
  secret whose encrypted payload fits the inline threshold of the server, and synchronises; then, after
  any further history of the server, device B with a token of the same user synchronises, having seen
  less than A and with at most 500 events ahead. Then the server holds the secret as an item of the
  user once A's Sync has returned, the item being one that decrypts under A's key to the title, metadata
  and payload that were given; B ends with a copy of whatever the server now holds for that item; and
  if nobody has changed it since and B is unlocked with the same key, B's local item decrypts to the
  same title, metadata and payload. The operation id, which A draws at random, must be one the user
  has not used. The limits are those of the program: a secret above the threshold arrives without its
  payload (\<open>oversized_secret_lost\<close>), and of more than 500 events the later ones are never fetched
  (\<open>sync_bundle\<close>).
\<close>

theorem secret_reaches_every_device:
  fixes a b :: "'o world client"
  assumes lib: "rand_ok M" "aead_ok K"
    and add: "AddItem M K (SQLiteStorage M) ty title metadata payload blobId a = (Inr (), a1)"
    and idle: "ys_PendingOperations (ap_SyncState (cl_app a)) = []"
    and small: "length payload + 16 \<le> unat (cf_InlineThresholdBytes cfg)"
    and users: "token_user E L cfg tokenA (cl_remote a1) = Some u" "token_user E L cfg tokenB (cl_remote b) = Some u"
    and fresh: "\<forall>op \<in> set (ys_PendingOperations (ap_SyncState (cl_app a1))).
      va_ops (abs_db (db (cl_remote a1))) (u, TrimSpace (mp_OperationID op)) = None"
    and ok: "schema_ok (db (cl_remote a1))" "vault_ok (abs_db (db (cl_remote a1)))"
    and syncA: "App_Sync (SQLiteStorage M) (client_of E L cfg c tokenA) a1 = (Inr (), a2)"
    and later: "schema_ok (db (cl_remote b))" "vault_step\<^sup>*\<^sup>* (abs_db (db (cl_remote a2))) (abs_db (db (cl_remote b)))"
    and behind: "ys_LastRevision (ap_SyncState (cl_app b)) < ys_LastRevision (ap_SyncState (cl_app a2))"
    and syncB: "App_Sync (SQLiteStorage M') (client_of E L cfg c tokenB) b = (Inr (), b1)"
    and few: "length (events_after u (ys_LastRevision (ap_SyncState (cl_app b))) (db (cl_remote b1))) \<le> 500"
  shows "\<exists>i it. va_items (abs_db (db (cl_remote a2))) (u, i) = Some it \<and>
      DecryptItem K (client_copy it) a2 = (Inr (title, metadata, payload), a2) \<and>
      local_items (cl_db b1) i = map_option client_copy (va_items (abs_db (db (cl_remote b1))) (u, i)) \<and>
      (va_items (abs_db (db (cl_remote b1))) (u, i) = Some it \<and> ap_DEK (cl_app b) = ap_DEK (cl_app a) \<longrightarrow>
        (\<exists>m. local_items (cl_db b1) i = Some m \<and> DecryptItem K m b1 = (Inr (title, metadata, payload), b1)))"
proof -
  have edit: "run_edit M K (SQLiteStorage M) (Add ty title metadata payload blobId) a = (Inr (), a1)" using add by simp
  obtain op where ed: "edited K (ap_DEK (cl_app a)) (Add ty title metadata payload blobId) (local_items (cl_db a)) (local_items (cl_db a1)) op"
    and app: "cl_app a1 = (cl_app a)\<lparr>ap_SyncState := (ap_SyncState (cl_app a))\<lparr>ys_PendingOperations :=
       ys_PendingOperations (ap_SyncState (cl_app a)) @ [op]\<rparr>\<rparr>"
    using sqlite.run_edit_ok [OF lib edit] by metis
  have dek: "ap_DEK (cl_app a) \<noteq> []" using add by (auto simp: AddItem_def elim: with_dek_okE)
  from ed obtain x where x: "mp_Snapshot op = Some (snapshot_of x)" "mp_Type op = OpCreate"
    and fields: "opens K (ap_DEK (cl_app a)) (vs_Title (snapshot_of x)) title"
      "opens K (ap_DEK (cl_app a)) (vs_Metadata (snapshot_of x)) metadata"
      "opens K (ap_DEK (cl_app a)) (vs_Payload (snapshot_of x)) payload"
    by (auto simp: snapshot_of_def)
  have queue: "ys_PendingOperations (ap_SyncState (cl_app a1)) = [op]" using app idle by simp
  have len: "blen (GetCiphertext (vs_Payload (snapshot_of x))) = length payload + 16" using fields(3) by (simp add: opens_def)
  have inline: "TrimSpace (vs_BlobId (snapshot_of x)) = []"
    "word_of_nat (blen (GetCiphertext (vs_Payload (snapshot_of x)))) \<le> cf_InlineThresholdBytes cfg"
  proof -
    show "word_of_nat (blen (GetCiphertext (vs_Payload (snapshot_of x)))) \<le> cf_InlineThresholdBytes cfg"
      unfolding len word_le_nat_alt unsigned_of_nat of_nat_id by (rule le_trans [OF take_bit_nat_less_eq_self small])
  qed (simp add: snapshot_of_def)

  obtain uA ctx resp where uA: "token_user E L cfg tokenA (cl_remote a1) = Some uA" "UserIDFromContext ctx = Some uA"
    and call: "Sync (pg_sync_handler E (al_sha256 L) cfg c (cf_MinioBucket cfg)) ctx (Some (sync_request (ap_SyncState (cl_app a1))))
       ((cl_remote a1)\<lparr>tick := Suc (tick (cl_remote a1))\<rparr>) = (Inr resp, cl_remote a2)"
    and okA: "vault_ok (abs_db (db (cl_remote a2)))"
    and revA: "ys_LastRevision (ap_SyncState (cl_app a2)) = max_revision uA (db (cl_remote a2))"
    and dekA: "ap_DEK (cl_app a2) = ap_DEK (cl_app a1)"
    by (rule App_Sync_run [OF ok syncA])
  have uA': "uA = u" using uA users by simp
  obtain i ty' now en where it: "va_items (abs_db (db (cl_remote a2))) (u, i) = Some (item_of_snapshot i u (snapshot_of x) ty' now)"
    and en: "en \<in> set (revision_log (db (cl_remote a2)))" "rl_UserID en = u" "rl_ItemID en = i"
    and rev: "max_revision u (db (cl_remote a2)) \<le> rl_RevisionID en"
    by (rule Sync_create [OF _ uA(2) [unfolded uA'] _ _ _ inline _ call, of "wire_op op"])
       (use ok queue x fresh in \<open>simp_all add: sync_request_def wire_op_def\<close>)

  obtain uB ctxB respB where uB: "token_user E L cfg tokenB (cl_remote b) = Some uB"
    and callB: "Sync (pg_sync_handler E (al_sha256 L) cfg c (cf_MinioBucket cfg)) ctxB (Some (sync_request (ap_SyncState (cl_app b))))
       ((cl_remote b)\<lparr>tick := Suc (tick (cl_remote b))\<rparr>) = (Inr respB, cl_remote b1)"
    and evs: "sp_RemoteChanges respB = revisionRowsToProto (take 500 (events_after uB (ys_LastRevision (ap_SyncState (cl_app b))) (db (cl_remote b1))))"
    and okB: "schema_ok (db (cl_remote b1))" "vault_ok (abs_db (db (cl_remote b1)))"
    and dekB: "ap_DEK (cl_app b1) = ap_DEK (cl_app b)"
    and items: "local_items (cl_db b1) = foldl after_event (local_items (cl_db b)) (sp_RemoteChanges respB)"
    by (rule App_Sync_run [OF later(1) vault_steps_ok [OF later(2) okA] syncB])
  have "advanced (abs_db (db (cl_remote b))) (db (cl_remote b1))"
    using keepsD [OF keeps_sync_rpc(1) _ callB, of "abs_db (db (cl_remote b))"] later(1) by (simp add: advanced_def)
  with later(2) have "vault_step\<^sup>*\<^sup>* (abs_db (db (cl_remote a2))) (abs_db (db (cl_remote b1)))"
    by (auto simp: advanced_def)
  from vault_steps_log [OF this, of en] en(1) have "en \<in> set (revision_log (db (cl_remote b1)))" by simp
  then have "changed_since u (ys_LastRevision (ap_SyncState (cl_app b))) (db (cl_remote b1)) i"
    using en rev revA uA' behind by (auto simp: changed_since_def)
  then have copy: "local_items (cl_db b1) i = map_option client_copy (va_items (abs_db (db (cl_remote b1))) (u, i))"
    using events_converge [OF okB] items evs few uB users(2) by simp
  have "DecryptItem K (client_copy (item_of_snapshot i u (snapshot_of x) ty' now)) w = (Inr (title, metadata, payload), w)"
    if "ap_DEK (cl_app w) = ap_DEK (cl_app a)" for w :: "'o world client"
    using copy_decrypts [of w] that dek fields by simp
  moreover have "ap_DEK (cl_app a2) = ap_DEK (cl_app a)" using dekA app by simp
  ultimately show ?thesis using it copy dekB
    by (intro exI [of _ i] exI [of _ "item_of_snapshot i u (snapshot_of x) ty' now"]) simp
qed

subsection \<open>Two devices, concretely\<close>

definition demo_sealed :: "byte \<Rightarrow> byte \<Rightarrow> EncryptedField option" where
  "demo_sealed p t = Some \<lparr>ef_Ciphertext = Some (replicate 16 1 @ [p]), ef_Nonce = Some (replicate 24 t)\<rparr>"

definition demo_op :: ModelPendingOperation where
  "demo_op = \<lparr>mp_OperationID = ''op-04040404'', mp_Type = OpCreate, mp_ItemID = ''item-03030303'', mp_ExpectedVersion = 0,
     mp_Snapshot = Some \<lparr>vs_ItemType = 1, vs_Title = demo_sealed 10 0, vs_Metadata = demo_sealed 11 1,
       vs_Payload = demo_sealed 12 2, vs_BlobId = []\<rparr>\<rparr>"

definition demo_server_after :: "mem_store world" where
  "demo_server_after = demo_server\<lparr>tick := 13, db := (db demo_server)\<lparr>
     vault_items := [\<lparr>it_ItemID = ''id-4'', it_UserID = ''u1'', it_ItemType = 1,
       it_TitleCiphertext = GetCiphertext (demo_sealed 10 0), it_TitleNonce = GetNonce (demo_sealed 10 0),
       it_MetadataCiphertext = GetCiphertext (demo_sealed 11 1), it_MetadataNonce = GetNonce (demo_sealed 11 1),
       it_PayloadCiphertext = GetCiphertext (demo_sealed 12 2), it_PayloadNonce = GetNonce (demo_sealed 12 2),
       it_BlobID = None, it_Version = 1, it_Checksum = None, it_CreatedAt = 3, it_UpdatedAt = 3, it_DeletedAt = None\<rparr>],
     revision_log := [\<lparr>rl_RevisionID = 1, rl_UserID = ''u1'', rl_OperationID = Some ''op-04040404'', rl_ItemID = ''id-4'',
       rl_ChangeType = ChangeTypeCreated, rl_ItemVersion = 1, rl_ChangedAt = 6\<rparr>],
     revision_seq := 1,
     processed_operations := [\<lparr>po_UserID = ''u1'', po_OperationID = ''op-04040404'', po_ItemID = ''id-4'', po_RevisionID = 1\<rparr>]\<rparr>\<rparr>"

text \<open>A response with one created item, which any client without faults applies.\<close>

definition one_creation :: "SyncResponse \<Rightarrow> bool" where
  "one_creation resp \<longleftrightarrow> sp_Conflicts resp = [] \<and> sp_NewServerRevision resp = 1 \<and>
     (\<exists>ev it. sp_RemoteChanges resp = [ev] \<and> ev_ChangeType ev = ChangeTypeCreated \<and> ev_Item ev = Some it \<and> vi_Version it = 1 \<and>
        vi_ItemId it = ''id-4'')"

lemma demo_adds:
  "\<exists>a1. AddItem demo_cenv toy_crypto (SQLiteStorage demo_cenv) 1 [10] [11] [12] [] (demo_client demo_server) = (Inr (), a1) \<and>
     ap_SyncState (cl_app a1) = \<lparr>ys_LastRevision = 0, ys_PendingOperations = [demo_op]\<rparr> \<and> cl_remote a1 = demo_server \<and>
     local_items (cl_db a1) ''item-03030303'' \<noteq> None"
  by (simp add: client_eval item_row_of_def pending_row_of_def demo_op_def demo_sealed_def local_items_def)

lemma demo_sends:
  "\<exists>resp. tc_Sync demo_syncer (sync_request \<lparr>ys_LastRevision = 0, ys_PendingOperations = [demo_op]\<rparr>) demo_server =
     (Inr resp, demo_server_after) \<and> one_creation resp"
  by (simp add: app_sync_eval demo_op_def demo_sealed_def demo_server_after_def one_creation_def)

lemma demo_receives:
  "\<exists>resp s. tc_Sync demo_syncer (sync_request \<lparr>ys_LastRevision = 0, ys_PendingOperations = []\<rparr>) demo_server_after = (Inr resp, s) \<and>
     one_creation resp \<and> db s = db demo_server_after"
  by (simp add: app_sync_eval demo_sealed_def demo_server_after_def one_creation_def)

lemma demo_applies:
  assumes "tc_Sync C (sync_request (ap_SyncState (cl_app w))) (cl_remote w) = (Inr resp, s)" and "one_creation resp"
  obtains w' where "App_Sync (SQLiteStorage demo_cenv) C w = (Inr (), w')" and "cl_remote w' = s"
    and "ys_LastRevision (ap_SyncState (cl_app w')) = 1" and "\<exists>m. local_items (cl_db w') = (local_items (cl_db w))(''id-4'' \<mapsto> m)"
proof -
  have "\<exists>w'. App_Sync (SQLiteStorage demo_cenv) C w = (Inr (), w')"
    using assms
    by (cases "ap_SyncState (cl_app w)")
       (auto simp: one_creation_def App_Sync_def sync_request_def applyEvent_def prog_defs Let_def get_app_def set_app_def
         remote_def Upsert_def exec_def sql_upsert_item_def SaveSync_def local_tx_def save_sync_body_def sql_save_revision_def
         bigint_ok_def demo_cenv_def)
  then obtain w' where run: "App_Sync (SQLiteStorage demo_cenv) C w = (Inr (), w')" by (elim exE)
  with sqlite.Sync_answered [OF run assms(1)] assms(2) show ?thesis
    by (intro that [OF run]) (auto simp: one_creation_def synced_def after_event_def)
qed

text \<open>
  The first device keeps the secret twice: under the id it drew itself and under the id the server gave
  it. The stored items are not reconciled with the results of the push.
\<close>

lemma added_item_twice:
  "\<exists>a1 a2. AddItem demo_cenv toy_crypto (SQLiteStorage demo_cenv) 1 [10] [11] [12] [] (demo_client demo_server) = (Inr (), a1) \<and>
     App_Sync (SQLiteStorage demo_cenv) demo_syncer a1 = (Inr (), a2) \<and>
     local_items (cl_db a2) ''item-03030303'' \<noteq> None \<and> local_items (cl_db a2) ''id-4'' \<noteq> None \<and>
     find (item_key ''u1'' ''item-03030303'') (vault_items (db (cl_remote a2))) = None"
proof -
  obtain a1 where add: "AddItem demo_cenv toy_crypto (SQLiteStorage demo_cenv) 1 [10] [11] [12] [] (demo_client demo_server) = (Inr (), a1)"
    and a1: "ap_SyncState (cl_app a1) = \<lparr>ys_LastRevision = 0, ys_PendingOperations = [demo_op]\<rparr>" "cl_remote a1 = demo_server"
    and own: "local_items (cl_db a1) ''item-03030303'' \<noteq> None"
    using demo_adds by (elim exE conjE)
  obtain resp where "tc_Sync demo_syncer (sync_request (ap_SyncState (cl_app a1))) (cl_remote a1) = (Inr resp, demo_server_after)"
    and "one_creation resp" using demo_sends unfolding a1 by (elim exE conjE)
  then obtain a2 where "App_Sync (SQLiteStorage demo_cenv) demo_syncer a1 = (Inr (), a2)" and "cl_remote a2 = demo_server_after"
    and "\<exists>m. local_items (cl_db a2) = (local_items (cl_db a1))(''id-4'' \<mapsto> m)" by (rule demo_applies)
  with add own show ?thesis by (auto simp: demo_server_after_def item_key_def)
qed

lemma demo_token_user:
  assumes "tick w < 900000000"
  shows "token_user demo_env demo_libs demo_sync_cfg demo_bearer w = Some ''u1''"
proof -
  have "bearerTokenFromMetadata (Some [(''authorization'', [''Bearer '' @ demo_bearer])]) = Inr demo_bearer"
    using bearer_accepted [of demo_bearer] by (simp add: bearer_md_def is_graphic_def)
  moreover have "parseAccessToken toy_jwt (int (tick w)) demo_bearer (string_bytes ''s3cret'') = Inr \<lparr>at_UserID = ''u1'', at_DeviceID = ''d1''\<rparr>"
    using assms by (intro demo_parse) simp
  ultimately show ?thesis by (simp add: token_user_def demo_sync_cfg_def demo_auth_cfg_def demo_libs_def demo_env_def)
qed

theorem secret_reaches_every_device_witness:
  "\<exists>a1 a2 b1 i m. AddItem demo_cenv toy_crypto (SQLiteStorage demo_cenv) 1 [10] [11] [12] [] (demo_client demo_server) = (Inr (), a1) \<and>
     App_Sync (SQLiteStorage demo_cenv) demo_syncer a1 = (Inr (), a2) \<and>
     App_Sync (SQLiteStorage demo_cenv) demo_syncer (demo_client (cl_remote a2)) = (Inr (), b1) \<and>
     local_items (cl_db b1) i = Some m \<and> DecryptItem toy_crypto m b1 = (Inr ([10], [11], [12]), b1)"
proof -
  obtain a1 where add: "AddItem demo_cenv toy_crypto (SQLiteStorage demo_cenv) 1 [10] [11] [12] [] (demo_client demo_server) = (Inr (), a1)"
    and a1: "ap_SyncState (cl_app a1) = \<lparr>ys_LastRevision = 0, ys_PendingOperations = [demo_op]\<rparr>" "cl_remote a1 = demo_server"
    using demo_adds by (elim exE conjE)
  obtain resp where "tc_Sync demo_syncer (sync_request (ap_SyncState (cl_app a1))) (cl_remote a1) = (Inr resp, demo_server_after)"
    and "one_creation resp" using demo_sends unfolding a1 by (elim exE conjE)
  then obtain a2 where syncA: "App_Sync (SQLiteStorage demo_cenv) demo_syncer a1 = (Inr (), a2)"
    and a2: "cl_remote a2 = demo_server_after" "ys_LastRevision (ap_SyncState (cl_app a2)) = 1" by (rule demo_applies)
  let ?b = "demo_client (cl_remote a2)"
  have b: "ap_SyncState (cl_app ?b) = \<lparr>ys_LastRevision = 0, ys_PendingOperations = []\<rparr>" "cl_remote ?b = demo_server_after"
    by (simp_all add: demo_client_def a2)
  obtain resp' s where "tc_Sync demo_syncer (sync_request (ap_SyncState (cl_app ?b))) (cl_remote ?b) = (Inr resp', s)"
    and one: "one_creation resp'" and s: "db s = db demo_server_after" using demo_receives unfolding b by (elim exE conjE)
  from this(1,2) obtain b1 where syncB: "App_Sync (SQLiteStorage demo_cenv) demo_syncer ?b = (Inr (), b1)" and b1: "cl_remote b1 = s"
    by (rule demo_applies)
  have len: "length (events_after u r (db (cl_remote b1))) \<le> 500" for u r
    by (simp add: events_after_def b1 s demo_server_after_def le_trans [OF length_filter_le])
  have ok: "schema_ok (db (cl_remote a1))" "vault_ok (abs_db (db (cl_remote a1)))"
    using demo_queue_ok by (simp_all add: a1 demo_queue_def demo_client_def)
  have okA: "schema_ok (db (cl_remote ?b))"
    by (rule App_Sync_run [OF ok syncA [unfolded demo_syncer_def]]) (simp add: demo_client_def)
  have ex: "\<exists>i it. va_items (abs_db (db (cl_remote a2))) (''u1'', i) = Some it \<and>
      DecryptItem toy_crypto (client_copy it) a2 = (Inr ([10], [11], [12]), a2) \<and>
      local_items (cl_db b1) i = map_option client_copy (va_items (abs_db (db (cl_remote b1))) (''u1'', i)) \<and>
      (va_items (abs_db (db (cl_remote b1))) (''u1'', i) = Some it \<and> ap_DEK (cl_app ?b) = ap_DEK (cl_app (demo_client demo_server)) \<longrightarrow>
        (\<exists>m. local_items (cl_db b1) i = Some m \<and> DecryptItem toy_crypto m b1 = (Inr ([10], [11], [12]), b1)))"
    by (rule secret_reaches_every_device [OF demo_cenv_ok toy_crypto_ok add _ _ demo_token_user demo_token_user _ ok
          syncA [unfolded demo_syncer_def] okA _ _ syncB [unfolded demo_syncer_def] len])
       (simp_all add: a1 a2 demo_client_def demo_server_def demo_server_after_def demo_sync_cfg_def auth_demo_defs)
  then show ?thesis using add syncA syncB by (auto simp: a2 b1 s demo_client_def)
qed

end
