(* ===== verification/ClientPayload.thy ===== *)
theory ClientPayload
  imports ClientApp
begin

section \<open>Payloads of typed secrets (\<open>internal/client/model/payload.go\<close>)\<close>

text \<open>
  The payload structs and \<open>EncodePayload\<close>. Of \<open>encoding/json\<close> the part the client uses is modelled: a
  struct of strings, its members in the order of the fields under the names of their tags, and the
  escaping of strings as \<open>json.Marshal\<close> does it (HTML characters, control characters, the two
  Unicode line separators; a byte that does not belong to a UTF-8 sequence becomes the replacement
  character). A Go string is its bytes. A reader for such objects states that nothing is lost.
\<close>

subsection \<open>UTF-8\<close>

definition between :: "nat \<Rightarrow> char \<Rightarrow> nat \<Rightarrow> bool" where
  "between lo c hi \<longleftrightarrow> lo \<le> of_char c \<and> of_char c \<le> hi"

text \<open>The length of the sequence \<open>utf8.DecodeRuneInString\<close> accepts at the start of a string, 0 when
  it reports an invalid one.\<close>

fun rune_len :: "string \<Rightarrow> nat" where
  "rune_len [] = 0"
| "rune_len (c # s) =
     (if between 0 c 127 then 1
      else if between 194 c 223 then
        (case s of b # _ \<Rightarrow> if between 128 b 191 then 2 else 0 | _ \<Rightarrow> 0)
      else if between 224 c 239 then
        (case s of b1 # b2 # _ \<Rightarrow>
           if between (if of_char c = (224 :: nat) then 160 else 128) b1 (if of_char c = (237 :: nat) then 159 else 191)
              \<and> between 128 b2 191 then 3 else 0
         | _ \<Rightarrow> 0)
      else if between 240 c 244 then
        (case s of b1 # b2 # b3 # _ \<Rightarrow>
           if between (if of_char c = (240 :: nat) then 144 else 128) b1 (if of_char c = (244 :: nat) then 143 else 191)
              \<and> between 128 b2 191 \<and> between 128 b3 191 then 4 else 0
         | _ \<Rightarrow> 0)
      else 0)"

function valid_utf8 :: "string \<Rightarrow> bool" where
  "valid_utf8 s = (if s = [] then True else if rune_len s = 0 then False else valid_utf8 (drop (rune_len s) s))"
  by auto
termination
  by (relation "measure length") auto

declare valid_utf8.simps [simp del] rune_len.simps(2) [simp del]

subsection \<open>Strings in JSON\<close>

abbreviation backslash :: char where
  "backslash \<equiv> CHR 0x5C"

abbreviation dquote :: char where
  "dquote \<equiv> CHR 0x22"

definition json_ascii :: "char \<Rightarrow> string" where
  "json_ascii c =
     (if c = dquote \<or> c = backslash then [backslash, c]
      else if c = CHR 0x08 then [backslash, CHR ''b'']
      else if c = CHR 0x0C then [backslash, CHR ''f'']
      else if c = CHR 0x0A then [backslash, CHR ''n'']
      else if c = CHR 0x0D then [backslash, CHR ''r'']
      else if c = CHR 0x09 then [backslash, CHR ''t'']
      else if of_char c < (32 :: nat) \<or> c = CHR ''<'' \<or> c = CHR ''>'' \<or> c = CHR ''&''
        then [backslash, CHR ''u'', CHR ''0'', CHR ''0'', hex_digit (of_char c div 16), hex_digit (of_char c mod 16)]
      else [c])"

definition line_separator :: string where
  "line_separator = [CHR 0xE2, CHR 0x80, CHR 0xA8]"

definition paragraph_separator :: string where
  "paragraph_separator = [CHR 0xE2, CHR 0x80, CHR 0xA9]"

function json_body :: "string \<Rightarrow> string" where
  "json_body s =
     (if s = [] then []
      else if between 0 (hd s) 127 then json_ascii (hd s) @ json_body (tl s)
      else if rune_len s = 0 then backslash # ''ufffd'' @ json_body (tl s)
      else if take 3 s = line_separator then backslash # ''u2028'' @ json_body (drop 3 s)
      else if take 3 s = paragraph_separator then backslash # ''u2029'' @ json_body (drop 3 s)
      else take (rune_len s) s @ json_body (drop (rune_len s) s))"
  by auto
termination
  by (relation "measure length") auto

declare json_body.simps [simp del]

definition json_string :: "string \<Rightarrow> string" where
  "json_string s = dquote # json_body s @ [dquote]"

subsection \<open>Payloads\<close>

record CredentialPayload =
  cp_Login :: string
  cp_Password :: string

record CardPayload =
  dp_Number :: string
  dp_Holder :: string
  dp_Exp :: string
  dp_CVV :: string

text \<open>The members of a struct: names of the JSON tags and values.\<close>

definition credential_members :: "CredentialPayload \<Rightarrow> (string \<times> string) list" where
  "credential_members p = [(''login'', cp_Login p), (''password'', cp_Password p)]"

definition card_members :: "CardPayload \<Rightarrow> (string \<times> string) list" where
  "card_members p = [(''number'', dp_Number p), (''holder'', dp_Holder p), (''exp'', dp_Exp p), (''cvv'', dp_CVV p)]"

fun json_members :: "(string \<times> string) list \<Rightarrow> string" where
  "json_members [] = []"
| "json_members [(n, v)] = json_string n @ '':'' @ json_string v"
| "json_members ((n, v) # ms) = json_string n @ '':'' @ json_string v @ '','' @ json_members ms"

text \<open>A struct of strings has no value \<open>json.Marshal\<close> refuses.\<close>

definition EncodePayload :: "(string \<times> string) list \<Rightarrow> go_error + bytes" where
  "EncodePayload members = Inr (string_bytes (''{'' @ json_members members @ ''}''))"

subsection \<open>A reader\<close>

definition unhex :: "char \<Rightarrow> nat" where
  "unhex c = (if is_digit c then of_char c - 48 else of_char c - 87)"

text \<open>The bytes of the code point of four hexadecimal digits.\<close>

definition rune_bytes :: "nat \<Rightarrow> string" where
  "rune_bytes n =
     (if n < 128 then [char_of n]
      else if n < 2048 then [char_of (192 + n div 64), char_of (128 + n mod 64)]
      else [char_of (224 + n div 4096), char_of (128 + n div 64 mod 64), char_of (128 + n mod 64)])"

text \<open>Reads a string body up to its closing quote.\<close>

fun json_read :: "string \<Rightarrow> (string \<times> string) option" where
  "json_read [] = None"
| "json_read (c # s) =
     (if c = dquote then Some ([], s)
      else if c \<noteq> backslash then map_option (\<lambda>(x, r). (c # x, r)) (json_read s)
      else (case s of
          [] \<Rightarrow> None
        | e # s1 \<Rightarrow>
            if e = CHR ''u'' then
              (case s1 of h1 # h2 # h3 # h4 # s2 \<Rightarrow>
                 map_option (\<lambda>(x, r). (rune_bytes (unhex h1 * 4096 + unhex h2 * 256 + unhex h3 * 16 + unhex h4) @ x, r)) (json_read s2)
               | _ \<Rightarrow> None)
            else map_option (\<lambda>(x, r).
              ((if e = CHR ''b'' then CHR 0x08 else if e = CHR ''f'' then CHR 0x0C else if e = CHR ''n'' then CHR 0x0A
                else if e = CHR ''r'' then CHR 0x0D else if e = CHR ''t'' then CHR 0x09 else e) # x, r)) (json_read s1)))"

definition skip_prefix :: "string \<Rightarrow> string \<Rightarrow> string option" where
  "skip_prefix p s = (if take (length p) s = p then Some (drop (length p) s) else None)"

text \<open>Reads an object with members of the given names.\<close>

fun read_members :: "string list \<Rightarrow> string \<Rightarrow> string list option" where
  "read_members [] s = (if s = ''}'' then Some [] else None)"
| "read_members (n # ns) s =
     Option.bind (skip_prefix (json_string n @ '':'' @ [dquote]) s) (\<lambda>s1.
     Option.bind (json_read s1) (\<lambda>(v, s2).
     Option.bind (if ns = [] then Some s2 else skip_prefix '','' s2) (\<lambda>s3.
     map_option (\<lambda>vs. v # vs) (read_members ns s3))))"

definition bytes_string :: "bytes \<Rightarrow> string" where
  "bytes_string bs = map (\<lambda>b. char_of (unat b)) bs"

definition DecodePayload :: "string list \<Rightarrow> bytes \<Rightarrow> string list option" where
  "DecodePayload names b = Option.bind (skip_prefix ''{'' (bytes_string b)) (read_members names)"

subsection \<open>Nothing is lost\<close>

lemma json_read_plain:
  "\<forall>c \<in> set p. c \<noteq> dquote \<and> c \<noteq> backslash \<Longrightarrow> json_read (p @ s) = map_option (\<lambda>(x, r). (p @ x, r)) (json_read s)"
  by (induction p) (auto simp: option.map_comp comp_def case_prod_unfold option.map_ident)

lemma unhex_hex_digit: "n < 16 \<Longrightarrow> unhex (hex_digit n) = n"
proof -
  assume "n < 16"
  then have "n \<in> set [0..<16]" by simp
  moreover have "\<forall>k \<in> set [0..<16]. unhex (hex_digit k) = k" by code_simp
  ultimately show ?thesis by blast
qed

lemma json_read_ascii:
  assumes "between 0 c 127"
  shows "json_read (json_ascii c @ s) = map_option (\<lambda>(x, r). (c # x, r)) (json_read s)"
proof -
  let ?n = "of_char c :: nat"
  have n: "?n < 128" using assms by (simp add: between_def)
  have "unhex (hex_digit (?n div 16)) * 16 + unhex (hex_digit (?n mod 16)) = ?n"
    using n by (simp add: unhex_hex_digit)
  moreover have "unhex (CHR ''0'') = 0" by code_simp
  ultimately have "json_read ([backslash, CHR ''u'', CHR ''0'', CHR ''0'', hex_digit (?n div 16), hex_digit (?n mod 16)] @ s) =
      map_option (\<lambda>(x, r). (c # x, r)) (json_read s)"
    using n by (simp add: rune_bytes_def)
  then show ?thesis unfolding json_ascii_def by (simp split del: if_split split: if_splits)
qed

definition high :: "char \<Rightarrow> bool" where
  "high c \<longleftrightarrow> 128 \<le> (of_char c :: nat)"

lemma between_high: "between lo c hi \<Longrightarrow> 128 \<le> lo \<Longrightarrow> high c"
  by (simp add: between_def high_def)

lemma rune_tail_high:
  assumes "rune_len (h # t) = Suc k" and "\<not> between 0 h 127"
  shows "\<forall>c \<in> set (take k t). high c"
proof -
  consider (two) "between 194 h 223" | (three) "\<not> between 194 h 223" "between 224 h 239"
    | (four) "\<not> between 194 h 223" "\<not> between 224 h 239" "between 240 h 244"
    using assms by (auto simp: rune_len.simps(2) split del: if_split split: if_splits)
  then show ?thesis
  proof cases
    case two
    with assms show ?thesis by (cases t) (auto simp: rune_len.simps(2) split: if_split_asm dest: between_high)
  next
    case three
    with assms obtain b1 b2 t' where t: "t = b1 # b2 # t'" by (auto simp: rune_len.simps(2) split: list.splits)
    let ?lo = "if of_char h = (224 :: nat) then 160 else 128 :: nat" and ?hi = "if of_char h = (237 :: nat) then 159 else 191"
    from three assms t have "between ?lo b1 ?hi \<and> between 128 b2 191 \<and> k = 2"
      by (simp add: rune_len.simps(2) split del: if_split) (simp split: if_split_asm)
    moreover have "128 \<le> ?lo" by simp
    ultimately have "high b1" "high b2" "k = 2" using between_high by blast+
    with t show ?thesis by simp
  next
    case four
    with assms obtain b1 b2 b3 t' where t: "t = b1 # b2 # b3 # t'" by (auto simp: rune_len.simps(2) split: list.splits)
    let ?lo = "if of_char h = (240 :: nat) then 144 else 128 :: nat" and ?hi = "if of_char h = (244 :: nat) then 143 else 191"
    from four assms t have "between ?lo b1 ?hi \<and> between 128 b2 191 \<and> between 128 b3 191 \<and> k = 3"
      by (simp add: rune_len.simps(2) split del: if_split) (simp split: if_split_asm)
    moreover have "128 \<le> ?lo" by simp
    ultimately have "high b1" "high b2" "high b3" "k = 3" using between_high by blast+
    with t show ?thesis by (simp add: numeral_3_eq_3)
  qed
qed

lemma rune_high:
  assumes "rune_len s \<noteq> 0" and "\<not> between 0 (hd s) 127" and "c \<in> set (take (rune_len s) s)"
  shows "c \<noteq> dquote \<and> c \<noteq> backslash"
proof -
  obtain h t k where s: "s = h # t" "rune_len (h # t) = Suc k" using assms(1) by (cases s; cases "rune_len s") auto
  then have "high c"
    using rune_tail_high [OF s(2)] assms by (auto simp: high_def between_def)
  then show ?thesis by (auto simp: high_def)
qed

lemma json_read_body: "valid_utf8 s \<Longrightarrow> json_read (json_body s @ dquote # r) = Some (s, r)"
proof (induction s rule: json_body.induct)
  case (1 s)
  show ?case
  proof (cases "s = []")
    case True
    then show ?thesis by (simp add: json_body.simps)
  next
    case False
    with "1.prems" have n: "rune_len s \<noteq> 0" and rest: "valid_utf8 (drop (rune_len s) s)"
      using valid_utf8.simps [of s] by (auto split: if_splits)
    consider (ascii) "between 0 (hd s) 127" | (sep) x where "\<not> between 0 (hd s) 127" "take 3 s = x" "x = line_separator \<or> x = paragraph_separator"
      | (plain) "\<not> between 0 (hd s) 127" "take 3 s \<noteq> line_separator" "take 3 s \<noteq> paragraph_separator" by blast
    then show ?thesis
    proof cases
      case ascii
      then have "drop (rune_len s) s = tl s" using False by (cases s) (simp_all add: rune_len.simps(2))
      with rest have "json_read (json_body (tl s) @ dquote # r) = Some (tl s, r)" using "1.IH"(1) [OF False ascii] by simp
      with ascii False show ?thesis by (subst json_body.simps) (simp add: json_read_ascii)
    next
      case sep
      then obtain t where s: "s = x @ t" by (metis append_take_drop_id)
      have "rune_len s = 3" using sep(3) by (auto simp: s line_separator_def paragraph_separator_def rune_len.simps(2) between_def)
      moreover have seps: "line_separator \<noteq> paragraph_separator" by (simp add: line_separator_def paragraph_separator_def)
      ultimately have IH: "json_read (json_body (drop 3 s) @ dquote # r) = Some (drop 3 s, r)"
        using "1.IH"(3) [OF False sep(1) n] "1.IH"(4) [OF False sep(1) n] sep(2,3) rest by (cases "x = line_separator") auto
      have runes: "rune_bytes (unhex (CHR ''2'') * 4096 + unhex (CHR ''0'') * 256 + unhex (CHR ''2'') * 16 + unhex (CHR ''8'')) = line_separator"
        "rune_bytes (unhex (CHR ''2'') * 4096 + unhex (CHR ''0'') * 256 + unhex (CHR ''2'') * 16 + unhex (CHR ''9'')) = paragraph_separator"
        by (simp_all add: rune_bytes_def unhex_def is_digit_def line_separator_def paragraph_separator_def char_of_def bit_iff_odd)
      have "s = x @ drop 3 s" using sep(2) by (metis append_take_drop_id)
      then show ?thesis using IH runes seps sep False n by (subst json_body.simps) auto
    next
      case plain
      with rest have IH: "json_read (json_body (drop (rune_len s) s) @ dquote # r) = Some (drop (rune_len s) s, r)"
        using "1.IH"(5) [OF False plain(1) n plain(2,3)] by simp
      have "json_body s = take (rune_len s) s @ json_body (drop (rune_len s) s)"
        using plain False n by (subst json_body.simps) simp
      with IH json_read_plain [of "take (rune_len s) s"] rune_high [OF n plain(1)] show ?thesis by simp
    qed
  qed
qed

lemma json_string_read:
  "valid_utf8 v \<Longrightarrow> skip_prefix (p @ [dquote]) (p @ json_string v @ s) = Some (json_body v @ dquote # s)"
  by (simp add: skip_prefix_def json_string_def)

lemma read_members_encoded:
  "ms \<noteq> [] \<Longrightarrow> \<forall>(n, v) \<in> set ms. valid_utf8 v \<Longrightarrow> read_members (map fst ms) (json_members ms @ ''}'') = Some (map snd ms)"
proof (induction ms rule: json_members.induct)
  case (2 n v)
  then show ?case
    using json_string_read [of v "json_string n @ '':''"] by (simp add: json_read_body)
next
  case (3 n v m ms)
  then show ?case
    using json_string_read [of v "json_string n @ '':''"] by (simp add: json_read_body skip_prefix_def)
qed simp

lemma string_bytes_string [simp]: "bytes_string (string_bytes s) = s"
proof -
  have "unat (of_char c :: byte) = of_char c" for c
    unfolding of_nat_of_char [where ?'a = byte, symmetric] by (simp add: unat_of_nat)
  then show ?thesis by (simp add: bytes_string_def string_bytes_def map_idI)
qed

text \<open>
  C38. Payloads lose nothing. The JSON a credential or a card is stored as reads back to exactly the
  strings the user typed, whatever quotes, backslashes, control or non-ASCII characters they contain,
  as long as they are valid UTF-8. So two different credentials never have the same payload.
\<close>

theorem payload_roundtrip:
  assumes "valid_utf8 (cp_Login p)" and "valid_utf8 (cp_Password p)"
    and "valid_utf8 (dp_Number q)" and "valid_utf8 (dp_Holder q)" and "valid_utf8 (dp_Exp q)" and "valid_utf8 (dp_CVV q)"
  shows "\<exists>b1 b2. EncodePayload (credential_members p) = Inr b1 \<and>
      DecodePayload [''login'', ''password''] b1 = Some [cp_Login p, cp_Password p] \<and>
    EncodePayload (card_members q) = Inr b2 \<and>
      DecodePayload [''number'', ''holder'', ''exp'', ''cvv''] b2 = Some [dp_Number q, dp_Holder q, dp_Exp q, dp_CVV q]"
  using assms read_members_encoded [of "credential_members p"] read_members_encoded [of "card_members q"]
  unfolding EncodePayload_def DecodePayload_def string_bytes_string
  by (simp add: skip_prefix_def credential_members_def card_members_def)

text \<open>A password with quotes, a backslash, a line feed and a two-byte character.\<close>

definition demo_credential :: CredentialPayload where
  "demo_credential = \<lparr>cp_Login = ''bob'', cp_Password = [dquote, backslash, CHR 0x0A, CHR 0xC3, CHR 0xA9]\<rparr>"

definition demo_card :: CardPayload where
  "demo_card = \<lparr>dp_Number = ''4111'', dp_Holder = ''B <B>'', dp_Exp = ''01/30'', dp_CVV = ''000''\<rparr>"

lemmas utf8_eval = valid_utf8.simps rune_len.simps between_def

theorem payload_roundtrip_witness:
  "\<exists>b. EncodePayload (credential_members demo_credential) = Inr b \<and>
     DecodePayload [''login'', ''password''] b = Some [''bob'', [dquote, backslash, CHR 0x0A, CHR 0xC3, CHR 0xA9]]"
proof -
  have "valid_utf8 (cp_Login demo_credential)" "valid_utf8 (cp_Password demo_credential)"
    by (simp_all add: demo_credential_def utf8_eval)
  moreover have "valid_utf8 (dp_Number demo_card)" "valid_utf8 (dp_Holder demo_card)" "valid_utf8 (dp_Exp demo_card)" "valid_utf8 (dp_CVV demo_card)"
    by (simp_all add: demo_card_def utf8_eval)
  ultimately show ?thesis
    using payload_roundtrip [of demo_credential demo_card] by (auto simp: demo_credential_def)
qed

text \<open>A byte that is not UTF-8 is replaced: the payload of another password.\<close>

lemma invalid_utf8_replaced:
  "EncodePayload (credential_members \<lparr>cp_Login = l, cp_Password = [CHR 0xFF]\<rparr>) =
   EncodePayload (credential_members \<lparr>cp_Login = l, cp_Password = [CHR 0xFE]\<rparr>)"
  by (simp add: EncodePayload_def credential_members_def json_string_def json_body.simps rune_len.simps between_def)

end
