(* ===== verification/ClientCli.thy ===== *)
theory ClientCli
  imports ClientPayload ClientTransport ClientProps
begin

section \<open>The command line (\<open>internal/client/cli\<close>, \<open>cmd/client\<close>)\<close>

text \<open>
  Every command of the client, the opening of the local database (\<open>storage.NewSQLiteStorage\<close>,
  \<open>storage/migrations.Run\<close>) and the dispatch of the root command. A \<open>machine\<close> holds what outlives a
  process: the database file of every data directory (None: no tables), the far side of the network,
  the terminal output and the files commands wrote. A command is one process: it opens the database of
  its data directory, dials, builds an App and acts.

  Outside the repository, hence parameters of a run (\<open>cli\<close>): cobra's parsing of flags and arguments,
  the file system, SQLite and its migration library, the terminal, gRPC, the cryptographic packages.
  Closing a connection and a database is not modelled: it changes nothing.

  A method of the storage fails with \<open>no such table\<close> when the file has no tables. Every command reads
  the database before anything else, so the run ends there.
\<close>

record flags =
  fl_GetString :: "string \<Rightarrow> go_error + string"
  fl_GetBool :: "string \<Rightarrow> go_error + bool"

record 's cli =
  x_flags :: flags
  x_cenv :: cenv
  x_crypto :: crypto_lib
  x_dial :: "'s dial_lib"
  x_MkdirAll :: "string \<Rightarrow> go_error option"
  x_sql_Open :: "string \<Rightarrow> go_error option"
  x_pragma :: "string \<Rightarrow> go_error option"
  x_iofs_New :: "go_error option"
  x_WithInstance :: "string \<Rightarrow> go_error option"
  x_NewWithInstance :: "string \<Rightarrow> go_error option"
  x_Up :: "string \<Rightarrow> go_error option"
  x_Ping :: "string \<Rightarrow> go_error option"
  x_ReadPassword :: "go_error + bytes"
  x_WriteFile :: "string \<Rightarrow> bytes \<Rightarrow> (go_error \<times> bytes option) option"

record 's machine =
  mc_dbs :: "string \<Rightarrow> client_db option"
  mc_app :: App
  mc_remote :: 's
  mc_tick :: nat
  mc_out :: string
  mc_files :: "string \<Rightarrow> bytes option"

type_synonym ('s, 'a) mprog = "('s machine, go_error, 'a) prog"

definition try_step :: "go_error option \<Rightarrow> ('s, unit) mprog" where
  "try_step r = (case r of None \<Rightarrow> ret () | Some e \<Rightarrow> throw e)"

definition try_value :: "go_error + 'a \<Rightarrow> ('s, 'a) mprog" where
  "try_value r = (case r of Inl e \<Rightarrow> throw e | Inr x \<Rightarrow> ret x)"

definition print :: "string \<Rightarrow> ('s, unit) mprog" where
  "print s m = (Inr (), m\<lparr>mc_out := mc_out m @ s\<rparr>)"

definition Println :: "string \<Rightarrow> ('s, unit) mprog" where
  "Println s = print (s @ [CHR 0x0A])"

subsection \<open>Paths\<close>

fun split_slash :: "string \<Rightarrow> string list" where
  "split_slash [] = [[]]"
| "split_slash (c # s) =
     (case split_slash s of
        [] \<Rightarrow> [[c]]
      | e # es \<Rightarrow> if c = CHR ''/'' then [] # e # es else (c # e) # es)"

text \<open>\<open>filepath.Clean\<close> on the elements: empty ones and \<open>.\<close> are dropped, \<open>..\<close> removes the element before it.\<close>

definition clean_step :: "bool \<Rightarrow> string list \<Rightarrow> string \<Rightarrow> string list" where
  "clean_step rooted out e =
     (if e = [] \<or> e = ''.'' then out
      else if e = ''..'' then
        (if out \<noteq> [] \<and> last out \<noteq> ''..'' then butlast out else if rooted then out else out @ [e])
      else out @ [e])"

fun join_slash :: "string list \<Rightarrow> string" where
  "join_slash [] = []"
| "join_slash [e] = e"
| "join_slash (e # es) = e @ ''/'' @ join_slash es"

definition Clean :: "string \<Rightarrow> string" where
  "Clean p =
     (if p = [] then ''.''
      else let rooted = (hd p = CHR ''/''); body = join_slash (foldl (clean_step rooted) [] (split_slash p)) in
        if rooted then ''/'' @ body else if body = [] then ''.'' else body)"

definition filepath_Join :: "string \<Rightarrow> string \<Rightarrow> string" where
  "filepath_Join a b =
     (if a = [] \<and> b = [] then [] else if a = [] then Clean b else if b = [] then Clean a else Clean (a @ ''/'' @ b))"

definition strip_slashes :: "string \<Rightarrow> string" where
  "strip_slashes p = rev (dropWhile (\<lambda>c. c = CHR ''/'') (rev p))"

definition filepath_Base :: "string \<Rightarrow> string" where
  "filepath_Base p =
     (if p = [] then ''.''
      else let q = strip_slashes p in if q = [] then ''/'' else rev (takeWhile (\<lambda>c. c \<noteq> CHR ''/'') (rev q)))"

definition filepath_Dir :: "string \<Rightarrow> string" where
  "filepath_Dir p = Clean (rev (dropWhile (\<lambda>c. c \<noteq> CHR ''/'') (rev p)))"

subsection \<open>The database of a data directory\<close>

definition empty_client_db :: client_db where
  "empty_client_db = \<lparr>t_auth_state = None, t_sync_state = None, t_pending_operations = [], t_vault_items = []\<rparr>"

text \<open>\<open>m.Up()\<close> creates the tables; on a file that has them it reports \<open>ErrNoChange\<close>, which is no error.\<close>

definition create_tables :: "'s cli \<Rightarrow> string \<Rightarrow> ('s, unit) mprog" where
  "create_tables X path m =
     (case x_Up X path of
        Some e \<Rightarrow> (Inl e, m)
      | None \<Rightarrow>
          (case mc_dbs m path of
             None \<Rightarrow> (Inr (), m\<lparr>mc_dbs := (mc_dbs m)(path \<mapsto> empty_client_db)\<rparr>)
           | Some _ \<Rightarrow> (Inr (), m)))"

text \<open>When the driver cannot be built the error is swallowed: \<open>if err != nil { return nil }\<close>.\<close>

definition client_migrations_Run :: "'s cli \<Rightarrow> string \<Rightarrow> ('s, unit) mprog" where
  "client_migrations_Run X path =
     andthen (try_step (x_iofs_New X)) (\<lambda>_.
     case x_WithInstance X path of
       Some _ \<Rightarrow> ret ()
     | None \<Rightarrow>
         andthen (try_step (x_NewWithInstance X path)) (\<lambda>_.
         create_tables X path))"

definition NewSQLiteStorage :: "'s cli \<Rightarrow> string \<Rightarrow> ('s, string) mprog" where
  "NewSQLiteStorage X dataDirPath =
     andthen (try_step (x_MkdirAll X dataDirPath)) (\<lambda>_.
     let dbPath = filepath_Join dataDirPath ''gk.db'' in
     andthen (try_step (x_sql_Open X dbPath)) (\<lambda>_.
     andthen (try_step (x_pragma X dbPath)) (\<lambda>_.
     andthen (client_migrations_Run X dbPath) (\<lambda>_.
     andthen (try_step (x_Ping X dbPath)) (\<lambda>_.
     ret dbPath)))))"

text \<open>A method of the storage or of the App on the database at a path.\<close>

definition process :: "client_db \<Rightarrow> 's machine \<Rightarrow> 's client" where
  "process d m = \<lparr>cl_db = d, cl_app = mc_app m, cl_remote = mc_remote m, cl_tick = mc_tick m\<rparr>"

definition after_process :: "string \<Rightarrow> 's client \<Rightarrow> 's machine \<Rightarrow> 's machine" where
  "after_process path w m = m\<lparr>mc_dbs := (mc_dbs m)(path \<mapsto> cl_db w), mc_app := cl_app w, mc_remote := cl_remote w,
     mc_tick := cl_tick w\<rparr>"

definition on_storage :: "string \<Rightarrow> ('s, 'a) cprog \<Rightarrow> ('s, 'a) mprog" where
  "on_storage path p m =
     (case mc_dbs m path of
        None \<Rightarrow> (Inl (err ''no such table''), m)
      | Some d \<Rightarrow> (case p (process d m) of (r, w) \<Rightarrow> (r, after_process path w m)))"

subsection \<open>What the commands share\<close>

text \<open>The commands on files drop the errors of the flags and go on with the zero value.\<close>

definition flag_string :: "bool \<Rightarrow> 's cli \<Rightarrow> string \<Rightarrow> ('s, string) mprog" where
  "flag_string strict X name =
     (case fl_GetString (x_flags X) name of
        Inl e \<Rightarrow> if strict then throw e else ret []
      | Inr s \<Rightarrow> ret s)"

definition flag_bool :: "bool \<Rightarrow> 's cli \<Rightarrow> string \<Rightarrow> ('s, bool) mprog" where
  "flag_bool strict X name =
     (case fl_GetBool (x_flags X) name of
        Inl e \<Rightarrow> if strict then throw e else ret False
      | Inr b \<Rightarrow> ret b)"

definition open_storage :: "bool \<Rightarrow> 's cli \<Rightarrow> ('s, string) mprog" where
  "open_storage strict X =
     andthen (flag_string strict X ''data-dir'') (\<lambda>dataDirPath. NewSQLiteStorage X dataDirPath)"

definition open_app :: "bool \<Rightarrow> 's cli \<Rightarrow> string \<Rightarrow> string \<Rightarrow> ('s, 's Client) mprog" where
  "open_app strict X path token =
     andthen (flag_string strict X ''server'') (\<lambda>serverAddr.
     andthen (flag_bool strict X ''insecure'') (\<lambda>insecure.
     andthen (flag_string strict X ''tls-ca'') (\<lambda>tlsCA.
     andthen (try_value (transport_New (x_dial X) serverAddr token \<lparr>do_Insecure = insecure, do_CAPath = tlsCA\<rparr>)) (\<lambda>client.
     andthen (on_storage path (New (SQLiteStorage (x_cenv X)))) (\<lambda>_.
     ret client)))))"

definition promptPassword :: "'s cli \<Rightarrow> ('s, string) mprog" where
  "promptPassword X =
     andthen (print ''Enter password: '') (\<lambda>_.
     let typed = x_ReadPassword X in
     andthen (print [CHR 0x0A]) (\<lambda>_.
     andthen (try_value typed) (\<lambda>bytePassword.
     ret (bytes_string bytePassword))))"

text \<open>From the data directory to an App, and on to the unlocked App, as the seven commands on secrets
  and files do it.\<close>

definition session :: "bool \<Rightarrow> 's cli \<Rightarrow> ('s, string \<times> 's Client) mprog" where
  "session strict X =
     andthen (open_storage strict X) (\<lambda>path.
     andthen (on_storage path (ls_Load (SQLiteStorage (x_cenv X)))) (\<lambda>state.
     andthen (open_app strict X path (au_AccessToken state)) (\<lambda>client.
     ret (path, client))))"

definition unlocked :: "bool \<Rightarrow> 's cli \<Rightarrow> (string \<Rightarrow> 's Client \<Rightarrow> ('s, 'a) mprog) \<Rightarrow> ('s, 'a) mprog" where
  "unlocked strict X k =
     andthen (session strict X) (\<lambda>(path, client).
     andthen (promptPassword X) (\<lambda>password.
     andthen (on_storage path (Unlock (x_crypto X) (SQLiteStorage (x_cenv X)) password)) (\<lambda>_.
     k path client)))"

subsection \<open>Secrets\<close>

definition item_type_String :: "int \<Rightarrow> string" where
  "item_type_String t =
     (if t = 0 then ''ITEM_TYPE_UNSPECIFIED'' else if t = 1 then ''ITEM_TYPE_CREDENTIAL''
      else if t = 2 then ''ITEM_TYPE_TEXT'' else if t = 3 then ''ITEM_TYPE_CARD''
      else if t = 4 then ''ITEM_TYPE_OTP'' else if t = 5 then ''ITEM_TYPE_BINARY'' else show_int t)"

text \<open>The switch of \<open>add\<close> and \<open>update\<close> over the arguments from the type on.\<close>

definition item_arguments :: "string list \<Rightarrow> go_error + (int \<times> bytes)" where
  "item_arguments args =
     (case args of
        [] \<Rightarrow> Inl go_panic
      | kind # rest \<Rightarrow>
          if kind = ''text'' then
            (case rest of [data] \<Rightarrow> Inr (2, string_bytes data) | _ \<Rightarrow> Inl (err ''accepts [data]''))
          else if kind = ''credential'' then
            (case rest of
               [login, password] \<Rightarrow>
                 bind (EncodePayload (credential_members \<lparr>cp_Login = login, cp_Password = password\<rparr>)) (\<lambda>payload. Inr (1, payload))
             | _ \<Rightarrow> Inl (err ''accepts [login] [password]''))
          else if kind = ''card'' then
            (case rest of
               [number, holder, exp, cvv] \<Rightarrow>
                 bind (EncodePayload (card_members \<lparr>dp_Number = number, dp_Holder = holder, dp_Exp = exp, dp_CVV = cvv\<rparr>))
                   (\<lambda>payload. Inr (3, payload))
             | _ \<Rightarrow> Inl (err ''accepts [number] [holder] [expire] [cvv]''))
          else Inl (err ''accepts text/credential/card''))"

definition store_item :: "'s cli \<Rightarrow> int \<Rightarrow> bytes \<Rightarrow> string \<Rightarrow> 's Client \<Rightarrow> ('s, unit) mprog" where
  "store_item X itemType payload path client =
     andthen (on_storage path (get_app ap_DEK)) (\<lambda>dek.
     guard (dek = []) (err ''login required (DEK missing)'')
    (andthen (on_storage path (AddItem (x_cenv X) (x_crypto X) (SQLiteStorage (x_cenv X)) itemType
        (string_bytes (item_type_String itemType)) [] payload [])) (\<lambda>_.
     Println ''Add successfully. Pending sync...'')))"

definition addCmd :: "'s cli \<Rightarrow> string list \<Rightarrow> ('s, unit) mprog" where
  "addCmd X args =
     andthen (try_value (item_arguments args)) (\<lambda>(itemType, payload). unlocked True X (store_item X itemType payload))"

text \<open>The loop of \<open>list\<close> over the items.\<close>

fun print_items :: "'s cli \<Rightarrow> string \<Rightarrow> ModelItem list \<Rightarrow> ('s, unit) mprog" where
  "print_items X path [] = ret ()"
| "print_items X path (it # items) =
     andthen (on_storage path (DecryptItem (x_crypto X) it)) (\<lambda>(title, meta, payload).
     andthen (Println (''ID: '' @ mi_ID it)) (\<lambda>_.
     andthen (Println (''Title: '' @ bytes_string title)) (\<lambda>_.
     andthen (Println (''Meta: '' @ bytes_string meta)) (\<lambda>_.
     andthen (Println (''BlobID: '' @ mi_BlobID it)) (\<lambda>_.
     andthen (Println ''---'') (\<lambda>_.
     print_items X path items))))))"

definition listCmd :: "'s cli \<Rightarrow> string list \<Rightarrow> ('s, unit) mprog" where
  "listCmd X args =
     unlocked True X (\<lambda>path client.
     andthen (on_storage path (App_ListItems (SQLiteStorage (x_cenv X)))) (\<lambda>items.
     if items = [] then Println ''No items'' else print_items X path items))"

text \<open>\<open>args[i]\<close>.\<close>

definition arg :: "string list \<Rightarrow> nat \<Rightarrow> ('s, string) mprog" where
  "arg args i = (if i < length args then ret (args ! i) else throw go_panic)"

definition show_item :: "'s cli \<Rightarrow> string \<Rightarrow> string \<Rightarrow> 's Client \<Rightarrow> ('s, unit) mprog" where
  "show_item X itemId path client =
     andthen (on_storage path (\<lambda>w. case App_GetItem (SQLiteStorage (x_cenv X)) itemId w of (r, w') \<Rightarrow> (Inr r, w'))) (\<lambda>r.
     case r of
       None \<Rightarrow> throw (err ''item not found'')
     | Some item \<Rightarrow>
         andthen (on_storage path (DecryptItem (x_crypto X) item)) (\<lambda>(title, meta, payload).
         andthen (Println (''ID: '' @ mi_ID item)) (\<lambda>_.
         andthen (Println (''Title: '' @ bytes_string title)) (\<lambda>_.
         andthen (Println (''Meta: '' @ bytes_string meta)) (\<lambda>_.
         Println (''Data: '' @ bytes_string payload))))))"

definition getCmd :: "'s cli \<Rightarrow> string list \<Rightarrow> ('s, unit) mprog" where
  "getCmd X args = andthen (arg args 0) (\<lambda>itemId. unlocked True X (show_item X itemId))"

definition updateCmd :: "'s cli \<Rightarrow> string list \<Rightarrow> ('s, unit) mprog" where
  "updateCmd X args =
     andthen (arg args 0) (\<lambda>itemId.
     andthen (try_value (item_arguments (tl args))) (\<lambda>(itemType, payload).
     unlocked True X (\<lambda>path client.
     andthen (on_storage path (App_UpdateItem (x_cenv X) (x_crypto X) (SQLiteStorage (x_cenv X)) itemId itemType
        (string_bytes (item_type_String itemType)) [] payload)) (\<lambda>_.
     Println ''Updated successfully. Pending sync...''))))"

definition deleteCmd :: "'s cli \<Rightarrow> string list \<Rightarrow> ('s, unit) mprog" where
  "deleteCmd X args =
     unlocked True X (\<lambda>path client.
     andthen (arg args 0) (\<lambda>itemId.
     andthen (on_storage path (App_DeleteItem (x_cenv X) (SQLiteStorage (x_cenv X)) itemId)) (\<lambda>_.
     Println ''Deleted successfully. Pending sync...'')))"

subsection \<open>Files\<close>

definition uploadCmd :: "'s cli \<Rightarrow> string list \<Rightarrow> ('s, unit) mprog" where
  "uploadCmd X args =
     andthen (arg args 0) (\<lambda>filePath.
     unlocked False X (\<lambda>path client.
     let fileName = filepath_Base filePath in
     andthen (on_storage path (UploadFile (x_cenv X) (x_crypto X) client filePath fileName)) (\<lambda>blobID.
     andthen (on_storage path (AddItem (x_cenv X) (x_crypto X) (SQLiteStorage (x_cenv X)) 5
        (string_bytes (item_type_String 5)) (string_bytes fileName) [] blobID)) (\<lambda>_.
     Println ''File uploaded successfully. Pending sync...''))))"

definition os_WriteFile :: "'s cli \<Rightarrow> string \<Rightarrow> bytes \<Rightarrow> ('s, unit) mprog" where
  "os_WriteFile X p data m =
     (case x_WriteFile X p data of
        None \<Rightarrow> (Inr (), m\<lparr>mc_files := (mc_files m)(p \<mapsto> data)\<rparr>)
      | Some (e, left) \<Rightarrow> (Inl e, m\<lparr>mc_files := (mc_files m)(p := left)\<rparr>))"

definition downloadCmd :: "'s cli \<Rightarrow> string list \<Rightarrow> ('s, unit) mprog" where
  "downloadCmd X args =
     andthen (arg args 0) (\<lambda>itemID.
     andthen (arg args 1) (\<lambda>outputPath.
     unlocked False X (\<lambda>path client.
     andthen (on_storage path (DownloadFile (x_crypto X) client itemID)) (\<lambda>data.
     andthen (try_step (x_MkdirAll X (filepath_Dir outputPath))) (\<lambda>_.
     andthen (os_WriteFile X outputPath data) (\<lambda>_.
     Println ''File downloaded successfully''))))))"

subsection \<open>Accounts, synchronisation, version\<close>

definition registerCmd :: "'s cli \<Rightarrow> string list \<Rightarrow> ('s, unit) mprog" where
  "registerCmd X args =
     andthen (open_storage True X) (\<lambda>path.
     andthen (open_app True X path []) (\<lambda>client.
     andthen (arg args 0) (\<lambda>login.
     andthen (arg args 1) (\<lambda>password.
     andthen (on_storage path (App_Register (x_cenv X) (x_crypto X) (SQLiteStorage (x_cenv X)) client login password)) (\<lambda>_.
     Println ''Register successful'')))))"

definition loginCmd :: "'s cli \<Rightarrow> string list \<Rightarrow> ('s, unit) mprog" where
  "loginCmd X args =
     andthen (open_storage True X) (\<lambda>path.
     andthen (open_app True X path []) (\<lambda>client.
     andthen (arg args 0) (\<lambda>login.
     andthen (arg args 1) (\<lambda>password.
     andthen (on_storage path (App_Login (x_cenv X) (x_crypto X) (SQLiteStorage (x_cenv X)) client login password)) (\<lambda>_.
     Println ''Login successful'')))))"

definition syncCmd :: "'s cli \<Rightarrow> string list \<Rightarrow> ('s, unit) mprog" where
  "syncCmd X args =
     andthen (open_storage True X) (\<lambda>path.
     andthen (on_storage path (ls_Load (SQLiteStorage (x_cenv X)))) (\<lambda>state.
     guard (au_AccessToken state = []) (err ''not logged in'')
    (andthen (open_app True X path (au_AccessToken state)) (\<lambda>client.
     andthen (on_storage path (App_Sync (SQLiteStorage (x_cenv X)) client)) (\<lambda>_.
     Println ''Synced successfully'')))))"

definition versionCmd :: "string \<Rightarrow> 's cli \<Rightarrow> string list \<Rightarrow> ('s, unit) mprog" where
  "versionCmd buildDate X args =
     print (''Version: '' @ ce_Version (x_cenv X) @ [CHR 0x0A] @ ''Build date: '' @ buildDate @ [CHR 0x0A])"

subsection \<open>The root command\<close>

text \<open>
  The persistent flags \<open>init\<close> declares, with their defaults, read after the command line has set some of
  them. A home directory that is not known is the empty string.
\<close>

definition persistent_flags :: "string \<Rightarrow> (string \<times> string) list \<Rightarrow> bool option \<Rightarrow> flags" where
  "persistent_flags home given insecure =
     \<lparr>fl_GetString = (\<lambda>name. case map_of (given @ [(''server'', ''localhost:50051''),
          (''data-dir'', filepath_Join home ''.gophkeeper''), (''tls-ca'', ''cert.pem'')]) name of
        None \<Rightarrow> Inl (err ''flag accessed but not defined'') | Some v \<Rightarrow> Inr v),
      fl_GetBool = (\<lambda>name. if name = ''insecure'' then Inr (case insecure of None \<Rightarrow> False | Some b \<Rightarrow> b)
        else Inl (err ''flag accessed but not defined''))\<rparr>"

text \<open>Every flag the commands read is declared, so the errors some of them ignore do not arise.\<close>

lemma flags_declared:
  assumes "x_flags X = persistent_flags home given insecure"
  shows "\<exists>v. flag_string strict X ''server'' = ret v" "\<exists>v. flag_string strict X ''data-dir'' = ret v"
    "\<exists>v. flag_string strict X ''tls-ca'' = ret v" "\<exists>b. flag_bool strict X ''insecure'' = ret b"
  by (auto simp: flag_string_def flag_bool_def assms persistent_flags_def map_add_def split: option.splits)

text \<open>
  What \<open>init\<close> registers: name, accepted numbers of arguments, action. cobra parses the command line; a
  line without a command prints the help.
\<close>

definition subcommands :: "string \<Rightarrow> (string \<times> (nat \<Rightarrow> bool) \<times> ('s cli \<Rightarrow> string list \<Rightarrow> ('s, unit) mprog)) list" where
  "subcommands buildDate =
     [(''register'', \<lambda>n. n = 2, registerCmd), (''login'', \<lambda>n. n = 2, loginCmd),
      (''add'', \<lambda>n. 2 \<le> n \<and> n \<le> 5, addCmd), (''list'', \<lambda>_. True, listCmd), (''get'', \<lambda>n. n = 1, getCmd),
      (''update'', \<lambda>n. 3 \<le> n \<and> n \<le> 6, updateCmd), (''delete'', \<lambda>n. n = 1, deleteCmd),
      (''upload'', \<lambda>n. n = 1, uploadCmd), (''download'', \<lambda>n. n = 2, downloadCmd),
      (''sync'', \<lambda>_. True, syncCmd), (''version'', \<lambda>_. True, versionCmd buildDate)]"

definition Execute :: "string \<Rightarrow> 's cli \<Rightarrow> string list \<Rightarrow> ('s, unit) mprog" where
  "Execute buildDate X args =
     (case args of
        [] \<Rightarrow> ret ()
      | name # rest \<Rightarrow>
          (case map_of (subcommands buildDate) name of
             None \<Rightarrow> throw (err ''unknown command'')
           | Some (arity, action) \<Rightarrow>
               guard (\<not> arity (length rest)) (err ''wrong number of arguments'') (action X rest)))"

text \<open>\<open>main\<close>: the exit code.\<close>

definition client_main :: "string \<Rightarrow> 's cli \<Rightarrow> string list \<Rightarrow> 's machine \<Rightarrow> nat \<times> 's machine" where
  "client_main buildDate X args m =
     (case Execute buildDate X args m of (Inl _, m') \<Rightarrow> (1, m') | (Inr _, m') \<Rightarrow> (0, m'))"

end
