(* ===== verification/ClientCliProps.thy ===== *)
theory ClientCliProps
  imports ClientCli ClientServer
begin

section \<open>Correctness of the command line\<close>

text \<open>
  What the commands do to a machine: which of their steps leave everything as it is, what a session
  starts with, that secrets are found again by a later process, and that a wrong password stops every
  command before it acts.
\<close>

subsection \<open>Steps of a command\<close>

lemma try_value_okE:
  assumes "try_value r m = (Inr x, m')" obtains "r = Inr x" and "m' = m"
  using assms by (auto simp: try_value_def throw_def ret_def split: sum.splits)

lemma try_step_okE:
  assumes "try_step r m = (Inr x, m')" obtains "r = None" and "m' = m"
  using assms by (auto simp: try_step_def throw_def ret_def split: option.splits)

lemma on_storage_okE:
  assumes "on_storage path p m = (Inr x, m')"
  obtains d w where "mc_dbs m path = Some d" and "p (process d m) = (Inr x, w)" and "m' = after_process path w m"
  using assms by (auto simp: on_storage_def split: option.splits prod.splits)

lemma process_sel [simp]:
  "cl_db (process d m) = d" "cl_app (process d m) = mc_app m" "cl_remote (process d m) = mc_remote m" "cl_tick (process d m) = mc_tick m"
  by (simp_all add: process_def)

lemma after_process_sel [simp]:
  "mc_dbs (after_process path w m) = (mc_dbs m)(path \<mapsto> cl_db w)" "mc_app (after_process path w m) = cl_app w"
  "mc_remote (after_process path w m) = cl_remote w" "mc_tick (after_process path w m) = cl_tick w"
  "mc_out (after_process path w m) = mc_out m" "mc_files (after_process path w m) = mc_files m"
  by (simp_all add: after_process_def)

text \<open>The database a command sees at a path, the path of the data directory, and what stays as it is.\<close>

definition vault_db :: "'s machine \<Rightarrow> string \<Rightarrow> client_db" where
  "vault_db m path = (case mc_dbs m path of None \<Rightarrow> empty_client_db | Some d \<Rightarrow> d)"

definition data_path :: "'s cli \<Rightarrow> string" where
  "data_path X = filepath_Join (case fl_GetString (x_flags X) ''data-dir'' of Inl _ \<Rightarrow> [] | Inr s \<Rightarrow> s) ''gk.db''"

text \<open>Opening, reading and unlocking: every database shows what it showed, the far side and the files are not touched.\<close>

definition untouched :: "'s machine \<Rightarrow> 's machine \<Rightarrow> bool" where
  "untouched m m' \<longleftrightarrow> vault_db m' = vault_db m \<and> mc_remote m' = mc_remote m \<and> mc_files m' = mc_files m"

lemma vault_db_out [simp]: "vault_db (m\<lparr>mc_out := s\<rparr>) = vault_db m"
  by (simp add: vault_db_def fun_eq_iff)

lemma sqlite_Load: "ls_Load (SQLiteStorage M) = Load M"
  by (simp add: SQLiteStorage_def)

lemma not_islE: "\<not> isl r \<Longrightarrow> (\<And>x. r = Inr x \<Longrightarrow> P) \<Longrightarrow> P"
  by (cases r) auto

lemma untouched_refl [simp]: "untouched m m"
  by (simp add: untouched_def)

lemma untouched_trans: "untouched m m1 \<Longrightarrow> untouched m1 m2 \<Longrightarrow> untouched m m2"
  by (simp add: untouched_def)

definition harmless :: "('s, 'a) mprog \<Rightarrow> bool" where
  "harmless p \<longleftrightarrow> (\<forall>m r m'. p m = (r, m') \<longrightarrow> untouched m m' \<and> mc_out m' = mc_out m)"

lemma harmlessD: "harmless p \<Longrightarrow> p m = (r, m') \<Longrightarrow> untouched m m' \<and> mc_out m' = mc_out m"
  by (simp add: harmless_def)

lemma harmless_simple: "harmless (ret x)" "harmless (throw e)" "harmless (try_step o1)" "harmless (try_value v)"
  "harmless (flag_string strict X n)" "harmless (flag_bool strict X n)"
  by (auto simp: harmless_def ret_def throw_def try_step_def try_value_def flag_string_def flag_bool_def split: option.splits sum.splits)

lemma harmless_andthen:
  assumes "harmless p" and "\<And>x. harmless (k x)"
  shows "harmless (andthen p k)"
  unfolding harmless_def
proof (intro allI impI)
  fix m r m' assume run: "andthen p k m = (r, m')"
  obtain r1 m1 where 1: "p m = (r1, m1)" by fastforce
  show "untouched m m' \<and> mc_out m' = mc_out m"
  proof (cases r1)
    case (Inl e)
    with run 1 harmlessD [OF assms(1) 1] show ?thesis by (auto simp: andthen_err)
  next
    case (Inr x)
    with run 1 have "k x m1 = (r, m')" by (auto simp: andthen_ok)
    from harmlessD [OF assms(2) this] harmlessD [OF assms(1) 1] show ?thesis by (auto intro: untouched_trans)
  qed
qed

lemma harmless_on_storage:
  assumes "\<And>w r w'. p w = (r, w') \<Longrightarrow> cl_db w' = cl_db w \<and> cl_remote w' = cl_remote w"
  shows "harmless (on_storage path p)"
  unfolding harmless_def
proof (intro allI impI)
  fix m r m' assume run: "on_storage path p m = (r, m')"
  show "untouched m m' \<and> mc_out m' = mc_out m"
  proof (cases "mc_dbs m path")
    case None
    with run show ?thesis by (simp add: on_storage_def)
  next
    case (Some d)
    with run obtain w where w: "p (process d m) = (r, w)" "m' = after_process path w m" by (auto simp: on_storage_def split: prod.splits)
    from assms [OF w(1)] w(2) Some show ?thesis by (auto simp: untouched_def vault_db_def fun_eq_iff)
  qed
qed

lemma harmless_create_tables: "harmless (create_tables X path)"
  by (auto simp: harmless_def create_tables_def untouched_def vault_db_def fun_eq_iff split: option.splits)

lemma harmless_open: "harmless (open_storage strict X)"
  unfolding open_storage_def NewSQLiteStorage_def client_migrations_Run_def Let_def
  by (auto intro!: harmless_andthen harmless_simple harmless_create_tables split: option.splits)

lemma Load_reads: "Load M w = (r, w') \<Longrightarrow> cl_db w' = cl_db w \<and> cl_remote w' = cl_remote w \<and> cl_app w' = cl_app w"
  using sqlite.load [of M w r w'] by (simp add: SQLiteStorage_def frame_def)

lemma LoadSync_reads: "LoadSync M w = (r, w') \<Longrightarrow> cl_db w' = cl_db w \<and> cl_remote w' = cl_remote w \<and> cl_app w' = cl_app w"
  using sqlite.load_sync [of M w r w'] by (simp add: SQLiteStorage_def frame_def)

lemma New_reads: "New (SQLiteStorage M) w = (r, w') \<Longrightarrow> cl_db w' = cl_db w \<and> cl_remote w' = cl_remote w"
  unfolding New_def
  by (auto simp: andthen_def handle_def set_app_def throw_def SQLiteStorage_def split: prod.splits sum.splits dest!: Load_reads LoadSync_reads)

lemma Unlock_reads: "Unlock K (SQLiteStorage M) password w = (r, w') \<Longrightarrow> cl_db w' = cl_db w \<and> cl_remote w' = cl_remote w"
  unfolding Unlock_def
  by (auto simp: andthen_def handle_def set_app_def throw_def Let_def SQLiteStorage_def split: prod.splits sum.splits dest!: Load_reads)

lemma harmless_session: "harmless (session strict X)"
  unfolding session_def open_app_def
  by (intro harmless_andthen harmless_simple harmless_open harmless_on_storage)
     (auto simp: SQLiteStorage_def dest: Load_reads New_reads [unfolded SQLiteStorage_def])

subsection \<open>What a session starts with\<close>

lemma open_storage_ok:
  assumes "open_storage strict X m = (Inr path, m')"
  shows "path = data_path X"
  using assms unfolding open_storage_def NewSQLiteStorage_def Let_def data_path_def
  by (auto elim!: andthen_okE simp: flag_string_def ret_def throw_def split: sum.splits if_splits)

lemma session_ok:
  assumes run: "session strict X m = (Inr (path, client), m')"
  shows "path = data_path X" and "mc_dbs m' path = Some (vault_db m path)" and "untouched m m'" and "mc_out m' = mc_out m"
    and "ap_AuthState (mc_app m') = local_auth (vault_db m path)"
    and "(\<forall>t. ce_cut (x_cenv X) t = None) \<Longrightarrow> mc_app m' = \<lparr>ap_DEK = [], ap_AuthState = local_auth (vault_db m path), ap_SyncState = local_sync (vault_db m path)\<rparr>"
proof -
  from run obtain m1 m2 m3 state where 1: "open_storage strict X m = (Inr path, m1)"
    and 2: "on_storage path (ls_Load (SQLiteStorage (x_cenv X))) m1 = (Inr state, m2)"
    and 3: "open_app strict X path (au_AccessToken state) m2 = (Inr client, m')"
    unfolding session_def by (auto elim!: andthen_okE simp: ret_def)
  show "path = data_path X" by (rule open_storage_ok [OF 1])
  show un: "untouched m m'" and "mc_out m' = mc_out m" using harmlessD [OF harmless_session run] by auto
  from 3 obtain m4 where new: "on_storage path (New (SQLiteStorage (x_cenv X))) m4 = (Inr (), m')"
    unfolding open_app_def by (auto elim!: andthen_okE simp: ret_def)
  then obtain d w where d: "mc_dbs m4 path = Some d" "New (SQLiteStorage (x_cenv X)) (process d m4) = (Inr (), w)" "m' = after_process path w m4"
    by (rule on_storage_okE)
  note new_ok = sqlite.New_ok [OF d(2)]
  from new_ok d(3) have w: "mc_dbs m' path = Some d" "ap_AuthState (mc_app m') = local_auth d" by auto
  have w': "mc_app m' = \<lparr>ap_DEK = [], ap_AuthState = local_auth d, ap_SyncState = local_sync d\<rparr>"
    if "\<forall>t. ce_cut (x_cenv X) t = None"
    using new_ok(3,4) new_ok(6) [OF that] d(3) by (cases "cl_app w") simp
  from w(1) have "vault_db m' path = d" by (simp add: vault_db_def)
  then have "vault_db m path = d" using un by (simp add: untouched_def)
  with w w' show "mc_dbs m' path = Some (vault_db m path)" "ap_AuthState (mc_app m') = local_auth (vault_db m path)"
    "(\<forall>t. ce_cut (x_cenv X) t = None) \<Longrightarrow> mc_app m' = \<lparr>ap_DEK = [], ap_AuthState = local_auth (vault_db m path), ap_SyncState = local_sync (vault_db m path)\<rparr>"
    by simp_all
qed

definition prompt :: string where
  "prompt = ''Enter password: '' @ [CHR 0x0A]"

lemma prompt_ok:
  "promptPassword X m = (case x_ReadPassword X of Inl e \<Rightarrow> Inl e | Inr pw \<Rightarrow> Inr (bytes_string pw), m\<lparr>mc_out := mc_out m @ prompt\<rparr>)"
  by (auto simp: promptPassword_def print_def andthen_def handle_def try_value_def throw_def ret_def prompt_def split: sum.splits)

text \<open>The vault key a typed password recovers from the stored state.\<close>

definition unlocks :: "'s cli \<Rightarrow> AuthState \<Rightarrow> go_error + bytes" where
  "unlocks X a = bind (x_ReadPassword X) (\<lambda>pw.
     Decrypt (x_crypto X) (DeriveKey (x_crypto X) (string_bytes (bytes_string pw)) (bytes_of (au_PasswordSalt a)))
       (bytes_of (au_EncryptedDEKNonce a)) (bytes_of (au_EncryptedDEK a)))"

lemma unlocked_okE:
  assumes run: "unlocked strict X k m = (Inr x, m')"
  obtains client dek m1 where "unlocks X (local_auth (vault_db m (data_path X))) = Inr dek"
    and "k (data_path X) client m1 = (Inr x, m')" and "mc_dbs m1 (data_path X) = Some (vault_db m (data_path X))"
    and "untouched m m1" and "mc_out m1 = mc_out m @ prompt"
    and "ap_DEK (mc_app m1) = dek"
proof -
  from run obtain path client password m1 m2 m3 where 1: "session strict X m = (Inr (path, client), m1)"
    and 2: "promptPassword X m1 = (Inr password, m2)"
    and 3: "on_storage path (Unlock (x_crypto X) (SQLiteStorage (x_cenv X)) password) m2 = (Inr (), m3)"
    and 4: "k path client m3 = (Inr x, m')"
    unfolding unlocked_def by (auto elim!: andthen_okE)
  note s = session_ok [OF 1]
  obtain pw where pw: "x_ReadPassword X = Inr pw" "password = bytes_string pw" "m2 = m1\<lparr>mc_out := mc_out m1 @ prompt\<rparr>"
    using 2 by (auto simp: prompt_ok split: sum.splits)
  from 3 obtain d w where d: "mc_dbs m2 path = Some d" "Unlock (x_crypto X) (SQLiteStorage (x_cenv X)) password (process d m2) = (Inr (), w)"
    "m3 = after_process path w m2" by (rule on_storage_okE)
  have dd: "d = vault_db m path" using d(1) pw(3) s(2) by simp
  have ld: "\<not> isl (fst (ls_Load (SQLiteStorage (x_cenv X)) (process d m2)))"
    using d(2) by (auto simp: Unlock_def elim!: andthen_okE)
  obtain dek where dek: "unlocks X (local_auth d) = Inr dek" "cl_app w = (mc_app m2)\<lparr>ap_DEK := dek, ap_AuthState := local_auth d\<rparr>"
    using sqlite.Unlock_loaded [OF d(2) ld] pw by (auto simp: unlocks_def Config.bind_def Let_def split: sum.splits)
  from Unlock_reads [OF d(2)] have w: "cl_db w = d" "cl_remote w = mc_remote m1" using pw(3) by simp_all
  have "untouched m1 m3" using w d(1,3) pw(3) by (auto simp: untouched_def vault_db_def fun_eq_iff)
  then have "untouched m m3" using s(3) untouched_trans by blast
  moreover have "ap_DEK (mc_app m3) = dek" using dek(2) d(3) by simp
  ultimately show ?thesis
    using that [of dek client m3] 4 dek dd d(3) w pw(3) s(1,4) by simp
qed

text \<open>A password that does not open the key: nothing but the prompt.\<close>

lemma unlocked_refused:
  assumes wrong: "isl (unlocks X (local_auth (vault_db m (data_path X))))" and run: "unlocked strict X k m = (r, m')"
  shows "isl r \<and> untouched m m' \<and> mc_out m' \<in> {mc_out m, mc_out m @ prompt}"
proof -
  obtain r1 m1 where 1: "session strict X m = (r1, m1)" by fastforce
  note h = harmlessD [OF harmless_session 1]
  show ?thesis
  proof (cases r1)
    case (Inl e)
    with run 1 h show ?thesis by (auto simp: unlocked_def andthen_err)
  next
    case (Inr pc)
    obtain path client where pc: "pc = (path, client)" by fastforce
    note s = session_ok [OF 1 [unfolded Inr pc]]
    let ?m2 = "m1\<lparr>mc_out := mc_out m1 @ prompt\<rparr>"
    show ?thesis
    proof (cases "x_ReadPassword X")
      case (Inl e)
      with run 1 Inr pc h show ?thesis
        by (auto simp: unlocked_def andthen_def handle_def throw_def prompt_ok untouched_def vault_db_def)
    next
      case pw: (Inr pw)
      let ?U = "on_storage path (Unlock (x_crypto X) (SQLiteStorage (x_cenv X)) (bytes_string pw))"
      obtain q w where q: "Unlock (x_crypto X) (SQLiteStorage (x_cenv X)) (bytes_string pw) (process (vault_db m path) ?m2) = (q, w)" by fastforce
      have U: "?U ?m2 = (q, after_process path w ?m2)" using s(2) q by (simp add: on_storage_def)
      have "isl q"
      proof (rule ccontr)
        assume ok: "\<not> isl q"
        then have ld: "\<not> isl (fst (ls_Load (SQLiteStorage (x_cenv X)) (process (vault_db m path) ?m2)))"
          using q by (auto simp: Unlock_def andthen_def handle_def throw_def split: prod.splits sum.splits)
        from sqlite.Unlock_loaded [OF q ld] wrong pw ok s(1) show False
          by (auto simp: unlocks_def Config.bind_def Let_def split: sum.splits)
      qed
      then obtain e where e: "q = Inl e" by (cases q) auto
      have "untouched m (after_process path w ?m2)"
        using Unlock_reads [OF q] s(2) h by (auto simp: untouched_def vault_db_def fun_eq_iff)
      moreover have "(r, m') = (Inl e, after_process path w ?m2)"
        using run 1 Inr pc pw U e by (simp add: unlocked_def andthen_def handle_def throw_def prompt_ok)
      ultimately show ?thesis using h by simp
    qed
  qed
qed

subsection \<open>Commands when nothing outside fails\<close>

text \<open>
  No call of the environment fails that a command makes to reach the unlocked App: its four flags are
  declared, the directory, the database file and the migrations open, and dialling with the credentials the flags name
  succeeds.
\<close>

definition opens_at :: "'s cli \<Rightarrow> string \<Rightarrow> bool" where
  "opens_at X dir \<longleftrightarrow> x_MkdirAll X dir = None \<and> x_iofs_New X = None \<and>
     (let path = filepath_Join dir ''gk.db'' in x_sql_Open X path = None \<and> x_pragma X path = None \<and>
        x_WithInstance X path = None \<and> x_NewWithInstance X path = None \<and> x_Up X path = None \<and> x_Ping X path = None)"

definition ready :: "'s cli \<Rightarrow> bool" where
  "ready X \<longleftrightarrow> (\<forall>n. ce_fault (x_cenv X) n = NoFault \<and> ce_cut (x_cenv X) n = None) \<and>
     (\<exists>dir addr ins ca. fl_GetString (x_flags X) ''data-dir'' = Inr dir \<and> fl_GetString (x_flags X) ''server'' = Inr addr \<and>
        fl_GetBool (x_flags X) ''insecure'' = Inr ins \<and> fl_GetString (x_flags X) ''tls-ca'' = Inr ca \<and> opens_at X dir \<and>
        (\<forall>tok. \<not> isl (transport_New (x_dial X) addr tok \<lparr>do_Insecure = ins, do_CAPath = ca\<rparr>)))"

lemma readyD:
  assumes "ready X"
  obtains dir addr ins ca where "fl_GetString (x_flags X) ''data-dir'' = Inr dir" and "fl_GetString (x_flags X) ''server'' = Inr addr"
    and "fl_GetBool (x_flags X) ''insecure'' = Inr ins" and "fl_GetString (x_flags X) ''tls-ca'' = Inr ca" and "opens_at X dir"
    and "\<And>tok. \<exists>c. transport_New (x_dial X) addr tok \<lparr>do_Insecure = ins, do_CAPath = ca\<rparr> = Inr c"
  using assms unfolding ready_def by (meson not_islE)

lemma ready_cenv: "ready X \<Longrightarrow> ce_fault (x_cenv X) n = NoFault" "ready X \<Longrightarrow> ce_cut (x_cenv X) n = None"
  by (simp_all add: ready_def)

text \<open>The flags of \<open>root.go\<close> never stand in the way: with them, readiness is about the environment alone.\<close>

definition string_flag :: "string \<Rightarrow> (string \<times> string) list \<Rightarrow> string \<Rightarrow> string" where
  "string_flag home given name = projr (fl_GetString (persistent_flags home given None) name)"

lemma ready_root_flags:
  assumes "x_flags X = persistent_flags home given insecure"
  shows "ready X \<longleftrightarrow> (\<forall>n. ce_fault (x_cenv X) n = NoFault \<and> ce_cut (x_cenv X) n = None) \<and> opens_at X (string_flag home given ''data-dir'') \<and>
    (\<forall>tok. \<not> isl (transport_New (x_dial X) (string_flag home given ''server'') tok
       \<lparr>do_Insecure = (insecure = Some True), do_CAPath = string_flag home given ''tls-ca''\<rparr>))"
proof -
  have str: "fl_GetString (x_flags X) n = Inr (string_flag home given n)" if "n \<in> {''data-dir'', ''server'', ''tls-ca''}" for n
    using that by (auto simp: assms string_flag_def persistent_flags_def map_add_def split: option.splits)
  have "fl_GetBool (x_flags X) ''insecure'' = Inr (insecure = Some True)"
    by (simp add: assms persistent_flags_def split: option.splits)
  with str show ?thesis unfolding ready_def by auto
qed

lemma exec_reliable:
  "ce_fault M (cl_tick w) = NoFault \<Longrightarrow> exec M f w = (case f (ce_clock M (cl_tick w)) (cl_db w) of
     (r, d) \<Rightarrow> (r, w\<lparr>cl_tick := Suc (cl_tick w), cl_db := d\<rparr>))"
  by (simp add: exec_def Let_def split: prod.splits)

lemma Get_reliable:
  assumes "ce_fault M (cl_tick w) = NoFault" and "\<And>t. ce_cut M t = None"
  shows "Get M i w = (local_items (cl_db w) i, w\<lparr>cl_tick := Suc (cl_tick w)\<rparr>)"
proof -
  have "find P xs = (case filter P xs of [] \<Rightarrow> None | x # _ \<Rightarrow> Some x)" for P and xs :: "item_row list"
    by (induction xs) auto
  then show ?thesis
    by (simp add: Get_def exec_reliable [OF assms(1)] scanItems_def rows_Next_def assms(2) andthen_def handle_def ret_def local_items_def
        split: list.splits)
qed

lemma ready_open:
  assumes X: "ready X"
  shows "\<exists>m'. open_storage strict X m = (Inr (data_path X), m') \<and> mc_dbs m' (data_path X) \<noteq> None"
proof -
  obtain dir where dir: "fl_GetString (x_flags X) ''data-dir'' = Inr dir" "opens_at X dir" using readyD [OF X] by metis
  then have path: "data_path X = filepath_Join dir ''gk.db''" by (simp add: data_path_def)
  show ?thesis
    using dir
    by (cases "mc_dbs m (data_path X)")
       (simp_all add: opens_at_def open_storage_def flag_string_def NewSQLiteStorage_def client_migrations_Run_def create_tables_def try_step_def
         Let_def andthen_def handle_def ret_def path)
qed

lemma ready_session:
  assumes X: "ready X"
  shows "\<exists>client m'. session strict X m = (Inr (data_path X, client), m')"
proof -
  let ?M = "x_cenv X"
  have flt: "ce_fault ?M n = NoFault" "ce_cut ?M n = None" for n using ready_cenv [OF X] by simp_all
  obtain m1 d where 1: "open_storage strict X m = (Inr (data_path X), m1)" "mc_dbs m1 (data_path X) = Some d"
    using ready_open [OF X] by fast
  obtain a w where 2: "ls_Load (SQLiteStorage ?M) (process d m1) = (Inr a, w)"
    using Load_reliable [of ?M "process d m1"] flt unfolding sqlite_Load by (metis not_islE prod.collapse)
  let ?m2 = "after_process (data_path X) w m1"
  obtain addr ins ca where fl: "fl_GetString (x_flags X) ''server'' = Inr addr" "fl_GetBool (x_flags X) ''insecure'' = Inr ins"
    "fl_GetString (x_flags X) ''tls-ca'' = Inr ca" and dial: "\<And>tok. \<exists>c. transport_New (x_dial X) addr tok \<lparr>do_Insecure = ins, do_CAPath = ca\<rparr> = Inr c"
    using readyD [OF X] by metis
  obtain client where c: "transport_New (x_dial X) addr (au_AccessToken a) \<lparr>do_Insecure = ins, do_CAPath = ca\<rparr> = Inr client"
    using dial by blast
  obtain w2 where 3: "New (SQLiteStorage ?M) (process (cl_db w) ?m2) = (Inr (), w2)"
    using New_reliable [OF flt(1)] by blast
  show ?thesis
    using 1 2 3 fl c by (simp add: session_def open_app_def andthen_def handle_def flag_string_def flag_bool_def try_value_def on_storage_def ret_def)
qed

lemma ready_unlocked:
  assumes X: "ready X" and dek: "unlocks X (local_auth (vault_db m (data_path X))) = Inr dek"
  obtains client m1 where "unlocked strict X k m = k (data_path X) client m1" and "mc_dbs m1 (data_path X) = Some (vault_db m (data_path X))"
    and "untouched m m1" and "mc_out m1 = mc_out m @ prompt"
    and "mc_app m1 = \<lparr>ap_DEK = dek, ap_AuthState = local_auth (vault_db m (data_path X)), ap_SyncState = local_sync (vault_db m (data_path X))\<rparr>"
proof -
  obtain client m1 where 1: "session strict X m = (Inr (data_path X, client), m1)" using ready_session [OF X] by blast
  note s = session_ok [OF 1]
  obtain pw where pw: "x_ReadPassword X = Inr pw" using dek by (auto simp: unlocks_def Config.bind_def split: sum.splits)
  let ?m2 = "m1\<lparr>mc_out := mc_out m1 @ prompt\<rparr>" and ?S = "SQLiteStorage (x_cenv X)" and ?d = "vault_db m (data_path X)"
  obtain q w where q: "Unlock (x_crypto X) ?S (bytes_string pw) (process ?d ?m2) = (q, w)" by fastforce
  have ld: "\<not> isl (fst (ls_Load ?S (process ?d ?m2)))" using X unfolding sqlite_Load by (intro Load_reliable) (rule ready_cenv [OF X])
  have w: "q = Inr ()" "cl_db w = ?d" "cl_app w = (mc_app m1)\<lparr>ap_DEK := dek, ap_AuthState := local_auth ?d\<rparr>" "cl_remote w = mc_remote m1"
    using sqlite.Unlock_loaded [OF q ld] dek pw Unlock_reads [OF q] by (auto simp: unlocks_def Config.bind_def Let_def)
  let ?m3 = "after_process (data_path X) w ?m2"
  have "unlocked strict X k m = k (data_path X) client ?m3"
    using 1 pw q w(1) s(2) by (simp add: unlocked_def andthen_def handle_def prompt_ok on_storage_def)
  moreover have "untouched m ?m3"
    using s(2,3) w by (auto simp: untouched_def vault_db_def fun_eq_iff)
  moreover have "mc_app m1 = \<lparr>ap_DEK = [], ap_AuthState = local_auth ?d, ap_SyncState = local_sync ?d\<rparr>"
    using s(6) ready_cenv(2) [OF X] by simp
  ultimately show ?thesis using that [of client ?m3] w s(1,4) by simp
qed

subsection \<open>Items across processes\<close>

context local_storage
begin

text \<open>Adding an item keeps the stored credentials.\<close>

lemma AddItem_auth:
  assumes run: "AddItem M K S ty title metadata payload blobId w = (Inr x, w')"
  shows "auth (cl_db w') = auth (cl_db w)"
proof -
  have enc: "cl_db w2 = cl_db w1" if "encryptField M K dek p w1 = (Inr f, w2)" for dek p f w1 w2
    using that unfolding encryptField_def Encrypt_def
    by (auto elim!: andthen_okE guard_okE simp: rand_Read_def ret_def throw_def split: option.splits)
  from run obtain f1 f2 f3 i j u it op w1 w2 w3 w4 w5 w6 where "encryptField M K (ap_DEK (cl_app w)) title w = (Inr f1, w1)"
    and "encryptField M K (ap_DEK (cl_app w)) metadata w1 = (Inr f2, w2)"
    and "encryptField M K (ap_DEK (cl_app w)) payload w2 = (Inr f3, w3)"
    and g: "generateID M ''item'' w3 = (Inr i, w4)" "generateID M ''op'' w4 = (Inr j, w5)"
    and up: "ls_Upsert S it w5 = (Inr u, w6)" and q: "enqueue S op w6 = (Inr x, w')"
    unfolding AddItem_def Let_def by (elim with_dek_okE andthen_okE)
  moreover have "auth (cl_db w') = auth (cl_db w6)"
    using q unfolding enqueue_def by (auto elim!: andthen_okE simp: set_app_def get_app_def dest!: save_sync)
  ultimately show ?thesis using enc generateID_ok [OF g(1)] generateID_ok [OF g(2)] upsert [OF up] by metis
qed

end

lemma Println_ok: "Println s m = (Inr (), m\<lparr>mc_out := mc_out m @ s @ [CHR 0x0A]\<rparr>)"
  by (simp add: Println_def print_def)

text \<open>What \<open>get\<close> prints.\<close>

definition shown :: "string \<Rightarrow> string \<Rightarrow> string \<Rightarrow> string \<Rightarrow> string" where
  "shown i title meta payload = ''ID: '' @ i @ [CHR 0x0A] @ ''Title: '' @ title @ [CHR 0x0A] @ ''Meta: '' @ meta @ [CHR 0x0A] @
     ''Data: '' @ payload @ [CHR 0x0A]"

lemma getCmd_run:
  assumes X: "ready X" and dek: "unlocks X (local_auth (vault_db m (data_path X))) = Inr dek" and ne: "dek \<noteq> []"
    and it: "local_items (vault_db m (data_path X)) i = Some it"
    and fields: "opens (x_crypto X) dek (mi_Title it) t" "opens (x_crypto X) dek (mi_Metadata it) mt" "opens (x_crypto X) dek (mi_Payload it) p"
  shows "\<exists>m'. getCmd X [i] m = (Inr (), m') \<and> mc_out m' = mc_out m @ prompt @ shown i (bytes_string t) (bytes_string mt) (bytes_string p) \<and>
    untouched m m'"
proof -
  let ?d = "vault_db m (data_path X)"
  have i: "mi_ID it = i" by (rule sqlite.keyed [OF it])
  have flt: "ce_fault (x_cenv X) n = NoFault" "ce_cut (x_cenv X) n = None" for n using ready_cenv [OF X] by simp_all
  obtain client m1 where run: "unlocked True X (show_item X i) m = show_item X i (data_path X) client m1"
    and m1: "mc_dbs m1 (data_path X) = Some ?d" "untouched m m1" "mc_out m1 = mc_out m @ prompt"
      "mc_app m1 = \<lparr>ap_DEK = dek, ap_AuthState = local_auth ?d, ap_SyncState = local_sync ?d\<rparr>"
    by (rule ready_unlocked [OF X dek])
  have dec: "DecryptItem (x_crypto X) it v = (Inr (t, mt, p), v)" if "ap_DEK (cl_app v) = dek" for v :: "'a client"
    using that ne fields by (intro DecryptItem_opens) auto
  show ?thesis
    using run m1 it dec i
    by (simp add: getCmd_def show_item_def arg_def andthen_def handle_def ret_def on_storage_def App_GetItem_def SQLiteStorage_def
        Get_reliable flt Println_ok shown_def untouched_def vault_db_def fun_eq_iff)
qed

text \<open>What a successful \<open>add\<close> leaves in the database of its data directory.\<close>

lemma addCmd_ok:
  assumes K: "aead_ok (x_crypto X)" and R: "rand_ok (x_cenv X)" and run: "addCmd X args m = (Inr (), m')"
    and args: "item_arguments args = Inr (ty, payload)"
  obtains dek it d where "unlocks X (local_auth (vault_db m (data_path X))) = Inr dek" and "dek \<noteq> []"
    and "mc_dbs m' (data_path X) = Some d" and "local_auth d = local_auth (vault_db m (data_path X))"
    and "local_items d = (local_items (vault_db m (data_path X)))(mi_ID it \<mapsto> it)"
    and "opens (x_crypto X) dek (mi_Title it) (string_bytes (item_type_String ty))" and "opens (x_crypto X) dek (mi_Metadata it) []"
    and "opens (x_crypto X) dek (mi_Payload it) payload"
proof -
  let ?S = "SQLiteStorage (x_cenv X)"
  let ?add = "AddItem (x_cenv X) (x_crypto X) ?S ty (string_bytes (item_type_String ty)) [] payload []"
  from run args have "unlocked True X (store_item X ty payload) m = (Inr (), m')"
    by (simp add: addCmd_def andthen_def handle_def try_value_def ret_def)
  then obtain client dek m1 where dek: "unlocks X (local_auth (vault_db m (data_path X))) = Inr dek"
    and body: "store_item X ty payload (data_path X) client m1 = (Inr (), m')"
    and m1: "mc_dbs m1 (data_path X) = Some (vault_db m (data_path X))" "ap_DEK (mc_app m1) = dek"
    by (rule unlocked_okE)
  from body obtain dek' m2 u m3 where get: "on_storage (data_path X) (get_app ap_DEK) m1 = (Inr dek', m2)" and ne: "dek' \<noteq> []"
    and add: "on_storage (data_path X) ?add m2 = (Inr u, m3)" and out: "Println ''Add successfully. Pending sync...'' m3 = (Inr (), m')"
    unfolding store_item_def by (elim andthen_okE guard_okE)
  from get m1 have m2: "dek' = dek" "mc_dbs m2 (data_path X) = Some (vault_db m (data_path X))" "ap_DEK (mc_app m2) = dek"
    by (auto simp: on_storage_def get_app_def)
  from add m2(2) obtain w where w: "?add (process (vault_db m (data_path X)) m2) = (Inr u, w)" "m3 = after_process (data_path X) w m2"
    by (auto elim: on_storage_okE)
  from sqlite.run_edit_ok [OF R K, where e = "Add ty (string_bytes (item_type_String ty)) [] payload []"] w(1)
  obtain op where "edited (x_crypto X) (ap_DEK (cl_app (process (vault_db m (data_path X)) m2)))
      (Add ty (string_bytes (item_type_String ty)) [] payload []) (local_items (cl_db (process (vault_db m (data_path X)) m2))) (local_items (cl_db w)) op"
    by (metis run_edit.simps(1))
  then obtain it where "local_items (cl_db w) = (local_items (vault_db m (data_path X)))(mi_ID it \<mapsto> it)"
      "opens (x_crypto X) dek (mi_Title it) (string_bytes (item_type_String ty))" "opens (x_crypto X) dek (mi_Metadata it) []"
      "opens (x_crypto X) dek (mi_Payload it) payload" using m2(3) by auto
  moreover have "local_auth (cl_db w) = local_auth (vault_db m (data_path X))" using sqlite.AddItem_auth [OF w(1)] by simp
  moreover have "mc_dbs m' (data_path X) = Some (cl_db w)" using out w(2) by (auto simp: Println_ok)
  ultimately show ?thesis using that dek ne m2(1) by blast
qed

text \<open>
  C14. A secret outlives the process. \<open>add\<close> succeeds in one process; later, in another process on the
  same data directory with the same password, when nothing has changed the database in between and no
  call of the environment that opens the database, dials or reads fails (with the flags of \<open>root.go\<close> this is
  about the environment alone: \<open>ready_root_flags\<close>), \<open>get\<close> on the id of the new item succeeds and prints its type and
  exactly the data that was given, and changes nothing. What happened meanwhile on the server, in other
  data directories or on the terminal does not matter.
\<close>

theorem cli_add_get:
  fixes m m1 m2 :: "'s machine"
  assumes K: "aead_ok (x_crypto X)" and R: "rand_ok (x_cenv X)" and add: "addCmd X args m = (Inr (), m1)"
    and args: "item_arguments args = Inr (ty, payload)"
    and Y: "ready Y" "fl_GetString (x_flags Y) ''data-dir'' = fl_GetString (x_flags X) ''data-dir''"
      "x_crypto Y = x_crypto X" "x_ReadPassword Y = x_ReadPassword X"
    and kept: "mc_dbs m2 (data_path X) = mc_dbs m1 (data_path X)"
  shows "\<exists>i m3. getCmd Y [i] m2 = (Inr (), m3) \<and>
    mc_out m3 = mc_out m2 @ prompt @ shown i (item_type_String ty) [] (bytes_string payload) \<and> untouched m2 m3"
proof -
  obtain dek it d where dek: "unlocks X (local_auth (vault_db m (data_path X))) = Inr dek" "dek \<noteq> []"
    and d: "mc_dbs m1 (data_path X) = Some d" "local_auth d = local_auth (vault_db m (data_path X))"
    "local_items d = (local_items (vault_db m (data_path X)))(mi_ID it \<mapsto> it)"
    and f: "opens (x_crypto X) dek (mi_Title it) (string_bytes (item_type_String ty))" "opens (x_crypto X) dek (mi_Metadata it) []"
      "opens (x_crypto X) dek (mi_Payload it) payload"
    using addCmd_ok [OF K R add args] .
  have path: "data_path Y = data_path X" using Y(2) by (simp add: data_path_def)
  have v: "vault_db m2 (data_path Y) = d" using kept d(1) path by (simp add: vault_db_def)
  have u: "unlocks Y (local_auth (vault_db m2 (data_path Y))) = Inr dek"
    using dek(1) Y(3,4) d(2) unfolding v by (simp add: unlocks_def)
  have "bytes_string [] = []" by (simp add: bytes_string_def)
  with getCmd_run [OF Y(1) u dek(2), of "mi_ID it" it] d(3) f Y(3) show ?thesis by (metis v fun_upd_same string_bytes_string)
qed

text \<open>A run that ends with an error after at most the prompt.\<close>

definition turned_away :: "'s machine \<Rightarrow> ('s, 'a) mprog \<Rightarrow> bool" where
  "turned_away m p \<longleftrightarrow> (\<forall>r m'. p m = (r, m') \<longrightarrow> isl r \<and> untouched m m' \<and> mc_out m' \<in> {mc_out m, mc_out m @ prompt})"

lemma turned_away_unlocked:
  "isl (unlocks X (local_auth (vault_db m (data_path X)))) \<Longrightarrow> turned_away m (unlocked strict X k)"
  unfolding turned_away_def using unlocked_refused by blast

lemma turned_away_first:
  "(\<And>x. turned_away m (k x)) \<Longrightarrow> turned_away m (andthen (arg args i) k)"
  "(\<And>x. turned_away m (k' x)) \<Longrightarrow> turned_away m (andthen (try_value v) k')"
  by (auto simp: turned_away_def andthen_def handle_def arg_def try_value_def ret_def throw_def split: sum.splits)

text \<open>
  C37. A wrong password. When the password typed does not open the stored vault key (or cannot be
  read), each of the seven commands on secrets and files fails, has printed nothing but the prompt, and
  leaves the databases, the server and the files as they were.
\<close>

theorem wrong_password_refused:
  fixes m :: "'s machine"
  assumes wrong: "isl (unlocks X (local_auth (vault_db m (data_path X))))"
    and cmd: "cmd \<in> {addCmd X args, listCmd X args, getCmd X args, updateCmd X args, deleteCmd X args, uploadCmd X args, downloadCmd X args}"
    and run: "cmd m = (r, m')"
  shows "isl r \<and> untouched m m' \<and> mc_out m' \<in> {mc_out m, mc_out m @ prompt}"
proof -
  have "turned_away m cmd"
    using cmd turned_away_unlocked [OF wrong]
    unfolding addCmd_def listCmd_def getCmd_def updateCmd_def deleteCmd_def uploadCmd_def downloadCmd_def
    by (auto intro!: turned_away_first split: prod.splits)
  with run show ?thesis by (simp add: turned_away_def)
qed

text \<open>\<open>list\<close> stops with a panic as soon as it meets an item without a title, such as the tombstone that
  synchronisation stores for an item deleted elsewhere.\<close>

lemma print_items_titled:
  "print_items X path items m = (Inr (), m') \<Longrightarrow> it \<in> set items \<Longrightarrow> mi_Title it \<noteq> None"
proof (induction items arbitrary: m)
  case (Cons a items)
  from Cons.prems(1) obtain p m1 m2 where 1: "on_storage path (DecryptItem (x_crypto X) a) m = (Inr p, m1)"
    and 2: "print_items X path items m2 = (Inr (), m')"
    by (auto elim!: andthen_okE split: prod.splits)
  have "mi_Title a \<noteq> None"
    using 1 by (auto elim!: on_storage_okE andthen_okE with_dek_okE simp: DecryptItem_def lift_def decrypt_field_def throw_def
        split: sum.splits option.splits)
  with Cons.IH [OF 2] Cons.prems(2) show ?case by auto
qed simp

lemma list_panics_on_tombstone:
  assumes "local_items (vault_db m (data_path X)) i = Some it" and "mi_Title it = None"
  shows "isl (fst (listCmd X args m))"
proof (rule ccontr)
  assume "\<not> isl (fst (listCmd X args m))"
  then obtain m' where "listCmd X args m = (Inr (), m')" by (cases "listCmd X args m"; cases "fst (listCmd X args m)") auto
  then obtain client m1 where body: "andthen (on_storage (data_path X) (App_ListItems (SQLiteStorage (x_cenv X)))) (\<lambda>items.
     if items = [] then Println ''No items'' else print_items X (data_path X) items) m1 = (Inr (), m')"
    and db: "mc_dbs m1 (data_path X) = Some (vault_db m (data_path X))"
    unfolding listCmd_def by (rule unlocked_okE)
  from body obtain items m2 where l: "on_storage (data_path X) (App_ListItems (SQLiteStorage (x_cenv X))) m1 = (Inr items, m2)"
    and pr: "(if items = [] then Println ''No items'' else print_items X (data_path X) items) m2 = (Inr (), m')"
    by (rule andthen_okE)
  from l db obtain w where "ls_List (SQLiteStorage (x_cenv X)) (process (vault_db m (data_path X)) m1) = (Inr items, w)"
    by (auto elim!: on_storage_okE simp: App_ListItems_def)
  from sqlite.listing [OF this] assms(1) have "it \<in> set items" by auto
  with pr print_items_titled [of X "data_path X" items m2 m' it] assms(2) show False by (auto split: if_splits)
qed

subsection \<open>Concrete commands\<close>

text \<open>A machine without network on which a user has logged in, and a terminal where a password is typed.\<close>

definition offline :: "unit Client" where
  "offline = \<lparr>tc_Register = (\<lambda>_. throw (err ''unavailable'')), tc_Login = (\<lambda>_. throw (err ''unavailable'')),
     tc_Sync = (\<lambda>_. throw (err ''unavailable'')), tc_StartBlobUpload = (\<lambda>_. throw (err ''unavailable'')),
     tc_UploadBlob = (\<lambda>_. throw (err ''unavailable'')), tc_CommitBlobUpload = (\<lambda>_. throw (err ''unavailable'')),
     tc_DownloadBlob = (\<lambda>_. throw (err ''unavailable''))\<rparr>"

definition demo_cli :: "string \<Rightarrow> unit cli" where
  "demo_cli pw = \<lparr>x_flags = persistent_flags ''/home/u'' [(''data-dir'', ''/d'')] (Some True), x_cenv = demo_cenv, x_crypto = toy_crypto,
     x_dial = \<lparr>dl_ReadFile = (\<lambda>_. Inr []), dl_AppendCertsFromPEM = (\<lambda>_. True), dl_NewClient = (\<lambda>_ _. Inr (\<lambda>_. offline))\<rparr>,
     x_MkdirAll = (\<lambda>_. None), x_sql_Open = (\<lambda>_. None), x_pragma = (\<lambda>_. None), x_iofs_New = None, x_WithInstance = (\<lambda>_. None),
     x_NewWithInstance = (\<lambda>_. None), x_Up = (\<lambda>_. None), x_Ping = (\<lambda>_. None), x_ReadPassword = Inr (string_bytes pw),
     x_WriteFile = (\<lambda>_ _. None)\<rparr>"

definition demo_login :: AuthState where
  "demo_login = \<lparr>au_UserID = ''u1'', au_AccessToken = ''t'', au_RefreshToken = ''r'', au_DeviceID = ''d1'',
     au_PasswordSalt = Some (replicate 16 0), au_EncryptedDEK = Some (string_bytes ''pw'' @ replicate 14 0 @ replicate 32 1),
     au_EncryptedDEKNonce = Some (replicate 24 0)\<rparr>"

definition demo_machine :: "unit machine" where
  "demo_machine = \<lparr>mc_dbs = [''/d/gk.db'' \<mapsto> empty_client_db\<lparr>t_auth_state := Some demo_login\<rparr>],
     mc_app = \<lparr>ap_DEK = [], ap_AuthState = empty_auth, ap_SyncState = \<lparr>ys_LastRevision = 0, ys_PendingOperations = []\<rparr>\<rparr>,
     mc_remote = (), mc_tick = 0, mc_out = [], mc_files = (\<lambda>_. None)\<rparr>"

lemma demo_path: "data_path (demo_cli pw) = ''/d/gk.db''"
  by (simp add: data_path_def demo_cli_def persistent_flags_def filepath_Join_def Clean_def clean_step_def)

lemma demo_ready: "ready (demo_cli pw)"
proof -
  have "x_flags (demo_cli pw) = persistent_flags ''/home/u'' [(''data-dir'', ''/d'')] (Some True)" by (simp add: demo_cli_def)
  from ready_root_flags [OF this] show ?thesis
    by (simp add: opens_at_def demo_cli_def demo_cenv_def transport_New_def Config.bind_def require_def)
qed

lemma demo_db: "vault_db demo_machine ''/d/gk.db'' = empty_client_db\<lparr>t_auth_state := Some demo_login\<rparr>"
  by (simp add: vault_db_def demo_machine_def)

lemma demo_auth: "local_auth (vault_db demo_machine (data_path (demo_cli pw))) = demo_login"
  by (simp add: demo_path demo_db local_auth_def)

lemma demo_unlock_key:
  "unlocks (demo_cli pw) demo_login = Decrypt toy_crypto (DeriveKey toy_crypto (string_bytes pw) (replicate 16 0)) (replicate 24 0)
     (string_bytes ''pw'' @ replicate 14 0 @ replicate 32 1)"
  by (simp add: unlocks_def demo_cli_def Config.bind_def demo_login_def bytes_of_def)

lemma pw_bytes: "string_bytes ''pw'' = [112, 119]" "string_bytes ''no'' = [110, 111]"
  by (simp_all add: string_bytes_def)

lemma demo_unlocks:
  "unlocks (demo_cli ''pw'') demo_login = Inr (replicate 32 1)" "isl (unlocks (demo_cli ''no'') demo_login)"
  unfolding demo_unlock_key pw_bytes
  by (simp_all add: Decrypt_def DeriveKey_def toy_crypto_def NonceSize_def)

lemma demo_steps:
  "generateID demo_cenv p w = (Inr (p @ ''-'' @ hex (replicate 4 (word_of_nat (cl_tick w)))), w\<lparr>cl_tick := Suc (cl_tick w)\<rparr>)"
  "encryptField demo_cenv toy_crypto (replicate 32 1) x w =
     (Inr \<lparr>ef_Ciphertext = Some (replicate 16 1 @ x), ef_Nonce = Some (replicate 24 (word_of_nat (cl_tick w)))\<rparr>, w\<lparr>cl_tick := Suc (cl_tick w)\<rparr>)"
  by (simp_all add: generateID_def encryptField_def Encrypt_def rand_Read_def demo_cenv_def toy_crypto_def NonceSize_def handle_def andthen_def ret_def
      del: replicate_4)

lemma demo_add: "\<exists>m1. addCmd (demo_cli ''pw'') [''text'', ''hello''] demo_machine = (Inr (), m1)"
proof -
  let ?X = "demo_cli ''pw''" and ?d = "empty_client_db\<lparr>t_auth_state := Some demo_login\<rparr>"
  have d: "vault_db demo_machine (data_path ?X) = ?d" by (simp add: demo_path demo_db)
  have k: "unlocks ?X (local_auth (vault_db demo_machine (data_path ?X))) = Inr (replicate 32 1)" by (simp add: demo_auth demo_unlocks)
  obtain client m1 where run: "unlocked True ?X (store_item ?X 2 (string_bytes ''hello'')) demo_machine =
      store_item ?X 2 (string_bytes ''hello'') (data_path ?X) client m1"
    and m1: "mc_dbs m1 (data_path ?X) = Some ?d" 
      "mc_app m1 = \<lparr>ap_DEK = replicate 32 1, ap_AuthState = local_auth ?d, ap_SyncState = local_sync ?d\<rparr>"
    using ready_unlocked [OF demo_ready k] unfolding d by blast
  have X: "x_cenv ?X = demo_cenv" "x_crypto ?X = toy_crypto" by (simp_all add: demo_cli_def)
  have "\<exists>m'. store_item ?X 2 (string_bytes ''hello'') (data_path ?X) client m1 = (Inr (), m')"
    by (simp add: store_item_def on_storage_def m1 X AddItem_def with_dek_def get_app_def set_app_def demo_steps prog_defs Let_def enqueue_def
        SQLiteStorage_def Upsert_def SaveSync_def save_sync_body_def local_tx_def exec_reliable demo_cenv_reliable sql_upsert_item_def
        sql_save_revision_def sql_insert_pending_def pending_row_of_def bigint_ok_def Println_ok empty_client_db_def local_sync_def del: replicate_4)
  then show ?thesis using run by (simp add: addCmd_def item_arguments_def try_value_def andthen_def handle_def ret_def)
qed

theorem cli_add_get_witness:
  "\<exists>m1 i m3. addCmd (demo_cli ''pw'') [''text'', ''hello''] demo_machine = (Inr (), m1) \<and>
     getCmd (demo_cli ''pw'') [i] m1 = (Inr (), m3) \<and>
     mc_out m3 = mc_out m1 @ prompt @ shown i ''ITEM_TYPE_TEXT'' [] ''hello''"
proof -
  obtain m1 where run: "addCmd (demo_cli ''pw'') [''text'', ''hello''] demo_machine = (Inr (), m1)" using demo_add by blast
  have ok: "aead_ok (x_crypto (demo_cli ''pw''))" "rand_ok (x_cenv (demo_cli ''pw''))"
    by (simp_all add: demo_cli_def toy_crypto_ok demo_cenv_ok)
  have "item_arguments [''text'', ''hello''] = Inr (2, string_bytes ''hello'')" by (simp add: item_arguments_def)
  from cli_add_get [OF ok run this demo_ready refl refl refl refl] run show ?thesis by (simp add: item_type_String_def) blast
qed

theorem wrong_password_refused_witness:
  "isl (fst (listCmd (demo_cli ''no'') [] demo_machine)) \<and> mc_out (snd (listCmd (demo_cli ''no'') [] demo_machine)) \<in> {[], prompt}"
proof -
  have "isl (unlocks (demo_cli ''no'') (local_auth (vault_db demo_machine (data_path (demo_cli ''no'')))))"
    by (simp add: demo_auth demo_unlocks)
  from wrong_password_refused [OF this, of "listCmd (demo_cli ''no'') []" "[]"] show ?thesis
    by (cases "listCmd (demo_cli ''no'') [] demo_machine") (auto simp: demo_machine_def)
qed

end
