(* ===== verification/Spec2Isabelle.thy ===== *)
theory Spec2Isabelle
  imports Cleanup Interceptors UploadLocks ClientDevices ClientCliProps
begin

text \<open>
  GophKeeper is a password vault: a command line client encrypts secrets and files under a key only the
  user's password unlocks, keeps them in a local SQLite database and synchronises them with a gRPC server
  that stores items in PostgreSQL and large payloads in an object store. This development models the
  server and the client from their Go sources and proves what makes them correct, each on its own and
  together.

  \<^bold>\<open>How the program is put together.\<close> A command of the client (\<open>internal/client/cli\<close>) opens the local
  storage (\<open>client/storage\<close>), restores the App (\<open>client/app\<close>), unlocks it with the password
  (\<open>client/crypto\<close>) and calls it. The App edits local items and queues operations; Sync sends the queue
  through the transport (\<open>client/transport\<close>). On the server (\<open>internal/server\<close>) the interceptors check
  the access token, the handlers (\<open>grpcserver\<close>) validate the request, the services (\<open>vault\<close>, \<open>auth\<close>,
  \<open>blob\<close>) work on the repositories (\<open>storage/postgres\<close>) and on the object store (\<open>storage/s3minio\<close>); a
  background job (\<open>jobs\<close>) removes expired uploads.

  \<^bold>\<open>How it is modelled.\<close> A program is a function from a state to a result and a state
  (\<open>prog\<close> in \<open>Prelude\<close>): \<open>Inl\<close> an error, \<open>Inr\<close> a value. The state of the server is \<open>world\<close>: the tables
  with the constraints of the SQL schema (\<open>Database\<close>), the object store, and a counter of calls to the
  outside. A statement of SQL is a function on the tables; \<open>env\<close> says for each call whether it fails
  before or after its effect, and gives the clocks and the UUIDs. So every theorem about a run covers every
  failure of the database, the lost answer of a COMMIT included. The state of a client is \<open>client\<close>: the
  local tables, the fields of the App, and the far side, which is the world of the server in the theorems
  on the whole system. Integers have the width of the source (\<open>u64\<close>, 32-bit conversions written out),
  Go's nil is \<open>None\<close>, a panic of the client is the error \<open>go_panic\<close>.

  \<^bold>\<open>Theories, server.\<close>
  \<^item> \<open>Prelude\<close>: programs, their weakest preconditions and invariants, \<open>strings.TrimSpace\<close>, \<open>strconv\<close>.
    \<open>Domain\<close>: the types of \<open>vault/types.go\<close>, \<open>blob/types.go\<close>, \<open>auth/types.go\<close>, the errors.
    \<open>Database\<close>: tables, constraints, statements, transactions. \<open>Config\<close> (\<open>config.go\<close>). \<open>Demo\<close>: concrete
    environments for the witnesses.
  \<^item> \<open>VaultRepo\<close> (\<open>vault_repositories.go\<close>, \<open>revision_list.go\<close>), \<open>VaultEngine\<close> (\<open>vault/engine.go\<close>,
    \<open>vault_engine_tx.go\<close>), \<open>VaultProps\<close>. The abstract specification is a machine of three steps
    (\<open>vault_step\<close>: created, updated, deleted) on items, revision log and processed operations. The contract
    of the repositories is the locale \<open>vault_backend\<close>, interpreted on the PostgreSQL ones (\<open>pg\<close>). Shown:
    refinement, the log as the exact history of the items, atomicity (after a success the whole run is
    stored), exactly-once, no lost update, isolation of users, finality of tombstones, of which only the blob
    id can go, with its blob (\<open>vault_traffic\<close>).
  \<^item> \<open>BlobRepo\<close>, \<open>ObjectStorage\<close>, \<open>BlobHandler\<close>, \<open>BlobService\<close>, \<open>BlobProps\<close> (\<open>blob_repositories.go\<close>,
    \<open>upload_store.go\<close>, \<open>object_storage.go\<close>, \<open>blob_handler.go\<close>): the upload protocol, its invariant and the
    immutability of committed blobs. \<open>UploadLocks\<close> (\<open>upload_session_lock.go\<close>): a step relation over all
    interleavings of handlers, with mutual exclusion and progress. \<open>Cleanup\<close> (\<open>jobs\<close>): a pass without
    other calls in between is safe, for rows, sessions and objects, and complete.
  \<^item> \<open>Proto\<close>, \<open>VaultHandler\<close>, \<open>VaultHandlerProps\<close> (\<open>vault_handler.go\<close>, \<open>vault_payload.go\<close>): where payloads
    go, what a failed placement can leave behind, what comes back. \<open>SyncHandler\<close>, \<open>SyncService\<close>, \<open>SyncProps\<close>
    (\<open>sync_handler.go\<close>, \<open>revision_snapshot.go\<close>): every RPC moves the vault by complete steps, a push
    accounts for every operation, paging returns every event once.
  \<^item> \<open>AuthRepo\<close>, \<open>AuthService\<close>, \<open>AuthSessions\<close>, \<open>AuthHandler\<close>, \<open>AuthLogin\<close>, \<open>AuthProps\<close>
    (\<open>auth_repositories.go\<close>, \<open>auth/*.go\<close>, \<open>auth_handler.go\<close>, \<open>device_handler.go\<close>, \<open>interceptor_auth.go\<close>):
    accounts, devices, refresh token rotation, revocation, access tokens. \<open>RpcErrors\<close>: only statuses leave
    the server.
  \<^item> \<open>Server\<close> (\<open>app/run.go\<close>, \<open>server.go\<close>, \<open>logger.go\<close>, \<open>migrate.go\<close>): start-up, registration of the RPCs,
    end of the process. \<open>Interceptors\<close> (\<open>interceptor_logging.go\<close>, \<open>interceptor_recovery.go\<close>): panics and the
    log, which is filtered by the configured level and by zap's sampling, a parameter of the logger.

  \<^bold>\<open>Theories, client.\<close>
  \<^item> \<open>ClientModel\<close>, \<open>ClientCrypto\<close>, \<open>ClientPayload\<close> (\<open>client/model\<close>, \<open>client/crypto\<close>),
    \<open>ClientStorage\<close> (\<open>sqlite_storage.go\<close>), \<open>ClientApp\<close> (\<open>client/app\<close>), \<open>ClientTransport\<close>
    (\<open>client/transport\<close>), \<open>ClientCli\<close> (\<open>client/cli\<close>, \<open>cmd/client\<close>, opening of the database).
  \<^item> \<open>ClientProps\<close>: the App over any local storage, in the locale \<open>local_storage\<close>, interpreted on SQLite
    (\<open>sqlite\<close>): edits, restarts, synchronisation, unlocking. An iteration over rows can be cut
    short (\<open>ce_cut\<close>): \<open>scanItems\<close> reports it, \<open>LoadSync\<close>, which does not ask \<open>rows.Err()\<close>, starts with a prefix of
    the queue (\<open>cut_load_loses_operations\<close>). \<open>ClientCliProps\<close>: whole commands.
  \<^item> \<open>ClientServer\<close>, \<open>ClientFiles\<close>, \<open>ClientSync\<close>, \<open>ClientDevices\<close>: client and server together. The key of
    the vault is the same on every device, files come back as they were, a replica converges to the
    server, and a secret added on one device is read on another, if it fits the inline threshold (above it,
    \<open>oversized_secret_lost\<close>).

  \<^bold>\<open>Parameters and hypotheses.\<close> Libraries are arguments: the JWT package (\<open>jwt_ok\<close>: a token
  signed with ASCII identities and instants that JSON numbers hold exactly parses back while it is valid), bcrypt and sha256, the
  AEAD and Argon2 (\<open>aead_ok\<close>: opening what was sealed with the same key and nonce gives the plaintext),
  random bytes (\<open>rand_ok\<close>: the length asked for), the MinIO client (\<open>minio_ok\<close>, \<open>minio_healthy\<close>), gRPC
  dialling, TLS files, migrations, cobra, terminal and file system. Each hypothesis is their documented
  behaviour and is instantiated by a concrete function in the witnesses. No theorem assumes that a hash or
  cipher cannot be broken.

  \<^bold>\<open>Interfaces.\<close> Each contract is a locale with its client's lemmas and an interpretation on the models of
  the code: \<open>vault_backend\<close> (repositories of the engine), \<open>auth_stores\<close> (repositories of the
  authentication service), \<open>blob_service\<close> (stores of the upload handlers), \<open>cleanup_contract\<close>
  (for three invariants of a cleanup pass),
  \<open>payload_stores\<close> (stores that payload placement uses, for two invariants), \<open>local_storage\<close>.

  \<^bold>\<open>Loops and bounds.\<close> Two loops have no bound in the source. The batches of a cleanup pass take fuel: one
  unit more than there are blobs is enough when the outside works (\<open>cleanup_complete\<close>), and the safety
  theorem holds for any fuel. A client that follows page tokens takes fuel: one unit more than there are
  events is enough (\<open>pull_complete\<close>). All other loops are structural or have a measure. Sync returns
  at most 500 events (\<open>MaxSyncBundleRevisionEvents\<close>); the convergence theorems ask for at most that many,
  because beyond it the client does miss events (\<open>sync_bundle\<close>).

  \<^bold>\<open>Concurrency.\<close> Within one call of the model no other call runs: transactions follow one another, in
  any order, which is what the theorems on sequences of calls quantify over. The code opens its writing
  transactions at PostgreSQL's default level; anomalies of overlapping transactions at that level are
  outside the model. The engine of the vault RPCs runs without a transaction:
  \<open>pool_engine_not_atomic\<close> shows what a failure between its statements leaves, \<open>cleanup_races_commit\<close>
  what a commit between two statements of the cleanup does. Uploads to one session exclude each other
  under every interleaving (\<open>UploadLocks\<close>).

  \<^bold>\<open>Not modelled.\<close> The generated protobuf code, the mocks, the embedded migration files and version
  variables, which hold no logic; the main function of the server, which prints the error of \<open>Run\<close>; the
  goroutines of Serve, of the graceful stop and of the cleanup timer, of which the model has the calls they
  make (\<open>Run\<close>, \<open>RunUploadSessionCleanup\<close>) but not their scheduling; the contents of log lines other than
  those of the interceptors; the pool settings and timeouts, which appear as calls that fail; the standard
  health service of gRPC; and the test support under \<open>internal/integration\<close>.
\<close>

end
